(* ===== verification/Prelude.thy ===== *)
theory Prelude
  imports Main "HOL-Library.Word" "HOL-Library.Sublist" "HOL-Library.Multiset"
    "HOL-Library.List_Lexorder" "HOL-Library.Char_ord"
begin

text \<open>
  Shared vocabulary of the development: the collections of rewrite rules the component
  theories add to, the outcome of a Go function that may panic, the operations of Go's
  standard library that the modelled code calls (package \<^verbatim>\<open>strings\<close>,
  \<^verbatim>\<open>strconv\<close> and conversions between integer types), and the generic lemmas on them.

  A Go \<open>string\<close> is a sequence of bytes, here a list of characters.  The functions
  of package \<^verbatim>\<open>strings\<close> are given on ASCII bytes; a byte above 127 is left as it is,
  where Go folds or trims by Unicode code point.
\<close>

named_theorems go_simps "evaluation rules of the Go library functions"
named_theorems cfg_simps "what one configuration option or setter does to each field"

section \<open>Outcomes\<close>

text \<open>A call returns a value or panics; a panic carries the runtime's message.\<close>

datatype 'a outcome = Return 'a | Panic string

fun bind_outcome :: "'a outcome \<Rightarrow> ('a \<Rightarrow> 'b outcome) \<Rightarrow> 'b outcome" where
  "bind_outcome (Return x) f = f x"
| "bind_outcome (Panic m) f = Panic m"

fun map_result :: "('a \<Rightarrow> 'b) \<Rightarrow> 'a outcome \<Rightarrow> 'b outcome" where
  "map_result f (Return x) = Return (f x)"
| "map_result f (Panic m) = Panic m"

definition returns :: "'a outcome \<Rightarrow> bool" where
  "returns r \<longleftrightarrow> (\<exists>x. r = Return x)"

lemma returns_simps [simp]: "returns (Return x)" "\<not> returns (Panic m)"
  by (simp_all add: returns_def)

lemma bind_outcome_Return_iff [simp]:
  "bind_outcome r f = Return y \<longleftrightarrow> (\<exists>x. r = Return x \<and> f x = Return y)"
  by (cases r) auto

lemma map_result_Return_iff [simp]:
  "map_result f r = Return y \<longleftrightarrow> (\<exists>x. r = Return x \<and> y = f x)"
  by (cases r) auto

section \<open>Integers\<close>

type_synonym int64 = "64 word"
type_synonym uint16 = "16 word"

definition in_int64 :: "int \<Rightarrow> bool" where
  "in_int64 v \<longleftrightarrow> - (2 ^ 63) \<le> v \<and> v < 2 ^ 63"

lemma sint_int64_of_int: "in_int64 v \<Longrightarrow> sint (word_of_int v :: int64) = v"
  by (simp add: in_int64_def sint_sbintrunc' signed_take_bit_int_eq_self)

lemma in_int64_sint: "in_int64 (sint (w :: int64))"
  using sint_greater_eq [of w] sint_less [of w] by (simp add: in_int64_def)

lemma uint_uint16_of_int: "uint (word_of_int v :: uint16) = v mod 65536"
  by (simp add: uint_word_of_int)

section \<open>Strings\<close>

subsection \<open>Characters\<close>

definition is_digit :: "char \<Rightarrow> bool" where
  "is_digit c \<longleftrightarrow> 48 \<le> (of_char c :: nat) \<and> (of_char c :: nat) \<le> 57"

definition is_space :: "char \<Rightarrow> bool" where
  "is_space c \<longleftrightarrow> (of_char c :: nat) \<in> {9, 10, 11, 12, 13, 32}"

definition lower_char :: "char \<Rightarrow> char" where
  "lower_char c =
     (if 65 \<le> (of_char c :: nat) \<and> (of_char c :: nat) \<le> 90
      then char_of ((of_char c :: nat) + 32) else c)"

definition digit_char :: "nat \<Rightarrow> char" where
  "digit_char d = char_of (48 + d)"

lemma of_char_digit_char: "d < 10 \<Longrightarrow> (of_char (digit_char d) :: nat) = 48 + d"
  by (simp add: digit_char_def)

lemma is_digit_digit_char [simp]: "d < 10 \<Longrightarrow> is_digit (digit_char d)"
  by (simp add: is_digit_def of_char_digit_char)

subsection \<open>\<^verbatim>\<open>strings.ToLower\<close>, \<^verbatim>\<open>TrimSpace\<close>, \<^verbatim>\<open>Split\<close> and \<^verbatim>\<open>Join\<close>\<close>

definition to_lower :: "string \<Rightarrow> string" where
  "to_lower s = map lower_char s"

definition trim_space :: "string \<Rightarrow> string" where
  "trim_space s = rev (dropWhile is_space (rev (dropWhile is_space s)))"

fun split_on :: "char \<Rightarrow> string \<Rightarrow> string list" where
  "split_on c [] = [[]]"
| "split_on c (x # xs) =
     (if x = c then [] # split_on c xs
      else (case split_on c xs of [] \<Rightarrow> [[x]] | y # ys \<Rightarrow> (x # y) # ys))"

fun join_with :: "string \<Rightarrow> string list \<Rightarrow> string" where
  "join_with sep [] = []"
| "join_with sep [x] = x"
| "join_with sep (x # y # ys) = x @ sep @ join_with sep (y # ys)"

lemma split_on_nonempty [simp]: "split_on c s \<noteq> []"
  by (induction s) (auto split: list.splits)

lemma split_on_no_sep: "y \<in> set (split_on c s) \<Longrightarrow> c \<notin> set y"
proof (induction s arbitrary: y)
  case Nil
  then show ?case by simp
next
  case (Cons x xs)
  then show ?case by (cases "split_on c xs") (auto split: if_splits)
qed

lemma join_split [simp]: "join_with [c] (split_on c s) = s"
proof (induction s)
  case Nil
  then show ?case by simp
next
  case (Cons x xs)
  obtain y ys where ys: "split_on c xs = y # ys"
    using split_on_nonempty [of c xs] by (cases "split_on c xs") auto
  with Cons show ?case by (cases ys) auto
qed

lemma dropWhile_idem: "dropWhile P (dropWhile P xs) = dropWhile P xs"
  by (induction xs) auto

lemma trim_space_ends:
  "trim_space s = [] \<or> (\<not> is_space (hd (trim_space s)) \<and> \<not> is_space (last (trim_space s)))"
proof (cases "trim_space s = []")
  case False
  let ?m = "dropWhile is_space s"
  let ?r = "dropWhile is_space (rev ?m)"
  from False have r: "?r \<noteq> []" by (simp add: trim_space_def)
  then have last: "\<not> is_space (last (trim_space s))"
    by (simp add: trim_space_def last_rev hd_dropWhile)
  from r have m: "?m \<noteq> []" by (cases ?m) auto
  have "suffix ?r (rev ?m)" by (rule suffix_dropWhile)
  then obtain zs where "rev ?m = zs @ ?r" by (auto simp: suffix_def)
  then have "?m = rev ?r @ rev zs" by (metis rev_append rev_rev_ident)
  moreover from m have "\<not> is_space (hd ?m)" by (rule hd_dropWhile)
  ultimately have "\<not> is_space (hd (rev ?r))" using r by (metis Nil_is_rev_conv hd_append2)
  with last show ?thesis by (simp add: trim_space_def)
qed simp

subsection \<open>\<^verbatim>\<open>strconv.Itoa\<close> and \<^verbatim>\<open>strconv.Atoi\<close>\<close>

fun nat_to_string :: "nat \<Rightarrow> string" where
  "nat_to_string n =
     (if n < 10 then [digit_char n]
      else nat_to_string (n div 10) @ [digit_char (n mod 10)])"

declare nat_to_string.simps [simp del]

definition int_to_string :: "int \<Rightarrow> string" where
  "int_to_string v =
     (if v < 0 then CHR ''-'' # nat_to_string (nat (- v)) else nat_to_string (nat v))"

fun digits_value :: "nat \<Rightarrow> string \<Rightarrow> nat option" where
  "digits_value acc [] = Some acc"
| "digits_value acc (c # cs) =
     (if is_digit c then digits_value (acc * 10 + ((of_char c :: nat) - 48)) cs else None)"

text \<open>\<^verbatim>\<open>Atoi\<close>: an optional sign, at least one decimal digit, and a value in 64 bits.\<close>

definition atoi :: "string \<Rightarrow> int option" where
  "atoi s =
     (let (neg, ds) = (case s of [] \<Rightarrow> (False, [])
                       | c # cs \<Rightarrow> if c = CHR ''-'' then (True, cs)
                                  else if c = CHR ''+'' then (False, cs) else (False, s))
      in if ds = [] then None
         else case digits_value 0 ds of None \<Rightarrow> None
              | Some n \<Rightarrow> (let v = (if neg then - int n else int n)
                          in if in_int64 v then Some v else None))"

lemma nat_to_string_nonempty [simp]: "nat_to_string n \<noteq> []"
  by (subst nat_to_string.simps) simp

lemma digits_value_append:
  "digits_value acc (xs @ ys) = Option.bind (digits_value acc xs) (\<lambda>a. digits_value a ys)"
  by (induction xs arbitrary: acc) auto

lemma digits_value_nat_to_string: "digits_value 0 (nat_to_string n) = Some n"
proof (induction n rule: nat_to_string.induct)
  case (1 n)
  show ?case
  proof (cases "n < 10")
    case True
    then show ?thesis by (subst nat_to_string.simps) (simp add: of_char_digit_char)
  next
    case False
    with 1 show ?thesis
      by (subst nat_to_string.simps) (simp add: digits_value_append of_char_digit_char)
  qed
qed

lemma nat_to_string_digits: "c \<in> set (nat_to_string n) \<Longrightarrow> is_digit c"
proof (induction n rule: nat_to_string.induct)
  case (1 n)
  then show ?case
    by (cases "n < 10") (auto simp: nat_to_string.simps [of n])
qed

lemma nat_to_string_hd: "is_digit (hd (nat_to_string n))"
  using nat_to_string_digits [of "hd (nat_to_string n)" n] by simp

lemma sign_not_digit [simp]: "\<not> is_digit CHR ''-''" "\<not> is_digit CHR ''+''"
  by (simp_all add: is_digit_def)

text \<open>Printing an integer and reading it back is the identity on 64-bit values.\<close>

lemma atoi_int_to_string: "in_int64 v \<Longrightarrow> atoi (int_to_string v) = Some v"
proof (cases "v < 0")
  case True
  assume "in_int64 v"
  with True show ?thesis by (simp add: atoi_def int_to_string_def digits_value_nat_to_string)
next
  case False
  assume v: "in_int64 v"
  obtain c cs where cs: "nat_to_string (nat v) = c # cs"
    using nat_to_string_nonempty by (metis list.exhaust)
  then have "is_digit c" using nat_to_string_hd [of "nat v"] by simp
  then have "c \<noteq> CHR ''-''" "c \<noteq> CHR ''+''" by auto
  moreover have "digits_value 0 (c # cs) = Some (nat v)"
    using digits_value_nat_to_string [of "nat v"] cs by simp
  ultimately show ?thesis using False v cs
    by (simp add: atoi_def int_to_string_def)
qed

lemma atoi_range: "atoi s = Some v \<Longrightarrow> in_int64 v"
  by (auto simp: atoi_def Let_def split: option.splits if_splits prod.splits)

lemma atoi_Nil [simp]: "atoi [] = None"
  by (simp add: atoi_def)

section \<open>Lists\<close>

lemma ex_bool_trivial [simp]: "\<exists>b. b" "\<exists>b. \<not> b"
  by blast+

text \<open>The first element that satisfies a predicate, as a Go loop with an early return.\<close>

lemma find_append: "List.find P (xs @ ys) =
    (case List.find P xs of None \<Rightarrow> List.find P ys | Some x \<Rightarrow> Some x)"
  by (induction xs) auto

lemma find_split: "List.find P xs = Some x \<Longrightarrow>
    \<exists>us vs. xs = us @ x # vs \<and> P x \<and> (\<forall>u \<in> set us. \<not> P u)"
proof (induction xs)
  case (Cons y ys)
  show ?case
  proof (cases "P y")
    case True
    with Cons.prems show ?thesis by (intro exI [of _ "[]"] exI [of _ ys]) simp
  next
    case False
    with Cons obtain us vs where "ys = us @ x # vs" "P x" "\<forall>u \<in> set us. \<not> P u" by auto
    with False show ?thesis by (intro exI [of _ "y # us"] exI [of _ vs]) simp
  qed
qed simp

text \<open>Filters that drop nothing and filters that drop something.\<close>

lemma filter_shorter: "length (filter P xs) \<noteq> length xs \<Longrightarrow> \<exists>x \<in> set xs. \<not> P x"
  by (metis filter_True)

lemma filter_full: "length (filter P xs) = length xs \<Longrightarrow> x \<in> set xs \<Longrightarrow> P x"
  using length_filter_less [of x xs P] by fastforce

end
