(* ===== verification/OpenFeature.thy ===== *)
theory OpenFeature
  imports Prelude
begin

text \<open>
  The data the repository exchanges with the OpenFeature SDK (a Go module outside this
  repository): dynamic values, metadata maps, resolution errors and resolution details,
  events and provider states.  Only the shape of this data is given here, with the
  constructors and constants the repository's code names; the operations of the SDK that
  compute something stay parameters of the component that calls them.
\<close>

section \<open>Dynamic values\<close>

text \<open>
  \<^verbatim>\<open>float64\<close> is its 64 bits.  Go's \<^verbatim>\<open>==\<close> on floats is IEEE comparison: a NaN is equal to
  nothing, itself included, and the two zeros are equal.
\<close>

datatype float64 = Float64 (float_bits: "64 word")

definition float_exponent :: "float64 \<Rightarrow> nat" where
  "float_exponent x = unat (take_bit 11 (drop_bit 52 (float_bits x)))"

definition float_fraction :: "float64 \<Rightarrow> nat" where
  "float_fraction x = unat (take_bit 52 (float_bits x))"

definition float_is_nan :: "float64 \<Rightarrow> bool" where
  "float_is_nan x \<longleftrightarrow> float_exponent x = 2047 \<and> float_fraction x \<noteq> 0"

definition float_is_zero :: "float64 \<Rightarrow> bool" where
  "float_is_zero x \<longleftrightarrow> take_bit 63 (float_bits x) = 0"

definition float_eq :: "float64 \<Rightarrow> float64 \<Rightarrow> bool" where
  "float_eq x y \<longleftrightarrow> \<not> float_is_nan x \<and> \<not> float_is_nan y \<and>
     (float_bits x = float_bits y \<or> (float_is_zero x \<and> float_is_zero y))"

lemma float_eq_nan: "float_is_nan x \<Longrightarrow> \<not> float_eq x y \<and> \<not> float_eq y x"
  by (simp add: float_eq_def)

lemma float_eq_refl: "float_eq x x \<longleftrightarrow> \<not> float_is_nan x"
  by (simp add: float_eq_def)

lemma float_eq_sym: "float_eq x y \<longleftrightarrow> float_eq y x"
  by (auto simp: float_eq_def)

datatype float32 = Float32 (float32_bits: "32 word")

text \<open>
  A value of type \<^verbatim>\<open>interface{}\<close>, tagged with its dynamic type; \<open>VList\<close> is a \<^verbatim>\<open>[]any\<close> \<open>VStrings\<close> a
  \<^verbatim>\<open>[]string\<close>, \<open>VStringMap\<close> a \<^verbatim>\<open>map[string]string\<close> and \<open>VStruct\<close> a struct, by the name of its type and its fields.  \<open>VMetadata\<close> is a value of
  the SDK's map type \<^verbatim>\<open>FlagMetadata\<close>, \<open>None\<close> its nil map.
\<close>

datatype go_any =
    VNil
  | VBool bool
  | VString string
  | VInt int64
  | VInt64 int64
  | VFloat32 float32
  | VFloat64 float64
  | VList "go_any list"
  | VStrings "string list"
  | VStringMap "string \<Rightarrow> string option"
  | VStruct string "(string \<times> go_any) list"
  | VMap "string \<Rightarrow> go_any option"
  | VMetadata "(string \<Rightarrow> go_any option) option"

text \<open>
  A map of type \<^verbatim>\<open>map[string]interface{}\<close> or \<^verbatim>\<open>FlagMetadata\<close>: \<open>None\<close> is the nil map, which
  reads as empty and panics when written.
\<close>

type_synonym go_map = "(string \<rightharpoonup> go_any) option"

definition map_get :: "go_map \<Rightarrow> string \<Rightarrow> go_any option" where
  "map_get m k = (case m of None \<Rightarrow> None | Some f \<Rightarrow> f k)"

definition map_set :: "go_map \<Rightarrow> string \<Rightarrow> go_any \<Rightarrow> go_map outcome" where
  "map_set m k v = (case m of
       None \<Rightarrow> Panic ''assignment to entry in nil map''
     | Some f \<Rightarrow> Return (Some (f(k \<mapsto> v))))"

definition make_map :: go_map where
  "make_map = Some Map.empty"

definition map_view :: "go_map \<Rightarrow> (string \<rightharpoonup> go_any)" where
  "map_view m = (case m of None \<Rightarrow> Map.empty | Some f \<Rightarrow> f)"

lemma map_get_simps [simp, go_simps]:
  "map_get None k = None" "map_get (Some f) k = f k" "map_get make_map k = None"
  by (simp_all add: map_get_def make_map_def)

lemma map_set_simps [simp, go_simps]:
  "map_set None k v = Panic ''assignment to entry in nil map''"
  "map_set (Some f) k v = Return (Some (f(k \<mapsto> v)))"
  "map_set make_map k v = Return (Some [k \<mapsto> v])"
  by (simp_all add: map_set_def make_map_def)

lemma map_view_simps [simp, go_simps]:
  "map_view None = Map.empty" "map_view (Some f) = f" "map_view make_map = Map.empty"
  by (simp_all add: map_view_def make_map_def)

lemma map_get_set: "map_set m k v = Return m' \<Longrightarrow> map_get m' k' = (if k' = k then Some v else map_get m k')"
  by (auto simp: map_set_def split: option.splits)

text \<open>
  A Go \<^verbatim>\<open>range\<close> over a map visits each key once, in an order the runtime chooses: the order is
  a parameter of the definitions that iterate.
\<close>

definition range_order :: "((string \<rightharpoonup> 'a) \<Rightarrow> string list) \<Rightarrow> bool" where
  "range_order order \<longleftrightarrow> (\<forall>f. finite (dom f) \<longrightarrow> set (order f) = dom f \<and> distinct (order f))"

lemma range_orderD: "range_order order \<Longrightarrow> finite (dom f) \<Longrightarrow> set (order f) = dom f \<and> distinct (order f)"
  by (simp add: range_order_def)

text \<open>Such an order exists: the keys sorted by any injection into the naturals, for instance.\<close>

definition some_order :: "(string \<rightharpoonup> 'a) \<Rightarrow> string list" where
  "some_order f = (SOME ks. set ks = dom f \<and> distinct ks)"

lemma range_order_some_order: "range_order (some_order :: (string \<rightharpoonup> 'a) \<Rightarrow> string list)"
proof -
  have "set (some_order f) = dom f \<and> distinct (some_order f)" if "finite (dom f)"
    for f :: "string \<rightharpoonup> 'a"
    unfolding some_order_def by (rule someI_ex) (use finite_distinct_list [OF that] in blast)
  then show ?thesis by (simp add: range_order_def)
qed

lemma some_order_empty [simp]: "some_order (Map.empty :: string \<rightharpoonup> 'a) = []"
  using range_orderD [OF range_order_some_order, of "Map.empty :: string \<rightharpoonup> 'a"] by simp

section \<open>Errors\<close>

datatype error_code =
    ProviderNotReadyCode
  | ProviderFatalCode
  | FlagNotFoundCode
  | ParseErrorCode
  | TypeMismatchCode
  | TargetingKeyMissingCode
  | InvalidContextCode
  | GeneralCode

fun code_string :: "error_code \<Rightarrow> string" where
  "code_string ProviderNotReadyCode = ''PROVIDER_NOT_READY''"
| "code_string ProviderFatalCode = ''PROVIDER_FATAL''"
| "code_string FlagNotFoundCode = ''FLAG_NOT_FOUND''"
| "code_string ParseErrorCode = ''PARSE_ERROR''"
| "code_string TypeMismatchCode = ''TYPE_MISMATCH''"
| "code_string TargetingKeyMissingCode = ''TARGETING_KEY_MISSING''"
| "code_string InvalidContextCode = ''INVALID_CONTEXT''"
| "code_string GeneralCode = ''GENERAL''"

text \<open>
  A resolution error is the zero value \<^verbatim>\<open>ResolutionError{}\<close> (no error) or was built by one of
  the SDK's constructors, \<^verbatim>\<open>NewFlagNotFoundResolutionError\<close> and its kin, one per code.
\<close>

datatype resolution_error = NoResolutionError | ResolutionErr error_code string

abbreviation NewFlagNotFoundResolutionError :: "string \<Rightarrow> resolution_error" where
  "NewFlagNotFoundResolutionError \<equiv> ResolutionErr FlagNotFoundCode"
abbreviation NewParseErrorResolutionError :: "string \<Rightarrow> resolution_error" where
  "NewParseErrorResolutionError \<equiv> ResolutionErr ParseErrorCode"
abbreviation NewTypeMismatchResolutionError :: "string \<Rightarrow> resolution_error" where
  "NewTypeMismatchResolutionError \<equiv> ResolutionErr TypeMismatchCode"
abbreviation NewTargetingKeyMissingResolutionError :: "string \<Rightarrow> resolution_error" where
  "NewTargetingKeyMissingResolutionError \<equiv> ResolutionErr TargetingKeyMissingCode"
abbreviation NewInvalidContextResolutionError :: "string \<Rightarrow> resolution_error" where
  "NewInvalidContextResolutionError \<equiv> ResolutionErr InvalidContextCode"
abbreviation NewProviderNotReadyResolutionError :: "string \<Rightarrow> resolution_error" where
  "NewProviderNotReadyResolutionError \<equiv> ResolutionErr ProviderNotReadyCode"
abbreviation NewGeneralResolutionError :: "string \<Rightarrow> resolution_error" where
  "NewGeneralResolutionError \<equiv> ResolutionErr GeneralCode"

fun has_code :: "resolution_error \<Rightarrow> error_code \<Rightarrow> bool" where
  "has_code NoResolutionError c = False"
| "has_code (ResolutionErr c' m) c = (c' = c)"

text \<open>The text of an error, \<^verbatim>\<open>CODE: message\<close>.\<close>

fun resolution_error_text :: "resolution_error \<Rightarrow> string" where
  "resolution_error_text NoResolutionError = '': ''"
| "resolution_error_text (ResolutionErr c m) = code_string c @ '': '' @ m"

section \<open>Resolution details\<close>

record provider_detail =
  ResolutionError :: resolution_error
  Reason :: string
  Variant :: string
  FlagMetadata :: go_map

record 'v resolution_detail =
  Value :: 'v
  Detail :: provider_detail

text \<open>The reasons the SDK names.\<close>

definition ErrorReason :: string where "ErrorReason = ''ERROR''"
definition DefaultReason :: string where "DefaultReason = ''DEFAULT''"
definition StaticReason :: string where "StaticReason = ''STATIC''"
definition DisabledReason :: string where "DisabledReason = ''DISABLED''"
definition TargetingMatchReason :: string where "TargetingMatchReason = ''TARGETING_MATCH''"
definition UnknownReason :: string where "UnknownReason = ''UNKNOWN''"

lemmas reason_defs = ErrorReason_def DefaultReason_def StaticReason_def DisabledReason_def
  TargetingMatchReason_def UnknownReason_def

definition empty_detail :: provider_detail where
  "empty_detail = \<lparr>ResolutionError = NoResolutionError, Reason = [], Variant = [], FlagMetadata = None\<rparr>"

definition has_error :: "provider_detail \<Rightarrow> bool" where
  "has_error d \<longleftrightarrow> ResolutionError d \<noteq> NoResolutionError"

definition is_not_found :: "provider_detail \<Rightarrow> bool" where
  "is_not_found d \<longleftrightarrow> has_code (ResolutionError d) FlagNotFoundCode"

lemma is_not_found_has_error: "is_not_found d \<Longrightarrow> has_error d"
  by (cases "ResolutionError d") (auto simp: is_not_found_def has_error_def)

lemma has_error_simps [simp]:
  "has_error d \<Longrightarrow> ResolutionError d \<noteq> NoResolutionError"
  "\<not> has_error empty_detail"
  "has_error (d\<lparr>FlagMetadata := m\<rparr>) = has_error d"
  "is_not_found (d\<lparr>FlagMetadata := m\<rparr>) = is_not_found d"
  by (simp_all add: has_error_def empty_detail_def is_not_found_def)

section \<open>Events and states\<close>

datatype event_type = EvReady | EvConfigChange | EvStale | EvError

record of_event =
  EventType :: event_type
  EventMessage :: string
  FlagChanges :: "string list"

datatype of_state = NotReadyState | ReadyState | ErrorState | StaleState | FatalState

section \<open>Providers\<close>

text \<open>
  A feature provider as its client sees it: one evaluation per flag type, from the flag key,
  the default value and the evaluation context.  \<open>p_Init\<close> is \<open>None\<close> for a provider that is no
  \<^verbatim>\<open>StateHandler\<close>.
\<close>

type_synonym 'v evaluation = "string \<Rightarrow> 'v \<Rightarrow> go_map \<Rightarrow> 'v resolution_detail"

record feature_provider =
  p_Name :: string
  p_Boolean :: "bool evaluation"
  p_String :: "string evaluation"
  p_Float :: "float64 evaluation"
  p_Int :: "int64 evaluation"
  p_Object :: "go_any evaluation"
  p_Init :: "(go_map \<Rightarrow> string option) option"

end
