(* ===== verification/Flagd_Cache.thy ===== *)
theory Flagd_Cache
  imports OpenFeature
begin

text \<open>
  The flagd provider's evaluation cache, \<^verbatim>\<open>providers/flagd/internal/cache\<close>: the interface
  \<^verbatim>\<open>Cache\<close> as a locale, its in-memory implementation (\<^verbatim>\<open>in_memory.go\<close>) and the cache service
  (\<^verbatim>\<open>cache.go\<close>).  The LRU implementation is \<^verbatim>\<open>hashicorp/golang-lru\<close>, outside the repository:
  its operations are a parameter, and what the client relies on is the locale \<open>lossy_cache\<close>.
\<close>

section \<open>The interface\<close>

text \<open>
  The operations of \<^verbatim>\<open>Cache[K, V]\<close> on a cache state \<open>'c\<close>.  Every operation returns the new
  state, \<open>Get\<close> too: an LRU cache records the use.
\<close>

record ('k, 'v, 'c) Cache =
  Add :: "'k \<Rightarrow> 'v \<Rightarrow> 'c \<Rightarrow> 'c \<times> bool"
  Purge :: "'c \<Rightarrow> 'c"
  Get :: "'k \<Rightarrow> 'c \<Rightarrow> 'c \<times> 'v option"
  Remove :: "'k \<Rightarrow> 'c \<Rightarrow> 'c \<times> bool"

text \<open>
  The contract.  \<open>view\<close> is the content a reader can observe.  An insertion may evict other
  entries, and even the new one, but never invents or alters one.
\<close>

locale lossy_cache =
  fixes ops :: "('k, 'v, 'c) Cache"
    and view :: "'c \<Rightarrow> 'k \<Rightarrow> 'v option"
  assumes get_value: "snd (Get ops k c) = view c k"
    and get_view: "view (fst (Get ops k c)) = view c"
    and add_view: "view (fst (Add ops k v c)) \<subseteq>\<^sub>m (view c)(k \<mapsto> v)"
    and remove_view: "view (fst (Remove ops k c)) = (view c)(k := None)"
    and remove_present: "snd (Remove ops k c) \<longleftrightarrow> view c k \<noteq> None"
    and purge_view: "view (Purge ops c) = Map.empty"
begin

lemma get_eq: "Get ops k c = (c', r) \<Longrightarrow> r = view c k \<and> view c' = view c"
  using get_value [of k c] get_view [of k c] by simp

lemma add_entry:
  assumes "view (fst (Add ops k v c)) k' = Some w"
  shows "(k' = k \<and> w = v) \<or> (k' \<noteq> k \<and> view c k' = Some w)"
proof -
  have "((view c)(k \<mapsto> v)) k' = Some w"
    using add_view [of k v c] assms by (auto simp: map_le_def dom_def)
  then show ?thesis by (auto split: if_splits)
qed

text \<open>A property of every entry survives every operation that only adds entries with it.\<close>

definition all_entries :: "('k \<Rightarrow> 'v \<Rightarrow> bool) \<Rightarrow> 'c \<Rightarrow> bool" where
  "all_entries P c \<longleftrightarrow> (\<forall>k v. view c k = Some v \<longrightarrow> P k v)"

lemma all_entries_get [simp]: "all_entries P (fst (Get ops k c)) = all_entries P c"
  by (simp add: all_entries_def get_view)

lemma all_entries_add: "all_entries P c \<Longrightarrow> P k v \<Longrightarrow> all_entries P (fst (Add ops k v c))"
  by (auto simp: all_entries_def dest!: add_entry)

lemma all_entries_remove: "all_entries P c \<Longrightarrow> all_entries P (fst (Remove ops k c))"
  by (auto simp: all_entries_def remove_view split: if_splits)

lemma all_entries_purge [simp]: "all_entries P (Purge ops c)"
  by (simp add: all_entries_def purge_view)

text \<open>Removing a list of keys, as the handler of a configuration change does.\<close>

definition remove_all :: "'k list \<Rightarrow> 'c \<Rightarrow> 'c" where
  "remove_all ks c = foldl (\<lambda>c k. fst (Remove ops k c)) c ks"

lemma remove_all_view: "view (remove_all ks c) = (\<lambda>k. if k \<in> set ks then None else view c k)"
  unfolding remove_all_def by (induction ks arbitrary: c) (auto simp: remove_view fun_eq_iff)

end

text \<open>A cache that never evicts.\<close>

locale lossless_cache = lossy_cache +
  assumes add_exact: "view (fst (Add ops k v c)) = (view c)(k \<mapsto> v)"
begin

lemma get_after_add: "snd (Get ops k (fst (Add ops k v c))) = Some v"
  by (simp add: get_value add_exact)

lemma add_other: "k' \<noteq> k \<Longrightarrow> snd (Get ops k' (fst (Add ops k v c))) = view c k'"
  by (simp add: get_value add_exact)

end

section \<open>The in-memory implementation\<close>

text \<open>
  \<^verbatim>\<open>InMemory\<close> is a Go map; its mutex makes each operation atomic, so an operation is one
  step of the model.
\<close>

record ('k, 'v) InMemory =
  mem_values :: "'k \<rightharpoonup> 'v"

definition NewInMemory :: "('k, 'v) InMemory" where
  "NewInMemory = \<lparr>mem_values = Map.empty\<rparr>"

definition mem_Add :: "'k \<Rightarrow> 'v \<Rightarrow> ('k, 'v) InMemory \<Rightarrow> ('k, 'v) InMemory \<times> bool" where
  "mem_Add flagKey v m = (m\<lparr>mem_values := (mem_values m)(flagKey \<mapsto> v)\<rparr>, False)"

definition mem_Get :: "'k \<Rightarrow> ('k, 'v) InMemory \<Rightarrow> ('k, 'v) InMemory \<times> 'v option" where
  "mem_Get flagKey m = (m, mem_values m flagKey)"

definition mem_Remove :: "'k \<Rightarrow> ('k, 'v) InMemory \<Rightarrow> ('k, 'v) InMemory \<times> bool" where
  "mem_Remove flagKey m =
     (m\<lparr>mem_values := (mem_values m)(flagKey := None)\<rparr>, mem_values m flagKey \<noteq> None)"

definition mem_Purge :: "('k, 'v) InMemory \<Rightarrow> ('k, 'v) InMemory" where
  "mem_Purge m = m\<lparr>mem_values := Map.empty\<rparr>"

definition mem_ops :: "('k, 'v, ('k, 'v) InMemory) Cache" where
  "mem_ops = \<lparr>Add = mem_Add, Purge = mem_Purge, Get = mem_Get, Remove = mem_Remove\<rparr>"

lemmas mem_defs = mem_ops_def mem_Add_def mem_Get_def mem_Remove_def mem_Purge_def NewInMemory_def

interpretation mem: lossless_cache mem_ops mem_values
  by unfold_locales (auto simp: mem_defs)

section \<open>The cache service\<close>

text \<open>
  The field \<^verbatim>\<open>cache\<close> of \<^verbatim>\<open>Service\<close> is an interface value: nil, an LRU cache, or the in-memory
  map.  When \<^verbatim>\<open>lru.New\<close> fails it holds a nil LRU pointer, \<open>NilLRU\<close>, whose methods
  cannot be called either.
\<close>

datatype ('v, 'l) cache_value =
    NoCache
  | NilLRU
  | LRUCache 'l
  | InMemCache "(string, 'v) InMemory"

record ('v, 'l) cache_service =
  cacheEnabled :: bool
  cache_of :: "('v, 'l) cache_value"

definition LRUValue :: string where "LRUValue = ''lru''"
definition InMemValue :: string where "InMemValue = ''mem''"
definition DisabledValue :: string where "DisabledValue = ''disabled''"

lemmas cache_type_defs = LRUValue_def InMemValue_def DisabledValue_def

text \<open>\<open>lru_new\<close> is the library's constructor: an error text or a cache.\<close>

definition NewCacheService :: "(int \<Rightarrow> string + 'l) \<Rightarrow> string \<Rightarrow> int \<Rightarrow> ('v, 'l) cache_service" where
  "NewCacheService lru_new cacheType maxCacheSize =
     (if cacheType = LRUValue then
        (case lru_new maxCacheSize of
           Inl err \<Rightarrow> \<lparr>cacheEnabled = False, cache_of = NilLRU\<rparr>
         | Inr c \<Rightarrow> \<lparr>cacheEnabled = True, cache_of = LRUCache c\<rparr>)
      else if cacheType = InMemValue then
        \<lparr>cacheEnabled = True, cache_of = InMemCache NewInMemory\<rparr>
      else if cacheType = DisabledValue then \<lparr>cacheEnabled = False, cache_of = NoCache\<rparr>
      else \<lparr>cacheEnabled = False, cache_of = NoCache\<rparr>)"

definition IsEnabled :: "('v, 'l) cache_service \<Rightarrow> bool" where
  "IsEnabled s = cacheEnabled s"

text \<open>
  Calls through the interface, dispatched on the dynamic type.  \<open>lru\<close> holds the operations of
  the LRU library.
\<close>

definition nil_call :: "'a outcome" where
  "nil_call = Panic ''invalid memory address or nil pointer dereference''"

fun cv_Get :: "(string, 'v, 'l) Cache \<Rightarrow> string \<Rightarrow> ('v, 'l) cache_value
    \<Rightarrow> (('v, 'l) cache_value \<times> 'v option) outcome" where
  "cv_Get lru k (LRUCache c) = Return (case Get lru k c of (c', r) \<Rightarrow> (LRUCache c', r))"
| "cv_Get lru k (InMemCache m) = Return (case mem_Get k m of (m', r) \<Rightarrow> (InMemCache m', r))"
| "cv_Get lru k _ = nil_call"

fun cv_Add :: "(string, 'v, 'l) Cache \<Rightarrow> string \<Rightarrow> 'v \<Rightarrow> ('v, 'l) cache_value
    \<Rightarrow> ('v, 'l) cache_value outcome" where
  "cv_Add lru k v (LRUCache c) = Return (LRUCache (fst (Add lru k v c)))"
| "cv_Add lru k v (InMemCache m) = Return (InMemCache (fst (mem_Add k v m)))"
| "cv_Add lru k v _ = nil_call"

fun cv_Remove :: "(string, 'v, 'l) Cache \<Rightarrow> string \<Rightarrow> ('v, 'l) cache_value
    \<Rightarrow> ('v, 'l) cache_value outcome" where
  "cv_Remove lru k (LRUCache c) = Return (LRUCache (fst (Remove lru k c)))"
| "cv_Remove lru k (InMemCache m) = Return (InMemCache (fst (mem_Remove k m)))"
| "cv_Remove lru k _ = nil_call"

fun cv_Purge :: "(string, 'v, 'l) Cache \<Rightarrow> ('v, 'l) cache_value \<Rightarrow> ('v, 'l) cache_value outcome" where
  "cv_Purge lru (LRUCache c) = Return (LRUCache (Purge lru c))"
| "cv_Purge lru (InMemCache m) = Return (InMemCache (mem_Purge m))"
| "cv_Purge lru _ = nil_call"

definition Disable :: "(string, 'v, 'l) Cache \<Rightarrow> ('v, 'l) cache_service
    \<Rightarrow> ('v, 'l) cache_service outcome" where
  "Disable lru s =
     (if IsEnabled s then
        map_result (\<lambda>c. s\<lparr>cacheEnabled := False, cache_of := c\<rparr>) (cv_Purge lru (cache_of s))
      else Return s)"

subsection \<open>Well-formed services\<close>

text \<open>An enabled service has a cache behind it; every guarded call is then safe.\<close>

fun live_cache :: "('v, 'l) cache_value \<Rightarrow> bool" where
  "live_cache (LRUCache c) = True"
| "live_cache (InMemCache m) = True"
| "live_cache _ = False"

definition service_ok :: "('v, 'l) cache_service \<Rightarrow> bool" where
  "service_ok s \<longleftrightarrow> (cacheEnabled s \<longrightarrow> live_cache (cache_of s))"

lemma service_ok_new: "service_ok (NewCacheService lru_new t n)"
  by (auto simp: service_ok_def NewCacheService_def split: sum.splits)

lemma live_cache_cases:
  assumes "live_cache c"
  obtains (lru) l where "c = LRUCache l" | (mem) m where "c = InMemCache m"
  using assms by (cases c) auto

lemma cv_ops_live:
  assumes "live_cache c"
  shows "returns (cv_Get lru k c)" "returns (cv_Add lru k v c)"
    "returns (cv_Remove lru k c)" "returns (cv_Purge lru c)"
  using assms by (cases c; simp)+

lemma cv_ops_keep_live:
  "cv_Get lru k c = Return (c', r) \<Longrightarrow> live_cache c'"
  "cv_Add lru k v c = Return c' \<Longrightarrow> live_cache c'"
  "cv_Remove lru k c = Return c' \<Longrightarrow> live_cache c'"
  "cv_Purge lru c = Return c' \<Longrightarrow> live_cache c'"
  by (cases c; auto simp: nil_call_def split: prod.splits)+

text \<open>What a reader of the interface value observes, given a view of the LRU library's state.\<close>

fun cv_view :: "('l \<Rightarrow> string \<Rightarrow> 'v option) \<Rightarrow> ('v, 'l) cache_value \<Rightarrow> string \<Rightarrow> 'v option" where
  "cv_view lru_view (LRUCache c) k = lru_view c k"
| "cv_view lru_view (InMemCache m) k = mem_values m k"
| "cv_view lru_view _ k = None"

lemma cv_view_eqs:
  "cv_view v (LRUCache c) = v c" "cv_view v (InMemCache m) = mem_values m"
  "cv_view v NoCache = Map.empty" "cv_view v NilLRU = Map.empty"
  by (simp_all add: fun_eq_iff)

text \<open>The dispatching operations keep the contract of the library behind them.\<close>

locale flag_cache = lossy_cache ops view
  for ops :: "(string, 'v, 'c) Cache" and view :: "'c \<Rightarrow> string \<Rightarrow> 'v option"
begin

lemma cv_Get_view:
  assumes "cv_Get ops k c = Return (c', r)"
  shows "r = cv_view view c k \<and> cv_view view c' = cv_view view c"
  using assms by (cases c)
    (auto simp: nil_call_def mem_defs cv_view_eqs dest: get_eq split: prod.splits)

lemma cv_Add_entry:
  assumes "cv_Add ops k v c = Return c'" "cv_view view c' k' = Some w"
  shows "(k' = k \<and> w = v) \<or> (k' \<noteq> k \<and> cv_view view c k' = Some w)"
  using assms by (cases c)
    (auto simp: nil_call_def mem_defs dest: add_entry split: if_splits)

lemma cv_Remove_view:
  "cv_Remove ops k c = Return c' \<Longrightarrow> cv_view view c' = (cv_view view c)(k := None)"
  by (cases c) (auto simp: nil_call_def mem_defs cv_view_eqs remove_view)

lemma cv_Purge_view: "cv_Purge ops c = Return c' \<Longrightarrow> cv_view view c' = Map.empty"
  by (cases c) (auto simp: nil_call_def mem_defs cv_view_eqs purge_view)

end

interpretation mem_flags: flag_cache mem_ops mem_values
  by unfold_locales

lemma service_ok_Disable:
  assumes "service_ok s"
  shows "\<exists>s'. Disable lru s = Return s' \<and> \<not> cacheEnabled s' \<and> service_ok s'"
proof (cases "cacheEnabled s")
  case True
  with assms obtain c where "cv_Purge lru (cache_of s) = Return c"
    using cv_ops_live(4) by (auto simp: service_ok_def returns_def)
  with True show ?thesis by (simp add: Disable_def IsEnabled_def service_ok_def)
qed (use assms in \<open>simp add: Disable_def IsEnabled_def\<close>)

end
