(* ===== verification/Flagd_Config.thy ===== *)
theory Flagd_Config
  imports Flagd_Cache
begin

text \<open>
  The flagd provider's configuration, \<^verbatim>\<open>providers/flagd/pkg/configuration.go\<close>: defaults,
  environment variables, the options of \<^verbatim>\<open>NewProvider\<close>, port resolution and validation.
  \<^verbatim>\<open>os.Getenv\<close> is the parameter \<open>env\<close>, the empty string for an unset variable; log output
  is left out.  The dial options and the custom sync provider are values of types of their
  own, \<open>'g\<close> and \<open>'s\<close>: this file stores them and never looks inside.
\<close>

section \<open>The configuration\<close>

text \<open>
  The resolver is a string in the source, with three constants; an application's own option may set any other text,
  which is \<open>OtherResolver\<close>.
\<close>

datatype ResolverType = rpc | inProcess | fileResolver | OtherResolver string

record ('s, 'g) ProviderConfiguration =
  CacheType :: string
  CertPath :: string
  EventStreamConnectionMaxAttempts :: int
  Host :: string
  MaxCacheSize :: int
  OfflineFlagSourcePath :: string
  OtelIntercept :: bool
  Port :: uint16
  TargetUri :: string
  Resolver :: ResolverType
  ProviderId :: string
  Selector :: string
  SocketPath :: string
  Tls :: bool
  CustomSyncProvider :: "'s option"
  CustomSyncProviderUri :: string
  GrpcDialOptionsOverride :: "'g list"
  RetryGracePeriod :: int
  RetryBackoffMs :: int
  RetryBackoffMaxMs :: int
  FatalStatusCodes :: "string list"
  DeadlineMs :: int

type_synonym ('s, 'g) ProviderOption =
  "('s, 'g) ProviderConfiguration \<Rightarrow> ('s, 'g) ProviderConfiguration"

definition DefaultRetryBackoffMs :: int where "DefaultRetryBackoffMs = 1000"
definition DefaultRetryBackoffMaxMs :: int where "DefaultRetryBackoffMaxMs = 12000"
definition defaultMaxCacheSize :: int where "defaultMaxCacheSize = 1000"
definition defaultRpcPort :: uint16 where "defaultRpcPort = 8013"
definition defaultInProcessPort :: uint16 where "defaultInProcessPort = 8015"
definition defaultMaxEventStreamRetries :: int where "defaultMaxEventStreamRetries = 5"
definition defaultGracePeriod :: int where "defaultGracePeriod = 5"
definition defaultInitDeadlineMs :: int where "defaultInitDeadlineMs = 500"
definition defaultFatalStatusCodes :: string where "defaultFatalStatusCodes = ''''"
definition defaultCustomSyncProviderUri :: string where
  "defaultCustomSyncProviderUri = ''syncprovider://custom''"

lemmas default_defs = DefaultRetryBackoffMs_def DefaultRetryBackoffMaxMs_def
  defaultMaxCacheSize_def defaultRpcPort_def defaultInProcessPort_def
  defaultMaxEventStreamRetries_def defaultGracePeriod_def defaultInitDeadlineMs_def
  defaultFatalStatusCodes_def defaultCustomSyncProviderUri_def

section \<open>Environment variables\<close>

definition getIntFromEnvVarOrDefault :: "(string \<Rightarrow> string) \<Rightarrow> string \<Rightarrow> int \<Rightarrow> int" where
  "getIntFromEnvVarOrDefault env envVarName d =
     (if env envVarName \<noteq> [] then
        (case atoi (env envVarName) of None \<Rightarrow> d | Some v \<Rightarrow> v)
      else d)"

text \<open>The blocks of \<^verbatim>\<open>updateFromEnvVar\<close>, in the order of the source.\<close>

definition env_host :: "(string \<Rightarrow> string) \<Rightarrow> ('s, 'g) ProviderOption" where
  "env_host env cfg = (let host = env ''FLAGD_HOST'' in
     if host \<noteq> [] then cfg\<lparr>Host := host\<rparr> else cfg)"

definition env_socket :: "(string \<Rightarrow> string) \<Rightarrow> ('s, 'g) ProviderOption" where
  "env_socket env cfg = (let p = env ''FLAGD_SOCKET_PATH'' in
     if p \<noteq> [] then cfg\<lparr>SocketPath := p\<rparr> else cfg)"

definition env_tls :: "(string \<Rightarrow> string) \<Rightarrow> ('s, 'g) ProviderOption" where
  "env_tls env cfg = (let certificatePath = env ''FLAGD_SERVER_CERT_PATH'' in
     if certificatePath \<noteq> [] \<or> to_lower (env ''FLAGD_TLS'') = ''true''
     then cfg\<lparr>Tls := True, CertPath := certificatePath\<rparr> else cfg)"

definition env_cache :: "(string \<Rightarrow> string) \<Rightarrow> ('s, 'g) ProviderOption" where
  "env_cache env cfg =
     (let cfg = cfg\<lparr>MaxCacheSize := getIntFromEnvVarOrDefault env ''FLAGD_MAX_CACHE_SIZE'' defaultMaxCacheSize\<rparr>;
          v = env ''FLAGD_CACHE''
      in if v \<noteq> [] then
           (if v = LRUValue then cfg\<lparr>CacheType := LRUValue\<rparr>
            else if v = InMemValue then cfg\<lparr>CacheType := InMemValue\<rparr>
            else if v = DisabledValue then cfg\<lparr>CacheType := DisabledValue\<rparr>
            else cfg\<lparr>CacheType := LRUValue\<rparr>)
         else cfg)"

definition env_attempts :: "(string \<Rightarrow> string) \<Rightarrow> ('s, 'g) ProviderOption" where
  "env_attempts env cfg = cfg\<lparr>EventStreamConnectionMaxAttempts :=
     getIntFromEnvVarOrDefault env ''FLAGD_MAX_EVENT_STREAM_RETRIES'' defaultMaxEventStreamRetries\<rparr>"

definition env_resolver :: "(string \<Rightarrow> string) \<Rightarrow> ('s, 'g) ProviderOption" where
  "env_resolver env cfg = (let r = env ''FLAGD_RESOLVER'' in
     if r \<noteq> [] then
       (if to_lower r = ''rpc'' then cfg\<lparr>Resolver := rpc\<rparr>
        else if to_lower r = ''in-process'' then cfg\<lparr>Resolver := inProcess\<rparr>
        else if to_lower r = ''file'' then cfg\<lparr>Resolver := fileResolver\<rparr>
        else cfg\<lparr>Resolver := rpc\<rparr>)
     else cfg)"

definition env_source :: "(string \<Rightarrow> string) \<Rightarrow> ('s, 'g) ProviderOption" where
  "env_source env cfg =
     (let cfg = (if env ''FLAGD_OFFLINE_FLAG_SOURCE_PATH'' \<noteq> []
                 then cfg\<lparr>OfflineFlagSourcePath := env ''FLAGD_OFFLINE_FLAG_SOURCE_PATH''\<rparr> else cfg);
          cfg = (if env ''FLAGD_PROVIDER_ID'' \<noteq> [] then cfg\<lparr>ProviderId := env ''FLAGD_PROVIDER_ID''\<rparr> else cfg);
          cfg = (if env ''FLAGD_SOURCE_SELECTOR'' \<noteq> []
                 then cfg\<lparr>Selector := env ''FLAGD_SOURCE_SELECTOR''\<rparr> else cfg)
      in if env ''FLAGD_TARGET_URI'' \<noteq> [] then cfg\<lparr>TargetUri := env ''FLAGD_TARGET_URI''\<rparr> else cfg)"

definition env_retry :: "(string \<Rightarrow> string) \<Rightarrow> ('s, 'g) ProviderOption" where
  "env_retry env cfg =
     cfg\<lparr>RetryGracePeriod := getIntFromEnvVarOrDefault env ''FLAGD_RETRY_GRACE_PERIOD'' defaultGracePeriod,
         RetryBackoffMs := getIntFromEnvVarOrDefault env ''FLAGD_RETRY_BACKOFF_MS'' DefaultRetryBackoffMs,
         RetryBackoffMaxMs := getIntFromEnvVarOrDefault env ''FLAGD_RETRY_BACKOFF_MAX_MS'' DefaultRetryBackoffMaxMs,
         DeadlineMs := getIntFromEnvVarOrDefault env ''FLAGD_DEADLINE_MS'' defaultInitDeadlineMs\<rparr>"

definition env_fatal_codes :: "(string \<Rightarrow> string) \<Rightarrow> ('s, 'g) ProviderOption" where
  "env_fatal_codes env cfg =
     (let v = env ''FLAGD_FATAL_STATUS_CODES'';
          codes = (if v \<noteq> [] then v else defaultFatalStatusCodes)
      in if codes = [] then cfg\<lparr>FatalStatusCodes := []\<rparr>
         else cfg\<lparr>FatalStatusCodes := map trim_space (split_on CHR '','' codes)\<rparr>)"

definition updateFromEnvVar :: "(string \<Rightarrow> string) \<Rightarrow> ('s, 'g) ProviderOption" where
  "updateFromEnvVar env cfg =
     env_fatal_codes env (env_retry env (env_source env (env_resolver env
       (env_attempts env (env_cache env (env_tls env (env_socket env (env_host env cfg))))))))"

lemmas env_defs = env_host_def env_socket_def env_tls_def env_cache_def env_attempts_def
  env_resolver_def env_source_def env_retry_def env_fatal_codes_def Let_def

definition newDefaultConfiguration :: "(string \<Rightarrow> string) \<Rightarrow> ('s, 'g) ProviderConfiguration" where
  "newDefaultConfiguration env = updateFromEnvVar env
     \<lparr>CacheType = LRUValue, CertPath = [],
      EventStreamConnectionMaxAttempts = defaultMaxEventStreamRetries,
      Host = ''localhost'', MaxCacheSize = defaultMaxCacheSize, OfflineFlagSourcePath = [],
      OtelIntercept = False, Port = 0, TargetUri = [], Resolver = rpc, ProviderId = [],
      Selector = [], SocketPath = [], Tls = False, CustomSyncProvider = None,
      CustomSyncProviderUri = [], GrpcDialOptionsOverride = [],
      RetryGracePeriod = defaultGracePeriod, RetryBackoffMs = DefaultRetryBackoffMs,
      RetryBackoffMaxMs = DefaultRetryBackoffMaxMs, FatalStatusCodes = [],
      DeadlineMs = defaultInitDeadlineMs\<rparr>"

text \<open>
  \<^verbatim>\<open>updatePortFromEnvVar\<close>: the conversion to \<^verbatim>\<open>uint16\<close> keeps the low sixteen bits of the
  parsed integer.
\<close>

definition updatePortFromEnvVar :: "(string \<Rightarrow> string) \<Rightarrow> ('s, 'g) ProviderOption" where
  "updatePortFromEnvVar env cfg =
     (if Port cfg \<noteq> 0 then cfg
      else
        let portS = (if Resolver cfg = inProcess then env ''FLAGD_SYNC_PORT'' else []);
            portS = (if portS = [] then env ''FLAGD_PORT'' else portS)
        in if portS \<noteq> [] then
             (case atoi portS of None \<Rightarrow> cfg | Some port \<Rightarrow> cfg\<lparr>Port := word_of_int port\<rparr>)
           else cfg)"

section \<open>Options\<close>

definition WithSocketPath :: "string \<Rightarrow> ('s, 'g) ProviderOption" where
  "WithSocketPath socketPath p = p\<lparr>SocketPath := socketPath\<rparr>"

definition WithCertificatePath :: "string \<Rightarrow> ('s, 'g) ProviderOption" where
  "WithCertificatePath path p = p\<lparr>CertPath := path, Tls := True\<rparr>"

definition WithPort :: "uint16 \<Rightarrow> ('s, 'g) ProviderOption" where
  "WithPort port p = p\<lparr>Port := port\<rparr>"

definition WithHost :: "string \<Rightarrow> ('s, 'g) ProviderOption" where
  "WithHost host p = p\<lparr>Host := host\<rparr>"

definition WithTargetUri :: "string \<Rightarrow> ('s, 'g) ProviderOption" where
  "WithTargetUri targetUri p = p\<lparr>TargetUri := targetUri\<rparr>"

definition WithoutCache :: "('s, 'g) ProviderOption" where
  "WithoutCache p = p\<lparr>CacheType := DisabledValue\<rparr>"

definition WithBasicInMemoryCache :: "('s, 'g) ProviderOption" where
  "WithBasicInMemoryCache p = p\<lparr>CacheType := InMemValue\<rparr>"

definition WithLRUCache :: "int \<Rightarrow> ('s, 'g) ProviderOption" where
  "WithLRUCache n p = (let q = (if 0 < n then p\<lparr>MaxCacheSize := n\<rparr> else p)
      in q\<lparr>CacheType := LRUValue\<rparr>)"

definition WithEventStreamConnectionMaxAttempts :: "int \<Rightarrow> ('s, 'g) ProviderOption" where
  "WithEventStreamConnectionMaxAttempts i p = p\<lparr>EventStreamConnectionMaxAttempts := i\<rparr>"

definition WithTLS :: "string \<Rightarrow> ('s, 'g) ProviderOption" where
  "WithTLS certPath p = p\<lparr>Tls := True, CertPath := certPath\<rparr>"

definition WithOtelInterceptor :: "bool \<Rightarrow> ('s, 'g) ProviderOption" where
  "WithOtelInterceptor intercept p = p\<lparr>OtelIntercept := intercept\<rparr>"

definition WithRPCResolver :: "('s, 'g) ProviderOption" where
  "WithRPCResolver p = p\<lparr>Resolver := rpc\<rparr>"

definition WithInProcessResolver :: "('s, 'g) ProviderOption" where
  "WithInProcessResolver p = p\<lparr>Resolver := inProcess\<rparr>"

definition WithOfflineFilePath :: "string \<Rightarrow> ('s, 'g) ProviderOption" where
  "WithOfflineFilePath path p = p\<lparr>OfflineFlagSourcePath := path\<rparr>"

definition WithFileResolver :: "('s, 'g) ProviderOption" where
  "WithFileResolver p = p\<lparr>Resolver := fileResolver\<rparr>"

definition WithSelector :: "string \<Rightarrow> ('s, 'g) ProviderOption" where
  "WithSelector selector p = p\<lparr>Selector := selector\<rparr>"

definition WithProviderID :: "string \<Rightarrow> ('s, 'g) ProviderOption" where
  "WithProviderID providerID p = p\<lparr>ProviderId := providerID\<rparr>"

definition WithCustomSyncProviderAndUri :: "'s \<Rightarrow> string \<Rightarrow> ('s, 'g) ProviderOption" where
  "WithCustomSyncProviderAndUri customSyncProvider customSyncProviderUri p = p\<lparr>CustomSyncProvider := Some customSyncProvider,
       CustomSyncProviderUri := customSyncProviderUri\<rparr>"

definition WithCustomSyncProvider :: "'s \<Rightarrow> ('s, 'g) ProviderOption" where
  "WithCustomSyncProvider customSyncProvider p = WithCustomSyncProviderAndUri customSyncProvider defaultCustomSyncProviderUri p"

definition WithGrpcDialOptionsOverride :: "'g list \<Rightarrow> ('s, 'g) ProviderOption" where
  "WithGrpcDialOptionsOverride grpcDialOptionsOverride p = p\<lparr>GrpcDialOptionsOverride := grpcDialOptionsOverride\<rparr>"

definition WithRetryGracePeriod :: "int \<Rightarrow> ('s, 'g) ProviderOption" where
  "WithRetryGracePeriod gracePeriod p = p\<lparr>RetryGracePeriod := gracePeriod\<rparr>"

definition WithRetryBackoffMs :: "int \<Rightarrow> ('s, 'g) ProviderOption" where
  "WithRetryBackoffMs retryBackoffMs p = p\<lparr>RetryBackoffMs := retryBackoffMs\<rparr>"

definition WithRetryBackoffMaxMs :: "int \<Rightarrow> ('s, 'g) ProviderOption" where
  "WithRetryBackoffMaxMs retryBackoffMaxMs p = p\<lparr>RetryBackoffMaxMs := retryBackoffMaxMs\<rparr>"

definition WithFatalStatusCodes :: "string list \<Rightarrow> ('s, 'g) ProviderOption" where
  "WithFatalStatusCodes fatalStatusCodes p = p\<lparr>FatalStatusCodes := fatalStatusCodes\<rparr>"

definition WithDeadline :: "int \<Rightarrow> ('s, 'g) ProviderOption" where
  "WithDeadline deadlineMs p = p\<lparr>DeadlineMs := deadlineMs\<rparr>"

definition FromEnv :: "(string \<Rightarrow> string) \<Rightarrow> ('s, 'g) ProviderOption" where
  "FromEnv env p = updateFromEnvVar env p"

lemmas option_defs [cfg_simps] =
  WithSocketPath_def
  WithCertificatePath_def
  WithPort_def
  WithHost_def
  WithTargetUri_def
  WithoutCache_def
  WithBasicInMemoryCache_def
  WithLRUCache_def
  WithEventStreamConnectionMaxAttempts_def
  WithTLS_def
  WithOtelInterceptor_def
  WithRPCResolver_def
  WithInProcessResolver_def
  WithOfflineFilePath_def
  WithFileResolver_def
  WithSelector_def
  WithProviderID_def
  WithCustomSyncProviderAndUri_def
  WithCustomSyncProvider_def
  WithGrpcDialOptionsOverride_def
  WithRetryGracePeriod_def
  WithRetryBackoffMs_def
  WithRetryBackoffMaxMs_def
  WithFatalStatusCodes_def
  WithDeadline_def Let_def

section \<open>Construction\<close>

definition configureProviderConfiguration :: "('s, 'g) ProviderOption" where
  "configureProviderConfiguration p =
     (let p = (if 0 < length (OfflineFlagSourcePath p) \<and> Resolver p = inProcess
               then p\<lparr>Resolver := fileResolver\<rparr> else p)
      in if Port p = 0 then
           (case Resolver p of
              rpc \<Rightarrow> p\<lparr>Port := defaultRpcPort\<rparr>
            | inProcess \<Rightarrow> p\<lparr>Port := defaultInProcessPort\<rparr>
            | fileResolver \<Rightarrow> p
            | OtherResolver text \<Rightarrow> p)
         else p)"

definition validateProviderConfiguration :: "('s, 'g) ProviderConfiguration \<Rightarrow> string option" where
  "validateProviderConfiguration p =
     (if length (OfflineFlagSourcePath p) = 0 \<and> Resolver p = fileResolver
      then Some ''resolver Type 'file' requires a OfflineFlagSourcePath'' else None)"

definition NewProviderConfiguration ::
  "(string \<Rightarrow> string) \<Rightarrow> ('s, 'g) ProviderOption list \<Rightarrow> ('s, 'g) ProviderConfiguration \<times> string option" where
  "NewProviderConfiguration env opts =
     (let cfg = newDefaultConfiguration env;
          cfg = foldl (\<lambda>c opt. opt c) cfg opts;
          cfg = updatePortFromEnvVar env cfg;
          cfg = configureProviderConfiguration cfg
      in (cfg, validateProviderConfiguration cfg))"


section \<open>What the environment does to a configuration\<close>

text \<open>
  The nine blocks as one record update: each field is set from the environment or kept.
\<close>

lemma updateFromEnvVar_eq:
  "updateFromEnvVar env c = c\<lparr>
     Host := (if env ''FLAGD_HOST'' \<noteq> [] then env ''FLAGD_HOST'' else Host c),
     SocketPath := (if env ''FLAGD_SOCKET_PATH'' \<noteq> [] then env ''FLAGD_SOCKET_PATH'' else SocketPath c),
     Tls := (env ''FLAGD_SERVER_CERT_PATH'' \<noteq> [] \<or> to_lower (env ''FLAGD_TLS'') = ''true'' \<or> Tls c),
     CertPath := (if env ''FLAGD_SERVER_CERT_PATH'' \<noteq> [] \<or> to_lower (env ''FLAGD_TLS'') = ''true''
       then env ''FLAGD_SERVER_CERT_PATH'' else CertPath c),
     MaxCacheSize := getIntFromEnvVarOrDefault env ''FLAGD_MAX_CACHE_SIZE'' defaultMaxCacheSize,
     CacheType := (if env ''FLAGD_CACHE'' = [] then CacheType c
       else if env ''FLAGD_CACHE'' \<in> {InMemValue, DisabledValue} then env ''FLAGD_CACHE'' else LRUValue),
     EventStreamConnectionMaxAttempts :=
       getIntFromEnvVarOrDefault env ''FLAGD_MAX_EVENT_STREAM_RETRIES'' defaultMaxEventStreamRetries,
     Resolver := (if env ''FLAGD_RESOLVER'' = [] then Resolver c
       else if to_lower (env ''FLAGD_RESOLVER'') = ''in-process'' then inProcess
       else if to_lower (env ''FLAGD_RESOLVER'') = ''file'' then fileResolver else rpc),
     OfflineFlagSourcePath := (if env ''FLAGD_OFFLINE_FLAG_SOURCE_PATH'' \<noteq> []
       then env ''FLAGD_OFFLINE_FLAG_SOURCE_PATH'' else OfflineFlagSourcePath c),
     ProviderId := (if env ''FLAGD_PROVIDER_ID'' \<noteq> [] then env ''FLAGD_PROVIDER_ID'' else ProviderId c),
     Selector := (if env ''FLAGD_SOURCE_SELECTOR'' \<noteq> []
       then env ''FLAGD_SOURCE_SELECTOR'' else Selector c),
     TargetUri := (if env ''FLAGD_TARGET_URI'' \<noteq> [] then env ''FLAGD_TARGET_URI'' else TargetUri c),
     RetryGracePeriod := getIntFromEnvVarOrDefault env ''FLAGD_RETRY_GRACE_PERIOD'' defaultGracePeriod,
     RetryBackoffMs := getIntFromEnvVarOrDefault env ''FLAGD_RETRY_BACKOFF_MS'' DefaultRetryBackoffMs,
     RetryBackoffMaxMs :=
       getIntFromEnvVarOrDefault env ''FLAGD_RETRY_BACKOFF_MAX_MS'' DefaultRetryBackoffMaxMs,
     DeadlineMs := getIntFromEnvVarOrDefault env ''FLAGD_DEADLINE_MS'' defaultInitDeadlineMs,
     FatalStatusCodes := (if env ''FLAGD_FATAL_STATUS_CODES'' = [] then []
       else map trim_space (split_on CHR '','' (env ''FLAGD_FATAL_STATUS_CODES'')))\<rparr>"
proof -
  have fatal: "env_fatal_codes env d = d\<lparr>FatalStatusCodes := (if env ''FLAGD_FATAL_STATUS_CODES'' = [] then []
       else map trim_space (split_on CHR '','' (env ''FLAGD_FATAL_STATUS_CODES'')))\<rparr>"
    for d :: "('s, 'g) ProviderConfiguration"
    by (simp add: env_fatal_codes_def Let_def default_defs)
  have cache: "env_cache env d = d\<lparr>
      MaxCacheSize := getIntFromEnvVarOrDefault env ''FLAGD_MAX_CACHE_SIZE'' defaultMaxCacheSize,
      CacheType := (if env ''FLAGD_CACHE'' = [] then CacheType d
       else if env ''FLAGD_CACHE'' \<in> {InMemValue, DisabledValue} then env ''FLAGD_CACHE'' else LRUValue)\<rparr>"
    for d :: "('s, 'g) ProviderConfiguration"
    by (simp add: env_cache_def Let_def cache_type_defs)
  have res: "env_resolver env d = d\<lparr>Resolver := (if env ''FLAGD_RESOLVER'' = [] then Resolver d
       else if to_lower (env ''FLAGD_RESOLVER'') = ''in-process'' then inProcess
       else if to_lower (env ''FLAGD_RESOLVER'') = ''file'' then fileResolver else rpc)\<rparr>"
    for d :: "('s, 'g) ProviderConfiguration"
    by (simp add: env_resolver_def Let_def)
  have tls: "env_tls env d = d\<lparr>
     Tls := (env ''FLAGD_SERVER_CERT_PATH'' \<noteq> [] \<or> to_lower (env ''FLAGD_TLS'') = ''true'' \<or> Tls d),
     CertPath := (if env ''FLAGD_SERVER_CERT_PATH'' \<noteq> [] \<or> to_lower (env ''FLAGD_TLS'') = ''true''
       then env ''FLAGD_SERVER_CERT_PATH'' else CertPath d)\<rparr>"
    for d :: "('s, 'g) ProviderConfiguration"
    by (simp add: env_tls_def Let_def)
  have source: "env_source env d = d\<lparr>
     OfflineFlagSourcePath := (if env ''FLAGD_OFFLINE_FLAG_SOURCE_PATH'' \<noteq> []
       then env ''FLAGD_OFFLINE_FLAG_SOURCE_PATH'' else OfflineFlagSourcePath d),
     ProviderId := (if env ''FLAGD_PROVIDER_ID'' \<noteq> [] then env ''FLAGD_PROVIDER_ID'' else ProviderId d),
     Selector := (if env ''FLAGD_SOURCE_SELECTOR'' \<noteq> []
       then env ''FLAGD_SOURCE_SELECTOR'' else Selector d),
     TargetUri := (if env ''FLAGD_TARGET_URI'' \<noteq> [] then env ''FLAGD_TARGET_URI'' else TargetUri d)\<rparr>"
    for d :: "('s, 'g) ProviderConfiguration"
    by (simp add: env_source_def Let_def)
  have simple: "env_host env d = d\<lparr>Host := (if env ''FLAGD_HOST'' \<noteq> [] then env ''FLAGD_HOST'' else Host d)\<rparr>"
    "env_socket env d = d\<lparr>SocketPath :=
       (if env ''FLAGD_SOCKET_PATH'' \<noteq> [] then env ''FLAGD_SOCKET_PATH'' else SocketPath d)\<rparr>"
    for d :: "('s, 'g) ProviderConfiguration"
    by (simp_all add: env_host_def env_socket_def Let_def)
  show ?thesis
    unfolding updateFromEnvVar_def fatal cache res tls source simple env_attempts_def env_retry_def
    by (cases c) (simp only: ProviderConfiguration.simps)
qed

lemma updateFromEnvVar_keeps [simp]:
  "Port (updateFromEnvVar env c) = Port c"
  "OtelIntercept (updateFromEnvVar env c) = OtelIntercept c"
  "CustomSyncProvider (updateFromEnvVar env c) = CustomSyncProvider c"
  "GrpcDialOptionsOverride (updateFromEnvVar env c) = GrpcDialOptionsOverride c"
  by (simp_all add: updateFromEnvVar_eq)

text \<open>Applying the environment twice is applying it once.\<close>

theorem updateFromEnvVar_idem:
  "updateFromEnvVar env (updateFromEnvVar env c) = updateFromEnvVar env c"
  by (simp add: updateFromEnvVar_eq)

text \<open>
  The option FromEnv, run in an environment with no flagd variable set, is not a no-op: it
  keeps the text fields, the resolver and the port, and puts the cache size, the attempts, the
  grace period, the backoffs, the deadline and the fatal status codes back to their defaults,
  whatever earlier options had set.
\<close>

theorem FromEnv_unset_resets:
  "FromEnv (\<lambda>_. []) c = c\<lparr>
     MaxCacheSize := 1000, EventStreamConnectionMaxAttempts := 5, RetryGracePeriod := 5,
     RetryBackoffMs := 1000, RetryBackoffMaxMs := 12000, DeadlineMs := 500, FatalStatusCodes := []\<rparr>"
  by (simp add: FromEnv_def updateFromEnvVar_eq getIntFromEnvVarOrDefault_def default_defs
      to_lower_def)

section \<open>Port resolution\<close>

lemma Port_updatePort:
  "Port (updatePortFromEnvVar env c) =
     (if Port c \<noteq> 0 then Port c
      else let s = (if Resolver c = inProcess \<and> env ''FLAGD_SYNC_PORT'' \<noteq> []
                    then env ''FLAGD_SYNC_PORT'' else env ''FLAGD_PORT'')
           in case atoi s of None \<Rightarrow> 0 | Some v \<Rightarrow> word_of_int v)"
  by (auto simp: updatePortFromEnvVar_def Let_def split: option.splits)

lemma updatePort_keeps [simp]:
  "Resolver (updatePortFromEnvVar env c) = Resolver c"
  "OfflineFlagSourcePath (updatePortFromEnvVar env c) = OfflineFlagSourcePath c"
  by (auto simp: updatePortFromEnvVar_def Let_def split: option.splits)

text \<open>The resolver the provider runs with, and the port a resolver falls back to.\<close>

definition effective_resolver :: "('s, 'g) ProviderConfiguration \<Rightarrow> ResolverType" where
  "effective_resolver c =
     (if OfflineFlagSourcePath c \<noteq> [] \<and> Resolver c = inProcess then fileResolver else Resolver c)"

fun default_port :: "ResolverType \<Rightarrow> uint16" where
  "default_port rpc = 8013"
| "default_port inProcess = 8015"
| "default_port fileResolver = 0"
| "default_port (OtherResolver text) = 0"

lemma configure_fields:
  "Resolver (configureProviderConfiguration c) = effective_resolver c"
  "OfflineFlagSourcePath (configureProviderConfiguration c) = OfflineFlagSourcePath c"
  "Port (configureProviderConfiguration c) =
     (if Port c = 0 then default_port (effective_resolver c) else Port c)"
  by (auto simp: configureProviderConfiguration_def effective_resolver_def Let_def default_defs
      split: ResolverType.splits)

definition options_applied ::
  "(string \<Rightarrow> string) \<Rightarrow> ('s, 'g) ProviderOption list \<Rightarrow> ('s, 'g) ProviderConfiguration" where
  "options_applied env opts = foldl (\<lambda>c opt. opt c) (newDefaultConfiguration env) opts"

lemma New_eq: "fst (NewProviderConfiguration env opts) =
    configureProviderConfiguration (updatePortFromEnvVar env (options_applied env opts))"
  by (simp add: NewProviderConfiguration_def options_applied_def Let_def)

lemma effective_resolver_updatePort [simp]:
  "effective_resolver (updatePortFromEnvVar env c) = effective_resolver c"
  by (simp add: effective_resolver_def)

text \<open>
  C25: The port of the constructed configuration: an explicit non-zero port wins; then the
  environment, where the in-process resolver looks at FLAGD_SYNC_PORT before FLAGD_PORT and the
  others only at FLAGD_PORT; a missing or unparsable variable, or one that is zero in sixteen
  bits, leaves the default of the resolver the provider runs with.
\<close>

theorem port_resolution:
  "Port (fst (NewProviderConfiguration env opts)) =
     (let c = options_applied env opts;
          s = (if Resolver c = inProcess \<and> env ''FLAGD_SYNC_PORT'' \<noteq> []
               then env ''FLAGD_SYNC_PORT'' else env ''FLAGD_PORT'');
          e = (case atoi s of None \<Rightarrow> 0 | Some v \<Rightarrow> word_of_int v)
      in if Port c \<noteq> 0 then Port c else if e \<noteq> 0 then e else default_port (effective_resolver c))"
  by (simp add: New_eq configure_fields Port_updatePort Let_def)

text \<open>
  An integer in FLAGD_PORT reaches the configuration modulo 65536: 70000 becomes 4464, and
  a multiple of 65536 silently becomes the default port.
\<close>

theorem env_port_mod_65536:
  assumes "in_int64 v"
  shows "uint (Port (fst (NewProviderConfiguration
      (\<lambda>x. if x = ''FLAGD_PORT'' then int_to_string v else []) ([] :: ('s, 'g) ProviderOption list)))) =
     (if v mod 65536 = 0 then 8013 else v mod 65536)"
proof -
  let ?env = "\<lambda>x. if x = ''FLAGD_PORT'' then int_to_string v else []"
  let ?c = "options_applied ?env ([] :: ('s, 'g) ProviderOption list)"
  have c: "Resolver ?c = rpc" "Port ?c = 0" "effective_resolver ?c = rpc"
    by (simp_all add: options_applied_def newDefaultConfiguration_def updateFromEnvVar_eq
        effective_resolver_def)
  have zero: "(word_of_int v :: uint16) = 0 \<longleftrightarrow> v mod 65536 = 0"
    by (simp add: uint_uint16_of_int flip: uint_0_iff)
  show ?thesis
    by (simp add: port_resolution c atoi_int_to_string [OF assms] zero uint_uint16_of_int Let_def)
qed

theorem env_port_mod_65536_witness:
  "uint (Port (fst (NewProviderConfiguration
      (\<lambda>x. if x = ''FLAGD_PORT'' then int_to_string 70000 else []) ([] :: (nat, nat) ProviderOption list)))) = 4464"
  using env_port_mod_65536 [of 70000, where 's = nat and 'g = nat] by (simp add: in_int64_def)

section \<open>Options and validation\<close>

text \<open>A constructed configuration: what the rest of the provider relies on.\<close>

definition config_ok :: "('s, 'g) ProviderConfiguration \<Rightarrow> bool" where
  "config_ok c \<longleftrightarrow>
     (Resolver c = inProcess \<longrightarrow> OfflineFlagSourcePath c = []) \<and>
     (Port c = 0 \<longrightarrow> Resolver c = fileResolver \<or> (\<exists>text. Resolver c = OtherResolver text))"

lemma constructed_ok: "config_ok (fst (NewProviderConfiguration env opts))"
proof -
  let ?c = "fst (NewProviderConfiguration env opts)"
  have "Port ?c = 0 \<Longrightarrow> Resolver ?c = fileResolver \<or> (\<exists>text. Resolver ?c = OtherResolver text)"
    by (cases "effective_resolver (options_applied env opts)")
      (auto simp: New_eq configure_fields split: if_splits)
  moreover have "Resolver ?c = inProcess \<Longrightarrow> OfflineFlagSourcePath ?c = []"
    by (simp add: New_eq configure_fields effective_resolver_def split: if_splits)
  ultimately show ?thesis by (auto simp: config_ok_def)
qed

lemma constructed_ok_iff:
  "snd (NewProviderConfiguration env opts) = None \<longleftrightarrow>
     effective_resolver (options_applied env opts) \<noteq> fileResolver \<or>
     OfflineFlagSourcePath (options_applied env opts) \<noteq> []"
proof -
  have "snd (NewProviderConfiguration env opts) =
      validateProviderConfiguration (fst (NewProviderConfiguration env opts))"
    by (simp add: NewProviderConfiguration_def Let_def)
  then show ?thesis by (auto simp: validateProviderConfiguration_def New_eq configure_fields)
qed

text \<open>
  C24: Whatever the environment and the options, the constructed configuration has a port unless
  it runs in file mode or an option of the application set a resolver flagd does not know; it has the resolver the options chose, where
  an offline path turns the in-process resolver into file mode; it never combines the in-process resolver with an offline path, and is
  rejected exactly when it is in file mode without a path.
\<close>

theorem constructed_config_ok:
  "config_ok (fst (NewProviderConfiguration env opts)) \<and>
   Resolver (fst (NewProviderConfiguration env opts)) = effective_resolver (options_applied env opts) \<and>
   ((snd (NewProviderConfiguration env opts) \<noteq> None) =
      (effective_resolver (options_applied env opts) = fileResolver \<and>
       OfflineFlagSourcePath (options_applied env opts) = []))"
  proof (intro conjI)
  show "config_ok (fst (NewProviderConfiguration env opts))" by (rule constructed_ok)
qed (simp_all add: constructed_ok_iff New_eq configure_fields del: not_None_eq)

lemma options_applied_snoc: "options_applied env (opts @ [opt]) = opt (options_applied env opts)"
  by (simp add: options_applied_def)

text \<open>The two last steps of the construction write the port and the resolver only.\<close>

definition finish :: "(string \<Rightarrow> string) \<Rightarrow> ('s, 'g) ProviderOption" where
  "finish env c = configureProviderConfiguration (updatePortFromEnvVar env c)"

lemma finish_resolver: "Resolver (finish env c) = effective_resolver c"
  by (simp add: finish_def configure_fields)

text \<open>The last two steps only write the resolver and the port.\<close>

lemma updatePortFromEnvVar_keeps [simp]:
  "Host (updatePortFromEnvVar env c) = Host c"
  "SocketPath (updatePortFromEnvVar env c) = SocketPath c"
  "CacheType (updatePortFromEnvVar env c) = CacheType c"
  "MaxCacheSize (updatePortFromEnvVar env c) = MaxCacheSize c"
  "Tls (updatePortFromEnvVar env c) = Tls c"
  "CertPath (updatePortFromEnvVar env c) = CertPath c"
  "Selector (updatePortFromEnvVar env c) = Selector c"
  "ProviderId (updatePortFromEnvVar env c) = ProviderId c"
  "TargetUri (updatePortFromEnvVar env c) = TargetUri c"
  "DeadlineMs (updatePortFromEnvVar env c) = DeadlineMs c"
  "RetryGracePeriod (updatePortFromEnvVar env c) = RetryGracePeriod c"
  "RetryBackoffMs (updatePortFromEnvVar env c) = RetryBackoffMs c"
  "RetryBackoffMaxMs (updatePortFromEnvVar env c) = RetryBackoffMaxMs c"
  "FatalStatusCodes (updatePortFromEnvVar env c) = FatalStatusCodes c"
  "OtelIntercept (updatePortFromEnvVar env c) = OtelIntercept c"
  by (simp_all add: updatePortFromEnvVar_def Let_def split: option.split)

lemma configureProviderConfiguration_keeps [simp]:
  "Host (configureProviderConfiguration c) = Host c"
  "SocketPath (configureProviderConfiguration c) = SocketPath c"
  "CacheType (configureProviderConfiguration c) = CacheType c"
  "MaxCacheSize (configureProviderConfiguration c) = MaxCacheSize c"
  "Tls (configureProviderConfiguration c) = Tls c"
  "CertPath (configureProviderConfiguration c) = CertPath c"
  "Selector (configureProviderConfiguration c) = Selector c"
  "ProviderId (configureProviderConfiguration c) = ProviderId c"
  "TargetUri (configureProviderConfiguration c) = TargetUri c"
  "DeadlineMs (configureProviderConfiguration c) = DeadlineMs c"
  "RetryGracePeriod (configureProviderConfiguration c) = RetryGracePeriod c"
  "RetryBackoffMs (configureProviderConfiguration c) = RetryBackoffMs c"
  "RetryBackoffMaxMs (configureProviderConfiguration c) = RetryBackoffMaxMs c"
  "FatalStatusCodes (configureProviderConfiguration c) = FatalStatusCodes c"
  "OtelIntercept (configureProviderConfiguration c) = OtelIntercept c"
  by (cases "Resolver c"; simp add: configureProviderConfiguration_def Let_def)+

lemma finish_keeps [simp]:
  "Host (finish env c) = Host c"
  "SocketPath (finish env c) = SocketPath c"
  "CacheType (finish env c) = CacheType c"
  "MaxCacheSize (finish env c) = MaxCacheSize c"
  "Tls (finish env c) = Tls c"
  "CertPath (finish env c) = CertPath c"
  "Selector (finish env c) = Selector c"
  "ProviderId (finish env c) = ProviderId c"
  "TargetUri (finish env c) = TargetUri c"
  "DeadlineMs (finish env c) = DeadlineMs c"
  "RetryGracePeriod (finish env c) = RetryGracePeriod c"
  "RetryBackoffMs (finish env c) = RetryBackoffMs c"
  "RetryBackoffMaxMs (finish env c) = RetryBackoffMaxMs c"
  "FatalStatusCodes (finish env c) = FatalStatusCodes c"
  "OtelIntercept (finish env c) = OtelIntercept c"
  by (simp_all add: finish_def)

lemma New_finish: "fst (NewProviderConfiguration env opts) = finish env (options_applied env opts)"
  by (simp add: New_eq finish_def)

text \<open>
  An option given last decides its field, whatever the environment holds and whatever the
  earlier options did.
\<close>

theorem last_option_wins:
  "Host (fst (NewProviderConfiguration env (opts @ [WithHost h]))) = h \<and>
   SocketPath (fst (NewProviderConfiguration env (opts @ [WithSocketPath h]))) = h \<and>
   Tls (fst (NewProviderConfiguration env (opts @ [WithTLS h]))) \<and>
   CertPath (fst (NewProviderConfiguration env (opts @ [WithTLS h]))) = h \<and>
   CertPath (fst (NewProviderConfiguration env (opts @ [WithCertificatePath h]))) = h \<and>
   CacheType (fst (NewProviderConfiguration env (opts @ [WithoutCache]))) = DisabledValue \<and>
   CacheType (fst (NewProviderConfiguration env (opts @ [WithBasicInMemoryCache]))) = InMemValue \<and>
   CacheType (fst (NewProviderConfiguration env (opts @ [WithLRUCache n]))) = LRUValue \<and>
   Selector (fst (NewProviderConfiguration env (opts @ [WithSelector h]))) = h \<and>
   ProviderId (fst (NewProviderConfiguration env (opts @ [WithProviderID h]))) = h \<and>
   TargetUri (fst (NewProviderConfiguration env (opts @ [WithTargetUri h]))) = h \<and>
   DeadlineMs (fst (NewProviderConfiguration env (opts @ [WithDeadline n]))) = n \<and>
   RetryGracePeriod (fst (NewProviderConfiguration env (opts @ [WithRetryGracePeriod n]))) = n \<and>
   FatalStatusCodes (fst (NewProviderConfiguration env (opts @ [WithFatalStatusCodes cs]))) = cs \<and>
   Resolver (fst (NewProviderConfiguration env (opts @ [WithRPCResolver]))) = rpc \<and>
   Resolver (fst (NewProviderConfiguration env (opts @ [WithFileResolver]))) = fileResolver"
  by (simp add: New_finish options_applied_snoc cfg_simps finish_resolver effective_resolver_def)

end
