(* ===== verification/Flagd_Retry.thy ===== *)
theory Flagd_Retry
  imports Prelude
begin

text \<open>
  The retry counter of flagd's event stream,
  \<^verbatim>\<open>providers/flagd/pkg/service/rpc/retryCounter.go\<close>.  Durations are \<^verbatim>\<open>time.Duration\<close>, a
  signed 64-bit count of nanoseconds; counters are Go \<^verbatim>\<open>int\<close>, 64 bits wide as well.
\<close>

definition defaultDelay :: int64 where
  "defaultDelay = 1000000000"

definition factor :: int64 where
  "factor = 2"

record retryCounter =
  baseRetryDelay :: int64
  maxRetries :: int64
  currentDelay :: int64
  currentRetries :: int64

definition newRetryCounter :: "int64 \<Rightarrow> retryCounter" where
  "newRetryCounter n =
     \<lparr>baseRetryDelay = defaultDelay, maxRetries = n, currentDelay = 0, currentRetries = 0\<rparr>"

definition retry_reset :: "retryCounter \<Rightarrow> retryCounter" where
  "retry_reset c = c\<lparr>currentDelay := defaultDelay, currentRetries := 0\<rparr>"

definition retry_retry :: "retryCounter \<Rightarrow> retryCounter \<times> bool" where
  "retry_retry c =
     (let c' = c\<lparr>currentRetries := currentRetries c + 1\<rparr>
      in (c', sint (currentRetries c') \<le> sint (maxRetries c')))"

definition retry_sleep :: "retryCounter \<Rightarrow> retryCounter \<times> int64" where
  "retry_sleep c =
     (let v = currentDelay c in (c\<lparr>currentDelay := factor * currentDelay c\<rparr>, v))"

lemmas retry_defs = retry_reset_def retry_retry_def retry_sleep_def newRetryCounter_def Let_def

text \<open>One round of the event-stream loop: an attempt, then the pause before the next one.\<close>

definition retry_round :: "retryCounter \<Rightarrow> retryCounter \<times> bool \<times> int64" where
  "retry_round c =
     (let (c1, ok) = retry_retry c; (c2, d) = retry_sleep c1 in (c2, ok, d))"

fun retry_rounds :: "nat \<Rightarrow> retryCounter \<Rightarrow> retryCounter \<times> (bool \<times> int64) list" where
  "retry_rounds 0 c = (c, [])"
| "retry_rounds (Suc n) c =
     (let (c1, ok, d) = retry_round c; (c2, rs) = retry_rounds n c1 in (c2, (ok, d) # rs))"

lemma retry_round_simps [simp]:
  "currentDelay (fst (retry_round c)) = 2 * currentDelay c"
  "currentRetries (fst (retry_round c)) = currentRetries c + 1"
  "maxRetries (fst (retry_round c)) = maxRetries c"
  "snd (retry_round c) = (sint (currentRetries c + 1) \<le> sint (maxRetries c), currentDelay c)"
  by (simp_all add: retry_round_def retry_defs factor_def)

lemma retry_rounds_Suc:
  "snd (retry_rounds (Suc n) c) = snd (retry_round c) # snd (retry_rounds n (fst (retry_round c)))"
  "fst (retry_rounds (Suc n) c) = fst (retry_rounds n (fst (retry_round c)))"
  by (simp_all add: Let_def case_prod_beta)

lemma length_retry_rounds [simp]: "length (snd (retry_rounds n c)) = n"
  by (induction n arbitrary: c) (simp_all add: retry_rounds_Suc del: retry_rounds.simps(2))

lemma retry_rounds_nth:
  "i < n \<Longrightarrow> snd (retry_rounds n c) ! i =
     (sint (currentRetries c + 1 + of_nat i) \<le> sint (maxRetries c), 2 ^ i * currentDelay c)"
proof (induction n arbitrary: i c)
  case (Suc n)
  show ?case
  proof (cases i)
    case 0
    then show ?thesis by (simp add: retry_rounds_Suc del: retry_rounds.simps(2))
  next
    case (Suc j)
    with Suc.prems Suc.IH [of j "fst (retry_round c)"] show ?thesis
      by (simp add: retry_rounds_Suc ac_simps del: retry_rounds.simps(2))
  qed
qed simp

lemma sint_of_nat_small: "int n < 2 ^ 63 \<Longrightarrow> sint (of_nat n :: int64) = int n"
  using sint_int64_of_int [of "int n"] by (simp add: in_int64_def)

end
