(* ===== verification/Flagd_Rpc.thy ===== *)
theory Flagd_Rpc
  imports Flagd_Cache Flagd_Retry
begin

text \<open>
  The flagd provider's rpc service, \<^verbatim>\<open>providers/flagd/pkg/service/rpc/service.go\<close>: flag
  resolution through the cache and the connect client, and the event-stream loop with its
  retries.  The client, the conversion of the evaluation context to a protobuf struct
  (\<^verbatim>\<open>structpb.NewStruct\<close>) and the LRU library are parameters.  The goroutine of the event
  stream is given by what each connection attempt yields, an explicit list of attempts; the
  channel \<^verbatim>\<open>events\<close> is the log of the events sent.
\<close>

section \<open>State\<close>

datatype cached =
    CBool "bool resolution_detail"
  | CString "string resolution_detail"
  | CFloat "float64 resolution_detail"
  | CInt "int64 resolution_detail"
  | CObject "go_any resolution_detail"

record 'l Service =
  svc_cache :: "(cached, 'l) cache_service"
  svc_client :: bool
  svc_retryCounter :: retryCounter
  svc_streamReady :: "string option option"
  svc_events :: "of_event list"

text \<open>
  \<open>svc_client\<close> tells whether the client is set; \<open>svc_streamReady\<close> is the one-place buffer of
  the channel \<^verbatim>\<open>streamReady\<close>, holding an error text or, for a nil error, \<open>None\<close>.
\<close>

definition NewService :: "(cached, 'l) cache_service \<Rightarrow> int64 \<Rightarrow> 'l Service" where
  "NewService c retries = \<lparr>svc_cache = c, svc_client = False,
     svc_retryCounter = newRetryCounter retries, svc_streamReady = None, svc_events = []\<rparr>"

definition ReasonCached :: string where "ReasonCached = ''CACHED''"

definition ErrClientNotReady :: resolution_error where
  "ErrClientNotReady =
     NewProviderNotReadyResolutionError ''client did not yet finish the initialization''"

definition isInitialised :: "'l Service \<Rightarrow> bool" where
  "isInitialised s = svc_client s"

section \<open>The remote call\<close>

record 'v response =
  resp_Value :: "'v option"
  resp_Variant :: "string option"
  resp_Reason :: string
  resp_Metadata :: go_map

text \<open>
  An error of the client: its connect code (\<open>OtherCode\<close> also for an error that is no
  \<^verbatim>\<open>connect.Error\<close>) and its text.
\<close>

datatype connect_code =
  CodeUnavailable | CodeNotFound | CodeInvalidArgument | CodeDataLoss | OtherCode

datatype connect_error = ConnectError (conn_code: connect_code) (conn_text: string)

text \<open>A Go error value of this file: a resolution error, or any other error by its text.\<close>

datatype rpc_error = ResolutionE resolution_error | OtherE string

definition handleError :: "connect_error \<Rightarrow> resolution_error" where
  "handleError err = (case conn_code err of
     CodeUnavailable \<Rightarrow> NewProviderNotReadyResolutionError ''connection not made''
   | CodeNotFound \<Rightarrow> NewFlagNotFoundResolutionError (conn_text err)
   | CodeInvalidArgument \<Rightarrow> NewTypeMismatchResolutionError (conn_text err)
   | CodeDataLoss \<Rightarrow> NewParseErrorResolutionError (conn_text err)
   | OtherCode \<Rightarrow> NewGeneralResolutionError (conn_text err))"

text \<open>
  \<open>newStruct\<close> converts the evaluation context, with an error text when it cannot;
  \<open>resolver\<close> is the client's method, already under the call's deadline.
\<close>

type_synonym 'p new_struct = "go_map \<Rightarrow> string + 'p"
type_synonym ('p, 'v) resolver = "string \<Rightarrow> 'p \<Rightarrow> connect_error + 'v response"

definition rpc_resolve ::
  "'p new_struct \<Rightarrow> ('p, 'v) resolver \<Rightarrow> string \<Rightarrow> go_map \<Rightarrow> rpc_error + 'v response" where
  "rpc_resolve newStruct resolver flagKey evalCtx =
     (case newStruct evalCtx of
        Inl err \<Rightarrow> Inl (ResolutionE (NewParseErrorResolutionError err))
      | Inr evalCtxF \<Rightarrow>
          (case resolver flagKey evalCtxF of
             Inl err \<Rightarrow> Inl (ResolutionE (handleError err))
           | Inr res \<Rightarrow> Inr res))"

definition derefString :: "string option \<Rightarrow> string" where
  "derefString s = (case s of Some x \<Rightarrow> x | None \<Rightarrow> [])"

definition isDefaultOrDisabledFallback :: "string \<Rightarrow> string \<Rightarrow> bool" where
  "isDefaultOrDisabledFallback variant reason =
     (if variant \<noteq> [] then False else reason = DefaultReason \<or> reason = DisabledReason)"

section \<open>Resolution\<close>

text \<open>
  The five \<^verbatim>\<open>Resolve\<close> methods share one body, repeated in the source for each type.  Its three
  parts: the cache lookup with the type assertion \<open>unwrap\<close>, the remote call, and the
  insertion of a static result under the tag \<open>wrap\<close>.
\<close>

definition cache_lookup ::
  "(string, cached, 'l) Cache \<Rightarrow> (cached \<Rightarrow> 'v resolution_detail option) \<Rightarrow> 'l Service \<Rightarrow> string
   \<Rightarrow> ('l Service \<times> 'v resolution_detail option) outcome" where
  "cache_lookup lru unwrap s key =
     (if IsEnabled (svc_cache s) then
        map_result (\<lambda>(c, r). (s\<lparr>svc_cache := (svc_cache s)\<lparr>cache_of := c\<rparr>\<rparr>, Option.bind r unwrap))
          (cv_Get lru key (cache_of (svc_cache s)))
      else Return (s, None))"

definition detail_of_response :: "('w \<Rightarrow> 'v) \<Rightarrow> 'v \<Rightarrow> 'w response \<Rightarrow> 'v resolution_detail" where
  "detail_of_response conv defaultValue resp =
     (let variant = derefString (resp_Variant resp);
          reason = resp_Reason resp;
          v = (if isDefaultOrDisabledFallback variant reason then defaultValue
               else case resp_Value resp of None \<Rightarrow> defaultValue | Some x \<Rightarrow> conv x)
      in \<lparr>Value = v, Detail = \<lparr>ResolutionError = NoResolutionError, Reason = reason,
            Variant = variant, FlagMetadata = resp_Metadata resp\<rparr>\<rparr>)"

definition error_detail :: "'v \<Rightarrow> rpc_error \<Rightarrow> 'v resolution_detail" where
  "error_detail defaultValue err =
     (let e = (case err of ResolutionE e \<Rightarrow> e | OtherE t \<Rightarrow> NewGeneralResolutionError t)
      in \<lparr>Value = defaultValue, Detail = empty_detail\<lparr>ResolutionError := e, Reason := ErrorReason\<rparr>\<rparr>)"

definition cache_store ::
  "(string, cached, 'l) Cache \<Rightarrow> ('v resolution_detail \<Rightarrow> cached) \<Rightarrow> 'l Service \<Rightarrow> string
   \<Rightarrow> 'v resolution_detail \<Rightarrow> 'l Service outcome" where
  "cache_store lru wrap s key detail =
     (if IsEnabled (svc_cache s) \<and> Reason (Detail detail) = StaticReason then
        map_result (\<lambda>c. s\<lparr>svc_cache := (svc_cache s)\<lparr>cache_of := c\<rparr>\<rparr>)
          (cv_Add lru key (wrap detail) (cache_of (svc_cache s)))
      else Return s)"

definition resolve_flag ::
  "(string, cached, 'l) Cache \<Rightarrow> (cached \<Rightarrow> 'v resolution_detail option) \<Rightarrow>
   ('v resolution_detail \<Rightarrow> cached) \<Rightarrow> ('w \<Rightarrow> 'v) \<Rightarrow> 'p new_struct \<Rightarrow> ('p, 'w) resolver \<Rightarrow>
   'l Service \<Rightarrow> string \<Rightarrow> 'v \<Rightarrow> go_map \<Rightarrow> ('l Service \<times> 'v resolution_detail) outcome" where
  "resolve_flag lru unwrap wrap conv newStruct resolver s key defaultValue evalCtx =
     bind_outcome (cache_lookup lru unwrap s key) (\<lambda>(s, hit).
       case hit of
         Some d \<Rightarrow> Return (s, d\<lparr>Detail := (Detail d)\<lparr>Reason := ReasonCached\<rparr>\<rparr>)
       | None \<Rightarrow>
           if \<not> isInitialised s then
             Return (s, \<lparr>Value = defaultValue,
                         Detail = empty_detail\<lparr>ResolutionError := ErrClientNotReady\<rparr>\<rparr>)
           else
             (case rpc_resolve newStruct resolver key evalCtx of
                Inl err \<Rightarrow> Return (s, error_detail defaultValue err)
              | Inr resp \<Rightarrow>
                  (let detail = detail_of_response conv defaultValue resp
                   in map_result (\<lambda>s. (s, detail)) (cache_store lru wrap s key detail))))"

text \<open>The type assertions on a cached value.\<close>

fun as_bool :: "cached \<Rightarrow> bool resolution_detail option" where
  "as_bool (CBool d) = Some d" | "as_bool _ = None"
fun as_string :: "cached \<Rightarrow> string resolution_detail option" where
  "as_string (CString d) = Some d" | "as_string _ = None"
fun as_float :: "cached \<Rightarrow> float64 resolution_detail option" where
  "as_float (CFloat d) = Some d" | "as_float _ = None"
fun as_int :: "cached \<Rightarrow> int64 resolution_detail option" where
  "as_int (CInt d) = Some d" | "as_int _ = None"
fun as_object :: "cached \<Rightarrow> go_any resolution_detail option" where
  "as_object (CObject d) = Some d" | "as_object _ = None"

definition ResolveBoolean where
  "ResolveBoolean lru = resolve_flag lru as_bool CBool (\<lambda>b :: bool. b)"

definition ResolveString where
  "ResolveString lru = resolve_flag lru as_string CString (\<lambda>x :: string. x)"

definition ResolveFloat where
  "ResolveFloat lru = resolve_flag lru as_float CFloat (\<lambda>x :: float64. x)"

definition ResolveInt where
  "ResolveInt lru = resolve_flag lru as_int CInt (\<lambda>i :: int64. i)"

definition ResolveObject where
  "ResolveObject lru = resolve_flag lru as_object CObject (\<lambda>m :: string \<rightharpoonup> go_any. VMap m)"

section \<open>Events\<close>

text \<open>
  \<^verbatim>\<open>sendEvent\<close> waits for the channel or for the context.  When the context is done the
  runtime may take either branch; \<open>dropped\<close> is that choice.
\<close>

definition sendEvent :: "bool \<Rightarrow> bool \<Rightarrow> of_event \<Rightarrow> 'l Service \<Rightarrow> 'l Service" where
  "sendEvent ctxDone dropped ev s =
     (if ctxDone \<and> dropped then s else s\<lparr>svc_events := svc_events s @ [ev]\<rparr>)"

definition signalStreamReady :: "string option \<Rightarrow> 'l Service \<Rightarrow> 'l Service" where
  "signalStreamReady err s =
     (case svc_streamReady s of None \<Rightarrow> s\<lparr>svc_streamReady := Some err\<rparr> | Some _ \<Rightarrow> s)"

definition purge_cache :: "(string, cached, 'l) Cache \<Rightarrow> 'l Service \<Rightarrow> 'l Service outcome" where
  "purge_cache lru s =
     map_result (\<lambda>c. s\<lparr>svc_cache := (svc_cache s)\<lparr>cache_of := c\<rparr>\<rparr>)
       (cv_Purge lru (cache_of (svc_cache s)))"

fun remove_keys :: "(string, cached, 'l) Cache \<Rightarrow> string list \<Rightarrow> 'l Service \<Rightarrow> 'l Service outcome" where
  "remove_keys lru [] s = Return s"
| "remove_keys lru (k # ks) s =
     bind_outcome (cv_Remove lru k (cache_of (svc_cache s)))
       (\<lambda>c. remove_keys lru ks (s\<lparr>svc_cache := (svc_cache s)\<lparr>cache_of := c\<rparr>\<rparr>))"

text \<open>
  \<^verbatim>\<open>keys := make([]string, len(flags))\<close> starts with one empty string per flag, and the loop
  appends behind them.
\<close>

definition handleConfigurationChangeEvent ::
  "(string, cached, 'l) Cache \<Rightarrow> ((string \<rightharpoonup> go_any) \<Rightarrow> string list) \<Rightarrow> bool \<Rightarrow> bool
   \<Rightarrow> (string \<rightharpoonup> go_any) option \<Rightarrow> 'l Service \<Rightarrow> 'l Service outcome" where
  "handleConfigurationChangeEvent lru order ctxDone dropped dat s =
     (if \<not> IsEnabled (svc_cache s) then Return s
      else case dat of
        None \<Rightarrow> purge_cache lru s
      | Some m \<Rightarrow>
          (case m ''flags'' of
             Some (VMap flags) \<Rightarrow>
               (let ks = order flags;
                    keys = replicate (length ks) [] @ ks
                in map_result
                     (sendEvent ctxDone dropped
                        \<lparr>EventType = EvConfigChange, EventMessage = ''flags changed'', FlagChanges = keys\<rparr>)
                     (remove_keys lru ks s))
           | _ \<Rightarrow> purge_cache lru s))"

definition handleReadyEvent :: "bool \<Rightarrow> bool \<Rightarrow> 'l Service \<Rightarrow> 'l Service" where
  "handleReadyEvent ctxDone dropped s =
     sendEvent ctxDone dropped \<lparr>EventType = EvReady, EventMessage = [], FlagChanges = []\<rparr> s"

section \<open>The event stream\<close>

datatype stream_msg =
    ConfigurationChange "(string \<rightharpoonup> go_any) option"
  | ReadyMsg
  | ShutdownMsg
  | KeepAliveMsg
  | OtherMsg

text \<open>
  One attempt of the loop, as the server and the context decide it: the stream cannot be
  opened, or it yields messages and ends with an error or without.  A message comes with the choice
  that \<^verbatim>\<open>sendEvent\<close> makes while it is handled: \<open>True\<close> when it takes the arm of the cancelled context.
  \<open>att_done\<close>: the context is cancelled when the attempt ends; \<open>att_done_sleep\<close>: it is cancelled by the
  time the pause that follows is over; \<open>att_timer\<close>: the \<^verbatim>\<open>select\<close> of that pause takes the timer although
  the context is done; \<open>att_drop\<close>: the choice of \<^verbatim>\<open>sendEvent\<close> for the stream's error.
\<close>

record attempt =
  att_open :: "string option"
  att_msgs :: "(stream_msg \<times> bool) list"
  att_err :: "string option"
  att_done :: bool
  att_done_sleep :: bool
  att_timer :: bool
  att_drop :: bool

text \<open>Whether the context is cancelled at the end of an attempt: also when a send took that arm.\<close>

definition att_cancelled :: "attempt \<Rightarrow> bool" where
  "att_cancelled a \<longleftrightarrow> att_done a \<or> (\<exists>(m, dropped) \<in> set (att_msgs a). dropped)"

text \<open>The receive loop: \<open>True\<close> when a shutdown message ended it.\<close>

fun receive_loop ::
  "(string, cached, 'l) Cache \<Rightarrow> ((string \<rightharpoonup> go_any) \<Rightarrow> string list) \<Rightarrow> (stream_msg \<times> bool) list
   \<Rightarrow> 'l Service \<Rightarrow> ('l Service \<times> bool) outcome" where
  "receive_loop lru order [] s = Return (s, False)"
| "receive_loop lru order ((m, dropped) # ms) s =
     (let s = s\<lparr>svc_retryCounter := retry_reset (svc_retryCounter s)\<rparr>
      in case m of
           ConfigurationChange dat \<Rightarrow>
             bind_outcome (handleConfigurationChangeEvent lru order dropped dropped dat s)
               (receive_loop lru order ms)
         | ReadyMsg \<Rightarrow> receive_loop lru order ms (handleReadyEvent dropped dropped s)
         | ShutdownMsg \<Rightarrow> Return (s, True)
         | KeepAliveMsg \<Rightarrow> receive_loop lru order ms s
         | OtherMsg \<Rightarrow> receive_loop lru order ms s)"

definition error_event :: "string \<Rightarrow> of_event" where
  "error_event m = \<lparr>EventType = EvError, EventMessage = m, FlagChanges = []\<rparr>"

text \<open>\<open>ctxDone\<close>: the context is cancelled before the attempt.\<close>

definition streamClient ::
  "(string, cached, 'l) Cache \<Rightarrow> ((string \<rightharpoonup> go_any) \<Rightarrow> string list) \<Rightarrow> bool \<Rightarrow> attempt \<Rightarrow> bool
   \<Rightarrow> 'l Service \<Rightarrow> ('l Service \<times> bool \<times> string option) outcome" where
  "streamClient lru order ctxDone a signaled s =
     (case att_open a of
        Some err \<Rightarrow> Return (s, signaled, Some err)
      | None \<Rightarrow>
          (let s = (if signaled then s else signalStreamReady None s)
           in bind_outcome (receive_loop lru order (att_msgs a) s) (\<lambda>(s, stopped).
                if stopped then Return (s, True, None)
                else case att_err a of
                       Some err \<Rightarrow>
                         Return (sendEvent (ctxDone \<or> att_cancelled a) (att_drop a) (error_event (''stream error: '' @ err)) s,
                                 True, Some err)
                     | None \<Rightarrow> Return (s, True, None))))"

datatype loop_end = Running | Cancelled | Exhausted

definition cancel_text :: string where "cancel_text = ''context canceled''"

definition grpc_failed :: string where "grpc_failed = ''grpc connection establishment failed''"

text \<open>
  \<^verbatim>\<open>startEventStream\<close> over the attempts the environment offers; \<open>Running\<close> when it outlives
  them.  \<open>ctxDone\<close> tells whether the context is cancelled, \<open>dropped\<close> whether the last \<^verbatim>\<open>sendEvent\<close>, after
  the retries, takes the arm of the cancelled context.
\<close>

fun startEventStream ::
  "(string, cached, 'l) Cache \<Rightarrow> ((string \<rightharpoonup> go_any) \<Rightarrow> string list) \<Rightarrow> bool \<Rightarrow> attempt list \<Rightarrow> bool \<Rightarrow> bool
   \<Rightarrow> 'l Service \<Rightarrow> ('l Service \<times> loop_end) outcome" where
  "startEventStream lru order dropped as ctxDone signaled s0 =
     (let (rc, ok) = retry_retry (svc_retryCounter s0); s = s0\<lparr>svc_retryCounter := rc\<rparr>
      in if \<not> ok then
           bind_outcome (Disable lru (svc_cache s)) (\<lambda>c.
             let s = s\<lparr>svc_cache := c\<rparr>;
                 s = (if signaled then s else signalStreamReady (Some grpc_failed) s)
             in Return (sendEvent dropped dropped (error_event grpc_failed) s, Exhausted))
         else case as of
           [] \<Rightarrow> Return (s, Running)
         | a # as' \<Rightarrow>
             bind_outcome (streamClient lru order ctxDone a signaled s) (\<lambda>(s, signaled, err).
               let ctxDone = (ctxDone \<or> att_cancelled a)
               in if err \<noteq> None \<and> ctxDone then
                    Return (if signaled then s else signalStreamReady (Some cancel_text) s, Cancelled)
                  else
                    bind_outcome
                      (if err \<noteq> None \<and> IsEnabled (svc_cache s) then purge_cache lru s else Return s)
                      (\<lambda>s.
                        let (rc, d) = retry_sleep (svc_retryCounter s);
                            s = s\<lparr>svc_retryCounter := rc\<rparr>;
                            ctxDone = (ctxDone \<or> att_done_sleep a)
                        in if ctxDone \<and> \<not> att_timer a then
                             Return (if signaled then s else signalStreamReady (Some cancel_text) s, Cancelled)
                           else startEventStream lru order dropped as' ctxDone signaled s)))"

declare startEventStream.simps [simp del]

section \<open>Client construction and initialisation\<close>

record RpcConfiguration =
  rc_Port :: uint16
  rc_Host :: string
  rc_CertificatePath :: string
  rc_SocketPath :: string
  rc_TLSEnabled :: bool
  rc_OtelInterceptor :: bool
  rc_DeadlineMs :: int
  rc_Selector :: string

datatype interceptor = OtelInterceptor | SelectorInterceptor string

text \<open>The client as configured: its URL, the unix socket it dials, its TLS roots, its interceptors.\<close>

record client =
  cl_url :: string
  cl_dialUnix :: "string option"
  cl_tls :: bool
  cl_rootCAs :: "string option"
  cl_interceptors :: "interceptor list"

text \<open>
  \<open>readFile\<close> is \<^verbatim>\<open>os.ReadFile\<close>, \<open>parsePEM\<close> is \<^verbatim>\<open>AppendCertsFromPEM\<close> and \<open>otelErr\<close> the error, if
  any, of \<^verbatim>\<open>otelconnect.NewInterceptor\<close>.
\<close>

definition rpc_newClient ::
  "(string \<Rightarrow> string + string) \<Rightarrow> (string \<Rightarrow> bool) \<Rightarrow> string option \<Rightarrow> RpcConfiguration
   \<Rightarrow> string + client" where
  "rpc_newClient readFile parsePEM otelErr cfg =
     (let addr = rc_Host cfg @ '':'' @ int_to_string (uint (rc_Port cfg));
          dial = (if rc_SocketPath cfg \<noteq> [] then Some (rc_SocketPath cfg) else None);
          tls = (if rc_TLSEnabled cfg then
                   (if rc_CertificatePath cfg \<noteq> [] then
                      (case readFile (rc_CertificatePath cfg) of
                         Inl err \<Rightarrow> Inl err
                       | Inr caCert \<Rightarrow>
                           if \<not> parsePEM caCert then
                             Inl ''error appending provider certificate file. please check and try again''
                           else Inr (''https://'' @ addr, True, Some caCert))
                    else Inr (''https://'' @ addr, True, None))
                 else Inr (''http://'' @ addr, False, None))
      in case tls of
           Inl err \<Rightarrow> Inl err
         | Inr (url, useTls, roots) \<Rightarrow>
             (if rc_OtelInterceptor cfg \<and> otelErr \<noteq> None then Inl (the otelErr)
              else
                let options = (if rc_OtelInterceptor cfg then [OtelInterceptor] else []);
                    options = (if rc_Selector cfg \<noteq> []
                               then options @ [SelectorInterceptor (rc_Selector cfg)] else options)
                in Inr \<lparr>cl_url = url, cl_dialUnix = dial, cl_tls = useTls, cl_rootCAs = roots,
                        cl_interceptors = options\<rparr>))"

text \<open>
  \<^verbatim>\<open>Init\<close> returns the value it receives on \<^verbatim>\<open>streamReady\<close>: \<open>None\<close> while the attempts given leave
  it waiting, \<open>Some None\<close> for a nil error.
\<close>

definition rpc_Init ::
  "(string, cached, 'l) Cache \<Rightarrow> ((string \<rightharpoonup> go_any) \<Rightarrow> string list) \<Rightarrow> string + client \<Rightarrow>
   bool \<Rightarrow> attempt list \<Rightarrow> 'l Service \<Rightarrow> ('l Service \<times> string option option) outcome" where
  "rpc_Init lru order newClient dropped as s =
     (case newClient of
        Inl err \<Rightarrow> Return (s\<lparr>svc_client := False\<rparr>, Some (Some err))
      | Inr c \<Rightarrow>
          map_result (\<lambda>(s, e). (s, svc_streamReady s))
            (startEventStream lru order dropped as False False (s\<lparr>svc_client := True\<rparr>)))"

end
