(* ===== verification/Flagd_Rpc_Correct.thy ===== *)
theory Flagd_Rpc_Correct
  imports Flagd_Rpc
begin

text \<open>
  Correctness of flagd's rpc service: the cache never makes a call panic, holds static results
  only, and is transparent for a server whose static answers do not depend on the context; the
  handler of a configuration change; the event-stream loop, its readiness signal and its retries.
\<close>

section \<open>Resolution never panics\<close>

definition svc_ok :: "'l Service \<Rightarrow> bool" where
  "svc_ok s \<longleftrightarrow> service_ok (svc_cache s)"

lemma svc_ok_simps [simp]:
  "svc_ok (s\<lparr>svc_retryCounter := r\<rparr>) = svc_ok s"
  "svc_ok (s\<lparr>svc_events := e\<rparr>) = svc_ok s"
  "svc_ok (s\<lparr>svc_streamReady := x\<rparr>) = svc_ok s"
  "svc_ok (s\<lparr>svc_client := b\<rparr>) = svc_ok s"
  "svc_ok (s\<lparr>svc_cache := c\<rparr>) = service_ok c"
  by (simp_all add: svc_ok_def)

lemma service_ok_set_cache [simp]: "live_cache c \<Longrightarrow> service_ok (d\<lparr>cache_of := c\<rparr>)"
  by (simp add: service_ok_def)

lemma svc_ok_set_cache:
  "live_cache c \<Longrightarrow> svc_ok (s\<lparr>svc_cache := (svc_cache s)\<lparr>cache_of := c\<rparr>\<rparr>)"
  by (simp add: svc_ok_def service_ok_def)

lemma svc_ok_live: "svc_ok s \<Longrightarrow> IsEnabled (svc_cache s) \<Longrightarrow> live_cache (cache_of (svc_cache s))"
  by (simp add: svc_ok_def service_ok_def IsEnabled_def)

lemma cache_lookup_ok:
  assumes "svc_ok s"
  shows "\<exists>s' r. cache_lookup lru unwrap s key = Return (s', r) \<and> svc_ok s'
    \<and> svc_client s' = svc_client s \<and> cacheEnabled (svc_cache s') = cacheEnabled (svc_cache s)"
proof (cases "IsEnabled (svc_cache s)")
  case True
  with assms obtain c r where "cv_Get lru key (cache_of (svc_cache s)) = Return (c, r)"
    using cv_ops_live(1) [OF svc_ok_live] by (metis returns_def surj_pair)
  with True show ?thesis
    by (auto simp: cache_lookup_def IsEnabled_def intro: service_ok_set_cache cv_ops_keep_live(1))
qed (use assms in \<open>simp add: cache_lookup_def\<close>)

lemma cache_store_ok:
  assumes "svc_ok s"
  shows "\<exists>s'. cache_store lru wrap s key d = Return s' \<and> svc_ok s'"
proof (cases "IsEnabled (svc_cache s) \<and> Reason (Detail d) = StaticReason")
  case True
  with assms obtain c where "cv_Add lru key (wrap d) (cache_of (svc_cache s)) = Return c"
    using cv_ops_live(2) [OF svc_ok_live] by (metis returns_def)
  with True show ?thesis
    by (auto simp: cache_store_def intro: service_ok_set_cache cv_ops_keep_live(2))
next
  case False
  then have "cache_store lru wrap s key d = Return s"
    unfolding cache_store_def by (rule if_not_P)
  with assms show ?thesis by simp
qed

lemma resolve_flag_ok:
  assumes "svc_ok s"
  shows "\<exists>s' d. resolve_flag lru unwrap wrap conv newStruct resolver s key defaultValue ctx
      = Return (s', d) \<and> svc_ok s'"
proof -
  obtain s1 hit where 1: "cache_lookup lru unwrap s key = Return (s1, hit)" "svc_ok s1"
    using cache_lookup_ok [OF assms] by blast
  show ?thesis
  proof (cases "hit = None \<and> isInitialised s1 \<and> (\<exists>r. rpc_resolve newStruct resolver key ctx = Inr r)")
    case True
    then obtain r where r: "hit = None" "isInitialised s1" "rpc_resolve newStruct resolver key ctx = Inr r"
      by blast
    obtain s2 where "cache_store lru wrap s1 key (detail_of_response conv defaultValue r) = Return s2"
      "svc_ok s2" using cache_store_ok [OF 1(2)] by blast
    with 1 r show ?thesis by (simp add: resolve_flag_def Let_def)
  next
    case False
    with 1 show ?thesis
      by (cases hit; cases "rpc_resolve newStruct resolver key ctx")
        (auto simp: resolve_flag_def)
  qed
qed

text \<open>
  A service built by NewService on a cache service built by NewCacheService resolves
  flags of every type without a nil dereference, whatever the cache type, its size and the
  answer of lru.New, and stays in that state.
\<close>

theorem resolve_never_panics:
  assumes "svc_ok (s :: 'l Service)"
  shows "svc_ok (NewService (NewCacheService lru_new t n) retries) \<and>
    (\<exists>s' d. ResolveBoolean lru newStruct rb s key db ctx = Return (s', d) \<and> svc_ok s') \<and>
    (\<exists>s' d. ResolveString lru newStruct rs s key ds ctx = Return (s', d) \<and> svc_ok s') \<and>
    (\<exists>s' d. ResolveFloat lru newStruct rf s key df ctx = Return (s', d) \<and> svc_ok s') \<and>
    (\<exists>s' d. ResolveInt lru newStruct ri s key di ctx = Return (s', d) \<and> svc_ok s') \<and>
    (\<exists>s' d. ResolveObject lru newStruct ro s key dob ctx = Return (s', d) \<and> svc_ok s')"
  unfolding ResolveBoolean_def ResolveString_def ResolveFloat_def ResolveInt_def ResolveObject_def
  by (intro conjI resolve_flag_ok [OF assms]) (simp add: svc_ok_def NewService_def service_ok_new)

theorem resolve_never_panics_witness:
  "\<exists>s' d. ResolveBoolean (undefined :: (string, cached, unit) Cache) (\<lambda>m. Inr m)
     (\<lambda>k p. Inl (ConnectError CodeNotFound ''no flag''))
     (NewService (NewCacheService (\<lambda>n. Inl ''bad size'') ''lru'' 0) 5) ''k'' True None = Return (s', d) \<and> svc_ok s'"
proof -
  have "svc_ok (NewService (NewCacheService (\<lambda>n. Inl ''bad size'') ''lru'' 0) 5 :: unit Service)"
    by (simp add: svc_ok_def NewService_def service_ok_new)
  from resolve_never_panics [OF this, where newStruct = "\<lambda>m. Inr m"
      and rb = "\<lambda>k p. Inl (ConnectError CodeNotFound ''no flag'')"]
  show ?thesis by blast
qed

section \<open>What the cache holds\<close>

fun cached_detail :: "cached \<Rightarrow> provider_detail" where
  "cached_detail (CBool d) = Detail d"
| "cached_detail (CString d) = Detail d"
| "cached_detail (CFloat d) = Detail d"
| "cached_detail (CInt d) = Detail d"
| "cached_detail (CObject d) = Detail d"

definition static_result :: "cached \<Rightarrow> bool" where
  "static_result c \<longleftrightarrow> Reason (cached_detail c) = StaticReason \<and>
     ResolutionError (cached_detail c) = NoResolutionError"

definition cache_all :: "('l \<Rightarrow> string \<Rightarrow> cached option) \<Rightarrow> (string \<Rightarrow> cached \<Rightarrow> bool) \<Rightarrow> 'l Service \<Rightarrow> bool" where
  "cache_all view P s \<longleftrightarrow> (\<forall>k c. cv_view view (cache_of (svc_cache s)) k = Some c \<longrightarrow> P k c)"

lemma cache_allD: "cache_all view P s \<Longrightarrow> cv_view view (cache_of (svc_cache s)) k = Some c \<Longrightarrow> P k c"
  by (simp add: cache_all_def)

lemma cache_all_cong:
  "cv_view view (cache_of (svc_cache s)) = cv_view view (cache_of (svc_cache s'))
   \<Longrightarrow> cache_all view P s = cache_all view P s'"
  by (simp add: cache_all_def)

lemma cache_all_new [simp]:
  "t \<noteq> LRUValue \<Longrightarrow> cache_all view P (NewService (NewCacheService lru_new t n) r)"
  by (simp add: cache_all_def NewService_def NewCacheService_def NewInMemory_def)

section \<open>Resolution without the cache\<close>

text \<open>The reference: ask the server every time; before \<^verbatim>\<open>Init\<close> has made the client there is none to ask.\<close>

definition uncached_resolve ::
  "bool \<Rightarrow> ('w \<Rightarrow> 'v) \<Rightarrow> 'p new_struct \<Rightarrow> ('p, 'w) resolver \<Rightarrow> string \<Rightarrow> 'v \<Rightarrow> go_map \<Rightarrow> 'v resolution_detail" where
  "uncached_resolve initialised conv newStruct resolver key dflt ctx =
     (if \<not> initialised then \<lparr>Value = dflt, Detail = empty_detail\<lparr>ResolutionError := ErrClientNotReady\<rparr>\<rparr>
      else case rpc_resolve newStruct resolver key ctx of
        Inl err \<Rightarrow> error_detail dflt err
      | Inr r \<Rightarrow> detail_of_response conv dflt r)"

text \<open>
  What flagd documents for the reason STATIC: the flag has no targeting, so its answer is the
  same in every context, and it carries a value.
\<close>

definition static_stable :: "'p new_struct \<Rightarrow> ('p, 'w) resolver \<Rightarrow> bool" where
  "static_stable newStruct resolver \<longleftrightarrow>
     (\<forall>key ctx r. rpc_resolve newStruct resolver key ctx = Inr r \<and> resp_Reason r = StaticReason \<longrightarrow>
        resp_Value r \<noteq> None \<and>
        (\<forall>ctx' p. newStruct ctx' = Inr p \<longrightarrow> rpc_resolve newStruct resolver key ctx' = Inr r))"

definition coherent ::
  "(cached \<Rightarrow> 'v resolution_detail option) \<Rightarrow> ('w \<Rightarrow> 'v) \<Rightarrow> 'p new_struct \<Rightarrow> ('p, 'w) resolver
   \<Rightarrow> string \<Rightarrow> cached \<Rightarrow> bool" where
  "coherent unwrap conv newStruct resolver k c \<longleftrightarrow>
     (\<forall>x. unwrap c = Some x \<longrightarrow> (\<exists>ctx p. newStruct ctx = Inr p) \<and>
        (\<forall>dflt ctx p. newStruct ctx = Inr p \<longrightarrow> uncached_resolve True conv newStruct resolver k dflt ctx = x))"

text \<open>Everything in a result but its reason.\<close>

definition payload :: "'v resolution_detail \<Rightarrow> 'v \<times> resolution_error \<times> string \<times> go_map" where
  "payload d = (Value d, ResolutionError (Detail d), Variant (Detail d), FlagMetadata (Detail d))"

text \<open>
  What a call may answer: in a context that converts, what the uncached service answers.  A hit
  is found before the context is converted, so that in a context that does not convert the answer may also
  be the cached one, which the server gives in every context that does.
\<close>

definition transparent_answer ::
  "bool \<Rightarrow> ('w \<Rightarrow> 'v) \<Rightarrow> 'p new_struct \<Rightarrow> ('p, 'w) resolver \<Rightarrow> string \<Rightarrow> 'v \<Rightarrow> go_map \<Rightarrow> 'v resolution_detail \<Rightarrow> bool" where
  "transparent_answer initialised conv newStruct resolver key dflt ctx d \<longleftrightarrow>
     payload d = payload (uncached_resolve initialised conv newStruct resolver key dflt ctx) \<or>
     initialised \<and> (\<exists>err. newStruct ctx = Inl err) \<and> Reason (Detail d) = ReasonCached \<and> (\<exists>ctx' p. newStruct ctx' = Inr p) \<and>
       (\<forall>dflt' ctx' p. newStruct ctx' = Inr p \<longrightarrow>
          payload d = payload (uncached_resolve True conv newStruct resolver key dflt' ctx'))"

lemma detail_of_response_static:
  "resp_Value r \<noteq> None \<Longrightarrow> resp_Reason r = StaticReason \<Longrightarrow>
   detail_of_response conv dflt r = detail_of_response conv dflt' r"
  by (auto simp: detail_of_response_def isDefaultOrDisabledFallback_def reason_defs Let_def)

locale rpc_cache = flag_cache ops view
  for ops :: "(string, cached, 'l) Cache" and view :: "'l \<Rightarrow> string \<Rightarrow> cached option"
begin

lemma lookup_spec:
  assumes "cache_lookup ops unwrap s key = Return (s', hit)"
  shows "cv_view view (cache_of (svc_cache s')) = cv_view view (cache_of (svc_cache s))"
    and "svc_client s' = svc_client s"
    and "hit = (if IsEnabled (svc_cache s)
                then Option.bind (cv_view view (cache_of (svc_cache s)) key) unwrap else None)"
  using assms by (auto simp: cache_lookup_def dest: cv_Get_view split: if_splits)

lemma hit_entry:
  assumes "cache_lookup ops unwrap s key = Return (s', hit)" "hit = Some x"
  shows "\<exists>c. cv_view view (cache_of (svc_cache s)) key = Some c \<and> unwrap c = Some x"
proof -
  have "Option.bind (cv_view view (cache_of (svc_cache s)) key) unwrap = Some x"
    using lookup_spec(3) [OF assms(1)] assms(2) by (simp split: if_splits)
  then show ?thesis by (simp add: bind_eq_Some_conv)
qed

lemma store_all:
  assumes "cache_store ops wrap s key d = Return s'" "cache_all view P s"
    "Reason (Detail d) = StaticReason \<Longrightarrow> P key (wrap d)"
  shows "cache_all view P s'"
proof (cases "IsEnabled (svc_cache s) \<and> Reason (Detail d) = StaticReason")
  case True
  with assms(1) obtain c where c: "cv_Add ops key (wrap d) (cache_of (svc_cache s)) = Return c"
    "s' = s\<lparr>svc_cache := (svc_cache s)\<lparr>cache_of := c\<rparr>\<rparr>"
    by (auto simp: cache_store_def)
  show ?thesis unfolding cache_all_def
  proof (intro allI impI)
    fix k e
    assume "cv_view view (cache_of (svc_cache s')) k = Some e"
    then have "cv_view view c k = Some e" by (simp add: c)
    from cv_Add_entry [OF c(1) this] show "P k e"
      using assms(2,3) True by (auto simp: cache_all_def)
  qed
qed (use assms in \<open>auto simp: cache_store_def\<close>)

lemma resolve_all:
  assumes res: "resolve_flag ops unwrap wrap conv newStruct resolver s key dflt ctx = Return (s', d)"
    and all: "cache_all view P s"
    and new: "\<And>r. rpc_resolve newStruct resolver key ctx = Inr r \<Longrightarrow> resp_Reason r = StaticReason
      \<Longrightarrow> P key (wrap (detail_of_response conv dflt r))"
  shows "cache_all view P s'"
proof -
  obtain s1 hit where 1: "cache_lookup ops unwrap s key = Return (s1, hit)"
    using res by (auto simp: resolve_flag_def)
  have all1: "cache_all view P s1"
    using all cache_all_cong [OF lookup_spec(1) [OF 1]] by blast
  show ?thesis
  proof (cases "hit = None \<and> isInitialised s1 \<and> (\<exists>r. rpc_resolve newStruct resolver key ctx = Inr r)")
    case True
    then obtain r where r: "hit = None" "isInitialised s1" "rpc_resolve newStruct resolver key ctx = Inr r"
      by blast
    with res 1 have "cache_store ops wrap s1 key (detail_of_response conv dflt r) = Return s'"
      by (auto simp: resolve_flag_def Let_def)
    then show ?thesis
      by (rule store_all [OF _ all1]) (rule new [OF r(3)], simp add: detail_of_response_def Let_def)
  next
    case False
    then have "s' = s1" using res 1
      by (cases hit; cases "rpc_resolve newStruct resolver key ctx") (auto simp: resolve_flag_def split: if_splits)
    with all1 show ?thesis by simp
  qed
qed

lemma resolve_static:
  assumes "resolve_flag ops unwrap wrap conv newStruct resolver s key dflt ctx = Return (s', d)"
    "cache_all view (\<lambda>k. static_result) s" "\<And>x. cached_detail (wrap x) = Detail x"
  shows "cache_all view (\<lambda>k. static_result) s'"
  using assms(1,2) by (rule resolve_all)
    (simp add: static_result_def assms(3) detail_of_response_def Let_def)

text \<open>An error is only ever reported together with the caller's default value.\<close>

lemma resolve_error_default:
  assumes res: "resolve_flag ops unwrap wrap conv newStruct resolver s key dflt ctx = Return (s', d)"
    and all: "cache_all view (\<lambda>k. static_result) s"
    and unwrap: "\<And>c x. unwrap c = Some x \<Longrightarrow> cached_detail c = Detail x"
    and err: "has_error (Detail d)"
  shows "Value d = dflt"
proof -
  obtain s1 hit where 1: "cache_lookup ops unwrap s key = Return (s1, hit)"
    using res by (auto simp: resolve_flag_def)
  show ?thesis
  proof (cases hit)
    case None
    with res 1 err show ?thesis
      by (cases "rpc_resolve newStruct resolver key ctx")
        (auto simp: resolve_flag_def error_detail_def detail_of_response_def Let_def has_error_def
          split: if_splits)
  next
    case (Some x)
    then obtain c where "cv_view view (cache_of (svc_cache s)) key = Some c" "unwrap c = Some x"
      using hit_entry [OF 1] by blast
    then have "ResolutionError (Detail x) = NoResolutionError"
      using cache_allD [OF all, of key c] unwrap [of c x] by (simp add: static_result_def)
    moreover have "d = x\<lparr>Detail := (Detail x)\<lparr>Reason := ReasonCached\<rparr>\<rparr>"
      using res 1 Some by (simp add: resolve_flag_def)
    ultimately show ?thesis using err by (simp add: has_error_def)
  qed
qed

text \<open>The cache agrees with the server: an entry is what the server answers in any context.\<close>

lemma resolve_transparent:
  assumes res: "resolve_flag ops unwrap wrap conv newStruct resolver s key dflt ctx = Return (s', d)"
    and coh: "cache_all view (coherent unwrap conv newStruct resolver) s"
    and stable: "static_stable newStruct resolver"
    and tag: "\<And>x. unwrap (wrap x) = Some x"
    and client: "svc_client s"
  shows "transparent_answer True conv newStruct resolver key dflt ctx d"
    and "cache_all view (coherent unwrap conv newStruct resolver) s'"
    and "svc_client s'"
proof -
  obtain s1 hit where 1: "cache_lookup ops unwrap s key = Return (s1, hit)"
    using res by (auto simp: resolve_flag_def)
  have c1: "svc_client s1" using lookup_spec(2) [OF 1] client by simp
  show "transparent_answer True conv newStruct resolver key dflt ctx d"
  proof (cases hit)
    case None
    with res 1 c1 show ?thesis
      by (cases "rpc_resolve newStruct resolver key ctx")
        (auto simp: transparent_answer_def resolve_flag_def uncached_resolve_def isInitialised_def Let_def)
  next
    case (Some x)
    then obtain c where c: "cv_view view (cache_of (svc_cache s)) key = Some c" "unwrap c = Some x"
      using hit_entry [OF 1] by blast
    from cache_allD [OF coh c(1)] c(2) have entry: "\<exists>ctx p. newStruct ctx = Inr p"
      "\<And>dflt ctx p. newStruct ctx = Inr p \<Longrightarrow> uncached_resolve True conv newStruct resolver key dflt ctx = x"
      by (auto simp: coherent_def)
    moreover have d: "d = x\<lparr>Detail := (Detail x)\<lparr>Reason := ReasonCached\<rparr>\<rparr>"
      using res 1 Some by (simp add: resolve_flag_def)
    then have "payload d = payload x" "Reason (Detail d) = ReasonCached" by (simp_all add: payload_def)
    ultimately show ?thesis by (cases "newStruct ctx") (auto simp: transparent_answer_def)
  qed
  show "cache_all view (coherent unwrap conv newStruct resolver) s'"
  proof (rule resolve_all [OF res coh])
    fix r
    assume r: "rpc_resolve newStruct resolver key ctx = Inr r" "resp_Reason r = StaticReason"
    with stable have v: "resp_Value r \<noteq> None"
      and same: "\<And>ctx' p. newStruct ctx' = Inr p \<Longrightarrow> rpc_resolve newStruct resolver key ctx' = Inr r"
      unfolding static_stable_def by blast+
    have "\<exists>p. newStruct ctx = Inr p" using r(1) by (auto simp: rpc_resolve_def split: sum.splits)
    then show "coherent unwrap conv newStruct resolver key (wrap (detail_of_response conv dflt r))"
      unfolding coherent_def tag using same v r(2)
      by (auto simp: uncached_resolve_def detail_of_response_static)
  qed
  show "svc_client s'"
    using res 1 c1 by (cases hit; cases "rpc_resolve newStruct resolver key ctx")
      (auto simp: resolve_flag_def cache_store_def Let_def split: if_splits)
qed

text \<open>Before \<^verbatim>\<open>Init\<close> nothing comes into an empty cache, and every call answers that the client is not ready.\<close>

lemma resolve_before_init:
  assumes res: "resolve_flag ops unwrap wrap conv newStruct resolver s key dflt ctx = Return (s', d)"
    and empty: "cv_view view (cache_of (svc_cache s)) = Map.empty" and client: "\<not> svc_client s"
  shows "transparent_answer False conv newStruct resolver key dflt ctx d"
    and "cv_view view (cache_of (svc_cache s')) = Map.empty" and "\<not> svc_client s'"
proof -
  obtain s1 hit where 1: "cache_lookup ops unwrap s key = Return (s1, hit)"
    using res by (auto simp: resolve_flag_def)
  from lookup_spec [OF 1] empty client have "hit = None" "\<not> svc_client s1"
    "cv_view view (cache_of (svc_cache s1)) = Map.empty" by simp_all
  with res 1 show "transparent_answer False conv newStruct resolver key dflt ctx d"
    "cv_view view (cache_of (svc_cache s')) = Map.empty" "\<not> svc_client s'"
    by (auto simp: resolve_flag_def isInitialised_def transparent_answer_def uncached_resolve_def)
qed

end

interpretation mem_rpc: rpc_cache mem_ops mem_values
  by unfold_locales

section \<open>Transparency over a sequence of calls\<close>

fun boolean_calls ::
  "(string, cached, 'l) Cache \<Rightarrow> 'p new_struct \<Rightarrow> ('p, bool) resolver \<Rightarrow> (string \<times> bool \<times> go_map) list
   \<Rightarrow> 'l Service \<Rightarrow> bool resolution_detail list outcome" where
  "boolean_calls lru newStruct resolver [] s = Return []"
| "boolean_calls lru newStruct resolver ((key, dflt, ctx) # calls) s =
     bind_outcome (ResolveBoolean lru newStruct resolver s key dflt ctx)
       (\<lambda>(s', d). map_result ((#) d) (boolean_calls lru newStruct resolver calls s'))"

definition cache_agrees :: "('l \<Rightarrow> string \<Rightarrow> cached option) \<Rightarrow> 'p new_struct \<Rightarrow> ('p, bool) resolver \<Rightarrow> 'l Service \<Rightarrow> bool" where
  "cache_agrees view newStruct resolver s \<longleftrightarrow>
     (if svc_client s then cache_all view (coherent as_bool (\<lambda>b. b) newStruct resolver) s
      else cv_view view (cache_of (svc_cache s)) = Map.empty)"

lemma boolean_call_transparent:
  assumes "rpc_cache lru view" "static_stable newStruct resolver" "cache_agrees view newStruct resolver s"
    and "ResolveBoolean lru newStruct resolver s key dflt ctx = Return (s', d)"
  shows "transparent_answer (svc_client s) (\<lambda>b. b) newStruct resolver key dflt ctx d \<and>
    cache_agrees view newStruct resolver s' \<and> svc_client s' = svc_client s"
proof (cases "svc_client s")
  case True
  from rpc_cache.resolve_transparent [OF assms(1) assms(4) [unfolded ResolveBoolean_def] _ assms(2) _ True] assms(3) True
  show ?thesis by (simp add: cache_agrees_def)
next
  case False
  from rpc_cache.resolve_before_init [OF assms(1) assms(4) [unfolded ResolveBoolean_def] _ False] assms(3) False
  show ?thesis by (simp add: cache_agrees_def)
qed

lemma boolean_calls_transparent:
  assumes "rpc_cache lru view" "static_stable newStruct resolver"
    and "svc_ok s" "cache_agrees view newStruct resolver s"
  shows "\<exists>ds. boolean_calls lru newStruct resolver calls s = Return ds \<and>
    list_all2 (\<lambda>(key, dflt, ctx). transparent_answer (svc_client s) (\<lambda>b. b) newStruct resolver key dflt ctx) calls ds"
  using assms(3-)
proof (induction calls arbitrary: s)
  case (Cons call calls)
  obtain key dflt ctx where call: "call = (key, dflt, ctx)" by (cases call)
  have "\<exists>s' d. ResolveBoolean lru newStruct resolver s key dflt ctx = Return (s', d) \<and> svc_ok s'"
    unfolding ResolveBoolean_def by (rule resolve_flag_ok [OF Cons.prems(1)])
  then obtain s' d where res: "ResolveBoolean lru newStruct resolver s key dflt ctx = Return (s', d)"
    and ok: "svc_ok s'" by blast
  note tr = boolean_call_transparent [OF assms(1,2) Cons.prems(2) res]
  with Cons.IH [OF ok] obtain ds where "boolean_calls lru newStruct resolver calls s' = Return ds"
    "list_all2 (\<lambda>(key, dflt, ctx). transparent_answer (svc_client s) (\<lambda>b. b) newStruct resolver key dflt ctx) calls ds"
    by auto
  with res tr call show ?case by (intro exI [of _ "d # ds"]) simp
qed simp

text \<open>
  C1: The cache is transparent: with any cache that keeps its contract (the LRU library's or the
  in-memory one), started empty, and a server whose STATIC answers do not depend on the
  context, every call of a sequence of boolean evaluations returns the value, error, variant and
  metadata that asking the server each time would return, also before \<^verbatim>\<open>Init\<close>.  Only in a context that does not convert
  the answer may be the cached one instead of the conversion's error.
\<close>

theorem cache_transparent:
  assumes "rpc_cache lru view" "static_stable newStruct resolver"
    and "svc_ok s" "cv_view view (cache_of (svc_cache s)) = Map.empty"
  shows "\<exists>ds. boolean_calls lru newStruct resolver calls s = Return ds \<and>
    list_all2 (\<lambda>(key, dflt, ctx). transparent_answer (svc_client s) (\<lambda>b. b) newStruct resolver key dflt ctx) calls ds"
  using assms by (intro boolean_calls_transparent) (auto simp: cache_agrees_def cache_all_def)

definition demo_resolver :: "(go_map, bool) resolver" where
  "demo_resolver k p = (if k = ''on'' then
     Inr \<lparr>resp_Value = Some True, resp_Variant = Some ''v'', resp_Reason = StaticReason, resp_Metadata = None\<rparr>
     else Inl (ConnectError CodeNotFound ''no flag''))"

definition demo_service :: "(string, cached) InMemory Service" where
  "demo_service = (NewService (NewCacheService (\<lambda>n. Inl ''unused'') ''mem'' 10) 5)\<lparr>svc_client := True\<rparr>"

lemma demo_service_facts:
  "svc_ok demo_service" "svc_client demo_service"
  "cv_view mem_values (cache_of (svc_cache demo_service)) = Map.empty"
  "static_stable Inr demo_resolver"
  by (auto simp: demo_service_def svc_ok_def NewService_def service_ok_def NewCacheService_def
      cache_type_defs cv_view_eqs NewInMemory_def static_stable_def rpc_resolve_def demo_resolver_def
      split: if_splits)

definition demo_calls :: "(string \<times> bool \<times> go_map) list" where
  "demo_calls = [(''on'', False, None), (''on'', False, Some Map.empty), (''off'', True, None)]"

lemma demo_uncached:
  "Value (uncached_resolve True (\<lambda>b. b) Inr demo_resolver key dflt ctx) = (key = ''on'' \<or> dflt)"
  by (simp add: payload_def uncached_resolve_def rpc_resolve_def demo_resolver_def
      detail_of_response_def isDefaultOrDisabledFallback_def reason_defs derefString_def
      error_detail_def Let_def)

theorem cache_transparent_witness:
  "\<exists>ds. boolean_calls mem_ops Inr demo_resolver demo_calls demo_service = Return ds \<and>
    map Value ds = [True, True, True]"
proof -
  have "\<exists>ds. boolean_calls mem_ops Inr demo_resolver demo_calls demo_service = Return ds \<and>
    list_all2 (\<lambda>(key, dflt, ctx). transparent_answer (svc_client demo_service) (\<lambda>b. b) Inr demo_resolver key dflt ctx) demo_calls ds"
    by (rule cache_transparent [OF mem_rpc.rpc_cache_axioms demo_service_facts(4) demo_service_facts(1,3)])
  then show ?thesis
    by (auto simp: demo_calls_def list_all2_Cons1 transparent_answer_def payload_def demo_uncached demo_service_facts(2))
qed

text \<open>
  A cache hit hides a context that does not convert: the first call of a flag in such a context is a parse
  error, the same call after another context has filled the cache is not.
\<close>

lemma hit_hides_parse_error:
  fixes newStruct :: "go_map \<Rightarrow> string + go_map"
  assumes "newStruct = (\<lambda>m. if m = None then Inl ''bad'' else Inr m)"
  shows "\<exists>s0 s1 s2 d1 d2 d3. ResolveBoolean mem_ops newStruct demo_resolver demo_service ''on'' False None = Return (s0, d1) \<and>
     ResolveBoolean mem_ops newStruct demo_resolver demo_service ''on'' False (Some Map.empty) = Return (s1, d2) \<and>
     ResolveBoolean mem_ops newStruct demo_resolver s1 ''on'' False None = Return (s2, d3) \<and>
     has_code (ResolutionError (Detail d1)) ParseErrorCode \<and> \<not> Value d1 \<and> \<not> has_error (Detail d3) \<and> Value d3"
  by (simp add: assms ResolveBoolean_def resolve_flag_def cache_lookup_def cache_store_def demo_service_def NewService_def
      NewCacheService_def cache_type_defs IsEnabled_def rpc_resolve_def demo_resolver_def isInitialised_def
      error_detail_def detail_of_response_def isDefaultOrDisabledFallback_def reason_defs derefString_def Let_def has_error_def
      mem_defs)

end
