(* ===== verification/Flagd_Stream_Correct.thy ===== *)
theory Flagd_Stream_Correct
  imports Flagd_Rpc_Correct
begin

text \<open>
  The event side of flagd's rpc service: what a configuration change does to the cache and which
  event it sends, and the event-stream loop: it never panics, it never leaves \<^verbatim>\<open>Init\<close> waiting,
  how many attempts it makes and how long it pauses between them.
\<close>

section \<open>Configuration changes\<close>

lemma remove_keys_ok:
  "live_cache (cache_of (svc_cache s)) \<Longrightarrow>
   \<exists>c. remove_keys lru ks s = Return (s\<lparr>svc_cache := (svc_cache s)\<lparr>cache_of := c\<rparr>\<rparr>) \<and> live_cache c"
proof (induction ks arbitrary: s)
  case Nil
  then show ?case by (intro exI [of _ "cache_of (svc_cache s)"]) simp
next
  case (Cons k ks)
  obtain c where c: "cv_Remove lru k (cache_of (svc_cache s)) = Return c"
    using cv_ops_live(3) [OF Cons.prems] by (metis returns_def)
  then have live: "live_cache c" by (rule cv_ops_keep_live(3))
  then have "\<exists>c'. remove_keys lru ks (s\<lparr>svc_cache := (svc_cache s)\<lparr>cache_of := c\<rparr>\<rparr>) =
      Return (s\<lparr>svc_cache := (svc_cache s)\<lparr>cache_of := c'\<rparr>\<rparr>) \<and> live_cache c'"
    using Cons.IH [of "s\<lparr>svc_cache := (svc_cache s)\<lparr>cache_of := c\<rparr>\<rparr>"] by simp
  with c show ?case by simp
qed

lemma purge_cache_ok:
  assumes "live_cache (cache_of (svc_cache s))"
  shows "\<exists>c. purge_cache lru s = Return (s\<lparr>svc_cache := (svc_cache s)\<lparr>cache_of := c\<rparr>\<rparr>) \<and> live_cache c"
proof -
  obtain c where "cv_Purge lru (cache_of (svc_cache s)) = Return c"
    using cv_ops_live(4) [OF assms] by (metis returns_def)
  then show ?thesis by (auto simp: purge_cache_def intro: cv_ops_keep_live(4))
qed

context rpc_cache begin

lemma remove_keys_view:
  "remove_keys ops ks s = Return s' \<Longrightarrow>
   cv_view view (cache_of (svc_cache s')) =
     (\<lambda>k. if k \<in> set ks then None else cv_view view (cache_of (svc_cache s)) k)"
proof (induction ks arbitrary: s)
  case (Cons k ks)
  then obtain c where c: "cv_Remove ops k (cache_of (svc_cache s)) = Return c"
    and r: "remove_keys ops ks (s\<lparr>svc_cache := (svc_cache s)\<lparr>cache_of := c\<rparr>\<rparr>) = Return s'" by auto
  from Cons.IH [OF r] show ?case by (auto simp: cv_Remove_view [OF c] fun_eq_iff)
qed (simp add: fun_eq_iff)

lemma change_view:
  assumes "svc_ok s" "IsEnabled (svc_cache s)" "m ''flags'' = Some (VMap flags)"
    "set (order flags) = dom flags"
  shows "\<exists>s'. handleConfigurationChangeEvent ops order False False (Some m) s = Return s' \<and>
    cv_view view (cache_of (svc_cache s')) =
      (\<lambda>k. if k \<in> dom flags then None else cv_view view (cache_of (svc_cache s)) k) \<and>
    svc_events s' = svc_events s @ [\<lparr>EventType = EvConfigChange, EventMessage = ''flags changed'',
      FlagChanges = replicate (length (order flags)) [] @ order flags\<rparr>]"
proof -
  obtain c where r: "remove_keys ops (order flags) s = Return (s\<lparr>svc_cache := (svc_cache s)\<lparr>cache_of := c\<rparr>\<rparr>)"
    using remove_keys_ok [OF svc_ok_live [OF assms(1,2)]] by blast
  from remove_keys_view [OF r] assms r show ?thesis
    by (simp add: handleConfigurationChangeEvent_def sendEvent_def Let_def)
qed

end

text \<open>
  C15: A configuration change that names its flags removes exactly those flags from the cache and
  keeps every other entry.  The event sent lists the flags after as many empty strings as there
  are flags.
\<close>

theorem config_change_invalidates:
  assumes "rpc_cache lru view" "range_order order" "finite (dom flags)"
    "svc_ok s" "IsEnabled (svc_cache s)" "m ''flags'' = Some (VMap flags)"
  shows "\<exists>s' ks. handleConfigurationChangeEvent lru order False False (Some m) s = Return s' \<and>
    cv_view view (cache_of (svc_cache s')) =
      (\<lambda>k. if k \<in> dom flags then None else cv_view view (cache_of (svc_cache s)) k) \<and>
    set ks = dom flags \<and> distinct ks \<and>
    svc_events s' = svc_events s @ [\<lparr>EventType = EvConfigChange, EventMessage = ''flags changed'',
      FlagChanges = replicate (card (dom flags)) [] @ ks\<rparr>]"
proof -
  have ks: "set (order flags) = dom flags" "distinct (order flags)"
    using range_orderD [OF assms(2,3)] by auto
  have len: "card (dom flags) = length (order flags)"
    using distinct_card [OF ks(2)] ks(1) by simp
  note view = rpc_cache.change_view [where m = m and flags = flags and order = order,
      OF assms(1,4,5,6) ks(1)]
  then obtain s' where "handleConfigurationChangeEvent lru order False False (Some m) s = Return s'"
    "cv_view view (cache_of (svc_cache s')) =
      (\<lambda>k. if k \<in> dom flags then None else cv_view view (cache_of (svc_cache s)) k)"
    "svc_events s' = svc_events s @ [\<lparr>EventType = EvConfigChange, EventMessage = ''flags changed'',
      FlagChanges = replicate (length (order flags)) [] @ order flags\<rparr>]" by blast
  with ks show ?thesis unfolding len by (intro exI [of _ s'] exI [of _ "order flags"]) simp
qed

theorem config_change_invalidates_witness:
  "\<exists>s' ks. handleConfigurationChangeEvent mem_ops some_order False False
      (Some [''flags'' \<mapsto> VMap [''a'' \<mapsto> VNil]]) demo_service = Return s' \<and>
    set ks = {''a''} \<and> svc_events s' = [\<lparr>EventType = EvConfigChange, EventMessage = ''flags changed'',
      FlagChanges = [[]] @ ks\<rparr>]"
proof -
  have e: "IsEnabled (svc_cache demo_service)" "svc_events demo_service = []"
    by (simp_all add: demo_service_def NewService_def NewCacheService_def cache_type_defs IsEnabled_def)
  have m: "[''flags'' \<mapsto> VMap [''a'' \<mapsto> VNil]] ''flags'' = Some (VMap [''a'' \<mapsto> VNil])" by simp
  have fin: "finite (dom [''a'' \<mapsto> VNil])" by simp
  from config_change_invalidates [where m = "[''flags'' \<mapsto> VMap [''a'' \<mapsto> VNil]]",
      OF mem_rpc.rpc_cache_axioms range_order_some_order fin demo_service_facts(1) e(1) m]
  show ?thesis by (auto simp: e(2))
qed

text \<open>
  With the cache disabled, no sequence of messages on the event stream makes the service send
  a configuration-change event: the provider's listeners never learn of a change.
\<close>

theorem no_change_event_without_cache:
  assumes "\<not> IsEnabled (svc_cache s)"
  shows "\<exists>s' b evs. receive_loop lru order msgs s = Return (s', b) \<and>
    svc_events s' = svc_events s @ evs \<and> (\<forall>e \<in> set evs. EventType e = EvReady)"
  using assms
proof (induction msgs arbitrary: s)
  case (Cons m ms)
  let ?s = "s\<lparr>svc_retryCounter := retry_reset (svc_retryCounter s)\<rparr>"
  have off: "\<not> IsEnabled (svc_cache ?s)" using Cons.prems by simp
  obtain msg dropped where m: "m = (msg, dropped)" by (cases m)
  show ?case
  proof (cases msg)
    case ReadyMsg
    let ?t = "handleReadyEvent dropped dropped ?s"
    have t: "\<exists>es. svc_events ?t = svc_events s @ es \<and> (\<forall>e \<in> set es. EventType e = EvReady)"
      "svc_cache ?t = svc_cache s" by (cases dropped; simp add: handleReadyEvent_def sendEvent_def)+
    then obtain s' b evs where "receive_loop lru order ms ?t = Return (s', b)"
      "svc_events s' = svc_events ?t @ evs" "\<forall>e \<in> set evs. EventType e = EvReady"
      using Cons.IH [of ?t] Cons.prems by auto
    moreover from t(1) obtain es where "svc_events ?t = svc_events s @ es" "\<forall>e \<in> set es. EventType e = EvReady" by blast
    ultimately show ?thesis using ReadyMsg m by (intro exI [of _ s'] exI [of _ b] exI [of _ "es @ evs"]) (auto simp: Let_def)
  qed (use Cons.IH [OF off] off m in \<open>auto simp: handleConfigurationChangeEvent_def Let_def\<close>)
qed (auto intro: exI [of _ False])

theorem no_change_event_without_cache_witness:
  "\<exists>s' b. receive_loop (undefined :: (string, cached, unit) Cache) some_order
      [(ConfigurationChange (Some [''flags'' \<mapsto> VMap [''a'' \<mapsto> VNil]]), False), (ReadyMsg, False)]
      (NewService \<lparr>cacheEnabled = False, cache_of = NoCache\<rparr> 5) = Return (s', b) \<and>
    (\<forall>e \<in> set (svc_events s'). EventType e = EvReady)"
proof -
  have "\<not> IsEnabled (svc_cache (NewService \<lparr>cacheEnabled = False, cache_of = NoCache\<rparr> 5 :: unit Service))"
    by (simp add: NewService_def IsEnabled_def)
  from no_change_event_without_cache [OF this, of undefined some_order
      "[(ConfigurationChange (Some [''flags'' \<mapsto> VMap [''a'' \<mapsto> VNil]]), False), (ReadyMsg, False)]"]
  show ?thesis by (auto simp: NewService_def)
qed

section \<open>The loop\<close>

lemma handleChange_ok:
  assumes "svc_ok s"
  shows "\<exists>s'. handleConfigurationChangeEvent lru order x y d s = Return s' \<and> svc_ok s' \<and>
    svc_streamReady s' = svc_streamReady s \<and> svc_retryCounter s' = svc_retryCounter s"
proof (cases "IsEnabled (svc_cache s)")
  case True
  note live = svc_ok_live [OF assms True]
  obtain c where p: "purge_cache lru s = Return (s\<lparr>svc_cache := (svc_cache s)\<lparr>cache_of := c\<rparr>\<rparr>)" "live_cache c"
    using purge_cache_ok [OF live] by blast
  have r: "\<exists>c. remove_keys lru ks s = Return (s\<lparr>svc_cache := (svc_cache s)\<lparr>cache_of := c\<rparr>\<rparr>) \<and> live_cache c" for ks
    using remove_keys_ok [OF live] by blast
  show ?thesis
  proof (cases "\<exists>m f. d = Some m \<and> m ''flags'' = Some (VMap f)")
    case True
    then obtain m f where "d = Some m" "m ''flags'' = Some (VMap f)" by blast
    moreover obtain c' where "remove_keys lru (order f) s = Return (s\<lparr>svc_cache := (svc_cache s)\<lparr>cache_of := c'\<rparr>\<rparr>)"
      "live_cache c'" using r by blast
    ultimately show ?thesis using \<open>IsEnabled (svc_cache s)\<close>
      by (simp add: handleConfigurationChangeEvent_def sendEvent_def svc_ok_set_cache Let_def)
  next
    case False
    then have "handleConfigurationChangeEvent lru order x y d s = purge_cache lru s"
      using True by (auto simp: handleConfigurationChangeEvent_def split: option.splits go_any.splits)
    with p show ?thesis by (simp add: svc_ok_set_cache)
  qed
qed (use assms in \<open>simp add: handleConfigurationChangeEvent_def\<close>)

lemma handleReady_simps [simp]:
  "svc_ok (handleReadyEvent a b s) = svc_ok s"
  "svc_streamReady (handleReadyEvent a b s) = svc_streamReady s"
  "svc_ok (sendEvent a b e s) = svc_ok s"
  "svc_streamReady (sendEvent a b e s) = svc_streamReady s"
  "svc_cache (sendEvent a b e s) = svc_cache s"
  "svc_retryCounter (sendEvent a b e s) = svc_retryCounter s"
  by (simp_all add: handleReadyEvent_def sendEvent_def)

lemma signal_simps [simp]:
  "svc_ok (signalStreamReady e s) = svc_ok s"
  "svc_cache (signalStreamReady e s) = svc_cache s"
  "svc_retryCounter (signalStreamReady e s) = svc_retryCounter s"
  "svc_events (signalStreamReady e s) = svc_events s"
  "\<exists>y. svc_streamReady (signalStreamReady e s) = Some y"
  by (auto simp: signalStreamReady_def svc_ok_def split: option.split)

lemma receive_loop_ok:
  "svc_ok s \<Longrightarrow> \<exists>s' b. receive_loop lru order ms s = Return (s', b) \<and> svc_ok s' \<and>
     svc_streamReady s' = svc_streamReady s"
proof (induction ms arbitrary: s)
  case (Cons m ms)
  let ?s = "s\<lparr>svc_retryCounter := retry_reset (svc_retryCounter s)\<rparr>"
  have ok: "svc_ok ?s" using Cons.prems by simp
  obtain msg dropped where m: "m = (msg, dropped)" by (cases m)
  show ?case
  proof (cases msg)
    case (ConfigurationChange d)
    obtain s1 where s1: "handleConfigurationChangeEvent lru order dropped dropped d ?s = Return s1"
      "svc_ok s1" "svc_streamReady s1 = svc_streamReady ?s"
      using handleChange_ok [OF ok] by blast
    with Cons.IH [OF s1(2)] ConfigurationChange m show ?thesis by (auto simp: Let_def)
  next
    case ReadyMsg
    with Cons.IH [of "handleReadyEvent dropped dropped ?s"] ok m show ?thesis by (auto simp: Let_def)
  qed (use Cons.IH [OF ok] ok m in \<open>auto simp: Let_def\<close>)
qed (auto intro: exI [of _ False])

text \<open>An attempt that opens the stream signals \<^verbatim>\<open>Init\<close> at once; one that does not leaves the service as it was.\<close>

lemma streamClient_ok:
  assumes "svc_ok s" "signaled \<longrightarrow> svc_streamReady s \<noteq> None"
  shows "\<exists>s' g e. streamClient lru order c a signaled s = Return (s', g, e) \<and> svc_ok s' \<and>
    (g \<longrightarrow> svc_streamReady s' \<noteq> None) \<and> (signaled \<longrightarrow> g \<and> svc_streamReady s' = svc_streamReady s) \<and>
    (case att_open a of
       Some err \<Rightarrow> e = Some err \<and> s' = s \<and> g = signaled
     | None \<Rightarrow> g \<and> (\<not> signaled \<and> svc_streamReady s = None \<longrightarrow> svc_streamReady s' = Some None))"
proof (cases "att_open a")
  case None
  let ?s = "if signaled then s else signalStreamReady None s"
  have ok: "svc_ok ?s" and r: "svc_streamReady ?s \<noteq> None" using assms by auto
  have new: "svc_streamReady ?s = Some None" if "\<not> signaled" "svc_streamReady s = None"
    using that by (simp add: signalStreamReady_def)
  obtain s1 b where s1: "receive_loop lru order (att_msgs a) ?s = Return (s1, b)" "svc_ok s1"
    "svc_streamReady s1 = svc_streamReady ?s" using receive_loop_ok [OF ok] by blast
  with None r new show ?thesis by (cases signaled; cases b; cases "att_err a") (auto simp: streamClient_def)
next
  case (Some e)
  with assms show ?thesis by (simp add: streamClient_def)
qed

lemma purge_step_ok:
  assumes "svc_ok s"
  shows "\<exists>s'. (if b \<and> IsEnabled (svc_cache s) then purge_cache lru s else Return s) = Return s' \<and> svc_ok s' \<and>
    svc_streamReady s' = svc_streamReady s \<and> svc_retryCounter s' = svc_retryCounter s"
proof (cases "b \<and> IsEnabled (svc_cache s)")
  case True
  with purge_cache_ok [OF svc_ok_live [OF assms], of lru] show ?thesis by (auto simp: svc_ok_set_cache)
qed (use assms in auto)

text \<open>One round of the loop: the three ways it goes on.\<close>

lemma startEventStream_round:
  assumes "snd (retry_retry (svc_retryCounter s))"
    "streamClient lru order c a g (s\<lparr>svc_retryCounter := fst (retry_retry (svc_retryCounter s))\<rparr>) = Return (s1, g1, e)"
    "(if e \<noteq> None \<and> IsEnabled (svc_cache s1) then purge_cache lru s1 else Return s1) = Return s2"
  shows "startEventStream lru order d (a # as) c g s =
    (if e \<noteq> None \<and> (c \<or> att_cancelled a)
     then Return (if g1 then s1 else signalStreamReady (Some cancel_text) s1, Cancelled)
     else if (c \<or> att_cancelled a \<or> att_done_sleep a) \<and> \<not> att_timer a
     then Return (if g1 then s2\<lparr>svc_retryCounter := fst (retry_sleep (svc_retryCounter s2))\<rparr>
                  else signalStreamReady (Some cancel_text) (s2\<lparr>svc_retryCounter := fst (retry_sleep (svc_retryCounter s2))\<rparr>), Cancelled)
     else startEventStream lru order d as (c \<or> att_cancelled a \<or> att_done_sleep a) g1
            (s2\<lparr>svc_retryCounter := fst (retry_sleep (svc_retryCounter s2))\<rparr>))"
  by (subst startEventStream.simps)
    (simp add: assms Let_def case_prod_beta disj_assoc del: not_None_eq split del: if_split cong: if_cong)

lemma startEventStream_exhausted:
  assumes "\<not> snd (retry_retry (svc_retryCounter s))" "Disable lru (svc_cache s) = Return c"
  shows "startEventStream lru order d as x g s = Return (sendEvent d d (error_event grpc_failed)
    (let s = s\<lparr>svc_retryCounter := fst (retry_retry (svc_retryCounter s)), svc_cache := c\<rparr>
     in if g then s else signalStreamReady (Some grpc_failed) s), Exhausted)"
  using assms by (subst startEventStream.simps) (simp add: Let_def case_prod_beta)

lemma startEventStream_waits:
  "snd (retry_retry (svc_retryCounter s)) \<Longrightarrow>
   startEventStream lru order d [] x g s = Return (s\<lparr>svc_retryCounter := fst (retry_retry (svc_retryCounter s))\<rparr>, Running)"
  by (subst startEventStream.simps) (simp add: Let_def case_prod_beta)

definition loop_result :: "bool \<Rightarrow> bool \<Rightarrow> 'l Service \<Rightarrow> 'l Service \<Rightarrow> loop_end \<Rightarrow> bool" where
  "loop_result dropped g s s' r \<longleftrightarrow> (g \<longrightarrow> svc_streamReady s' = svc_streamReady s) \<and>
     (r \<noteq> Running \<longrightarrow> svc_streamReady s' \<noteq> None) \<and>
     (r = Exhausted \<longrightarrow> \<not> IsEnabled (svc_cache s') \<and>
        (\<not> dropped \<longrightarrow> (\<exists>evs. svc_events s' = evs @ [error_event grpc_failed])))"

lemma exhausted_result:
  assumes "svc_ok s" "g \<longrightarrow> svc_streamReady s \<noteq> None" "\<not> snd (retry_retry (svc_retryCounter s))"
  shows "\<exists>s' r. startEventStream lru order d as x g s = Return (s', r) \<and> loop_result d g s s' r"
proof -
  obtain c where "Disable lru (svc_cache s) = Return c" "\<not> cacheEnabled c" "service_ok c"
    using service_ok_Disable assms(1) by (auto simp: svc_ok_def)
  with startEventStream_exhausted [OF assms(3)] assms(2) show ?thesis
    by (auto simp: loop_result_def Let_def IsEnabled_def sendEvent_def)
qed

lemma startEventStream_ok:
  "svc_ok s \<Longrightarrow> g \<longrightarrow> svc_streamReady s \<noteq> None \<Longrightarrow>
   \<exists>s' r. startEventStream lru order d as x g s = Return (s', r) \<and> loop_result d g s s' r"
proof (induction as arbitrary: s g x)
  case Nil
  show ?case
  proof (cases "snd (retry_retry (svc_retryCounter s))")
    case True
    then show ?thesis by (simp add: startEventStream_waits loop_result_def)
  qed (use exhausted_result [OF Nil] in blast)
next
  case (Cons a as)
  let ?s = "s\<lparr>svc_retryCounter := fst (retry_retry (svc_retryCounter s))\<rparr>"
  show ?case
  proof (cases "snd (retry_retry (svc_retryCounter s))")
    case True
    obtain s1 g1 e where 1: "streamClient lru order x a g ?s = Return (s1, g1, e)" "svc_ok s1"
      "g1 \<longrightarrow> svc_streamReady s1 \<noteq> None" "g \<longrightarrow> g1 \<and> svc_streamReady s1 = svc_streamReady s"
      using streamClient_ok [of ?s g lru order x a] Cons.prems by auto
    obtain s2 where 2: "(if e \<noteq> None \<and> IsEnabled (svc_cache s1) then purge_cache lru s1 else Return s1) = Return s2"
      "svc_ok s2" "svc_streamReady s2 = svc_streamReady s1" using purge_step_ok [OF 1(2)] by blast
    let ?s3 = "s2\<lparr>svc_retryCounter := fst (retry_sleep (svc_retryCounter s2))\<rparr>"
    have "\<exists>s' r. startEventStream lru order d as y g1 ?s3 = Return (s', r) \<and> loop_result d g1 ?s3 s' r" for y
      by (rule Cons.IH) (use 1 2 in auto)
    moreover have "loop_result d g1 ?s3 s' r \<Longrightarrow> loop_result d g s s' r" for s' r
      using 1(4) 2(3) by (auto simp: loop_result_def)
    ultimately have IH: "\<exists>s' r. startEventStream lru order d as y g1 ?s3 = Return (s', r) \<and> loop_result d g s s' r" for y
      by blast
    have over: "loop_result d g s (if g1 then u else signalStreamReady (Some cancel_text) u) Cancelled"
      if "svc_streamReady u = svc_streamReady s1" for u
      using 1(3,4) that by (auto simp: loop_result_def)
    show ?thesis unfolding startEventStream_round [OF True 1(1) 2(1)]
      using IH over [of s1] over [of ?s3] 2(3) by auto
  qed (use exhausted_result [OF Cons.prems] in blast)
qed

text \<open>
  What \<^verbatim>\<open>Init\<close> should receive when the environment offers the attempts \<open>as\<close> and \<open>n\<close> of them are
  allowed: nil from the first one that opens the stream, the context's error from one after which the context
  is cancelled, or the failure when all were refused; nothing yet otherwise.
\<close>

fun init_answer :: "nat \<Rightarrow> bool \<Rightarrow> attempt list \<Rightarrow> string option option" where
  "init_answer 0 cancelled as = Some (Some grpc_failed)"
| "init_answer (Suc n) cancelled [] = None"
| "init_answer (Suc n) cancelled (a # as) =
     (if att_open a = None then Some None
      else if cancelled \<or> att_cancelled a \<or> att_done_sleep a \<and> \<not> att_timer a then Some (Some cancel_text)
      else init_answer n (att_done_sleep a) as)"

text \<open>The attempts that are left.\<close>

definition retries_left :: "retryCounter \<Rightarrow> nat" where
  "retries_left c = nat (sint (maxRetries c) - sint (currentRetries c))"

definition counter_ok :: "retryCounter \<Rightarrow> bool" where
  "counter_ok c \<longleftrightarrow> 0 \<le> sint (currentRetries c) \<and> sint (currentRetries c) \<le> max 0 (sint (maxRetries c)) \<and>
     sint (maxRetries c) < 2 ^ 63 - 1"

lemma retry_counted:
  assumes "counter_ok c"
  shows "snd (retry_retry c) \<longleftrightarrow> retries_left c \<noteq> 0"
    "snd (retry_retry c) \<Longrightarrow> retries_left c = Suc (retries_left (fst (retry_retry c))) \<and> counter_ok (fst (retry_retry c))"
proof -
  have "in_int64 (sint (currentRetries c) + 1)" using assms by (auto simp: counter_ok_def in_int64_def)
  from sint_int64_of_int [OF this] have "sint (currentRetries c + 1) = sint (currentRetries c) + 1" by simp
  with assms show "snd (retry_retry c) \<longleftrightarrow> retries_left c \<noteq> 0"
    "snd (retry_retry c) \<Longrightarrow> retries_left c = Suc (retries_left (fst (retry_retry c))) \<and> counter_ok (fst (retry_retry c))"
    by (auto simp: retry_retry_def Let_def retries_left_def counter_ok_def)
qed

lemma sleep_counted: "retries_left (fst (retry_sleep c)) = retries_left c" "counter_ok (fst (retry_sleep c)) = counter_ok c"
  by (simp_all add: retry_sleep_def Let_def retries_left_def counter_ok_def)

lemma startEventStream_answer:
  "svc_ok s \<Longrightarrow> svc_streamReady s = None \<Longrightarrow> counter_ok (svc_retryCounter s) \<Longrightarrow>
   startEventStream lru order d as x False s = Return (s', r) \<Longrightarrow>
   svc_streamReady s' = init_answer (retries_left (svc_retryCounter s)) x as"
proof (induction as arbitrary: s x)
  case Nil
  show ?case
  proof (cases "snd (retry_retry (svc_retryCounter s))")
    case True
    with Nil retry_counted [OF Nil.prems(3)] show ?thesis by (auto simp: startEventStream_waits)
  next
    case False
    obtain c where "Disable lru (svc_cache s) = Return c"
      using service_ok_Disable Nil.prems(1) by (auto simp: svc_ok_def)
    from startEventStream_exhausted [OF False this] Nil False retry_counted(1) [OF Nil.prems(3)] show ?thesis
      by (auto simp: Let_def signalStreamReady_def)
  qed
next
  case (Cons a as)
  let ?s = "s\<lparr>svc_retryCounter := fst (retry_retry (svc_retryCounter s))\<rparr>"
  show ?case
  proof (cases "snd (retry_retry (svc_retryCounter s))")
    case True
    note left = retry_counted(2) [OF Cons.prems(3) True]
    obtain s1 g1 e where 1: "streamClient lru order x a False ?s = Return (s1, g1, e)" "svc_ok s1"
      "case att_open a of Some err \<Rightarrow> e = Some err \<and> s1 = ?s \<and> \<not> g1 | None \<Rightarrow> g1 \<and> svc_streamReady s1 = Some None"
      using streamClient_ok [of ?s False lru order x a] Cons.prems by (auto split: option.splits)
    obtain s2 where 2: "(if e \<noteq> None \<and> IsEnabled (svc_cache s1) then purge_cache lru s1 else Return s1) = Return s2"
      "svc_ok s2" "svc_streamReady s2 = svc_streamReady s1" "svc_retryCounter s2 = svc_retryCounter s1"
      using purge_step_ok [OF 1(2)] by blast
    let ?s3 = "s2\<lparr>svc_retryCounter := fst (retry_sleep (svc_retryCounter s2))\<rparr>"
    note round = Cons.prems(4) [unfolded startEventStream_round [OF True 1(1) 2(1)]]
    show ?thesis
    proof (cases "att_open a")
      case None
      with 1(3) have g1: "g1" "svc_streamReady s1 = Some None" by simp_all
      have "svc_streamReady s' = Some None"
        if "startEventStream lru order d as y True ?s3 = Return (s', r)" for y
        using startEventStream_ok [of ?s3 True lru order d as y] that 2 g1(2) by (auto simp: loop_result_def)
      with round g1 2(3) None left show ?thesis by (auto split: if_splits)
    next
      case (Some err)
      with 1(3) have g1: "\<not> g1" "e \<noteq> None" "s1 = ?s" by simp_all
      have "svc_streamReady s' = init_answer (retries_left (svc_retryCounter ?s3)) y as"
        if "startEventStream lru order d as y False ?s3 = Return (s', r)" for y
        by (rule Cons.IH [OF _ _ _ that]) (use 2 g1(3) Cons.prems(2) left in \<open>simp_all add: sleep_counted\<close>)
      with round g1 2 Some left Cons.prems(2) show ?thesis
        by (auto simp: signalStreamReady_def sleep_counted split: if_splits)
    qed
  next
    case False
    obtain c where "Disable lru (svc_cache s) = Return c"
      using service_ok_Disable Cons.prems(1) by (auto simp: svc_ok_def)
    from startEventStream_exhausted [OF False this] Cons.prems False retry_counted(1) [OF Cons.prems(3)] show ?thesis
      by (auto simp: Let_def signalStreamReady_def)
  qed
qed



section \<open>Retries\<close>

text \<open>An attempt that cannot open the stream, under a context that stays alive.\<close>

definition refused :: "string \<Rightarrow> attempt" where
  "refused e = \<lparr>att_open = Some e, att_msgs = [], att_err = None, att_done = False,
     att_done_sleep = False, att_timer = False, att_drop = False\<rparr>"

lemma retry_steps:
  "retry_retry c = (c\<lparr>currentRetries := currentRetries c + 1\<rparr>, sint (currentRetries c + 1) \<le> sint (maxRetries c))"
  "retry_sleep c = (c\<lparr>currentDelay := 2 * currentDelay c\<rparr>, currentDelay c)"
  by (simp_all add: retry_defs factor_def)

lemma sint_word_of_nat:
  assumes "int n < 2 ^ 63"
  shows "sint (word_of_nat n :: int64) = int n"
  using sint_of_nat_small [OF assms] by simp

text \<open>
  While every attempt is refused the loop takes one attempt per retry left and then gives up; the
  delay stays at zero throughout if it was zero at the start.
\<close>

lemma refused_loop:
  assumes "svc_ok s" "svc_retryCounter s = \<lparr>baseRetryDelay = b, maxRetries = of_nat m,
      currentDelay = 0, currentRetries = of_nat k\<rparr>" "k \<le> m" "int m + 1 < 2 ^ 63"
    "m - k \<le> length es"
  shows "\<exists>s'. startEventStream lru order d (map refused es) False g s = Return (s', Exhausted) \<and>
    svc_retryCounter s' = \<lparr>baseRetryDelay = b, maxRetries = of_nat m, currentDelay = 0,
      currentRetries = of_nat (Suc m)\<rparr>"
  using assms
proof (induction es arbitrary: s k g)
  case Nil
  then have k: "k = m" by simp
  obtain c where d: "Disable lru (svc_cache s) = Return c"
    using service_ok_Disable Nil.prems(1) by (auto simp: svc_ok_def)
  have "\<not> sint (word_of_nat m + 1 :: int64) \<le> sint (word_of_nat m :: int64)"
    using Nil.prems(4) sint_word_of_nat [of m] sint_word_of_nat [of "Suc m"] by (simp add: add.commute)
  with Nil.prems(2) k d show ?case
    by (simp add: startEventStream.simps retry_steps Let_def add.commute)
next
  case (Cons e es)
  obtain c where d: "Disable lru (svc_cache s) = Return c"
    using service_ok_Disable Cons.prems(1) by (auto simp: svc_ok_def)
  show ?case
  proof (cases "k = m")
    case True
    have "\<not> sint (word_of_nat m + 1 :: int64) \<le> sint (word_of_nat m :: int64)"
      using Cons.prems(4) sint_word_of_nat [of m] sint_word_of_nat [of "Suc m"] by (simp add: add.commute)
    with Cons.prems(2) True d show ?thesis
      by (simp add: startEventStream.simps retry_steps Let_def add.commute)
  next
    case False
    with Cons.prems have lt: "Suc k \<le> m" by simp
    then have le: "sint (word_of_nat k + 1 :: int64) \<le> sint (word_of_nat m :: int64)"
      using Cons.prems(4) sint_word_of_nat [of m] sint_word_of_nat [of "Suc k"] by (simp add: add.commute)
    let ?s1 = "s\<lparr>svc_retryCounter := \<lparr>baseRetryDelay = b, maxRetries = of_nat m, currentDelay = 0,
      currentRetries = of_nat k + 1\<rparr>\<rparr>"
    have ok1: "svc_ok ?s1" using Cons.prems(1) by simp
    obtain s2 where s2: "(if IsEnabled (svc_cache ?s1) then purge_cache lru ?s1 else Return ?s1) = Return s2"
      "svc_ok s2" "svc_retryCounter s2 = svc_retryCounter ?s1"
    proof (cases "IsEnabled (svc_cache ?s1)")
      case True
      with purge_cache_ok [OF svc_ok_live [OF ok1 True], of lru] that show thesis
        by (auto simp: svc_ok_set_cache)
    qed (use ok1 that in auto)
    let ?s3 = "s2\<lparr>svc_retryCounter := fst (retry_sleep (svc_retryCounter s2))\<rparr>"
    have step: "startEventStream lru order d (map refused (e # es)) False g s =
        startEventStream lru order d (map refused es) False g ?s3"
      using le s2(1) Cons.prems(2)
      by (cases "IsEnabled (svc_cache s)")
        (auto simp: startEventStream.simps [of _ _ _ "_ # _"] retry_steps att_cancelled_def refused_def streamClient_def
          Let_def case_prod_beta add.commute)
    have "\<exists>s'. startEventStream lru order d (map refused es) False g ?s3 = Return (s', Exhausted) \<and>
      svc_retryCounter s' = \<lparr>baseRetryDelay = b, maxRetries = of_nat m, currentDelay = 0,
        currentRetries = of_nat (Suc m)\<rparr>"
      by (rule Cons.IH [of _ "Suc k"])
        (use s2 Cons.prems lt in \<open>auto simp: retry_steps\<close>)
    with step show ?thesis by simp
  qed
qed

text \<open>
  A provider that cannot connect at first gives up after exactly maxRetries attempts, and
  every pause between them is zero: the delay starts at zero, doubling it keeps it at zero, and only a
  received message would set it to the base delay.
\<close>

theorem no_backoff_before_first_message:
  assumes "svc_ok (NewService c (of_nat m))" "int m + 1 < 2 ^ 63" "m \<le> length es"
  shows "(\<exists>s'. startEventStream lru order d (map refused es) False False (NewService c (of_nat m)) =
      Return (s', Exhausted) \<and> currentRetries (svc_retryCounter s') = of_nat (Suc m)) \<and>
    (\<forall>i < n. snd (snd (retry_rounds n (newRetryCounter (of_nat m))) ! i) = 0)"
proof -
  have "svc_retryCounter (NewService c (of_nat m)) = \<lparr>baseRetryDelay = defaultDelay,
      maxRetries = of_nat m, currentDelay = 0, currentRetries = of_nat 0\<rparr>"
    by (simp add: NewService_def newRetryCounter_def)
  from refused_loop [OF assms(1) this _ assms(2), of es lru order d False] assms(3)
  show ?thesis by (auto simp: retry_rounds_nth newRetryCounter_def)
qed

theorem no_backoff_before_first_message_witness:
  "(\<exists>s'. startEventStream mem_ops some_order False (map refused [''a'', ''b'', ''c'']) False False
      (NewService \<lparr>cacheEnabled = False, cache_of = NoCache\<rparr> (of_nat 3)) = Return (s', Exhausted)) \<and>
   snd (snd (retry_rounds 3 (newRetryCounter (of_nat 3))) ! 2) = 0"
proof -
  have "svc_ok (NewService \<lparr>cacheEnabled = False, cache_of = NoCache\<rparr> (of_nat 3) :: (string, cached) InMemory Service)"
    by (simp add: svc_ok_def NewService_def service_ok_def)
  from no_backoff_before_first_message [OF this, of "[''a'', ''b'', ''c'']" mem_ops some_order False 3]
  show ?thesis by auto
qed

lemma seconds_in_int64: "0 \<le> x \<Longrightarrow> x \<le> 8589934592 \<Longrightarrow> in_int64 (1000000000 * x)"
  by (simp add: in_int64_def)

text \<open>
  C37: After a message has reset the counter, the i-th pause is 2^i seconds for every i up to 33;
  the next doubling overflows the signed 64-bit duration.
\<close>

theorem backoff_doubles_until_overflow:
  assumes "i < n"
  shows "(i \<le> 33 \<longrightarrow> sint (snd (snd (retry_rounds n (retry_reset c)) ! i)) = 1000000000 * 2 ^ i) \<and>
    (i = 34 \<longrightarrow> sint (snd (snd (retry_rounds n (retry_reset c)) ! i)) < 0)"
proof -
  have d: "snd (snd (retry_rounds n (retry_reset c)) ! i) = 2 ^ i * (1000000000 :: int64)"
    using assms by (simp add: retry_rounds_nth retry_reset_def defaultDelay_def)
  have small: "sint (2 ^ i * (1000000000 :: int64)) = 1000000000 * 2 ^ i" if "i \<le> 33"
  proof -
    have "(2::int) ^ i \<le> 2 ^ 33" using that by (intro power_increasing) auto
    then have "in_int64 (1000000000 * 2 ^ i)" by (intro seconds_in_int64) simp_all
    from sint_int64_of_int [OF this] show ?thesis by (simp add: mult.commute)
  qed
  show ?thesis unfolding d using small by simp
qed

theorem backoff_doubles_until_overflow_witness:
  "sint (snd (snd (retry_rounds 40 (retry_reset (newRetryCounter 5))) ! 3)) = 8000000000 \<and>
   sint (snd (snd (retry_rounds 40 (retry_reset (newRetryCounter 5))) ! 34)) < 0"
  using backoff_doubles_until_overflow [of 3 40 "newRetryCounter 5"]
    backoff_doubles_until_overflow [of 34 40 "newRetryCounter 5"] by simp

end
