(* ===== verification/Flagd_Rpc_Shutdown.thy ===== *)
theory Flagd_Rpc_Shutdown
  imports Flagd_Stream_Correct
begin

text \<open>
  The event-stream goroutine of flagd's rpc service beside its environment
  (\<^verbatim>\<open>providers/flagd/pkg/service/rpc/service.go\<close>): the server, the application that reads the event
  channel, and \<^verbatim>\<open>Shutdown\<close>, which cancels the context and waits.  Each \<^verbatim>\<open>select\<close> of the goroutine is a
  place where it can be, the channel \<^verbatim>\<open>events\<close> has one place.  As connect documents, a cancelled context
  opens no stream and lets no more messages arrive on an open one.
\<close>

section \<open>Model\<close>

datatype after_send = BackToReceive | StreamFailed string | LoopOver

datatype loop_pc = NotStarted | AtRetry | AtConnect | AtReceive | AtSend of_event after_send | AtPause | LoopDone

record 'l rpc_machine =
  rm_service :: "'l Service"
  rm_signaled :: bool
  rm_pc :: loop_pc
  rm_cancelled :: bool
  rm_inbox :: "stream_msg list"
  rm_read :: nat

definition rpc_start :: "'l Service \<Rightarrow> 'l rpc_machine" where
  "rpc_start s = \<lparr>rm_service = s, rm_signaled = False, rm_pc = AtRetry, rm_cancelled = False, rm_inbox = [],
     rm_read = length (svc_events s)\<rparr>"

definition rpc_eventBuffer :: nat where "rpc_eventBuffer = 1"

definition rm_room :: "'l rpc_machine \<Rightarrow> bool" where
  "rm_room m \<longleftrightarrow> length (svc_events (rm_service m)) - rm_read m < rpc_eventBuffer"

text \<open>\<^verbatim>\<open>Shutdown\<close> before \<^verbatim>\<open>Init\<close> finds no cancel function and nothing to wait for.\<close>

definition rpc_Shutdown :: "'l rpc_machine \<Rightarrow> 'l rpc_machine" where
  "rpc_Shutdown m = (if rm_pc m = NotStarted then m else m\<lparr>rm_cancelled := True\<rparr>)"

definition rpc_Shutdown_returns :: "'l rpc_machine \<Rightarrow> bool" where
  "rpc_Shutdown_returns m \<longleftrightarrow> rm_pc m = NotStarted \<or> rm_pc m = LoopDone"

definition with_signal :: "string option \<Rightarrow> 'l rpc_machine \<Rightarrow> 'l Service" where
  "with_signal err m = (if rm_signaled m then rm_service m else signalStreamReady err (rm_service m))"

text \<open>What \<^verbatim>\<open>startEventStream\<close> does with the result of \<^verbatim>\<open>streamClient\<close>.\<close>

definition stream_over :: "(string, cached, 'l) Cache \<Rightarrow> string option \<Rightarrow> 'l rpc_machine \<Rightarrow> 'l rpc_machine outcome" where
  "stream_over lru err m =
     (if err \<noteq> None \<and> rm_cancelled m
      then Return (m\<lparr>rm_service := with_signal (Some cancel_text) m, rm_pc := LoopDone\<rparr>)
      else map_result
        (\<lambda>s. m\<lparr>rm_service := s\<lparr>svc_retryCounter := fst (retry_sleep (svc_retryCounter s))\<rparr>, rm_pc := AtPause\<rparr>)
        (if err \<noteq> None \<and> IsEnabled (svc_cache (rm_service m)) then purge_cache lru (rm_service m)
         else Return (rm_service m)))"

text \<open>A configuration change up to its \<^verbatim>\<open>sendEvent\<close>: the event, if it sends one.\<close>

definition config_change ::
  "(string, cached, 'l) Cache \<Rightarrow> ((string \<rightharpoonup> go_any) \<Rightarrow> string list) \<Rightarrow> (string \<rightharpoonup> go_any) option \<Rightarrow> 'l Service \<Rightarrow>
   ('l Service \<times> of_event option) outcome" where
  "config_change lru order dat s =
     (if \<not> IsEnabled (svc_cache s) then Return (s, None)
      else case dat of
        None \<Rightarrow> map_result (\<lambda>s. (s, None)) (purge_cache lru s)
      | Some m \<Rightarrow>
          (case m ''flags'' of
             Some (VMap flags) \<Rightarrow>
               (let ks = order flags
                in map_result (\<lambda>s. (s, Some \<lparr>EventType = EvConfigChange, EventMessage = ''flags changed'',
                       FlagChanges = replicate (length ks) [] @ ks\<rparr>)) (remove_keys lru ks s))
           | _ \<Rightarrow> map_result (\<lambda>s. (s, None)) (purge_cache lru s)))"

definition send_or_receive :: "'l rpc_machine \<Rightarrow> 'l Service \<times> of_event option \<Rightarrow> 'l rpc_machine" where
  "send_or_receive m = (\<lambda>(s, ev). m\<lparr>rm_service := s,
     rm_pc := (case ev of None \<Rightarrow> AtReceive | Some e \<Rightarrow> AtSend e BackToReceive)\<rparr>)"

fun handle_message ::
  "(string, cached, 'l) Cache \<Rightarrow> ((string \<rightharpoonup> go_any) \<Rightarrow> string list) \<Rightarrow> stream_msg \<Rightarrow> 'l rpc_machine \<Rightarrow> 'l rpc_machine outcome" where
  "handle_message lru order (ConfigurationChange dat) m =
     map_result (send_or_receive m) (config_change lru order dat (rm_service m))"
| "handle_message lru order ReadyMsg m =
     Return (send_or_receive m (rm_service m, Some \<lparr>EventType = EvReady, EventMessage = [], FlagChanges = []\<rparr>))"
| "handle_message lru order ShutdownMsg m = stream_over lru None m"
| "handle_message lru order KeepAliveMsg m = Return m"
| "handle_message lru order OtherMsg m = Return m"

definition after_event :: "(string, cached, 'l) Cache \<Rightarrow> after_send \<Rightarrow> 'l rpc_machine \<Rightarrow> 'l rpc_machine outcome" where
  "after_event lru k m = (case k of
       BackToReceive \<Rightarrow> Return (m\<lparr>rm_pc := AtReceive\<rparr>)
     | StreamFailed err \<Rightarrow> stream_over lru (Some err) m
     | LoopOver \<Rightarrow> Return (m\<lparr>rm_pc := LoopDone\<rparr>))"

inductive rpc_work :: "(string, cached, 'l) Cache \<Rightarrow> ((string \<rightharpoonup> go_any) \<Rightarrow> string list) \<Rightarrow> 'l rpc_machine \<Rightarrow> 'l rpc_machine \<Rightarrow> bool"
  for lru order where
  tries: "rm_pc m = AtRetry \<Longrightarrow> retry_retry (svc_retryCounter (rm_service m)) = (rc, True) \<Longrightarrow>
    rpc_work lru order m (m\<lparr>rm_service := (rm_service m)\<lparr>svc_retryCounter := rc\<rparr>, rm_pc := AtConnect\<rparr>)"
| gives_up: "rm_pc m = AtRetry \<Longrightarrow> retry_retry (svc_retryCounter (rm_service m)) = (rc, False) \<Longrightarrow>
    Disable lru (svc_cache (rm_service m)) = Return c \<Longrightarrow>
    m1 = m\<lparr>rm_service := (rm_service m)\<lparr>svc_retryCounter := rc, svc_cache := c\<rparr>\<rparr> \<Longrightarrow>
    rpc_work lru order m (m1\<lparr>rm_service := with_signal (Some grpc_failed) m1, rm_pc := AtSend (error_event grpc_failed) LoopOver\<rparr>)"
| cannot_connect: "rm_pc m = AtConnect \<Longrightarrow> stream_over lru (Some err) m = Return m' \<Longrightarrow> rpc_work lru order m m'"
| connects: "rm_pc m = AtConnect \<Longrightarrow> \<not> rm_cancelled m \<Longrightarrow>
    rpc_work lru order m (m\<lparr>rm_service := with_signal None m, rm_signaled := True, rm_pc := AtReceive, rm_inbox := []\<rparr>)"
| takes: "rm_pc m = AtReceive \<Longrightarrow> rm_inbox m = msg # msgs \<Longrightarrow>
    handle_message lru order msg (m\<lparr>rm_inbox := msgs, rm_service := (rm_service m)\<lparr>svc_retryCounter :=
      retry_reset (svc_retryCounter (rm_service m))\<rparr>\<rparr>) = Return m' \<Longrightarrow> rpc_work lru order m m'"
| stream_ends: "rm_pc m = AtReceive \<Longrightarrow> rm_inbox m = [] \<Longrightarrow> stream_over lru None m = Return m' \<Longrightarrow> rpc_work lru order m m'"
| stream_fails: "rm_pc m = AtReceive \<Longrightarrow>
    rpc_work lru order m (m\<lparr>rm_pc := AtSend (error_event (''stream error: '' @ err)) (StreamFailed err)\<rparr>)"
| sends: "rm_pc m = AtSend ev k \<Longrightarrow> rm_room m \<Longrightarrow>
    after_event lru k (m\<lparr>rm_service := (rm_service m)\<lparr>svc_events := svc_events (rm_service m) @ [ev]\<rparr>\<rparr>) = Return m' \<Longrightarrow>
    rpc_work lru order m m'"
| drops: "rm_pc m = AtSend ev k \<Longrightarrow> rm_cancelled m \<Longrightarrow> after_event lru k m = Return m' \<Longrightarrow> rpc_work lru order m m'"
| pause_over: "rm_pc m = AtPause \<Longrightarrow> rpc_work lru order m (m\<lparr>rm_pc := AtRetry\<rparr>)"
| pause_cancelled: "rm_pc m = AtPause \<Longrightarrow> rm_cancelled m \<Longrightarrow>
    rpc_work lru order m (m\<lparr>rm_service := with_signal (Some cancel_text) m, rm_pc := LoopDone\<rparr>)"

text \<open>The server, the reader of the event channel, and a call of \<^verbatim>\<open>Shutdown\<close>.\<close>

inductive rpc_env :: "'l rpc_machine \<Rightarrow> 'l rpc_machine \<Rightarrow> bool" where
  arrives: "rm_pc m = AtReceive \<or> rm_pc m = AtSend ev BackToReceive \<Longrightarrow> \<not> rm_cancelled m \<Longrightarrow>
    rpc_env m (m\<lparr>rm_inbox := rm_inbox m @ [msg]\<rparr>)"
| reads: "rm_read m < length (svc_events (rm_service m)) \<Longrightarrow> rpc_env m (m\<lparr>rm_read := rm_read m + 1\<rparr>)"
| shuts_down: "rpc_env m (rpc_Shutdown m)"

text \<open>A run with \<open>n\<close> steps of the goroutine.\<close>

inductive rpc_run :: "(string, cached, 'l) Cache \<Rightarrow> ((string \<rightharpoonup> go_any) \<Rightarrow> string list) \<Rightarrow> 'l rpc_machine \<Rightarrow> nat \<Rightarrow> 'l rpc_machine \<Rightarrow> bool"
  for lru order m where
  run_start: "rpc_run lru order m 0 m"
| run_work: "rpc_run lru order m n m' \<Longrightarrow> rpc_work lru order m' m'' \<Longrightarrow> rpc_run lru order m (Suc n) m''"
| run_env: "rpc_run lru order m n m' \<Longrightarrow> rpc_env m' m'' \<Longrightarrow> rpc_run lru order m n m''"

section \<open>The handlers of the sequential model\<close>

text \<open>A configuration change of the sequential model is the one here followed by its event.\<close>

lemma map_result_map: "map_result f (map_result g r) = map_result (\<lambda>x. f (g x)) r"
  by (cases r) simp_all

lemma map_result_same: "map_result (\<lambda>x. x) r = r"
  by (cases r) simp_all

lemma config_change_handler:
  "handleConfigurationChangeEvent lru order ctxDone dropped dat s =
     map_result (\<lambda>(s, ev). case ev of None \<Rightarrow> s | Some e \<Rightarrow> sendEvent ctxDone dropped e s) (config_change lru order dat s)"
  by (simp add: handleConfigurationChangeEvent_def config_change_def Let_def map_result_map map_result_same
      split: option.split go_any.split)

section \<open>What the goroutine keeps\<close>

text \<open>What no step of a handler touches: the channel and the flags; and the value for \<^verbatim>\<open>Init\<close> stays.\<close>

definition rpc_frame :: "'l rpc_machine \<Rightarrow> 'l rpc_machine \<Rightarrow> bool" where
  "rpc_frame m m' \<longleftrightarrow> svc_ok (rm_service m') \<and> svc_events (rm_service m') = svc_events (rm_service m) \<and>
     svc_streamReady (rm_service m') = svc_streamReady (rm_service m) \<and> rm_read m' = rm_read m \<and>
     rm_signaled m' = rm_signaled m \<and> rm_cancelled m' = rm_cancelled m"

definition ready_sent :: "'l Service \<Rightarrow> bool" where
  "ready_sent s \<longleftrightarrow> svc_streamReady s \<noteq> None"

lemma ready_sent_simps [simp]:
  "ready_sent (s\<lparr>svc_retryCounter := r\<rparr>) = ready_sent s" "ready_sent (s\<lparr>svc_events := e\<rparr>) = ready_sent s"
  "ready_sent (s\<lparr>svc_cache := c\<rparr>) = ready_sent s"
  by (simp_all add: ready_sent_def)

definition rpc_inv :: "'l rpc_machine \<Rightarrow> bool" where
  "rpc_inv m \<longleftrightarrow> rm_pc m \<noteq> NotStarted \<and> svc_ok (rm_service m) \<and> rm_read m \<le> length (svc_events (rm_service m)) \<and>
     length (svc_events (rm_service m)) \<le> rm_read m + rpc_eventBuffer \<and>
     (rm_signaled m \<longrightarrow> ready_sent (rm_service m)) \<and>
     (rm_pc m = LoopDone \<or> (\<exists>ev. rm_pc m = AtSend ev LoopOver) \<longrightarrow> ready_sent (rm_service m))"

lemma with_signal_simps [simp]:
  "svc_ok (with_signal e m) = svc_ok (rm_service m)" "svc_events (with_signal e m) = svc_events (rm_service m)"
  "ready_sent (with_signal e m) \<longleftrightarrow> (rm_signaled m \<longrightarrow> ready_sent (rm_service m))"
  by (auto simp: with_signal_def signalStreamReady_def svc_ok_def ready_sent_def split: option.split)

lemma purge_ok:
  assumes "svc_ok s" "IsEnabled (svc_cache s)"
  shows "\<exists>s'. purge_cache lru s = Return s' \<and> svc_ok s' \<and> svc_events s' = svc_events s \<and> svc_streamReady s' = svc_streamReady s"
  using purge_cache_ok [OF svc_ok_live [OF assms], of lru] svc_ok_set_cache by fastforce

lemma config_change_ok:
  assumes "svc_ok s"
  shows "\<exists>s' ev. config_change lru order dat s = Return (s', ev) \<and> svc_ok s' \<and> svc_events s' = svc_events s \<and>
    svc_streamReady s' = svc_streamReady s"
proof (cases "IsEnabled (svc_cache s)")
  case True
  obtain s1 where purge: "purge_cache lru s = Return s1" "svc_ok s1" "svc_events s1 = svc_events s" "svc_streamReady s1 = svc_streamReady s"
    using purge_ok [OF assms True, of lru] by blast
  have remove: "\<exists>s'. remove_keys lru ks s = Return s' \<and> svc_ok s' \<and> svc_events s' = svc_events s \<and> svc_streamReady s' = svc_streamReady s" for ks
    using remove_keys_ok [OF svc_ok_live [OF assms True], of lru ks] svc_ok_set_cache by fastforce
  show ?thesis
  proof (cases "\<exists>m flags. dat = Some m \<and> m ''flags'' = Some (VMap flags)")
    case True
    then obtain m flags where m: "dat = Some m" "m ''flags'' = Some (VMap flags)" by blast
    obtain s2 where "remove_keys lru (order flags) s = Return s2" "svc_ok s2" "svc_events s2 = svc_events s" "svc_streamReady s2 = svc_streamReady s"
      using remove by blast
    with m \<open>IsEnabled (svc_cache s)\<close> show ?thesis by (simp add: config_change_def Let_def)
  next
    case False
    then have "config_change lru order dat s = Return (s1, None)"
      using \<open>IsEnabled (svc_cache s)\<close> purge(1) by (auto simp: config_change_def split: option.split go_any.split)
    with purge show ?thesis by simp
  qed
qed (use assms in \<open>simp add: config_change_def\<close>)

lemma stream_over_ok:
  assumes "svc_ok (rm_service m)"
  shows "\<exists>m'. stream_over lru err m = Return m' \<and>
    (rm_pc m' = AtPause \<and> rpc_frame m m' \<and> (rm_cancelled m \<longrightarrow> err = None) \<or>
     rm_pc m' = LoopDone \<and> m' = m\<lparr>rm_service := with_signal (Some cancel_text) m, rm_pc := LoopDone\<rparr>)"
proof (cases "err \<noteq> None \<and> rm_cancelled m")
  case False
  obtain s where "(if err \<noteq> None \<and> IsEnabled (svc_cache (rm_service m)) then purge_cache lru (rm_service m) else Return (rm_service m)) = Return s"
      "svc_ok s" "svc_events s = svc_events (rm_service m)" "svc_streamReady s = svc_streamReady (rm_service m)"
    using purge_ok [OF assms, of lru] assms by (metis (full_types))
  with False show ?thesis by (simp add: stream_over_def rpc_frame_def) blast
qed (simp add: stream_over_def)

lemma handle_message_ok:
  assumes "svc_ok (rm_service m)" "rm_pc m = AtReceive"
  shows "\<exists>m'. handle_message lru order msg m = Return m' \<and> rpc_frame m m' \<and>
    (rm_pc m' = AtReceive \<or> (\<exists>ev. rm_pc m' = AtSend ev BackToReceive) \<or> rm_pc m' = AtPause) \<and>
    (rm_pc m' \<noteq> AtPause \<longrightarrow> rm_inbox m' = rm_inbox m)"
proof (cases msg)
  case (ConfigurationChange dat)
  obtain s ev where "config_change lru order dat (rm_service m) = Return (s, ev)" "svc_ok s"
      "svc_events s = svc_events (rm_service m)" "svc_streamReady s = svc_streamReady (rm_service m)"
    using config_change_ok [OF assms(1), of lru order dat] by blast
  with ConfigurationChange show ?thesis by (cases ev) (simp_all add: send_or_receive_def rpc_frame_def)
next
  case ReadyMsg
  with assms show ?thesis by (simp add: send_or_receive_def rpc_frame_def)
next
  case ShutdownMsg
  with stream_over_ok [OF assms(1), of lru None] show ?thesis by (auto simp: stream_over_def)
qed (use assms in \<open>simp_all add: rpc_frame_def\<close>)

lemma rpc_inv_simps:
  "rpc_inv m \<Longrightarrow> svc_ok (rm_service m)" "rpc_inv m \<Longrightarrow> rm_signaled m \<longrightarrow> ready_sent (rm_service m)"
  by (simp_all add: rpc_inv_def)

lemma rpc_inv_frame:
  "rpc_inv m \<Longrightarrow> rpc_frame m m' \<Longrightarrow> rm_pc m' \<noteq> NotStarted \<Longrightarrow> rm_pc m' \<noteq> LoopDone \<Longrightarrow> (\<forall>ev. rm_pc m' \<noteq> AtSend ev LoopOver) \<Longrightarrow> rpc_inv m'"
  by (simp add: rpc_inv_def rpc_frame_def ready_sent_def)

lemma rpc_frame_ready: "rpc_frame m m' \<Longrightarrow> ready_sent (rm_service m') = ready_sent (rm_service m)"
  by (simp add: rpc_frame_def ready_sent_def)

lemma stream_over_inv:
  assumes "stream_over lru err m = Return m'" "svc_ok (rm_service m)" "rm_signaled m \<longrightarrow> ready_sent (rm_service m)"
    "rm_read m \<le> length (svc_events (rm_service m))" "length (svc_events (rm_service m)) \<le> rm_read m + rpc_eventBuffer"
  shows "rpc_inv m'"
  using stream_over_ok [OF assms(2), of lru err] assms
  by (auto simp: rpc_inv_def rpc_frame_ready) (auto simp: rpc_frame_def)

lemma after_event_inv:
  assumes "after_event lru k m = Return m'" "svc_ok (rm_service m)" "rm_signaled m \<longrightarrow> ready_sent (rm_service m)"
    "rm_read m \<le> length (svc_events (rm_service m))" "length (svc_events (rm_service m)) \<le> rm_read m + rpc_eventBuffer"
    "k = LoopOver \<longrightarrow> ready_sent (rm_service m)"
  shows "rpc_inv m'"
  using assms stream_over_inv [OF _ assms(2-5)] by (cases k) (auto simp: after_event_def rpc_inv_def)

lemma rpc_work_inv: "rpc_work lru order m m' \<Longrightarrow> rpc_inv m \<Longrightarrow> rpc_inv m'"
proof (induction rule: rpc_work.induct)
  case (gives_up m rc c m1)
  then have "svc_ok (rm_service m1)"
    using service_ok_Disable [of "svc_cache (rm_service m)" lru] gives_up(3) by (auto simp: rpc_inv_def svc_ok_def)
  with gives_up show ?case by (simp add: rpc_inv_def)
next
  case (cannot_connect m err m')
  then show ?case by (intro stream_over_inv [of lru "Some err" m m']) (auto simp: rpc_inv_def)
next
  case (takes m msg msgs m')
  let ?m = "m\<lparr>rm_inbox := msgs, rm_service := (rm_service m)\<lparr>svc_retryCounter := retry_reset (svc_retryCounter (rm_service m))\<rparr>\<rparr>"
  have "rpc_inv ?m" using takes by (simp add: rpc_inv_def)
  moreover from takes have "rpc_frame ?m m'" "rm_pc m' = AtReceive \<or> (\<exists>ev. rm_pc m' = AtSend ev BackToReceive) \<or> rm_pc m' = AtPause"
    using handle_message_ok [of ?m lru order msg] by (auto simp: rpc_inv_def)
  ultimately show ?case by (auto intro: rpc_inv_frame)
next
  case (stream_ends m m')
  then show ?case by (intro stream_over_inv [of lru None m m']) (auto simp: rpc_inv_def)
next
  case (sends m ev k m')
  then show ?case by (intro after_event_inv [OF sends(3)]) (auto simp: rpc_inv_def rm_room_def)
next
  case (drops m ev k m')
  then show ?case by (intro after_event_inv [OF drops(3)]) (auto simp: rpc_inv_def)
qed (auto simp: rpc_inv_def)

lemma rpc_env_inv: "rpc_env m m' \<Longrightarrow> rpc_inv m \<Longrightarrow> rpc_inv m'"
  by (induction rule: rpc_env.induct) (auto simp: rpc_inv_def rpc_Shutdown_def)

lemma rpc_run_inv: "rpc_run lru order m n m' \<Longrightarrow> rpc_inv m \<Longrightarrow> rpc_inv m'"
  by (induction rule: rpc_run.induct) (blast intro: rpc_work_inv rpc_env_inv)+

lemma rpc_start_inv: "svc_ok s \<Longrightarrow> rpc_inv (rpc_start s)"
  by (simp add: rpc_inv_def rpc_start_def)

section \<open>Shutdown\<close>

fun pc_weight :: "loop_pc \<Rightarrow> nat \<Rightarrow> nat" where
  "pc_weight NotStarted n = 0"
| "pc_weight AtRetry n = 2"
| "pc_weight AtConnect n = 1"
| "pc_weight AtReceive n = 4 + 2 * n"
| "pc_weight (AtSend ev BackToReceive) n = 5 + 2 * n"
| "pc_weight (AtSend ev (StreamFailed err)) n = 1"
| "pc_weight (AtSend ev LoopOver) n = 1"
| "pc_weight AtPause n = 3"
| "pc_weight LoopDone n = 0"

definition rpc_weight :: "'l rpc_machine \<Rightarrow> nat" where
  "rpc_weight m = pc_weight (rm_pc m) (length (rm_inbox m))"

lemma after_event_cancelled:
  assumes "after_event lru k m = Return m'" "rm_cancelled m" "rm_pc m = AtSend ev k"
  shows "rpc_weight m' < rpc_weight m \<and> rm_cancelled m'"
  using assms by (cases k) (auto simp: after_event_def stream_over_def rpc_weight_def)

lemma rpc_work_cancelled: "rpc_work lru order m m' \<Longrightarrow> rpc_inv m \<Longrightarrow> rm_cancelled m \<Longrightarrow> rpc_weight m' < rpc_weight m \<and> rm_cancelled m'"
proof (induction rule: rpc_work.induct)
  case (takes m msg msgs m')
  let ?m = "m\<lparr>rm_inbox := msgs, rm_service := (rm_service m)\<lparr>svc_retryCounter := retry_reset (svc_retryCounter (rm_service m))\<rparr>\<rparr>"
  from takes have "rpc_frame ?m m'" "rm_pc m' = AtReceive \<or> (\<exists>ev. rm_pc m' = AtSend ev BackToReceive) \<or> rm_pc m' = AtPause"
    "rm_pc m' \<noteq> AtPause \<longrightarrow> rm_inbox m' = msgs"
    using handle_message_ok [of ?m lru order msg] by (auto simp: rpc_inv_def)
  with takes show ?case by (auto simp: rpc_weight_def rpc_frame_def)
next
  case (sends m ev k m')
  then show ?case using after_event_cancelled [OF sends(3)] by (simp add: rpc_weight_def)
next
  case (drops m ev k m')
  then show ?case using after_event_cancelled [OF drops(3)] by simp
qed (auto simp: rpc_weight_def stream_over_def)

lemma rpc_env_cancelled: "rpc_env m m' \<Longrightarrow> rm_cancelled m \<Longrightarrow> rpc_weight m' = rpc_weight m \<and> rm_cancelled m'"
  by (induction rule: rpc_env.induct) (auto simp: rpc_weight_def rpc_Shutdown_def)

lemma rpc_run_cancelled:
  "rpc_run lru order m n m' \<Longrightarrow> rpc_inv m \<Longrightarrow> rm_cancelled m \<Longrightarrow> n + rpc_weight m' \<le> rpc_weight m \<and> rm_cancelled m'"
proof (induction rule: rpc_run.induct)
  case (run_work n m' m'')
  with rpc_work_cancelled [OF run_work(2) rpc_run_inv [OF run_work(1)]] show ?case by auto
next
  case (run_env n m' m'')
  with rpc_env_cancelled [OF run_env(2)] show ?case by auto
qed simp

text \<open>Under a cancelled context the goroutine can always go on, whether or not somebody reads the events.\<close>

lemma rpc_cancelled_progress:
  assumes "rpc_inv m" "rm_cancelled m" "\<not> rpc_Shutdown_returns m"
  shows "\<exists>m'. rpc_work lru order m m'"
proof (cases "rm_pc m")
  case AtRetry
  obtain c where "Disable lru (svc_cache (rm_service m)) = Return c"
    using service_ok_Disable [of "svc_cache (rm_service m)" lru] assms(1) by (auto simp: rpc_inv_def svc_ok_def)
  note give_up = gives_up [OF AtRetry _ this refl]
  consider (again) rc where "retry_retry (svc_retryCounter (rm_service m)) = (rc, True)"
    | (enough) rc where "retry_retry (svc_retryCounter (rm_service m)) = (rc, False)" by (metis (full_types) surj_pair)
  then show ?thesis by cases (blast intro: tries [OF AtRetry], blast intro: give_up)
next
  case AtConnect
  then show ?thesis using stream_over_ok [OF rpc_inv_simps(1) [OF assms(1)], of lru "Some []"] by (blast intro: cannot_connect)
next
  case AtReceive
  then show ?thesis by (blast intro: stream_fails)
next
  case (AtSend ev k)
  have "\<exists>m'. stream_over lru (Some err) m = Return m'" for err
    using stream_over_ok [OF rpc_inv_simps(1) [OF assms(1)], of lru "Some err"] by blast
  then have "\<exists>m'. after_event lru k m = Return m'" by (cases k) (simp_all add: after_event_def)
  with AtSend assms(2) show ?thesis by (blast intro: drops)
next
  case AtPause
  then show ?thesis by (blast intro: pause_over)
qed (use assms(3) in \<open>simp_all add: rpc_Shutdown_returns_def\<close>)

text \<open>
  C20: Shutdown of the rpc service ends: from the cancellation on the goroutine takes at most \<open>5 + 2 * k\<close>
  steps, \<open>k\<close> being the messages that had arrived, in any interleaving with the application and even when
  nobody reads the event channel; it stops nowhere before it has returned, and \<^verbatim>\<open>Init\<close> is not left waiting.
\<close>

theorem rpc_shutdown_completes:
  assumes "svc_ok s" "rpc_run lru order (rpc_start s) i m" "rpc_run lru order (rpc_Shutdown m) n m'"
  shows "n \<le> 5 + 2 * length (rm_inbox m) \<and>
    ((\<nexists>m''. rpc_work lru order m' m'') \<longrightarrow> rpc_Shutdown_returns m' \<and> svc_streamReady (rm_service m') \<noteq> None)"
proof -
  have "rpc_inv (rpc_Shutdown m)"
    using rpc_run_inv [OF assms(2) rpc_start_inv [OF assms(1)]] by (simp add: rpc_Shutdown_def rpc_inv_def)
  moreover from this have "rm_cancelled (rpc_Shutdown m)" "rm_inbox (rpc_Shutdown m) = rm_inbox m"
    by (auto simp: rpc_Shutdown_def rpc_inv_def split: if_splits)
  ultimately have run: "n + rpc_weight m' \<le> rpc_weight (rpc_Shutdown m)" "rm_cancelled m'" "rpc_inv m'"
    "rpc_weight (rpc_Shutdown m) = pc_weight (rm_pc (rpc_Shutdown m)) (length (rm_inbox m))"
    using rpc_run_cancelled [OF assms(3)] rpc_run_inv [OF assms(3)] by (simp_all add: rpc_weight_def)
  have "pc_weight pc k \<le> 5 + 2 * k" for pc k by (cases "(pc, k)" rule: pc_weight.cases) auto
  with run(1,4) have "n \<le> 5 + 2 * length (rm_inbox m)" by (metis add_leE le_trans)
  moreover have "rpc_Shutdown_returns m'" if "\<nexists>m''. rpc_work lru order m' m''"
    using rpc_cancelled_progress [OF run(3,2)] that by blast
  moreover have "svc_streamReady (rm_service m') \<noteq> None" if "rpc_Shutdown_returns m'"
    using that run(3) by (auto simp: rpc_Shutdown_returns_def rpc_inv_def ready_sent_def)
  ultimately show ?thesis by blast
qed

text \<open>Shutdown of a service that has just started: the attempt under way fails, and the goroutine returns.\<close>

theorem rpc_shutdown_completes_witness:
  "\<exists>m'. rpc_run mem_ops some_order (rpc_Shutdown (rpc_start demo_service)) 2 m' \<and> rpc_Shutdown_returns m' \<and>
     svc_streamReady (rm_service m') \<noteq> None"
proof -
  let ?m = "rpc_Shutdown (rpc_start demo_service)"
  obtain rc where rc: "retry_retry (svc_retryCounter demo_service) = (rc, True)"
    by (simp add: demo_service_def NewService_def retry_retry_def newRetryCounter_def Let_def)
  let ?m1 = "?m\<lparr>rm_service := (rm_service ?m)\<lparr>svc_retryCounter := rc\<rparr>, rm_pc := AtConnect\<rparr>"
  have m: "rm_pc ?m = AtRetry" "rm_service ?m = demo_service" "rm_cancelled ?m" "\<not> rm_signaled ?m"
    by (simp_all add: rpc_Shutdown_def rpc_start_def)
  let ?m2 = "?m1\<lparr>rm_service := with_signal (Some cancel_text) ?m1, rm_pc := LoopDone\<rparr>"
  have "rpc_work mem_ops some_order ?m ?m1" using tries [OF m(1), of rc] m(2) rc by simp
  moreover have "rpc_work mem_ops some_order ?m1 ?m2"
    by (rule cannot_connect [where err = "''refused''"]) (simp_all add: stream_over_def m(3))
  ultimately have run: "rpc_run mem_ops some_order ?m 2 ?m2"
    using run_work [OF run_work [OF run_start]] unfolding numeral_2_eq_2 by blast
  have "\<nexists>m''. rpc_work mem_ops some_order ?m2 m''"
  proof
    assume "\<exists>m''. rpc_work mem_ops some_order ?m2 m''"
    then obtain m'' where "rpc_work mem_ops some_order ?m2 m''" by blast
    then show False by cases simp_all
  qed
  with rpc_shutdown_completes [OF demo_service_facts(1) run_start run] run show ?thesis by blast
qed

end
