(* ===== verification/Flagd_Interceptor.thy ===== *)
theory Flagd_Interceptor
  imports Flagd_Rpc
begin

text \<open>
  The interceptor of flagd's rpc client that names the flag set,
  \<^verbatim>\<open>providers/flagd/pkg/service/rpc/interceptors.go\<close>.  A header is a map from canonical names to the
  values given for them; \<open>canonical\<close> is \<^verbatim>\<open>textproto.CanonicalMIMEHeaderKey\<close>.
\<close>

type_synonym headers = "string \<rightharpoonup> string list"

definition Header_Set :: "(string \<Rightarrow> string) \<Rightarrow> string \<Rightarrow> string \<Rightarrow> headers \<Rightarrow> headers" where
  "Header_Set canonical key v h = h(canonical key \<mapsto> [v])"

definition flagdmeta_Selector :: string where "flagdmeta_Selector = ''flagd-selector''"

record selectorInterceptor =
  si_selector :: string

definition newSelectorInterceptor :: "string \<Rightarrow> selectorInterceptor" where
  "newSelectorInterceptor selector = \<lparr>si_selector = selector\<rparr>"

text \<open>The next function of a unary call takes the context and the request, here its headers and the rest of it.\<close>

definition WrapUnary ::
  "(string \<Rightarrow> string) \<Rightarrow> selectorInterceptor \<Rightarrow> ('x \<Rightarrow> headers \<times> 'q \<Rightarrow> 'r) \<Rightarrow> 'x \<Rightarrow> headers \<times> 'q \<Rightarrow> 'r" where
  "WrapUnary canonical i next = (\<lambda>ctx (h, req).
     next ctx (if si_selector i \<noteq> [] then Header_Set canonical flagdmeta_Selector (si_selector i) h else h, req))"

text \<open>The connection of a stream: the headers of its request and the rest of it.\<close>

definition WrapStreamingClient ::
  "(string \<Rightarrow> string) \<Rightarrow> selectorInterceptor \<Rightarrow> ('x \<Rightarrow> 's \<Rightarrow> headers \<times> 'c) \<Rightarrow> 'x \<Rightarrow> 's \<Rightarrow> headers \<times> 'c" where
  "WrapStreamingClient canonical i next = (\<lambda>ctx spec. case next ctx spec of (h, conn) \<Rightarrow>
     (if si_selector i \<noteq> [] then Header_Set canonical flagdmeta_Selector (si_selector i) h else h, conn))"

definition WrapStreamingHandler :: "selectorInterceptor \<Rightarrow> 'n \<Rightarrow> 'n" where
  "WrapStreamingHandler i next = next"

text \<open>
  The calls of a client pass through its interceptors, the first one outermost; that of OpenTelemetry is a
  parameter.
\<close>

fun intercepted ::
  "(string \<Rightarrow> string) \<Rightarrow> (('x \<Rightarrow> headers \<times> 'q \<Rightarrow> 'r) \<Rightarrow> 'x \<Rightarrow> headers \<times> 'q \<Rightarrow> 'r) \<Rightarrow> interceptor list \<Rightarrow>
   ('x \<Rightarrow> headers \<times> 'q \<Rightarrow> 'r) \<Rightarrow> 'x \<Rightarrow> headers \<times> 'q \<Rightarrow> 'r" where
  "intercepted canonical otel [] call = call"
| "intercepted canonical otel (OtelInterceptor # is) call = otel (intercepted canonical otel is call)"
| "intercepted canonical otel (SelectorInterceptor sel # is) call =
     WrapUnary canonical (newSelectorInterceptor sel) (intercepted canonical otel is call)"

text \<open>
  A client made from a configuration with a selector sends exactly that selector with every call, and
  leaves the other headers alone; without one it sends the call as it is.
\<close>

lemma client_selector:
  assumes "rpc_newClient readFile parsePEM otelErr cfg = Inr c"
    and "\<And>call ctx req. otel call ctx req = call ctx req"
  shows "intercepted canonical otel (cl_interceptors c) call ctx (h, req) =
    call ctx (if rc_Selector cfg \<noteq> [] then h(canonical flagdmeta_Selector \<mapsto> [rc_Selector cfg]) else h, req)"
proof -
  have "cl_interceptors c = (if rc_OtelInterceptor cfg then [OtelInterceptor] else []) @
      (if rc_Selector cfg \<noteq> [] then [SelectorInterceptor (rc_Selector cfg)] else [])"
    using assms(1) by (auto simp: rpc_newClient_def Let_def split: sum.splits if_splits)
  then show ?thesis
    by (simp add: assms(2) WrapUnary_def newSelectorInterceptor_def Header_Set_def)
qed

text \<open>A stream carries the same header as a call.\<close>

lemma stream_selector:
  "fst (WrapStreamingClient canonical i next ctx spec) = fst (WrapUnary canonical i (\<lambda>_ r. r) ctx (next ctx spec))"
  by (simp add: WrapStreamingClient_def WrapUnary_def split: prod.split)

end
