(* ===== verification/Flagd_Provider.thy ===== *)
theory Flagd_Provider
  imports Flagd_Config Flagd_Rpc_Correct
begin

text \<open>
  The flagd provider, \<^verbatim>\<open>providers/flagd/pkg/provider.go\<close> and \<^verbatim>\<open>iservice.go\<close>: construction from
  the configuration, the select loop of \<^verbatim>\<open>Init\<close>, the goroutine that forwards the service's
  events, and shutdown.  The order in which the channels of \<^verbatim>\<open>Init\<close> become ready is a list
  of arrivals.
\<close>

section \<open>Construction\<close>

record ('s, 'g) InProcessConfiguration =
  ip_Host :: string
  ip_Port :: uint16
  ip_ProviderID :: string
  ip_Selector :: string
  ip_TargetUri :: string
  ip_TLSEnabled :: bool
  ip_CertificatePath :: string
  ip_OfflineFlagSource :: string
  ip_CustomSyncProvider :: "'s option"
  ip_CustomSyncProviderUri :: string
  ip_GrpcDialOptionsOverride :: "'g list"
  ip_RetryGracePeriod :: int
  ip_RetryBackOffMs :: int
  ip_RetryBackOffMaxMs :: int
  ip_FatalStatusCodes :: "string list"
  ip_DeadlineMs :: int

definition zero_InProcessConfiguration :: "('s, 'g) InProcessConfiguration" where
  "zero_InProcessConfiguration =
     \<lparr>ip_Host = [], ip_Port = 0, ip_ProviderID = [], ip_Selector = [], ip_TargetUri = [],
      ip_TLSEnabled = False, ip_CertificatePath = [], ip_OfflineFlagSource = [],
      ip_CustomSyncProvider = None, ip_CustomSyncProviderUri = [], ip_GrpcDialOptionsOverride = [],
      ip_RetryGracePeriod = 0, ip_RetryBackOffMs = 0, ip_RetryBackOffMaxMs = 0,
      ip_FatalStatusCodes = [], ip_DeadlineMs = 0\<rparr>"

datatype ('s, 'g, 'l) service =
    RpcSvc RpcConfiguration "'l Service"
  | InProcessSvc "('s, 'g) InProcessConfiguration"

text \<open>
  \<open>handlers\<close> counts the goroutines running \<^verbatim>\<open>handleEvents\<close>; \<open>eventStream\<close> is the log of the
  events put on the provider's channel.
\<close>

record ('s, 'g, 'l) Provider =
  initialized :: bool
  providerConfiguration :: "('s, 'g) ProviderConfiguration"
  service :: "('s, 'g, 'l) service"
  status :: of_state
  eventStream :: "of_event list"
  handlers :: nat

definition service_of_config ::
  "(cached, 'l) cache_service \<Rightarrow> ('s, 'g) ProviderConfiguration \<Rightarrow> ('s, 'g, 'l) service" where
  "service_of_config cacheService c = (case Resolver c of
     rpc \<Rightarrow> RpcSvc
       \<lparr>rc_Port = Port c, rc_Host = Host c, rc_CertificatePath = CertPath c,
        rc_SocketPath = SocketPath c, rc_TLSEnabled = Tls c, rc_OtelInterceptor = OtelIntercept c,
        rc_DeadlineMs = DeadlineMs c, rc_Selector = Selector c\<rparr>
       (NewService cacheService (word_of_int (EventStreamConnectionMaxAttempts c)))
   | inProcess \<Rightarrow> InProcessSvc
       \<lparr>ip_Host = Host c, ip_Port = Port c, ip_ProviderID = ProviderId c, ip_Selector = Selector c,
        ip_TargetUri = TargetUri c, ip_TLSEnabled = Tls c, ip_CertificatePath = CertPath c,
        ip_OfflineFlagSource = OfflineFlagSourcePath c, ip_CustomSyncProvider = CustomSyncProvider c,
        ip_CustomSyncProviderUri = CustomSyncProviderUri c,
        ip_GrpcDialOptionsOverride = GrpcDialOptionsOverride c,
        ip_RetryGracePeriod = RetryGracePeriod c, ip_RetryBackOffMs = RetryBackoffMs c,
        ip_RetryBackOffMaxMs = RetryBackoffMaxMs c, ip_FatalStatusCodes = FatalStatusCodes c,
        ip_DeadlineMs = DeadlineMs c\<rparr>
   | _ \<Rightarrow> InProcessSvc (zero_InProcessConfiguration
       \<lparr>ip_OfflineFlagSource := OfflineFlagSourcePath c, ip_DeadlineMs := DeadlineMs c\<rparr>))"

definition NewProvider ::
  "(string \<Rightarrow> string) \<Rightarrow> (int \<Rightarrow> string + 'l) \<Rightarrow> ('s, 'g) ProviderOption list
   \<Rightarrow> string + ('s, 'g, 'l) Provider" where
  "NewProvider env lru_new opts =
     (case NewProviderConfiguration env opts of
        (c, Some err) \<Rightarrow> Inl err
      | (c, None) \<Rightarrow>
          (let cacheService = NewCacheService lru_new (CacheType c) (MaxCacheSize c)
           in Inr \<lparr>initialized = False, providerConfiguration = c,
                   service = service_of_config cacheService c, status = NotReadyState,
                   eventStream = [], handlers = 0\<rparr>))"

section \<open>Initialisation\<close>

text \<open>What the select of \<^verbatim>\<open>Init\<close> can receive.\<close>

datatype arrival =
    InitDone "string option"
  | ServiceEvent of_event
  | TimerFired

fun event_type_string :: "event_type \<Rightarrow> string" where
  "event_type_string EvReady = ''PROVIDER_READY''"
| "event_type_string EvConfigChange = ''PROVIDER_CONFIGURATION_CHANGED''"
| "event_type_string EvStale = ''PROVIDER_STALE''"
| "event_type_string EvError = ''PROVIDER_ERROR''"

text \<open>
  The loop over the arrivals: \<open>None\<close> while it still waits, else whether the provider became
  ready, or the error.  \<open>initOpen\<close> tells whether the case of \<^verbatim>\<open>initDoneChan\<close> is still
  enabled.
\<close>

fun init_loop :: "int \<Rightarrow> bool \<Rightarrow> arrival list \<Rightarrow> (string option) option" where
  "init_loop deadlineMs initOpen [] = None"
| "init_loop deadlineMs initOpen (InitDone e # as) =
     (if \<not> initOpen then init_loop deadlineMs initOpen as
      else case e of Some err \<Rightarrow> Some (Some err) | None \<Rightarrow> init_loop deadlineMs False as)"
| "init_loop deadlineMs initOpen (ServiceEvent ev # as) =
     (if EventType ev = EvReady then Some None
      else if EventType ev = EvError \<or> EventType ev = EvStale
      then Some (Some (''provider initialization failed: '' @ EventMessage ev))
      else Some (Some (''provider initialization failed: unexpected event type '' @
             event_type_string (EventType ev))))"
| "init_loop deadlineMs initOpen (TimerFired # as) =
     Some (Some (''provider initialization deadline exceeded ('' @ int_to_string deadlineMs @ ''ms)''))"

definition provider_Init ::
  "arrival list \<Rightarrow> ('s, 'g, 'l) Provider \<Rightarrow> ('s, 'g, 'l) Provider \<times> (string option) option" where
  "provider_Init as p =
     (if initialized p then (p, Some None)
      else case init_loop (DeadlineMs (providerConfiguration p)) True as of
             Some None \<Rightarrow>
               (p\<lparr>status := ReadyState, initialized := True, handlers := Suc (handlers p)\<rparr>, Some None)
           | r \<Rightarrow> (p, r))"

section \<open>Events, shutdown, evaluation\<close>

definition handle_event :: "of_event \<Rightarrow> ('s, 'g, 'l) Provider \<Rightarrow> ('s, 'g, 'l) Provider" where
  "handle_event ev p =
     (let p = p\<lparr>eventStream := eventStream p @ [ev]\<rparr>
      in case EventType ev of
           EvReady \<Rightarrow> p\<lparr>status := ReadyState\<rparr>
         | EvConfigChange \<Rightarrow> p\<lparr>status := ReadyState\<rparr>
         | EvError \<Rightarrow> p\<lparr>status := ErrorState\<rparr>
         | EvStale \<Rightarrow> p)"

definition handleEvents :: "of_event list \<Rightarrow> ('s, 'g, 'l) Provider \<Rightarrow> ('s, 'g, 'l) Provider" where
  "handleEvents evs p = foldl (\<lambda>p ev. handle_event ev p) p evs"

definition provider_Shutdown ::
  "('sv \<Rightarrow> 'sv) \<Rightarrow> 'sv \<Rightarrow> ('s, 'g, 'l) Provider \<Rightarrow> 'sv \<times> ('s, 'g, 'l) Provider" where
  "provider_Shutdown serviceShutdown sv p = (serviceShutdown sv, p\<lparr>initialized := False\<rparr>)"

text \<open>The service interface: one resolution per type on the service's state \<open>'sv\<close>.\<close>

type_synonym ('sv, 'v) resolution =
  "'sv \<Rightarrow> string \<Rightarrow> 'v \<Rightarrow> go_map \<Rightarrow> ('sv \<times> 'v resolution_detail) outcome"

record 'sv IService =
  is_ResolveBoolean :: "('sv, bool) resolution"
  is_ResolveString :: "('sv, string) resolution"
  is_ResolveFloat :: "('sv, float64) resolution"
  is_ResolveInt :: "('sv, int64) resolution"
  is_ResolveObject :: "('sv, go_any) resolution"

definition flagd_BooleanEvaluation :: "'sv IService \<Rightarrow> ('sv, bool) resolution" where
  "flagd_BooleanEvaluation srv = is_ResolveBoolean srv"
definition flagd_StringEvaluation :: "'sv IService \<Rightarrow> ('sv, string) resolution" where
  "flagd_StringEvaluation srv = is_ResolveString srv"
definition flagd_FloatEvaluation :: "'sv IService \<Rightarrow> ('sv, float64) resolution" where
  "flagd_FloatEvaluation srv = is_ResolveFloat srv"
definition flagd_IntEvaluation :: "'sv IService \<Rightarrow> ('sv, int64) resolution" where
  "flagd_IntEvaluation srv = is_ResolveInt srv"
definition flagd_ObjectEvaluation :: "'sv IService \<Rightarrow> ('sv, go_any) resolution" where
  "flagd_ObjectEvaluation srv = is_ResolveObject srv"

section \<open>Properties\<close>

lemma NewProvider_Inr:
  assumes "NewProvider env lru_new opts = Inr p"
  shows "providerConfiguration p = fst (NewProviderConfiguration env opts)"
    "snd (NewProviderConfiguration env opts) = None"
    "service p = service_of_config (NewCacheService lru_new (CacheType (providerConfiguration p))
       (MaxCacheSize (providerConfiguration p))) (providerConfiguration p)"
    "status p = NotReadyState" "\<not> initialized p" "handlers p = 0" "eventStream p = []"
  using assms by (auto simp: NewProvider_def Let_def split: prod.splits option.splits)

text \<open>
  A provider that NewProvider returns is not ready, and its service fits its configuration:
  an rpc service comes with a port that is not zero and a state from which no resolution
  panics; an in-process service reads an offline path exactly when the configuration has one and does not run
  in-process, and in file mode it always does.
\<close>

theorem new_provider_service:
  assumes "NewProvider env lru_new opts = Inr p"
  shows "status p = NotReadyState \<and> \<not> initialized p \<and>
    (case service p of
       RpcSvc rc s \<Rightarrow> Resolver (providerConfiguration p) = rpc \<and> rc_Port rc \<noteq> 0 \<and> svc_ok s
     | InProcessSvc ip \<Rightarrow> Resolver (providerConfiguration p) \<noteq> rpc \<and>
         (ip_OfflineFlagSource ip \<noteq> [] \<longleftrightarrow> Resolver (providerConfiguration p) \<noteq> inProcess \<and>
            OfflineFlagSourcePath (providerConfiguration p) \<noteq> []) \<and>
         (Resolver (providerConfiguration p) = fileResolver \<longrightarrow> ip_OfflineFlagSource ip \<noteq> []))"
proof -
  note facts = NewProvider_Inr [OF assms]
  let ?c = "providerConfiguration p"
  have ok: "config_ok ?c" using constructed_ok [of env opts] facts(1) by simp
  have path: "Resolver ?c = fileResolver \<Longrightarrow> OfflineFlagSourcePath ?c \<noteq> []"
    using facts(1,2) by (auto simp: NewProviderConfiguration_def Let_def validateProviderConfiguration_def
        split: if_splits)
  show ?thesis
    using ok path facts(3-5)
    by (cases "Resolver ?c")
      (auto simp: service_of_config_def config_ok_def svc_ok_def NewService_def service_ok_new
        zero_InProcessConfiguration_def)
qed

theorem new_provider_service_witness:
  "\<exists>p. NewProvider (\<lambda>_. []) (\<lambda>n. Inr ()) ([] :: (nat, nat) ProviderOption list) = Inr p \<and>
    status p = NotReadyState \<and> \<not> initialized p"
proof -
  have "snd (NewProviderConfiguration (\<lambda>_. []) ([] :: (nat, nat) ProviderOption list)) = None"
    using constructed_ok_iff [of "\<lambda>_. []" "[] :: (nat, nat) ProviderOption list"]
    by (simp add: effective_resolver_def options_applied_def newDefaultConfiguration_def updateFromEnvVar_eq)
  then obtain p where "NewProvider (\<lambda>_. []) (\<lambda>n. Inr ()) ([] :: (nat, nat) ProviderOption list) = Inr p"
    by (cases "NewProviderConfiguration (\<lambda>_. []) ([] :: (nat, nat) ProviderOption list)")
      (auto simp: NewProvider_def Let_def)
  then show ?thesis using new_provider_service by blast
qed

text \<open>The arrival that decides an initialisation.\<close>

fun decisive :: "arrival \<Rightarrow> bool" where
  "decisive (InitDone e) = (e \<noteq> None)"
| "decisive _ = True"

fun is_init_done :: "arrival \<Rightarrow> bool" where
  "is_init_done (InitDone e) = True"
| "is_init_done _ = False"

lemma init_loop_no_done:
  "filter is_init_done as = [] \<Longrightarrow> init_loop d b as = Some None \<longleftrightarrow>
    (\<exists>ev. List.find decisive as = Some (ServiceEvent ev) \<and> EventType ev = EvReady)"
  by (induction d b as rule: init_loop.induct) (auto split: if_splits)

lemma init_loop_ready:
  "length (filter is_init_done as) \<le> 1 \<Longrightarrow> init_loop d True as = Some None \<longleftrightarrow>
    (\<exists>ev. List.find decisive as = Some (ServiceEvent ev) \<and> EventType ev = EvReady)"
proof (induction as)
  case (Cons a as)
  show ?case
  proof (cases a)
    case (InitDone e)
    with Cons.prems have "filter is_init_done as = []" by simp
    from init_loop_no_done [OF this, of d False] InitDone show ?thesis by (cases e) simp_all
  qed (auto split: if_splits)
qed simp

text \<open>
  C27: Init reports success exactly when the provider was initialised already or the first
  arrival other than a successful service initialisation is the ready event; only then does
  the provider become ready, initialised and start one more event handler.  On every error, the
  deadline included, and while it waits, the provider is unchanged.
\<close>

theorem init_succeeds_iff_ready:
  assumes "length (filter is_init_done as) \<le> 1"
  shows "(snd (provider_Init as p) = Some None \<longleftrightarrow> initialized p \<or>
      (\<exists>ev. List.find decisive as = Some (ServiceEvent ev) \<and> EventType ev = EvReady)) \<and>
    fst (provider_Init as p) =
      (if \<not> initialized p \<and> snd (provider_Init as p) = Some None
       then p\<lparr>status := ReadyState, initialized := True, handlers := Suc (handlers p)\<rparr> else p)"
  using init_loop_ready [OF assms, of "DeadlineMs (providerConfiguration p)"]
  by (auto simp: provider_Init_def split: option.splits)

definition demo_provider :: "(nat, nat, nat) Provider" where
  "demo_provider = \<lparr>initialized = False,
     providerConfiguration = newDefaultConfiguration (\<lambda>_. []),
     service = InProcessSvc zero_InProcessConfiguration, status = NotReadyState,
     eventStream = [], handlers = 0\<rparr>"

definition ready_event :: of_event where
  "ready_event = \<lparr>EventType = EvReady, EventMessage = [], FlagChanges = []\<rparr>"

theorem init_succeeds_iff_ready_witness:
  "snd (provider_Init [InitDone None, ServiceEvent ready_event, TimerFired] demo_provider) = Some None \<and>
   snd (provider_Init [InitDone None, TimerFired, ServiceEvent ready_event] demo_provider) \<noteq> Some None"
  using init_succeeds_iff_ready [of "[InitDone None, ServiceEvent ready_event, TimerFired]" demo_provider]
    init_succeeds_iff_ready [of "[InitDone None, TimerFired, ServiceEvent ready_event]" demo_provider]
  by (simp add: demo_provider_def ready_event_def)

lemma handleEvents_status:
  "eventStream (handleEvents evs p) = eventStream p @ evs \<and>
   status (handleEvents evs p) =
     (case List.find (\<lambda>ev. EventType ev \<noteq> EvStale) (rev evs) of
        None \<Rightarrow> status p
      | Some ev \<Rightarrow> if EventType ev = EvError then ErrorState else ReadyState)"
proof (induction evs rule: rev_induct)
  case Nil
  then show ?case by (simp add: handleEvents_def)
next
  case (snoc ev evs)
  have step: "handleEvents (evs @ [ev]) p = handle_event ev (handleEvents evs p)"
    by (simp add: handleEvents_def)
  show ?case using snoc unfolding step
    by (cases "EventType ev") (auto simp: handle_event_def Let_def)
qed

text \<open>
  C28: The event handler forwards every event in order, and the provider's status after it is
  that of the last ready, configuration-change or error event; stale events leave it alone.
\<close>

theorem status_follows_events:
  "eventStream (handleEvents evs p) = eventStream p @ evs \<and>
   status (handleEvents evs p) =
     (case List.find (\<lambda>ev. EventType ev \<noteq> EvStale) (rev evs) of
        None \<Rightarrow> status p
      | Some ev \<Rightarrow> if EventType ev = EvError then ErrorState else ReadyState)"
  by (rule handleEvents_status)

text \<open>
  A shutdown does not stop the event handler and does not take the status back: after
  initialisation, shutdown and a second initialisation two handlers read the same channel, and in
  between the provider still reports itself ready.
\<close>

theorem reinit_doubles_handlers:
  assumes "EventType ev = EvReady" "\<not> initialized p"
  shows "let p1 = fst (provider_Init [InitDone None, ServiceEvent ev] p);
             p2 = snd (provider_Shutdown sd sv p1);
             p3 = fst (provider_Init [InitDone None, ServiceEvent ev] p2)
         in status p2 = ReadyState \<and> handlers p3 = handlers p + 2"
  using assms by (simp add: provider_Init_def provider_Shutdown_def Let_def)

theorem reinit_doubles_handlers_witness:
  "handlers (fst (provider_Init [InitDone None, ServiceEvent ready_event]
     (snd (provider_Shutdown id () (fst (provider_Init [InitDone None, ServiceEvent ready_event] demo_provider)))))) = 2"
  using reinit_doubles_handlers [of ready_event demo_provider id "()"]
  by (simp add: demo_provider_def ready_event_def Let_def)

end
