(* ===== verification/Flagd_InProcess.thy ===== *)
theory Flagd_InProcess
  imports Flagd_Provider
begin

text \<open>
  The flagd provider's in-process service, \<^verbatim>\<open>providers/flagd/pkg/service/in_process/service.go\<close>:
  the choice of the flag source, the evaluation of a flag by the flagd evaluator, and the
  mapping of its errors.  The evaluator and the constants of flagd's \<^verbatim>\<open>model\<close> package live in
  another module and are parameters.  The goroutines of the service are in
  \<open>Flagd_InProcess_Events\<close>.
\<close>

section \<open>The evaluator\<close>

text \<open>
  What \<^verbatim>\<open>evaluator.ResolveXValue\<close> returns: a value, a variant, a reason, the metadata map
  (\<open>None\<close> for nil) and the text of an error.
\<close>

record 'v evaluator_answer =
  ea_value :: 'v
  ea_variant :: string
  ea_reason :: string
  ea_metadata :: go_map
  ea_err :: "string option"

text \<open>The first argument is the deadline that the context carries, in nanoseconds.\<close>

type_synonym 'v evaluate_value = "int64 option \<Rightarrow> string \<Rightarrow> go_map \<Rightarrow> 'v evaluator_answer"

record flag_evaluator =
  ev_Boolean :: "bool evaluate_value"
  ev_String :: "string evaluate_value"
  ev_Float :: "float64 evaluate_value"
  ev_Int :: "int64 evaluate_value"
  ev_Object :: "(string \<rightharpoonup> go_any) evaluate_value"

text \<open>The constants of flagd's package \<^verbatim>\<open>model\<close>.\<close>

record core_model =
  cm_DisabledReason :: string
  cm_FallbackReason :: string
  cm_FlagNotFoundErrorCode :: string
  cm_TypeMismatchErrorCode :: string
  cm_ParseErrorCode :: string

section \<open>Metadata and deadline\<close>

definition createServiceMetadata :: "('s, 'g) InProcessConfiguration \<Rightarrow> string \<rightharpoonup> go_any" where
  "createServiceMetadata cfg =
     (let metadata = Map.empty;
          metadata = (if ip_Selector cfg \<noteq> [] then metadata(''scope'' \<mapsto> VString (ip_Selector cfg)) else metadata)
      in if ip_ProviderID cfg \<noteq> [] then metadata(''providerID'' \<mapsto> VString (ip_ProviderID cfg)) else metadata)"

fun append_entries :: "(string \<rightharpoonup> go_any) \<Rightarrow> string list \<Rightarrow> go_map \<Rightarrow> go_map outcome" where
  "append_entries m [] evalMetadata = Return evalMetadata"
| "append_entries m (k # ks) evalMetadata =
     bind_outcome (map_set evalMetadata k (the (m k))) (append_entries m ks)"

definition appendMetadata ::
  "((string \<rightharpoonup> go_any) \<Rightarrow> string list) \<Rightarrow> (string \<rightharpoonup> go_any) \<Rightarrow> go_map \<Rightarrow> go_map outcome" where
  "appendMetadata order serviceMetadata evalMetadata =
     append_entries serviceMetadata (order serviceMetadata) evalMetadata"

definition applyDeadlineToContext :: "int \<Rightarrow> int64 option" where
  "applyDeadlineToContext deadlineMs =
     (if deadlineMs > 0 then Some (word_of_int deadlineMs * 1000000) else None)"

section \<open>Errors\<close>

definition mapError :: "core_model \<Rightarrow> string \<Rightarrow> string \<Rightarrow> resolution_error" where
  "mapError cm flagKey err =
     (if err = cm_FlagNotFoundErrorCode cm
      then NewFlagNotFoundResolutionError (''flag: '' @ flagKey @ '' not found'')
      else if err = cm_TypeMismatchErrorCode cm
      then NewTypeMismatchResolutionError (''flag: '' @ flagKey @ '' evaluated type not valid'')
      else if err = cm_ParseErrorCode cm
      then NewParseErrorResolutionError (''flag: '' @ flagKey @ '' parsing error'')
      else NewGeneralResolutionError (''flag: '' @ flagKey @ '' unable to evaluate''))"

section \<open>Resolution\<close>

text \<open>
  The service: its evaluator, its metadata and its deadline.  The five \<^verbatim>\<open>Resolve\<close> methods repeat
  one body; \<open>conv\<close> boxes the map of an object flag into the interface value of the result.
\<close>

record InProcess =
  in_evaluator :: flag_evaluator
  in_serviceMetadata :: "string \<rightharpoonup> go_any"
  in_deadlineMs :: int

definition resolve_in_process ::
  "core_model \<Rightarrow> ((string \<rightharpoonup> go_any) \<Rightarrow> string list) \<Rightarrow> (flag_evaluator \<Rightarrow> 'w evaluate_value) \<Rightarrow> ('w \<Rightarrow> 'v) \<Rightarrow>
   InProcess \<Rightarrow> string \<Rightarrow> 'v \<Rightarrow> go_map \<Rightarrow> 'v resolution_detail outcome" where
  "resolve_in_process cm order sel conv i key defaultValue evalCtx =
     (let a = sel (in_evaluator i) (applyDeadlineToContext (in_deadlineMs i)) key evalCtx
      in bind_outcome (appendMetadata order (in_serviceMetadata i) (ea_metadata a)) (\<lambda>metadata.
         Return (case ea_err a of
           Some err \<Rightarrow> \<lparr>Value = defaultValue,
             Detail = \<lparr>ResolutionError = mapError cm key err, Reason = ea_reason a,
                       Variant = ea_variant a, FlagMetadata = metadata\<rparr>\<rparr>
         | None \<Rightarrow>
             if ea_reason a = cm_DisabledReason cm then
               \<lparr>Value = defaultValue,
                Detail = empty_detail\<lparr>Reason := cm_DisabledReason cm, FlagMetadata := metadata\<rparr>\<rparr>
             else if ea_reason a = cm_FallbackReason cm then
               \<lparr>Value = defaultValue,
                Detail = empty_detail\<lparr>Reason := DefaultReason, FlagMetadata := metadata\<rparr>\<rparr>
             else \<lparr>Value = conv (ea_value a),
                Detail = \<lparr>ResolutionError = NoResolutionError, Reason = ea_reason a,
                          Variant = ea_variant a, FlagMetadata = metadata\<rparr>\<rparr>)))"

definition inprocess_ResolveBoolean where
  "inprocess_ResolveBoolean cm order = resolve_in_process cm order ev_Boolean (\<lambda>b :: bool. b)"
definition inprocess_ResolveString where
  "inprocess_ResolveString cm order = resolve_in_process cm order ev_String (\<lambda>s :: string. s)"
definition inprocess_ResolveFloat where
  "inprocess_ResolveFloat cm order = resolve_in_process cm order ev_Float (\<lambda>f :: float64. f)"
definition inprocess_ResolveInt where
  "inprocess_ResolveInt cm order = resolve_in_process cm order ev_Int (\<lambda>i :: int64. i)"
definition inprocess_ResolveObject where
  "inprocess_ResolveObject cm order = resolve_in_process cm order ev_Object VMap"

section \<open>The flag source\<close>

text \<open>
  The gRPC source with the fields that \<^verbatim>\<open>createSyncProvider\<close> sets; \<open>gs_RetryGracePeriod\<close> and
  \<open>gs_MaxMsgSize\<close> keep their zero value.
\<close>

record 'g GrpcSync =
  gs_GrpcDialOptionsOverride :: "'g list"
  gs_CertPath :: string
  gs_ProviderID :: string
  gs_Secure :: bool
  gs_Selector :: string
  gs_URI :: string
  gs_MaxMsgSize :: int
  gs_RetryGracePeriod :: int
  gs_RetryBackOffMs :: int
  gs_RetryBackOffMaxMs :: int
  gs_FatalStatusCodes :: "string list"

datatype ('s, 'g) sync_provider = CustomSource 's | FileSource string | GrpcSource "'g GrpcSync"

text \<open>\<open>validScheme\<close> is the match of \<^verbatim>\<open>isValidTargetScheme\<close> with the scheme pattern of flagd's grpc package.\<close>

definition buildGrpcUri :: "(string \<Rightarrow> bool) \<Rightarrow> ('s, 'g) InProcessConfiguration \<Rightarrow> string" where
  "buildGrpcUri validScheme cfg =
     (if ip_TargetUri cfg \<noteq> [] \<and> validScheme (ip_TargetUri cfg) then ip_TargetUri cfg
      else ip_Host cfg @ '':'' @ int_to_string (uint (ip_Port cfg)))"

definition createSyncProvider ::
  "(string \<Rightarrow> bool) \<Rightarrow> ('s, 'g) InProcessConfiguration \<Rightarrow> ('s, 'g) sync_provider \<times> string" where
  "createSyncProvider validScheme cfg =
     (case ip_CustomSyncProvider cfg of
        Some p \<Rightarrow> (CustomSource p, ip_CustomSyncProviderUri cfg)
      | None \<Rightarrow>
          if ip_OfflineFlagSource cfg \<noteq> [] then (FileSource (ip_OfflineFlagSource cfg), ip_OfflineFlagSource cfg)
          else let uri = buildGrpcUri validScheme cfg
               in (GrpcSource
                     \<lparr>gs_GrpcDialOptionsOverride = ip_GrpcDialOptionsOverride cfg,
                      gs_CertPath = ip_CertificatePath cfg, gs_ProviderID = ip_ProviderID cfg,
                      gs_Secure = ip_TLSEnabled cfg, gs_Selector = ip_Selector cfg, gs_URI = uri,
                      gs_MaxMsgSize = 0, gs_RetryGracePeriod = 0,
                      gs_RetryBackOffMs = ip_RetryBackOffMs cfg,
                      gs_RetryBackOffMaxMs = ip_RetryBackOffMaxMs cfg,
                      gs_FatalStatusCodes = ip_FatalStatusCodes cfg\<rparr>, uri))"

text \<open>\<open>evalr\<close> is flagd's JSON evaluator on a fresh store.\<close>

definition NewInProcessService ::
  "(string \<Rightarrow> bool) \<Rightarrow> flag_evaluator \<Rightarrow> ('s, 'g) InProcessConfiguration \<Rightarrow>
   InProcess \<times> ('s, 'g) sync_provider \<times> string list" where
  "NewInProcessService validScheme evalr cfg =
     (case createSyncProvider validScheme cfg of (p, uri) \<Rightarrow>
       (\<lparr>in_evaluator = evalr, in_serviceMetadata = createServiceMetadata cfg,
         in_deadlineMs = ip_DeadlineMs cfg\<rparr>, p, [uri]))"

section \<open>Lemmas\<close>

lemma finite_serviceMetadata [simp]: "finite (dom (createServiceMetadata cfg))"
  by (simp add: createServiceMetadata_def Let_def)

lemma append_entries_Some:
  "set ks \<subseteq> dom m \<Longrightarrow> append_entries m ks (Some f) = Return (Some (\<lambda>k. if k \<in> set ks then m k else f k))"
proof (induction ks arbitrary: f)
  case (Cons k ks)
  then obtain v where "m k = Some v" by auto
  with Cons show ?case by (auto simp: fun_eq_iff)
qed simp

lemma appendMetadata_Some:
  assumes "range_order order" "finite (dom sm)"
  shows "appendMetadata order sm (Some f) = Return (Some (f ++ sm))"
proof -
  from range_orderD [OF assms] have "set (order sm) = dom sm" by simp
  then show ?thesis
    by (auto simp: appendMetadata_def append_entries_Some fun_eq_iff map_add_def dom_def split: option.splits)
qed

lemma appendMetadata_None:
  assumes "range_order order" "finite (dom sm)"
  shows "appendMetadata order sm None =
    (if sm = Map.empty then Return None else Panic ''assignment to entry in nil map'')"
proof (cases "sm = Map.empty")
  case True
  with range_orderD [OF assms] show ?thesis by (simp add: appendMetadata_def)
next
  case False
  with range_orderD [OF assms] obtain k ks where "order sm = k # ks" by (cases "order sm") auto
  with False show ?thesis by (simp add: appendMetadata_def)
qed

lemma appendMetadata_view:
  assumes "range_order order" "finite (dom sm)" "appendMetadata order sm m = Return m'"
  shows "map_view m' = map_view m ++ sm"
  using assms by (cases m) (auto simp: appendMetadata_Some appendMetadata_None split: if_splits)

lemma createServiceMetadata_entries:
  "createServiceMetadata cfg ''scope'' = (if ip_Selector cfg = [] then None else Some (VString (ip_Selector cfg)))"
  "createServiceMetadata cfg ''providerID'' = (if ip_ProviderID cfg = [] then None else Some (VString (ip_ProviderID cfg)))"
  "createServiceMetadata cfg = Map.empty \<longleftrightarrow> ip_Selector cfg = [] \<and> ip_ProviderID cfg = []"
  by (auto simp: createServiceMetadata_def Let_def dest: fun_cong)

text \<open>What the evaluator's answer asks for, as one of three outcomes.\<close>

datatype verdict = EvalFailed string | UseDefault | UseValue

definition verdict_of :: "core_model \<Rightarrow> 'v evaluator_answer \<Rightarrow> verdict" where
  "verdict_of cm a = (case ea_err a of Some err \<Rightarrow> EvalFailed err
     | None \<Rightarrow> if ea_reason a = cm_DisabledReason cm \<or> ea_reason a = cm_FallbackReason cm then UseDefault else UseValue)"

definition inprocess_contract ::
  "core_model \<Rightarrow> (string \<rightharpoonup> go_any) \<Rightarrow> ('w \<Rightarrow> 'v) \<Rightarrow> string \<Rightarrow> 'v \<Rightarrow> 'w evaluator_answer \<Rightarrow>
   'v resolution_detail outcome \<Rightarrow> bool" where
  "inprocess_contract cm sm conv key dv a r =
     (case r of
        Panic m \<Rightarrow> ea_metadata a = None \<and> sm \<noteq> Map.empty
      | Return d \<Rightarrow>
          (sm = Map.empty \<or> ea_metadata a \<noteq> None) \<and>
          map_view (FlagMetadata (Detail d)) = map_view (ea_metadata a) ++ sm \<and>
          (case verdict_of cm a of
             EvalFailed err \<Rightarrow> Value d = dv \<and> ResolutionError (Detail d) = mapError cm key err
           | UseDefault \<Rightarrow> Value d = dv \<and> ResolutionError (Detail d) = NoResolutionError \<and> Variant (Detail d) = []
           | UseValue \<Rightarrow> Value d = conv (ea_value a) \<and> ResolutionError (Detail d) = NoResolutionError \<and>
               Variant (Detail d) = ea_variant a \<and> Reason (Detail d) = ea_reason a))"

lemma resolve_in_process_contract:
  assumes "range_order order" "finite (dom (in_serviceMetadata i))"
  shows "inprocess_contract cm (in_serviceMetadata i) conv key dv
    (sel (in_evaluator i) (applyDeadlineToContext (in_deadlineMs i)) key ctx)
    (resolve_in_process cm order sel conv i key dv ctx)"
proof -
  let ?a = "sel (in_evaluator i) (applyDeadlineToContext (in_deadlineMs i)) key ctx"
  let ?m = "appendMetadata order (in_serviceMetadata i) (ea_metadata ?a)"
  show ?thesis
  proof (cases ?m)
    case (Return m)
    then have "map_view m = map_view (ea_metadata ?a) ++ in_serviceMetadata i"
      using appendMetadata_view [OF assms] by simp
    moreover have "in_serviceMetadata i = Map.empty \<or> ea_metadata ?a \<noteq> None"
      using Return appendMetadata_None [OF assms] by (cases "ea_metadata ?a") (auto split: if_splits)
    ultimately show ?thesis using Return
      by (simp add: inprocess_contract_def resolve_in_process_def Let_def verdict_of_def empty_detail_def
          split: option.split)
  next
    case (Panic msg)
    then have "ea_metadata ?a = None \<and> in_serviceMetadata i \<noteq> Map.empty"
      using appendMetadata_Some [OF assms] appendMetadata_None [OF assms]
      by (cases "ea_metadata ?a") (auto split: if_splits)
    with Panic show ?thesis by (simp add: inprocess_contract_def resolve_in_process_def)
  qed
qed

section \<open>Properties\<close>

text \<open>
  C21: Every in-process evaluation follows its contract, for each of the five types and every
  service the constructor builds.  It panics exactly when the evaluator hands out the nil metadata
  map although a selector or a provider id is configured; otherwise the metadata are the
  evaluator's with the selector and the provider id written over them, an evaluator error gives
  the default value with the mapped error, a disabled or a fallback flag gives the default value
  without an error or a variant, and any other answer is passed on.
\<close>

theorem inprocess_evaluation_contract:
  assumes "range_order order" "i = fst (NewInProcessService vs evalr cfg)"
  shows "inprocess_contract cm (createServiceMetadata cfg) id key b
      (ev_Boolean evalr (applyDeadlineToContext (ip_DeadlineMs cfg)) key ctx) (inprocess_ResolveBoolean cm order i key b ctx) \<and>
    inprocess_contract cm (createServiceMetadata cfg) id key s
      (ev_String evalr (applyDeadlineToContext (ip_DeadlineMs cfg)) key ctx) (inprocess_ResolveString cm order i key s ctx) \<and>
    inprocess_contract cm (createServiceMetadata cfg) id key f
      (ev_Float evalr (applyDeadlineToContext (ip_DeadlineMs cfg)) key ctx) (inprocess_ResolveFloat cm order i key f ctx) \<and>
    inprocess_contract cm (createServiceMetadata cfg) id key n
      (ev_Int evalr (applyDeadlineToContext (ip_DeadlineMs cfg)) key ctx) (inprocess_ResolveInt cm order i key n ctx) \<and>
    inprocess_contract cm (createServiceMetadata cfg) VMap key v
      (ev_Object evalr (applyDeadlineToContext (ip_DeadlineMs cfg)) key ctx) (inprocess_ResolveObject cm order i key v ctx)"
proof -
  have i: "in_evaluator i = evalr" "in_serviceMetadata i = createServiceMetadata cfg"
    "in_deadlineMs i = ip_DeadlineMs cfg"
    by (simp_all add: assms(2) NewInProcessService_def case_prod_beta)
  then have fin: "finite (dom (in_serviceMetadata i))" by simp
  note contract = resolve_in_process_contract [OF assms(1) fin, of cm]
  show ?thesis
    using contract [of "\<lambda>b. b" key b ev_Boolean ctx] contract [of "\<lambda>b. b" key s ev_String ctx]
      contract [of "\<lambda>b. b" key f ev_Float ctx] contract [of "\<lambda>b. b" key n ev_Int ctx]
      contract [of VMap key v ev_Object ctx]
    by (simp add: i inprocess_ResolveBoolean_def inprocess_ResolveString_def inprocess_ResolveFloat_def
        inprocess_ResolveInt_def inprocess_ResolveObject_def id_def)
qed

text \<open>An evaluator for the witnesses: every flag is on, without metadata.\<close>

definition demo_answer :: "'v \<Rightarrow> 'v evaluator_answer" where
  "demo_answer v = \<lparr>ea_value = v, ea_variant = ''on'', ea_reason = ''STATIC'', ea_metadata = None, ea_err = None\<rparr>"

definition demo_evaluator :: flag_evaluator where
  "demo_evaluator = \<lparr>ev_Boolean = \<lambda>d k c. demo_answer True, ev_String = \<lambda>d k c. demo_answer ''on'',
     ev_Float = \<lambda>d k c. demo_answer (Float64 0), ev_Int = \<lambda>d k c. demo_answer 1,
     ev_Object = \<lambda>d k c. demo_answer Map.empty\<rparr>"

definition demo_model :: core_model where
  "demo_model = \<lparr>cm_DisabledReason = ''DISABLED'', cm_FallbackReason = ''FALLBACK'',
     cm_FlagNotFoundErrorCode = ''FLAG_NOT_FOUND'', cm_TypeMismatchErrorCode = ''TYPE_MISMATCH'',
     cm_ParseErrorCode = ''PARSE_ERROR''\<rparr>"

definition demo_inprocess :: "string \<Rightarrow> (nat, nat) InProcessConfiguration" where
  "demo_inprocess selector = zero_InProcessConfiguration\<lparr>ip_Selector := selector\<rparr>"

lemma demo_Boolean: "ev_Boolean demo_evaluator d k c = demo_answer True"
  by (simp add: demo_evaluator_def)

lemma demo_scope: "createServiceMetadata (demo_inprocess s) = Map.empty \<longleftrightarrow> s = []"
  by (simp add: createServiceMetadata_entries demo_inprocess_def zero_InProcessConfiguration_def)

lemma demo_verdict: "verdict_of demo_model (demo_answer v) = UseValue" "ea_value (demo_answer v) = v"
    "ea_metadata (demo_answer v) = None"
  by (simp_all add: verdict_of_def demo_answer_def demo_model_def)

theorem inprocess_evaluation_contract_witness:
  "(\<exists>d. inprocess_ResolveBoolean demo_model some_order
      (fst (NewInProcessService (\<lambda>_. True) demo_evaluator (demo_inprocess []))) ''flag'' False None = Return d \<and>
    Value d = True) \<and>
   (\<exists>m. inprocess_ResolveBoolean demo_model some_order
      (fst (NewInProcessService (\<lambda>_. True) demo_evaluator (demo_inprocess ''app''))) ''flag'' False None = Panic m)"
proof -
  let ?r = "\<lambda>s. inprocess_ResolveBoolean demo_model some_order
      (fst (NewInProcessService (\<lambda>_. True) demo_evaluator (demo_inprocess s))) ''flag'' False None"
  have "inprocess_contract demo_model (createServiceMetadata (demo_inprocess s)) id ''flag'' False (demo_answer True) (?r s)" for s
    using inprocess_evaluation_contract [OF range_order_some_order refl,
      where evalr = demo_evaluator and cm = demo_model and cfg = "demo_inprocess s" and vs = "\<lambda>_. True" and
      key = "''flag''" and b = False and ctx = None] by (simp only: demo_Boolean)
  from this [of "[]"] this [of "''app''"] show ?thesis
    by (cases "?r []"; cases "?r ''app''") (simp_all add: inprocess_contract_def demo_scope demo_verdict)
qed

text \<open>
  Where a provider's flags come from, from the options of the provider to the source it
  subscribes to, for the resolvers flagd knows.  In file mode the source is the offline path; otherwise a custom source wins, and
  without one the gRPC source is dialled at the target URI if its scheme is valid and else at host
  and port, the port being non-zero.  The URI of the source is the one registered in the flag store.
\<close>

theorem provider_flag_source:
  assumes "NewProvider env lru_new opts = Inr p" "service p = InProcessSvc cfg"
    and "\<And>text. Resolver (providerConfiguration p) \<noteq> OtherResolver text"
  shows "let c = providerConfiguration p;
             (i, source, uris) = NewInProcessService vs evalr cfg
         in (case source of
               FileSource path \<Rightarrow> Resolver c = fileResolver \<and> path = OfflineFlagSourcePath c \<and> uris = [path]
             | CustomSource sp \<Rightarrow> Resolver c = inProcess \<and> CustomSyncProvider c = Some sp \<and> uris = [CustomSyncProviderUri c]
             | GrpcSource g \<Rightarrow> Resolver c = inProcess \<and> CustomSyncProvider c = None \<and> uris = [gs_URI g] \<and>
                 gs_Selector g = Selector c \<and> gs_ProviderID g = ProviderId c \<and>
                 gs_URI g = (if TargetUri c \<noteq> [] \<and> vs (TargetUri c) then TargetUri c
                   else Host c @ '':'' @ int_to_string (uint (Port c))) \<and> Port c \<noteq> 0)"
proof -
  note facts = NewProvider_Inr [OF assms(1)]
  let ?c = "providerConfiguration p"
  have ok: "config_ok ?c" using constructed_ok [of env opts] facts(1) by simp
  have path: "Resolver ?c = fileResolver \<Longrightarrow> OfflineFlagSourcePath ?c \<noteq> []"
    using facts(1,2) by (auto simp: NewProviderConfiguration_def Let_def validateProviderConfiguration_def
        split: if_splits)
  have cfg: "service_of_config (NewCacheService lru_new (CacheType ?c) (MaxCacheSize ?c)) ?c = InProcessSvc cfg"
    using facts(3) assms(2) by simp
  show ?thesis
  proof (cases "Resolver ?c")
    case rpc
    with cfg show ?thesis by (simp add: service_of_config_def)
  next
    case inProcess
    with cfg ok show ?thesis
      by (cases "CustomSyncProvider ?c")
        (auto simp: service_of_config_def config_ok_def NewInProcessService_def createSyncProvider_def
          buildGrpcUri_def Let_def)
  next
    case fileResolver
    with cfg path show ?thesis
      by (auto simp: service_of_config_def NewInProcessService_def createSyncProvider_def
          zero_InProcessConfiguration_def Let_def)
  qed (use assms(3) in blast)
qed

definition demo_options :: "(nat, nat) ProviderOption list" where
  "demo_options = [WithInProcessResolver, WithHost ''flags'']"

lemma demo_options_configuration:
  assumes "c = fst (NewProviderConfiguration (\<lambda>_. []) demo_options)"
  shows "Resolver c = inProcess" "Host c = ''flags''" "Port c = 8015" "TargetUri c = []"
    "snd (NewProviderConfiguration (\<lambda>_. []) demo_options) = None"
  unfolding assms NewProviderConfiguration_def demo_options_def
  by (simp_all add: Let_def newDefaultConfiguration_def
        updateFromEnvVar_eq WithInProcessResolver_def WithHost_def updatePortFromEnvVar_def
        configureProviderConfiguration_def validateProviderConfiguration_def default_defs)

theorem provider_flag_source_witness:
  "\<exists>p cfg. NewProvider (\<lambda>_. []) (\<lambda>n. Inr ()) demo_options = Inr p \<and>
     service p = InProcessSvc cfg \<and>
     (case fst (snd (NewInProcessService (\<lambda>_. False) demo_evaluator cfg)) of
        GrpcSource g \<Rightarrow> gs_URI g = ''flags:8015'' | _ \<Rightarrow> True)"
proof -
  obtain p where p: "NewProvider (\<lambda>_. []) (\<lambda>n. Inr ()) demo_options = Inr p"
    using demo_options_configuration(5) by (cases "NewProviderConfiguration (\<lambda>_. []) demo_options")
      (auto simp: NewProvider_def Let_def)
  note facts = NewProvider_Inr [OF p]
  let ?c = "providerConfiguration p"
  note c = demo_options_configuration [OF facts(1)]
  obtain cfg where cfg: "service p = InProcessSvc cfg"
    using facts(3) c(1) by (simp add: service_of_config_def)
  obtain i src uris where n: "NewInProcessService (\<lambda>_. False) demo_evaluator cfg = (i, src, uris)"
    by (cases "NewInProcessService (\<lambda>_. False) demo_evaluator cfg")
  have port: "int_to_string 8015 = ''8015''"
    by (simp add: int_to_string_def nat_to_string.simps digit_char_def char_of_def bit_Suc_0_iff)
  have "case src of GrpcSource g \<Rightarrow> gs_URI g = ''flags:8015'' | _ \<Rightarrow> True"
  proof (cases src)
    case (GrpcSource g)
    have "gs_URI g = Host ?c @ '':'' @ int_to_string (uint (Port ?c))"
      using provider_flag_source [OF p cfg, of "\<lambda>_. False" demo_evaluator]
      unfolding Let_def n GrpcSource prod.case sync_provider.case c(4) by (simp add: c(1))
    then show ?thesis by (simp add: GrpcSource c(2,3) port)
  qed simp_all
  then show ?thesis unfolding n [symmetric] by (intro exI conjI) (rule p, rule cfg, simp add: n)
qed

end
