(* ===== verification/Flagd_InProcess_Events.thy ===== *)
theory Flagd_InProcess_Events
  imports Flagd_InProcess
begin

text \<open>
  The goroutines of the in-process service (\<^verbatim>\<open>service.go\<close>): the monitor of the flag source's
  events, the stale timer, the listener that feeds flag data to the evaluator, and shutdown.  The
  handlers are given twice: as functions on the shared state, each run to its end, and as a step
  relation with a program counter per goroutine and the bounded event channel, in which they
  interleave.
\<close>

section \<open>State\<close>

text \<open>
  The timer of \<^verbatim>\<open>staleTimer\<close>: no timer object, one that is pending, one that has fired and is still
  referenced.  \<open>hs_events\<close> is the channel \<^verbatim>\<open>events\<close>, \<open>hs_init\<close> tells whether \<^verbatim>\<open>initSuccess\<close> is
  closed, \<open>hs_store\<close> is the flag store behind the evaluator.
\<close>

datatype timer = TimerOff | TimerRunning | TimerExpired

record 'st health =
  hs_ready :: bool
  hs_timer :: timer
  hs_events :: "of_event list"
  hs_init :: bool
  hs_store :: 'st

definition staleTimer_start :: "timer \<Rightarrow> timer" where
  "staleTimer_start t = (case t of TimerOff \<Rightarrow> TimerRunning | _ \<Rightarrow> t)"

definition staleTimer_stop :: "timer \<Rightarrow> timer" where
  "staleTimer_stop t = TimerOff"

definition fresh_health :: "'st \<Rightarrow> 'st health" where
  "fresh_health st = \<lparr>hs_ready = False, hs_timer = TimerOff, hs_events = [], hs_init = False, hs_store = st\<rparr>"

text \<open>A flag: its key and the rest.  The store and the evaluator are parameters.\<close>

record 'f flag =
  fl_Key :: string
  fl_body :: 'f

record ('d, 'f, 'st) flag_core =
  co_GetAll :: "'st \<Rightarrow> string + 'f flag list"
  co_SetState :: "'d \<Rightarrow> 'st \<Rightarrow> 'st \<times> string option"
  co_DeepEqual :: "'f flag \<Rightarrow> 'f flag \<Rightarrow> bool"
  co_range :: "(string \<rightharpoonup> 'f flag) \<Rightarrow> string list"

section \<open>Events\<close>

definition stale_event :: of_event where
  "stale_event = \<lparr>EventType = EvStale, EventMessage = ''connection error'', FlagChanges = []\<rparr>"

definition expired_event :: of_event where
  "expired_event = \<lparr>EventType = EvError, EventMessage = ''provider error'', FlagChanges = []\<rparr>"

definition sync_error_event :: "string \<Rightarrow> of_event" where
  "sync_error_event err = \<lparr>EventType = EvError, EventMessage = ''Error from flag sync '' @ err, FlagChanges = []\<rparr>"

definition became_ready_event :: of_event where
  "became_ready_event = \<lparr>EventType = EvReady, EventMessage = [], FlagChanges = []\<rparr>"

definition changes_event :: "string list \<Rightarrow> of_event" where
  "changes_event ks = \<lparr>EventType = EvConfigChange, EventMessage = ''New flag sync'', FlagChanges = ks\<rparr>"

lemma event_types [simp]:
  "EventType stale_event = EvStale" "EventType expired_event = EvError"
  "EventType (sync_error_event err) = EvError" "EventType became_ready_event = EvReady"
  "EventType (changes_event ks) = EvConfigChange" "FlagChanges (changes_event ks) = ks"
  by (simp_all add: stale_event_def expired_event_def sync_error_event_def became_ready_event_def changes_event_def)

definition put_event :: "of_event \<Rightarrow> ('st, 'm) health_scheme \<Rightarrow> ('st, 'm) health_scheme" where
  "put_event ev s = s\<lparr>hs_events := hs_events s @ [ev]\<rparr>"

section \<open>The handlers, run to their end\<close>

datatype sync_event = SyncError | SyncReady | SyncOther

definition handleProviderError :: "('st, 'm) health_scheme \<Rightarrow> ('st, 'm) health_scheme" where
  "handleProviderError s =
     (let s = put_event stale_event s in s\<lparr>hs_timer := staleTimer_start (hs_timer s)\<rparr>)"

definition handleProviderReady :: "('st, 'm) health_scheme \<Rightarrow> ('st, 'm) health_scheme" where
  "handleProviderReady s = s\<lparr>hs_timer := staleTimer_stop (hs_timer s)\<rparr>"

definition handleSyncEvent :: "sync_event \<Rightarrow> ('st, 'm) health_scheme \<Rightarrow> ('st, 'm) health_scheme" where
  "handleSyncEvent ev s = (case ev of
       SyncError \<Rightarrow> handleProviderError (s\<lparr>hs_ready := False\<rparr>)
     | SyncReady \<Rightarrow> handleProviderReady s
     | SyncOther \<Rightarrow> s)"

text \<open>The callback that \<^verbatim>\<open>handleProviderError\<close> gives the timer.\<close>

definition timer_callback :: "('st, 'm) health_scheme \<Rightarrow> ('st, 'm) health_scheme" where
  "timer_callback s = put_event expired_event (s\<lparr>hs_timer := TimerExpired\<rparr>)"

definition flag_map :: "'f flag list \<Rightarrow> string \<rightharpoonup> 'f flag" where
  "flag_map fs = foldl (\<lambda>m f. m(fl_Key f \<mapsto> f)) Map.empty fs"

definition computeChangedFlags ::
  "('d, 'f, 'st) flag_core \<Rightarrow> (string \<rightharpoonup> 'f flag) \<Rightarrow> 'f flag list \<Rightarrow> string list" where
  "computeChangedFlags co oldFlagMap newFlags =
     (let newKeys = set (map fl_Key newFlags)
      in map fl_Key (filter (\<lambda>f. case oldFlagMap (fl_Key f) of None \<Rightarrow> True
                                | Some oldFlag \<Rightarrow> \<not> co_DeepEqual co oldFlag f) newFlags) @
         filter (\<lambda>key. key \<notin> newKeys) (co_range co oldFlagMap))"

definition announce_changes ::
  "('d, 'f, 'st) flag_core \<Rightarrow> (string \<rightharpoonup> 'f flag) \<Rightarrow> ('st, 'm) health_scheme \<Rightarrow> ('st, 'm) health_scheme" where
  "announce_changes co oldFlagMap s =
     (case co_GetAll co (hs_store s) of
        Inl err \<Rightarrow> s
      | Inr newFlags \<Rightarrow>
          (let changedKeys = computeChangedFlags co oldFlagMap newFlags
           in if changedKeys \<noteq> [] then put_event (changes_event changedKeys) s else s))"

definition processSyncData ::
  "('d, 'f, 'st) flag_core \<Rightarrow> 'd \<Rightarrow> ('st, 'm) health_scheme \<Rightarrow> ('st, 'm) health_scheme" where
  "processSyncData co data s =
     (case co_GetAll co (hs_store s) of
        Inl err \<Rightarrow> s
      | Inr oldFlags \<Rightarrow>
          (case co_SetState co data (hs_store s) of
             (st, Some err) \<Rightarrow> put_event (sync_error_event err) (s\<lparr>hs_store := st, hs_ready := False\<rparr>)
           | (st, None) \<Rightarrow>
               (let s = s\<lparr>hs_store := st, hs_timer := staleTimer_stop (hs_timer s)\<rparr>;
                    s = (if hs_ready s then s else put_event became_ready_event (s\<lparr>hs_ready := True\<rparr>));
                    s = s\<lparr>hs_init := True\<rparr>
                in announce_changes co (flag_map oldFlags) s)))"

text \<open>What happens to the service, one thing at a time.\<close>

datatype 'd input = SourceEvent sync_event | GraceExpired | FlagData 'd

definition health_input ::
  "('d, 'f, 'st) flag_core \<Rightarrow> 'd input \<Rightarrow> ('st, 'm) health_scheme \<Rightarrow> ('st, 'm) health_scheme" where
  "health_input co i s = (case i of
       SourceEvent ev \<Rightarrow> handleSyncEvent ev s
     | GraceExpired \<Rightarrow> if hs_timer s = TimerRunning then timer_callback s else s
     | FlagData d \<Rightarrow> processSyncData co d s)"

definition health_run ::
  "('d, 'f, 'st) flag_core \<Rightarrow> 'd input list \<Rightarrow> ('st, 'm) health_scheme \<Rightarrow> ('st, 'm) health_scheme" where
  "health_run co is s = foldl (\<lambda>s i. health_input co i s) s is"

text \<open>
  The goroutine that runs the source puts the error of \<^verbatim>\<open>Sync\<close> into the one-place buffer
  \<^verbatim>\<open>initError\<close>, unless the context is done or the buffer is taken.  \<^verbatim>\<open>Init\<close> waits for
  \<^verbatim>\<open>initSuccess\<close> or for that buffer and takes either when both are ready (\<open>choice\<close>); the outer
  \<open>None\<close> is a call that still waits.
\<close>

definition runDataSyncProcess :: "string option \<Rightarrow> bool \<Rightarrow> string option \<Rightarrow> string option" where
  "runDataSyncProcess err ctxDone initError =
     (if err \<noteq> None \<and> \<not> ctxDone \<and> initError = None then err else initError)"

definition waitForInitialization :: "bool \<Rightarrow> bool \<Rightarrow> string option \<Rightarrow> string option option" where
  "waitForInitialization choice initSuccess initError =
     (if initSuccess \<and> (choice \<or> initError = None) then Some None
      else map_option (\<lambda>err. Some (''initialization failed: '' @ err)) initError)"

definition inprocess_Init :: "string option \<Rightarrow> bool \<Rightarrow> bool \<Rightarrow> string option \<Rightarrow> string option option" where
  "inprocess_Init sourceInit choice initSuccess initError =
     (case sourceInit of
        Some err \<Rightarrow> Some (Some (''failed to initialize sync provider: '' @ err))
      | None \<Rightarrow> waitForInitialization choice initSuccess initError)"

section \<open>Changed flags\<close>

lemma flag_map_snoc: "flag_map (fs @ [f]) = (flag_map fs)(fl_Key f \<mapsto> f)"
  by (simp add: flag_map_def)

lemma dom_flag_map: "dom (flag_map fs) = fl_Key ` set fs"
proof (induction fs rule: rev_induct)
  case Nil
  then show ?case by (simp add: flag_map_def)
next
  case (snoc f fs)
  have "dom (flag_map (fs @ [f])) = insert (fl_Key f) (dom (flag_map fs))"
    unfolding flag_map_snoc by (rule set_eqI) (simp add: domIff)
  with snoc show ?case by simp
qed

lemma flag_map_distinct:
  "distinct (map fl_Key fs) \<Longrightarrow> flag_map fs k = Some f \<longleftrightarrow> f \<in> set fs \<and> fl_Key f = k"
proof (induction fs rule: rev_induct)
  case (snoc g gs)
  then have "flag_map gs (fl_Key g) = None"
    using dom_flag_map [of gs] by (auto simp: domIff)
  with snoc show ?case by (auto simp: flag_map_snoc)
qed (simp add: flag_map_def)

text \<open>The flag that the store listed last under a key.\<close>

definition last_flag :: "'f flag list \<Rightarrow> string \<Rightarrow> 'f flag option" where
  "last_flag fs k = List.find (\<lambda>f. fl_Key f = k) (rev fs)"

lemma flag_map_last: "flag_map fs k = last_flag fs k"
  by (induction fs rule: rev_induct) (simp_all add: flag_map_snoc last_flag_def flag_map_def)

lemma last_flag_distinct: "distinct (map fl_Key fs) \<Longrightarrow> last_flag fs k = Some f \<longleftrightarrow> f \<in> set fs \<and> fl_Key f = k"
  using flag_map_distinct [of fs k f] by (simp add: flag_map_last)

text \<open>A flag is the old one: the last flag listed under its key before was deeply equal.\<close>

definition same_as_before :: "('d, 'f, 'st) flag_core \<Rightarrow> 'f flag list \<Rightarrow> 'f flag \<Rightarrow> bool" where
  "same_as_before co old f \<longleftrightarrow> (\<exists>g. last_flag old (fl_Key f) = Some g \<and> co_DeepEqual co g f)"

definition flag_unchanged :: "('d, 'f, 'st) flag_core \<Rightarrow> 'f flag list \<Rightarrow> 'f flag list \<Rightarrow> string \<Rightarrow> bool" where
  "flag_unchanged co old new k \<longleftrightarrow> rel_option (co_DeepEqual co) (last_flag old k) (last_flag new k)"

lemma count_filter_keys: "count_list (map fl_Key (filter P fs)) k = length (filter (\<lambda>f. fl_Key f = k \<and> P f) fs)"
  by (induction fs) auto

lemma count_distinct: "distinct xs \<Longrightarrow> count_list xs k = (if k \<in> set xs then 1 else 0)"
  by (induction xs) auto

lemma distinct_if_count: "(\<And>k. count_list xs k \<le> 1) \<Longrightarrow> distinct xs"
proof (induction xs)
  case (Cons x xs)
  have "count_list xs k \<le> 1" for k using Cons.prems [of k] by (simp split: if_splits)
  with Cons.IH Cons.prems [of x] show ?case by (simp add: count_list_0_iff)
qed simp

lemma computeChangedFlags_count:
  assumes "range_order (co_range co)"
  shows "count_list (computeChangedFlags co (flag_map old) new) k =
    length (filter (\<lambda>f. fl_Key f = k \<and> \<not> same_as_before co old f) new) +
    (if k \<in> fl_Key ` set old - fl_Key ` set new then 1 else 0)"
proof -
  have fin: "finite (dom (flag_map old))" by (simp add: dom_flag_map)
  note order = range_orderD [OF assms fin]
  have "(case flag_map old (fl_Key f) of None \<Rightarrow> True | Some g \<Rightarrow> \<not> co_DeepEqual co g f) = (\<not> same_as_before co old f)" for f
    by (simp add: same_as_before_def flag_map_last split: option.split)
  moreover have "count_list (filter (\<lambda>key. key \<notin> fl_Key ` set new) (co_range co (flag_map old))) k =
      (if k \<in> fl_Key ` set old - fl_Key ` set new then 1 else 0)"
    using order by (auto simp: dom_flag_map count_distinct)
  ultimately show ?thesis by (simp add: computeChangedFlags_def Let_def count_filter_keys)
qed

text \<open>
  C22: Change detection, whatever the store lists: a key is reported once for each new flag under it
  that is not deeply equal to the last old flag under that key, once when all its flags are gone, and otherwise not at all.  Hence, when
  the new flags have different keys, exactly the keys whose flag was added, removed or changed are reported, each once.  (The store
  keeps one flag per flag set and key, so a key of two flag sets is listed twice.)
\<close>

theorem computeChangedFlags_correct:
  assumes "range_order (co_range co)"
  shows "(\<forall>k. count_list (computeChangedFlags co (flag_map oldFlags) newFlags) k =
      length (filter (\<lambda>f. fl_Key f = k \<and> \<not> same_as_before co oldFlags f) newFlags) +
      (if k \<in> fl_Key ` set oldFlags - fl_Key ` set newFlags then 1 else 0)) \<and>
    (distinct (map fl_Key newFlags) \<longrightarrow>
      set (computeChangedFlags co (flag_map oldFlags) newFlags) = {k. \<not> flag_unchanged co oldFlags newFlags k} \<and>
      distinct (computeChangedFlags co (flag_map oldFlags) newFlags))"
proof (intro conjI allI impI)
  let ?changed = "computeChangedFlags co (flag_map oldFlags) newFlags"
  show count: "count_list ?changed k =
      length (filter (\<lambda>f. fl_Key f = k \<and> \<not> same_as_before co oldFlags f) newFlags) +
      (if k \<in> fl_Key ` set oldFlags - fl_Key ` set newFlags then 1 else 0)" for k
    by (rule computeChangedFlags_count [OF assms])
  assume distinct: "distinct (map fl_Key newFlags)"
  have listed: "last_flag fs k \<noteq> None \<longleftrightarrow> k \<in> fl_Key ` set fs" for fs :: "'a flag list" and k
    using dom_flag_map [of fs] by (auto simp: flag_map_last [symmetric] domIff)
  have "k \<in> set ?changed \<longleftrightarrow> \<not> flag_unchanged co oldFlags newFlags k" for k
  proof -
    have "k \<in> set ?changed \<longleftrightarrow> count_list ?changed k \<noteq> 0" by (simp add: count_list_0_iff)
    also have "\<dots> \<longleftrightarrow> (\<exists>f \<in> set newFlags. fl_Key f = k \<and> \<not> same_as_before co oldFlags f) \<or>
        k \<in> fl_Key ` set oldFlags - fl_Key ` set newFlags"
      unfolding count by (auto simp: filter_empty_conv)
    also have "(\<exists>f \<in> set newFlags. fl_Key f = k \<and> \<not> same_as_before co oldFlags f) \<longleftrightarrow>
        (\<exists>f. last_flag newFlags k = Some f \<and> \<not> same_as_before co oldFlags f)"
      using last_flag_distinct [OF distinct, of k] by auto
    also have "(\<exists>f. last_flag newFlags k = Some f \<and> \<not> same_as_before co oldFlags f) \<longleftrightarrow>
        (\<exists>f. last_flag newFlags k = Some f \<and> \<not> (\<exists>g. last_flag oldFlags k = Some g \<and> co_DeepEqual co g f))"
      using last_flag_distinct [OF distinct, of k] by (auto simp: same_as_before_def)
    finally show ?thesis
      using listed [of newFlags k] listed [of oldFlags k]
      by (cases "last_flag oldFlags k"; cases "last_flag newFlags k") (auto simp: flag_unchanged_def)
  qed
  then show "set ?changed = {k. \<not> flag_unchanged co oldFlags newFlags k}" by blast
  have "length (filter (\<lambda>f. fl_Key f = k \<and> P f) newFlags) \<le> 1" for k P
    using distinct by (induction newFlags) (force simp: filter_empty_conv image_iff)+
  then have "count_list ?changed k \<le> 1" for k
    unfolding count by (auto simp: filter_empty_conv image_iff)
  then show "distinct ?changed" by (rule distinct_if_count)
qed

definition demo_core :: "(nat flag list + string, nat, nat flag list) flag_core" where
  "demo_core = \<lparr>co_GetAll = Inr, co_SetState = \<lambda>d st. (case d of Inl fs \<Rightarrow> (fs, None) | Inr e \<Rightarrow> (st, Some e)),
     co_DeepEqual = (=), co_range = some_order\<rparr>"

lemma demo_core_simps [simp]:
  "co_GetAll demo_core st = Inr st" "co_SetState demo_core (Inl fs) st = (fs, None)"
  "co_SetState demo_core (Inr e) st = (st, Some e)" "co_DeepEqual demo_core = (=)" "co_range demo_core = some_order"
  by (simp_all add: demo_core_def)

theorem computeChangedFlags_correct_witness:
  "set (computeChangedFlags demo_core
      (flag_map [\<lparr>fl_Key = ''a'', fl_body = 1\<rparr>, \<lparr>fl_Key = ''b'', fl_body = 1\<rparr>, \<lparr>fl_Key = ''c'', fl_body = 1\<rparr>])
      [\<lparr>fl_Key = ''b'', fl_body = 2\<rparr>, \<lparr>fl_Key = ''c'', fl_body = 1\<rparr>]) = {''a'', ''b''}"
  using computeChangedFlags_correct [of demo_core
      "[\<lparr>fl_Key = ''a'', fl_body = 1\<rparr>, \<lparr>fl_Key = ''b'', fl_body = 1\<rparr>, \<lparr>fl_Key = ''c'', fl_body = 1\<rparr>]"
      "[\<lparr>fl_Key = ''b'', fl_body = 2\<rparr>, \<lparr>fl_Key = ''c'', fl_body = 1\<rparr>]"]
  by (auto simp: range_order_some_order flag_unchanged_def last_flag_def split: if_splits)

text \<open>A key of two flag sets is reported by a sync that changes nothing: the first of its flags is compared with the last.\<close>

lemma change_without_change:
  "computeChangedFlags demo_core (flag_map [\<lparr>fl_Key = ''a'', fl_body = 1\<rparr>, \<lparr>fl_Key = ''a'', fl_body = 2\<rparr>])
     [\<lparr>fl_Key = ''a'', fl_body = 1\<rparr>, \<lparr>fl_Key = ''a'', fl_body = 2\<rparr>] = [''a'']"
proof -
  let ?fs = "[\<lparr>fl_Key = ''a'', fl_body = 1\<rparr>, \<lparr>fl_Key = ''a'', fl_body = 2\<rparr>] :: nat flag list"
  have "set (some_order (flag_map ?fs)) = {''a''}"
    using range_orderD(1) [OF range_order_some_order, of "flag_map ?fs"] by (auto simp: dom_flag_map)
  then show ?thesis by (simp add: computeChangedFlags_def flag_map_def filter_empty_conv)
qed

section \<open>Health, one handler at a time\<close>

definition health_status :: "of_event list \<Rightarrow> event_type option" where
  "health_status evs = map_option EventType (List.find (\<lambda>ev. EventType ev \<noteq> EvConfigChange) (rev evs))"

lemma health_status_simps [simp]:
  "health_status [] = None"
  "EventType ev = EvConfigChange \<Longrightarrow> health_status (evs @ [ev]) = health_status evs"
  "EventType ev \<noteq> EvConfigChange \<Longrightarrow> health_status (evs @ [ev]) = Some (EventType ev)"
  by (simp_all add: health_status_def)

text \<open>What a handler that ignores stale events sees last.\<close>

definition forwarded :: "of_event list \<Rightarrow> event_type option" where
  "forwarded evs = map_option EventType (List.find (\<lambda>ev. EventType ev \<noteq> EvStale) (rev evs))"

lemma forwarded_simps [simp]:
  "forwarded [] = None"
  "EventType ev = EvStale \<Longrightarrow> forwarded (evs @ [ev]) = forwarded evs"
  "EventType ev \<noteq> EvStale \<Longrightarrow> forwarded (evs @ [ev]) = Some (EventType ev)"
  by (simp_all add: forwarded_def)

lemma ready_forwarded: "health_status evs = Some EvReady \<Longrightarrow> forwarded evs \<in> {Some EvReady, Some EvConfigChange}"
proof (induction evs rule: rev_induct)
  case (snoc ev evs)
  then show ?case by (cases "EventType ev") simp_all
qed simp

text \<open>
  The ready flag says what the last status event said; a ready service has no timer and is
  initialised; after an error nothing but stale events follows until the service is ready again.
\<close>

definition health_ok :: "('st, 'm) health_scheme \<Rightarrow> bool" where
  "health_ok s \<longleftrightarrow> (hs_ready s \<longleftrightarrow> health_status (hs_events s) = Some EvReady) \<and>
     (hs_ready s \<longrightarrow> hs_timer s = TimerOff \<and> hs_init s) \<and>
     (health_status (hs_events s) = Some EvError \<longrightarrow> forwarded (hs_events s) = Some EvError)"

lemma health_ok_fresh: "health_ok (fresh_health st)"
  by (simp add: health_ok_def fresh_health_def)

lemma put_event_simps [simp]:
  "hs_events (put_event ev s) = hs_events s @ [ev]" "hs_ready (put_event ev s) = hs_ready s"
  "hs_timer (put_event ev s) = hs_timer s" "hs_init (put_event ev s) = hs_init s"
  "hs_store (put_event ev s) = hs_store s"
  by (simp_all add: put_event_def)

lemma announce_changes_simps [simp]:
  "hs_ready (announce_changes co m s) = hs_ready s" "hs_timer (announce_changes co m s) = hs_timer s"
  "hs_init (announce_changes co m s) = hs_init s" "hs_store (announce_changes co m s) = hs_store s"
  "health_status (hs_events (announce_changes co m s)) = health_status (hs_events s)"
  by (simp_all add: announce_changes_def Let_def split: sum.split)

lemma processSyncData_cases:
  obtains (skipped) "processSyncData co d s = s"
  | (failed) st err where "processSyncData co d s = put_event (sync_error_event err) (s\<lparr>hs_store := st, hs_ready := False\<rparr>)"
  | (taken) st m where "processSyncData co d s = announce_changes co m
      ((if hs_ready s then s\<lparr>hs_store := st, hs_timer := TimerOff\<rparr>
        else put_event became_ready_event (s\<lparr>hs_store := st, hs_timer := TimerOff, hs_ready := True\<rparr>))\<lparr>hs_init := True\<rparr>)"
proof -
  show thesis
  proof (cases "co_GetAll co (hs_store s)")
    case (Inl err)
    then show thesis by (intro skipped) (simp add: processSyncData_def)
  next
    case (Inr fs)
    obtain st e where st: "co_SetState co d (hs_store s) = (st, e)" by (cases "co_SetState co d (hs_store s)")
    show thesis
    proof (cases e)
      case None
      with Inr st show thesis
        by (intro taken [of "flag_map fs" st]) (simp add: processSyncData_def staleTimer_stop_def Let_def)
    next
      case (Some err)
      with Inr st show thesis by (intro failed [of err st]) (simp add: processSyncData_def)
    qed
  qed
qed

lemma announce_changes_ok: "health_ok s \<Longrightarrow> hs_ready s \<Longrightarrow> health_ok (announce_changes co m s)"
  by (simp add: health_ok_def)

lemma processSyncData_ok: "health_ok s \<Longrightarrow> health_ok (processSyncData co d s)"
proof (cases rule: processSyncData_cases [of co d s])
  case failed
  then show ?thesis by (simp add: health_ok_def)
next
  case (taken st m)
  assume "health_ok s"
  then show ?thesis unfolding taken by (intro announce_changes_ok) (auto simp: health_ok_def)
qed simp

lemma handleSyncEvent_ok: "health_ok s \<Longrightarrow> health_ok (handleSyncEvent ev s)"
  by (cases ev) (auto simp: health_ok_def handleSyncEvent_def handleProviderError_def handleProviderReady_def
      staleTimer_stop_def Let_def)

lemma timer_callback_ok: "health_ok s \<Longrightarrow> hs_timer s = TimerRunning \<Longrightarrow> health_ok (timer_callback s)"
  by (auto simp: health_ok_def timer_callback_def)

lemma health_input_ok: "health_ok s \<Longrightarrow> health_ok (health_input co i s)"
  by (cases i) (simp_all add: health_input_def processSyncData_ok handleSyncEvent_ok timer_callback_ok)

lemma health_run_snoc: "health_run co (is @ [i]) s = health_input co i (health_run co is s)"
  by (simp add: health_run_def)

lemma health_run_ok: "health_ok s \<Longrightarrow> health_ok (health_run co is s)"
  by (induction "is" rule: rev_induct) (simp_all add: health_run_snoc health_input_ok health_run_def [of co "[]"])

text \<open>
  C7: The health an application sees, as long as each handler runs to its end before the next one
  starts: after any sequence of source events, expirations and flag syncs, the ready flag is set
  exactly when the last ready, stale or error event was ready; then no stale timer is pending,
  and the provider that forwards the events is ready.  When the last of them was an error, the
  provider is in the error state, whatever stale events follow.
\<close>

theorem inprocess_health:
  "let s = health_run co is (fresh_health st); p' = handleEvents (hs_events s) p
    in hs_ready s = (health_status (hs_events s) = Some EvReady) \<and>
       (hs_ready s \<longrightarrow> hs_timer s = TimerOff \<and> hs_init s \<and> status p' = ReadyState) \<and>
       (health_status (hs_events s) = Some EvError \<longrightarrow> status p' = ErrorState)"
proof -
  let ?s = "health_run co is (fresh_health st)"
  have ok: "health_ok ?s" by (simp add: health_run_ok health_ok_fresh)
  have status: "status (handleEvents (hs_events ?s) p) =
      (case forwarded (hs_events ?s) of None \<Rightarrow> status p | Some t \<Rightarrow> if t = EvError then ErrorState else ReadyState)"
    using handleEvents_status [of "hs_events ?s" p] by (auto simp: forwarded_def split: option.split)
  show ?thesis using ok ready_forwarded [of "hs_events ?s"]
    by (auto simp: Let_def status health_ok_def)
qed

theorem inprocess_health_witness:
  "status (handleEvents (hs_events (health_run demo_core [SourceEvent SyncError, GraceExpired, FlagData (Inl [])]
     (fresh_health []))) demo_provider) = ReadyState \<and>
   status (handleEvents (hs_events (health_run demo_core [FlagData (Inl []), FlagData (Inr ''bad'')]
     (fresh_health []))) demo_provider) = ErrorState"
proof -
  let ?s = "\<lambda>is. health_run demo_core is (fresh_health [])"
  have "hs_ready (?s [SourceEvent SyncError, GraceExpired, FlagData (Inl [])])"
    "health_status (hs_events (?s [FlagData (Inl []), FlagData (Inr ''bad'')])) = Some EvError"
    by (simp_all add: health_run_def health_input_def handleSyncEvent_def handleProviderError_def
        staleTimer_start_def timer_callback_def processSyncData_def Let_def fresh_health_def health_status_def)
  then show ?thesis
    using inprocess_health [of demo_core "[SourceEvent SyncError, GraceExpired, FlagData (Inl [])]" "[]" demo_provider]
      inprocess_health [of demo_core "[FlagData (Inl []), FlagData (Inr ''bad'')]" "[]" demo_provider]
    by (simp add: Let_def)
qed

definition quiet_input :: "'d input \<Rightarrow> bool" where
  "quiet_input i \<longleftrightarrow> (case i of SourceEvent ev \<Rightarrow> ev \<noteq> SyncReady | GraceExpired \<Rightarrow> True | FlagData d \<Rightarrow> False)"

definition expirations :: "of_event list \<Rightarrow> nat" where
  "expirations evs = length (filter (\<lambda>ev. ev = expired_event) evs)"

lemma expirations_simps [simp]:
  "expirations [] = 0" "expirations (xs @ ys) = expirations xs + expirations ys"
  "expirations [expired_event] = 1" "expirations [stale_event] = 0"
  by (simp_all add: expirations_def stale_event_def expired_event_def)

lemma quiet_run:
  assumes "hs_timer s = TimerRunning" "list_all quiet_input is"
  shows "hs_timer (health_run co is s) = (if GraceExpired \<in> set is then TimerExpired else TimerRunning) \<and>
    expirations (hs_events (health_run co is s)) =
      expirations (hs_events s) + (if GraceExpired \<in> set is then 1 else 0)"
  using assms(2)
proof (induction "is" rule: rev_induct)
  case Nil
  then show ?case using assms(1) by (simp add: health_run_def)
next
  case (snoc i "is")
  then show ?case
    by (cases i) (auto simp: health_run_snoc health_input_def handleSyncEvent_def handleProviderError_def
        staleTimer_start_def timer_callback_def quiet_input_def Let_def split: sync_event.splits)
qed

text \<open>
  The grace period is not prolonged and not repeated: once a connection error has started the
  stale timer, further errors neither restart the pending timer nor start another one after it has
  fired.  Until the source is ready again or delivers data, exactly one error event is sent if the
  period ends and none if it does not, however many errors there were.
\<close>

theorem grace_period_once:
  assumes "hs_timer s = TimerOff" "list_all quiet_input is"
  shows "expirations (hs_events (health_run co (SourceEvent SyncError # is) s)) =
    expirations (hs_events s) + (if GraceExpired \<in> set is then 1 else 0)"
proof -
  let ?s = "handleSyncEvent SyncError s"
  have "hs_timer ?s = TimerRunning" "expirations (hs_events ?s) = expirations (hs_events s)"
    using assms(1) by (simp_all add: handleSyncEvent_def handleProviderError_def staleTimer_start_def Let_def)
  then show ?thesis using quiet_run [of ?s "is" co] assms(2)
    by (simp add: health_run_def health_input_def)
qed

theorem grace_period_once_witness:
  "expirations (hs_events (health_run demo_core
     [SourceEvent SyncError, SourceEvent SyncError, GraceExpired, SourceEvent SyncError, GraceExpired]
     (fresh_health []))) = 1"
  using grace_period_once [of "fresh_health []" "[SourceEvent SyncError, GraceExpired, SourceEvent SyncError, GraceExpired]" demo_core]
  by (simp add: fresh_health_def quiet_input_def)

end
