(* ===== verification/Flagd_InProcess_Conc.thy ===== *)
theory Flagd_InProcess_Conc
  imports Flagd_InProcess_Events
begin

text \<open>
  The same goroutines, interleaved: the monitor, the timer's callbacks, the listener, the goroutine that runs the
  flag source's \<^verbatim>\<open>Sync\<close>, shutdown and the consumer of the event channel, with a program counter for each and the channel's bound.  One
  step is at most one access to what the goroutines share: the ready flag (\<^verbatim>\<open>readyMu\<close>), the timer
  (its own mutex), the channel and the context.
\<close>

section \<open>The machine\<close>

text \<open>
  The monitor waits, has cleared the ready flag and is about to send, or has sent and is about to
  start the timer.  The listener waits; has a failure to report; has stopped the timer; has set the
  ready flag and is about to send; is about to close \<^verbatim>\<open>initSuccess\<close> and look for changes; is
  about to report them; or shuts the flag source down before it exits.  The third goroutine is inside the source's \<^verbatim>\<open>Sync\<close> or
  has returned.
\<close>

datatype monitor_pc = MonWait | MonMarked | MonSent | MonDone

datatype 'f listener_pc =
    LisWait
  | LisFailed string
  | LisStopped "string \<rightharpoonup> 'f flag"
  | LisReady "string \<rightharpoonup> 'f flag"
  | LisNotify "string \<rightharpoonup> 'f flag"
  | LisChanged "string list"
  | LisClosing
  | LisDone

datatype process_pc = Syncing | SyncOver

datatype shutdown_pc = Serving | TimerStopped | ShutDown

record ('st, 'f) machine = "'st health" +
  ic_monitor :: monitor_pc
  ic_listener :: "'f listener_pc"
  ic_process :: process_pc
  ic_initError :: "string option"
  ic_callbacks :: nat
  ic_shutdown :: shutdown_pc
  ic_delivered :: "of_event list"

definition eventChannelBuffer :: nat where "eventChannelBuffer = 5"

definition has_room :: "('st, 'f) machine \<Rightarrow> bool" where
  "has_room s \<longleftrightarrow> length (hs_events s) < eventChannelBuffer"

definition machine_start :: "'st \<Rightarrow> ('st, 'f) machine" where
  "machine_start st = \<lparr>hs_ready = False, hs_timer = TimerOff, hs_events = [], hs_init = False, hs_store = st,
     ic_monitor = MonWait, ic_listener = LisWait, ic_process = Syncing, ic_initError = None, ic_callbacks = 0,
     ic_shutdown = Serving, ic_delivered = []\<rparr>"

text \<open>Taking data from \<^verbatim>\<open>syncData\<close>, up to the first access to shared state.\<close>

definition take_data :: "('d, 'f, 'st) flag_core \<Rightarrow> 'd \<Rightarrow> ('st, 'f) machine \<Rightarrow> ('st, 'f) machine" where
  "take_data co d s =
     (case co_GetAll co (hs_store s) of
        Inl err \<Rightarrow> s
      | Inr oldFlags \<Rightarrow>
          (case co_SetState co d (hs_store s) of
             (st, Some err) \<Rightarrow> s\<lparr>hs_store := st, hs_ready := False, ic_listener := LisFailed err\<rparr>
           | (st, None) \<Rightarrow> s\<lparr>hs_store := st, hs_timer := staleTimer_stop (hs_timer s),
               ic_listener := LisStopped (flag_map oldFlags)\<rparr>))"

definition notify_init :: "('d, 'f, 'st) flag_core \<Rightarrow> (string \<rightharpoonup> 'f flag) \<Rightarrow> ('st, 'f) machine \<Rightarrow> ('st, 'f) machine" where
  "notify_init co old s =
     s\<lparr>hs_init := True, ic_listener :=
       (case co_GetAll co (hs_store s) of
          Inl err \<Rightarrow> LisWait
        | Inr newFlags \<Rightarrow>
            (let changedKeys = computeChangedFlags co old newFlags
             in if changedKeys \<noteq> [] then LisChanged changedKeys else LisWait))\<rparr>"

text \<open>
  The end of \<^verbatim>\<open>runDataSyncProcess\<close>: an error is put on the one-place channel \<^verbatim>\<open>initError\<close> unless the context is cancelled or
  the place is taken.
\<close>

definition sync_over :: "string option \<Rightarrow> ('st, 'f) machine \<Rightarrow> ('st, 'f) machine" where
  "sync_over err s = s\<lparr>ic_process := SyncOver, ic_initError :=
     runDataSyncProcess err (ic_shutdown s = ShutDown) (ic_initError s)\<rparr>"

text \<open>
  What the service does by itself.  A flag source returns from \<^verbatim>\<open>Sync\<close> once its context is cancelled, and from its \<^verbatim>\<open>Shutdown\<close>.
\<close>

inductive ip_work :: "('d, 'f, 'st) flag_core \<Rightarrow> ('st, 'f) machine \<Rightarrow> ('st, 'f) machine \<Rightarrow> bool" for co where
  mon_stale: "ic_monitor s = MonMarked \<Longrightarrow> has_room s \<Longrightarrow>
    ip_work co s (put_event stale_event s\<lparr>ic_monitor := MonSent\<rparr>)"
| mon_timer: "ic_monitor s = MonSent \<Longrightarrow>
    ip_work co s (s\<lparr>hs_timer := staleTimer_start (hs_timer s), ic_monitor := MonWait\<rparr>)"
| mon_exit: "ic_monitor s = MonWait \<Longrightarrow> ic_shutdown s = ShutDown \<Longrightarrow> ip_work co s (s\<lparr>ic_monitor := MonDone\<rparr>)"
| callback: "ic_callbacks s = Suc n \<Longrightarrow> has_room s \<Longrightarrow>
    ip_work co s (put_event expired_event s\<lparr>ic_callbacks := n\<rparr>)"
| lis_failed: "ic_listener s = LisFailed err \<Longrightarrow> has_room s \<Longrightarrow>
    ip_work co s (put_event (sync_error_event err) s\<lparr>ic_listener := LisWait\<rparr>)"
| lis_test: "ic_listener s = LisStopped old \<Longrightarrow>
    ip_work co s (if hs_ready s then s\<lparr>ic_listener := LisNotify old\<rparr>
      else s\<lparr>hs_ready := True, ic_listener := LisReady old\<rparr>)"
| lis_ready: "ic_listener s = LisReady old \<Longrightarrow> has_room s \<Longrightarrow>
    ip_work co s (put_event became_ready_event s\<lparr>ic_listener := LisNotify old\<rparr>)"
| lis_notify: "ic_listener s = LisNotify old \<Longrightarrow> ip_work co s (notify_init co old s)"
| lis_changed: "ic_listener s = LisChanged ks \<Longrightarrow> has_room s \<Longrightarrow>
    ip_work co s (put_event (changes_event ks) s\<lparr>ic_listener := LisWait\<rparr>)"
| lis_exit: "ic_listener s = LisWait \<Longrightarrow> ic_shutdown s = ShutDown \<Longrightarrow> ip_work co s (s\<lparr>ic_listener := LisClosing\<rparr>)"
| lis_closed: "ic_listener s = LisClosing \<Longrightarrow> ip_work co s (s\<lparr>ic_listener := LisDone\<rparr>)"
| proc_exit: "ic_process s = Syncing \<Longrightarrow> ic_shutdown s = ShutDown \<Longrightarrow> ip_work co s (sync_over err s)"

text \<open>
  What happens to it: events and data of the source, whose \<^verbatim>\<open>Sync\<close> may also return early, the passing of the grace period, a
  shutdown.  All but the shutdown's own steps may also come after the cancellation, while a goroutine's \<^verbatim>\<open>select\<close> still takes them.
\<close>

inductive ip_env :: "('d, 'f, 'st) flag_core \<Rightarrow> ('st, 'f) machine \<Rightarrow> ('st, 'f) machine \<Rightarrow> bool" for co where
  source_error: "ic_monitor s = MonWait \<Longrightarrow> ip_env co s (s\<lparr>hs_ready := False, ic_monitor := MonMarked\<rparr>)"
| source_ready: "ic_monitor s = MonWait \<Longrightarrow> ip_env co s (s\<lparr>hs_timer := staleTimer_stop (hs_timer s)\<rparr>)"
| source_other: "ic_monitor s = MonWait \<Longrightarrow> ip_env co s s"
| sync_ends: "ic_process s = Syncing \<Longrightarrow> ip_env co s (sync_over err s)"
| grace_over: "hs_timer s = TimerRunning \<Longrightarrow>
    ip_env co s (s\<lparr>hs_timer := TimerExpired, ic_callbacks := Suc (ic_callbacks s)\<rparr>)"
| flag_data: "ic_listener s = LisWait \<Longrightarrow> ip_env co s (take_data co d s)"
| shut_timer: "ic_shutdown s = Serving \<Longrightarrow>
    ip_env co s (s\<lparr>hs_timer := staleTimer_stop (hs_timer s), ic_shutdown := TimerStopped\<rparr>)"
| shut_cancel: "ic_shutdown s = TimerStopped \<Longrightarrow> ip_env co s (s\<lparr>ic_shutdown := ShutDown\<rparr>)"

text \<open>The consumer of the channel.\<close>

inductive ip_recv :: "('st, 'f) machine \<Rightarrow> ('st, 'f) machine \<Rightarrow> bool" where
  recv: "hs_events s = ev # evs \<Longrightarrow> ip_recv s (s\<lparr>hs_events := evs, ic_delivered := ic_delivered s @ [ev]\<rparr>)"

inductive ip_step :: "('d, 'f, 'st) flag_core \<Rightarrow> ('st, 'f) machine \<Rightarrow> ('st, 'f) machine \<Rightarrow> bool" for co where
  work: "ip_work co s s' \<Longrightarrow> ip_step co s s'"
| env: "ip_env co s s' \<Longrightarrow> ip_step co s s'"
| consume: "ip_recv s s' \<Longrightarrow> ip_step co s s'"

inductive ip_reachable :: "('d, 'f, 'st) flag_core \<Rightarrow> 'st \<Rightarrow> ('st, 'f) machine \<Rightarrow> bool" for co st where
  start: "ip_reachable co st (machine_start st)"
| step: "ip_reachable co st s \<Longrightarrow> ip_step co s s' \<Longrightarrow> ip_reachable co st s'"

inductive_cases ip_stepE: "ip_step co s s'"

lemma ip_reachable_run: "(ip_step co)\<^sup>*\<^sup>* s s' \<Longrightarrow> ip_reachable co st s \<Longrightarrow> ip_reachable co st s'"
  by (induction rule: rtranclp_induct) (auto intro: ip_reachable.step)

section \<open>Invariant\<close>

text \<open>Everything sent so far.\<close>

definition sent :: "('st, 'f) machine \<Rightarrow> of_event list" where
  "sent s = ic_delivered s @ hs_events s"

definition announced :: "('st, 'f) machine \<Rightarrow> bool" where
  "announced s \<longleftrightarrow> became_ready_event \<in> set (sent s)"

definition machine_ok :: "('st, 'f) machine \<Rightarrow> bool" where
  "machine_ok s \<longleftrightarrow> length (hs_events s) \<le> eventChannelBuffer \<and>
     (ic_monitor s = MonDone \<or> ic_listener s \<in> {LisClosing, LisDone} \<longrightarrow> ic_shutdown s = ShutDown) \<and>
     (hs_init s \<longrightarrow> announced s) \<and>
     (case ic_listener s of
        LisReady old \<Rightarrow> True
      | LisNotify old \<Rightarrow> announced s
      | LisChanged ks \<Rightarrow> hs_init s \<and> ks \<noteq> []
      | _ \<Rightarrow> hs_ready s \<longrightarrow> announced s)"

lemma sent_simps [simp]:
  "set (sent (put_event ev s)) = insert ev (set (sent s))"
  "sent (s\<lparr>hs_ready := r\<rparr>) = sent s" "sent (s\<lparr>hs_timer := t\<rparr>) = sent s" "sent (s\<lparr>hs_init := i\<rparr>) = sent s"
  "sent (s\<lparr>hs_store := st\<rparr>) = sent s" "sent (s\<lparr>ic_monitor := m\<rparr>) = sent s" "sent (s\<lparr>ic_listener := l\<rparr>) = sent s"
  "sent (s\<lparr>ic_callbacks := n\<rparr>) = sent s" "sent (s\<lparr>ic_shutdown := d\<rparr>) = sent s" "sent (sync_over err s) = sent s"
  by (auto simp: sent_def put_event_def sync_over_def)

lemma sync_over_simps [simp]:
  "hs_events (sync_over err s) = hs_events s" "hs_init (sync_over err s) = hs_init s" "hs_ready (sync_over err s) = hs_ready s"
  "ic_monitor (sync_over err s) = ic_monitor s" "ic_listener (sync_over err s) = ic_listener s"
  "ic_shutdown (sync_over err s) = ic_shutdown s" "ic_callbacks (sync_over err s) = ic_callbacks s"
  "ic_process (sync_over err s) = SyncOver"
  by (simp_all add: sync_over_def)

lemma put_event_machine [simp]:
  "ic_monitor (put_event ev s) = ic_monitor s" "ic_listener (put_event ev s) = ic_listener s"
  "ic_callbacks (put_event ev s) = ic_callbacks s" "ic_shutdown (put_event ev s) = ic_shutdown s"
  "ic_delivered (put_event ev s) = ic_delivered s" "ic_process (put_event ev s) = ic_process s"
  by (simp_all add: put_event_def)

lemma machine_ok_start: "machine_ok (machine_start st)"
  by (simp add: machine_ok_def machine_start_def)

lemma machine_ok_work: "ip_work co s s' \<Longrightarrow> machine_ok s \<Longrightarrow> machine_ok s'"
  by (cases rule: ip_work.cases, assumption)
    (auto simp: machine_ok_def announced_def has_room_def notify_init_def Let_def
      split: listener_pc.splits sum.splits)

lemma machine_ok_env: "ip_env co s s' \<Longrightarrow> machine_ok s \<Longrightarrow> machine_ok s'"
  by (cases rule: ip_env.cases, assumption)
    (auto simp: machine_ok_def announced_def take_data_def
      split: listener_pc.splits sum.splits prod.splits option.splits)

lemma machine_ok_recv: "ip_recv s s' \<Longrightarrow> machine_ok s \<Longrightarrow> machine_ok s'"
  by (cases rule: ip_recv.cases, assumption)
    (auto simp: machine_ok_def announced_def sent_def split: listener_pc.splits)

lemma reachable_ok: "ip_reachable co st s \<Longrightarrow> machine_ok s"
  by (induction rule: ip_reachable.induct)
    (auto elim!: ip_stepE intro: machine_ok_start machine_ok_work machine_ok_env machine_ok_recv)

text \<open>The events in the order they were sent: a step appends one at most.\<close>

definition changes_after_ready :: "of_event list \<Rightarrow> bool" where
  "changes_after_ready evs \<longleftrightarrow>
     (\<forall>us ev vs. evs = us @ ev # vs \<and> EventType ev = EvConfigChange \<longrightarrow> became_ready_event \<in> set us \<and> FlagChanges ev \<noteq> [])"

lemma changes_after_ready_Nil [simp]: "changes_after_ready []"
  by (simp add: changes_after_ready_def)

lemma changes_after_ready_snoc:
  "changes_after_ready evs \<Longrightarrow>
    (EventType ev = EvConfigChange \<Longrightarrow> became_ready_event \<in> set evs \<and> FlagChanges ev \<noteq> []) \<Longrightarrow>
    changes_after_ready (evs @ [ev])"
  unfolding changes_after_ready_def
proof (intro allI impI, elim conjE)
  fix us e vs
  assume evs: "\<forall>us ev vs. evs = us @ ev # vs \<and> EventType ev = EvConfigChange \<longrightarrow>
      became_ready_event \<in> set us \<and> FlagChanges ev \<noteq> []"
    and last: "EventType ev = EvConfigChange \<Longrightarrow> became_ready_event \<in> set evs \<and> FlagChanges ev \<noteq> []"
    and split: "evs @ [ev] = us @ e # vs" and e: "EventType e = EvConfigChange"
  show "became_ready_event \<in> set us \<and> FlagChanges e \<noteq> []"
  proof (cases vs rule: rev_cases)
    case Nil
    with split last e show ?thesis by simp
  next
    case (snoc ws w)
    with split have "evs = us @ e # ws" by simp
    with evs e show ?thesis by blast
  qed
qed

lemma sent_put [simp]: "sent (put_event ev s) = sent s @ [ev]"
  by (simp add: sent_def put_event_def)

lemma sent_by_work:
  "ip_work co s s' \<Longrightarrow> machine_ok s \<Longrightarrow> sent s' = sent s \<or>
    (\<exists>ev. sent s' = sent s @ [ev] \<and>
      (EventType ev = EvConfigChange \<longrightarrow> became_ready_event \<in> set (sent s) \<and> FlagChanges ev \<noteq> []))"
  by (cases rule: ip_work.cases, assumption)
    (simp_all add: machine_ok_def announced_def notify_init_def)

lemma sent_work:
  assumes "ip_work co s s'" "machine_ok s" "changes_after_ready (sent s)"
  shows "changes_after_ready (sent s')"
  using sent_by_work [OF assms(1,2)] assms(3) by (elim disjE exE conjE) (simp_all add: changes_after_ready_snoc)

lemma sent_env: "ip_env co s s' \<Longrightarrow> sent s' = sent s"
  by (cases rule: ip_env.cases, assumption)
    (simp_all add: take_data_def split: sum.split prod.split option.split)

lemma sent_recv: "ip_recv s s' \<Longrightarrow> sent s' = sent s"
  by (cases rule: ip_recv.cases, assumption) (auto simp: sent_def)

lemma reachable_changes: "ip_reachable co st s \<Longrightarrow> changes_after_ready (sent s)"
proof (induction rule: ip_reachable.induct)
  case start
  then show ?case by (simp add: sent_def machine_start_def)
next
  case (step s s')
  from step.hyps(2) show ?case
  proof (cases rule: ip_step.cases)
    case work
    then show ?thesis by (rule sent_work [OF _ reachable_ok [OF step.hyps(1)] step.IH])
  next
    case env
    then have "sent s' = sent s" by (simp add: sent_env)
    with step.IH show ?thesis by simp
  next
    case consume
    then have "sent s' = sent s" by (simp add: sent_recv)
    with step.IH show ?thesis by simp
  qed
qed

text \<open>
  C6: What holds however the goroutines interleave: the channel never exceeds its bound, Init is
  told of success only after a ready event was sent, and a configuration change is sent only behind
  a ready event and always names a flag.
\<close>

theorem inprocess_machine_safe:
  assumes "ip_reachable co st s"
  shows "length (hs_events s) \<le> 5 \<and> changes_after_ready (ic_delivered s @ hs_events s) \<and>
    (hs_init s \<longrightarrow> became_ready_event \<in> set (ic_delivered s @ hs_events s))"
  using reachable_ok [OF assms] reachable_changes [OF assms]
  by (simp add: machine_ok_def announced_def sent_def eventChannelBuffer_def)

section \<open>Shutdown\<close>

fun monitor_work :: "monitor_pc \<Rightarrow> nat" where
  "monitor_work MonMarked = 4" | "monitor_work MonSent = 2" | "monitor_work MonWait = 1" | "monitor_work MonDone = 0"

fun listener_work :: "'f listener_pc \<Rightarrow> nat" where
  "listener_work (LisStopped old) = 8" | "listener_work (LisReady old) = 7" | "listener_work (LisNotify old) = 5"
| "listener_work (LisChanged ks) = 4" | "listener_work (LisFailed e) = 4" | "listener_work LisWait = 2"
| "listener_work LisClosing = 1" | "listener_work LisDone = 0"

fun process_work :: "process_pc \<Rightarrow> nat" where
  "process_work Syncing = 1" | "process_work SyncOver = 0"

definition work_left :: "('st, 'f) machine \<Rightarrow> nat" where
  "work_left s = length (hs_events s) + 2 * ic_callbacks s + monitor_work (ic_monitor s) + listener_work (ic_listener s) +
     process_work (ic_process s)"

lemma put_event_length [simp]: "length (hs_events (put_event ev s)) = Suc (length (hs_events s))"
  by simp

lemma work_decreases: "ip_work co s s' \<Longrightarrow> work_left s' < work_left s"
  by (cases rule: ip_work.cases, assumption)
    (auto simp: work_left_def notify_init_def Let_def split: sum.splits)

lemma recv_decreases: "ip_recv s s' \<Longrightarrow> work_left s' < work_left s"
  by (cases rule: ip_recv.cases, assumption) (simp add: work_left_def)

lemma env_increases: "ip_env co s s' \<Longrightarrow> work_left s' \<le> work_left s + 6"
  by (cases rule: ip_env.cases, assumption)
    (auto simp: work_left_def take_data_def split: sum.splits prod.splits option.splits)

text \<open>The service and its consumer go on, or something happens to the service.\<close>

definition ip_progress :: "('d, 'f, 'st) flag_core \<Rightarrow> ('st, 'f) machine \<Rightarrow> ('st, 'f) machine \<Rightarrow> bool" where
  "ip_progress co s s' \<longleftrightarrow> ip_work co s s' \<or> ip_recv s s'"

text \<open>A run with \<open>n\<close> steps of the service and its consumer and \<open>k\<close> of what happens to it, in any order.\<close>

inductive ip_run :: "('d, 'f, 'st) flag_core \<Rightarrow> ('st, 'f) machine \<Rightarrow> nat \<Rightarrow> nat \<Rightarrow> ('st, 'f) machine \<Rightarrow> bool" for co s where
  run_start: "ip_run co s 0 0 s"
| run_progress: "ip_run co s n k s' \<Longrightarrow> ip_progress co s' s'' \<Longrightarrow> ip_run co s (Suc n) k s''"
| run_env: "ip_run co s n k s' \<Longrightarrow> ip_env co s' s'' \<Longrightarrow> ip_run co s n (Suc k) s''"

lemma run_bound: "ip_run co s n k s' \<Longrightarrow> n + work_left s' \<le> work_left s + 6 * k"
proof (induction rule: ip_run.induct)
  case (run_progress n k s' s'')
  then have "work_left s'' < work_left s'" by (auto simp: ip_progress_def work_decreases recv_decreases)
  with run_progress.IH show ?case by simp
next
  case (run_env n k s' s'')
  from env_increases [OF run_env(2)] run_env.IH show ?case by simp
qed simp

lemma progress_shut: "ip_progress co s s' \<Longrightarrow> ic_shutdown s = ShutDown \<Longrightarrow> ic_shutdown s' = ShutDown"
  by (auto simp: ip_progress_def notify_init_def elim!: ip_work.cases ip_recv.cases)

lemma env_shut: "ip_env co s s' \<Longrightarrow> ic_shutdown s = ShutDown \<Longrightarrow> ic_shutdown s' = ShutDown"
  by (auto simp: take_data_def elim!: ip_env.cases split: sum.splits prod.splits option.splits)

lemma run_shut: "ip_run co s n k s' \<Longrightarrow> ic_shutdown s = ShutDown \<Longrightarrow> ic_shutdown s' = ShutDown"
  by (induction rule: ip_run.induct) (auto intro: progress_shut env_shut)

text \<open>The wait group of \<^verbatim>\<open>Shutdown\<close> holds the listener and the goroutine of \<^verbatim>\<open>Sync\<close>, not the monitor.\<close>

definition Shutdown_returns :: "('st, 'f) machine \<Rightarrow> bool" where
  "Shutdown_returns s \<longleftrightarrow> ic_listener s = LisDone \<and> ic_process s = SyncOver"

lemma progress_stuck:
  assumes "ic_shutdown s = ShutDown" "\<nexists>s'. ip_progress co s s'"
  shows "Shutdown_returns s \<and> ic_monitor s = MonDone \<and> ic_callbacks s = 0 \<and> hs_events s = []"
proof -
  have work: "\<not> ip_work co s s'" and recv: "\<not> ip_recv s s'" for s' using assms(2) by (auto simp: ip_progress_def)
  have empty: "hs_events s = []"
    using recv ip_recv.recv by (cases "hs_events s") blast+
  then have room: "has_room s" by (simp add: has_room_def eventChannelBuffer_def)
  have "ic_monitor s = MonDone"
    using work room assms(1) by (cases "ic_monitor s") (blast intro: ip_work.intros)+
  moreover have "ic_listener s = LisDone"
    using work room assms(1) by (cases "ic_listener s") (blast intro: ip_work.intros)+
  moreover have "ic_process s = SyncOver"
    using work assms(1) by (cases "ic_process s") (blast intro: ip_work.intros)+
  moreover have "ic_callbacks s = 0"
    using work room by (cases "ic_callbacks s") (blast intro: ip_work.intros)+
  ultimately show ?thesis using empty by (simp add: Shutdown_returns_def)
qed

text \<open>
  C19: Shutdown comes to an end as long as somebody reads the event channel.  After the context is
  cancelled, in any interleaving with the source and the timer, the service and its consumer take at most
  18 + 2c steps, c being the timer's callbacks under way, and six more for each thing that still happens to the service (flag data, an
  event of the source, the end of a grace period).  Wherever they can take none, the listener and
  the goroutine of \<^verbatim>\<open>Sync\<close> have exited, so that Shutdown, which waits for these two, returns; then the monitor, for which it does not
  wait, has exited as well and every event was read.
\<close>

theorem inprocess_shutdown_completes:
  assumes "ip_reachable co st s" "ic_shutdown s = ShutDown" "ip_run co s n k s'"
  shows "n \<le> 18 + 2 * ic_callbacks s + 6 * k \<and>
    ((\<nexists>s''. ip_progress co s' s'') \<longrightarrow> Shutdown_returns s' \<and> ic_monitor s' = MonDone \<and> hs_events s' = [])"
proof -
  have "monitor_work (ic_monitor s) \<le> 4" by (cases "ic_monitor s") simp_all
  moreover have "listener_work (ic_listener s) \<le> 8" by (cases "ic_listener s") simp_all
  moreover have "process_work (ic_process s) \<le> 1" by (cases "ic_process s") simp_all
  moreover have "length (hs_events s) \<le> 5"
    using reachable_ok [OF assms(1)] by (simp add: machine_ok_def eventChannelBuffer_def)
  ultimately have "work_left s \<le> 18 + 2 * ic_callbacks s" by (simp add: work_left_def)
  with run_bound [OF assms(3)] progress_stuck [OF run_shut [OF assms(3,2)], of co] show ?thesis by auto
qed

text \<open>A state by its fields, to write runs down.\<close>

abbreviation mach ::
  "bool \<Rightarrow> timer \<Rightarrow> of_event list \<Rightarrow> bool \<Rightarrow> 'st \<Rightarrow> monitor_pc \<Rightarrow> 'f listener_pc \<Rightarrow> nat \<Rightarrow> shutdown_pc \<Rightarrow>
   of_event list \<Rightarrow> ('st, 'f) machine" where
  "mach r t evs i st m l c d del \<equiv> \<lparr>hs_ready = r, hs_timer = t, hs_events = evs, hs_init = i, hs_store = st,
     ic_monitor = m, ic_listener = l, ic_process = Syncing, ic_initError = None, ic_callbacks = c, ic_shutdown = d,
     ic_delivered = del\<rparr>"

lemmas by_work = ip_reachable.step [OF _ ip_step.work]
lemmas by_env = ip_reachable.step [OF _ ip_step.env]
lemmas by_recv = ip_reachable.step [OF _ ip_step.consume [OF ip_recv.recv]]
lemmas run_simps = has_room_def eventChannelBuffer_def put_event_def staleTimer_start_def staleTimer_stop_def

lemma computeChangedFlags_self: "co_range co Map.empty = [] \<Longrightarrow> computeChangedFlags co (flag_map []) [] = []"
  by (simp add: computeChangedFlags_def flag_map_def)

lemma no_ready_event_when_ready:
  assumes "hs_ready s" "hs_events s = []"
  shows "\<forall>ev \<in> set (hs_events (processSyncData co d s)). EventType ev \<noteq> EvReady"
  using assms by (cases rule: processSyncData_cases [of co d s])
    (auto simp: announce_changes_def Let_def split: sum.splits)

lemma lost_ready_run:
  assumes "co_GetAll co st = Inr fs" "co_SetState co d st = (st', None)" "co_GetAll co st' = Inr fs'"
    "computeChangedFlags co (flag_map fs) fs' = []"
  shows "ip_reachable co st (mach True TimerExpired [] True st' MonWait LisWait 0 Serving
     [became_ready_event, stale_event, expired_event])"
proof -
  let ?old = "flag_map fs"
  have s0: "ip_reachable co st (mach False TimerOff [] False st MonWait LisWait 0 Serving [])"
    using ip_reachable.start [of co st] by (simp add: machine_start_def)
  have s1: "ip_reachable co st (mach False TimerOff [] False st MonMarked LisWait 0 Serving [])"
    using by_env [OF s0 ip_env.source_error] by simp
  have s2: "ip_reachable co st (mach False TimerOff [] False st' MonMarked (LisStopped ?old) 0 Serving [])"
    using by_env [OF s1 ip_env.flag_data [of _ _ d]] assms by (simp add: take_data_def run_simps)
  have s3: "ip_reachable co st (mach True TimerOff [] False st' MonMarked (LisReady ?old) 0 Serving [])"
    using by_work [OF s2 ip_work.lis_test [of _ ?old]] by simp
  have s4: "ip_reachable co st (mach True TimerOff [became_ready_event] False st' MonMarked (LisNotify ?old) 0 Serving [])"
    using by_work [OF s3 ip_work.lis_ready [of _ ?old]] by (simp add: run_simps)
  have s5: "ip_reachable co st (mach True TimerOff [became_ready_event] True st' MonMarked LisWait 0 Serving [])"
    using by_work [OF s4 ip_work.lis_notify [of _ ?old]] assms by (simp add: notify_init_def)
  have s6: "ip_reachable co st (mach True TimerOff [became_ready_event, stale_event] True st' MonSent LisWait 0 Serving [])"
    using by_work [OF s5 ip_work.mon_stale] by (simp add: run_simps)
  have s7: "ip_reachable co st (mach True TimerRunning [became_ready_event, stale_event] True st' MonWait LisWait 0 Serving [])"
    using by_work [OF s6 ip_work.mon_timer] by (simp add: run_simps)
  have s8: "ip_reachable co st (mach True TimerExpired [became_ready_event, stale_event] True st' MonWait LisWait 1 Serving [])"
    using by_env [OF s7 ip_env.grace_over] by simp
  have s9: "ip_reachable co st
      (mach True TimerExpired [became_ready_event, stale_event, expired_event] True st' MonWait LisWait 0 Serving [])"
    using by_work [OF s8 ip_work.callback [of _ 0]] by (simp add: run_simps)
  have s10: "ip_reachable co st
      (mach True TimerExpired [stale_event, expired_event] True st' MonWait LisWait 0 Serving [became_ready_event])"
    using by_recv [OF s9] by simp
  have s11: "ip_reachable co st
      (mach True TimerExpired [expired_event] True st' MonWait LisWait 0 Serving [became_ready_event, stale_event])"
    using by_recv [OF s10] by simp
  show ?thesis using by_recv [OF s11] by simp
qed

text \<open>
  The stale flag can win a race it should lose: the monitor clears the ready flag and sends the
  stale event in two steps, and a flag sync that fits in between leaves the service with the ready
  flag set and everything at rest while the last status the application heard is the error of the
  expired timer.  No later flag sync sends the ready event that would take the error back.
\<close>

theorem inprocess_lost_ready:
  assumes "co_GetAll co st = Inr fs" "co_SetState co d st = (st', None)" "co_GetAll co st' = Inr fs'"
    "computeChangedFlags co (flag_map fs) fs' = []"
  shows "\<exists>s. ip_reachable co st s \<and> hs_ready s \<and> ic_monitor s = MonWait \<and> ic_listener s = LisWait \<and>
    hs_events s = [] \<and> health_status (ic_delivered s) = Some EvError \<and>
    EvReady \<notin> EventType ` set (hs_events (processSyncData co d' s))"
proof (intro exI conjI)
  let ?s = "mach True TimerExpired [] True st' MonWait LisWait 0 Serving [became_ready_event, stale_event, expired_event]"
  show "ip_reachable co st ?s" by (rule lost_ready_run [OF assms])
  show "EvReady \<notin> EventType ` set (hs_events (processSyncData co d' ?s))"
    using no_ready_event_when_ready [of ?s co d'] by auto
qed (simp_all add: health_status_def)

theorem inprocess_lost_ready_witness:
  "\<exists>s. ip_reachable demo_core [] s \<and> hs_ready s \<and> health_status (ic_delivered s) = Some EvError \<and> hs_events s = []"
  using inprocess_lost_ready [of demo_core "[]" "[]" "Inl []" "[]" "[]"]
    computeChangedFlags_self [of demo_core] some_order_empty
  by auto

lemma stale_events_run:
  "n \<le> 5 \<Longrightarrow> ip_reachable co st (mach False (if n = 0 then TimerOff else TimerRunning) (replicate n stale_event)
     False st MonWait LisWait 0 Serving [])"
proof (induction n)
  case 0
  then show ?case using ip_reachable.start [of co st] by (simp add: machine_start_def)
next
  case (Suc n)
  let ?t = "if n = 0 then TimerOff else TimerRunning"
  have s0: "ip_reachable co st (mach False ?t (replicate n stale_event) False st MonWait LisWait 0 Serving [])"
    using Suc by simp
  have s1: "ip_reachable co st (mach False ?t (replicate n stale_event) False st MonMarked LisWait 0 Serving [])"
    using by_env [OF s0 ip_env.source_error] by simp
  have s2: "ip_reachable co st (mach False ?t (replicate (Suc n) stale_event) False st MonSent LisWait 0 Serving [])"
    using by_work [OF s1 ip_work.mon_stale] Suc.prems by (simp add: run_simps replicate_append_same)
  show ?case using by_work [OF s2 ip_work.mon_timer] by (auto simp: run_simps split: if_splits)
qed

definition jammed :: "('st, 'f) machine \<Rightarrow> bool" where
  "jammed s \<longleftrightarrow> \<not> has_room s \<and> (\<exists>old. ic_listener s = LisReady old)"

lemma jammed_step: "ip_work co s s' \<or> ip_env co s s' \<Longrightarrow> jammed s \<Longrightarrow> jammed s'"
  by (elim disjE; erule ip_work.cases ip_env.cases) (auto simp: jammed_def has_room_def)

lemma jammed_run: "(\<lambda>a b. ip_work co a b \<or> ip_env co a b)\<^sup>*\<^sup>* s s' \<Longrightarrow> jammed s \<Longrightarrow> jammed s'"
  by (induction rule: rtranclp_induct) (auto intro: jammed_step)

text \<open>
  Without a reader Shutdown need not return: five connection errors fill the channel, the
  listener then blocks on its ready event, and as that send does not watch the context, the
  listener, for which Shutdown waits, stays there whatever happens except a receive.
\<close>

theorem inprocess_shutdown_hangs:
  assumes "co_GetAll co st = Inr fs" "co_SetState co d st = (st', None)"
  shows "\<exists>s. ip_reachable co st s \<and> ic_shutdown s = ShutDown \<and>
    (\<forall>s'. (\<lambda>a b. ip_work co a b \<or> ip_env co a b)\<^sup>*\<^sup>* s s' \<longrightarrow> ic_listener s' \<noteq> LisDone)"
proof (intro exI conjI allI impI)
  let ?full = "replicate 5 stale_event" and ?old = "flag_map fs"
  let ?s = "mach True TimerOff ?full False st' MonWait (LisReady ?old) 0 ShutDown []"
  have s0: "ip_reachable co st (mach False TimerRunning ?full False st MonWait LisWait 0 Serving [])"
    using stale_events_run [of 5 co st] by simp
  have s1: "ip_reachable co st (mach False TimerOff ?full False st' MonWait (LisStopped ?old) 0 Serving [])"
    using by_env [OF s0 ip_env.flag_data [of _ _ d]] assms by (simp add: take_data_def run_simps)
  have s2: "ip_reachable co st (mach True TimerOff ?full False st' MonWait (LisReady ?old) 0 Serving [])"
    using by_work [OF s1 ip_work.lis_test [of _ ?old]] by simp
  have s3: "ip_reachable co st (mach True TimerOff ?full False st' MonWait (LisReady ?old) 0 TimerStopped [])"
    using by_env [OF s2 ip_env.shut_timer] by (simp add: run_simps)
  show "ip_reachable co st ?s" using by_env [OF s3 ip_env.shut_cancel] by simp
  show "ic_shutdown ?s = ShutDown" by simp
  fix s' assume "(\<lambda>a b. ip_work co a b \<or> ip_env co a b)\<^sup>*\<^sup>* ?s s'"
  moreover have "jammed ?s" by (simp add: jammed_def has_room_def eventChannelBuffer_def)
  ultimately have "jammed s'" by (rule jammed_run)
  then show "ic_listener s' \<noteq> LisDone" by (auto simp: jammed_def)
qed

theorem inprocess_shutdown_hangs_witness:
  "\<exists>s. ip_reachable demo_core [] s \<and> ic_shutdown s = ShutDown \<and>
    (\<forall>s'. ip_work demo_core s s' \<longrightarrow> ic_listener s' \<noteq> LisDone)"
proof -
  obtain s where "ip_reachable demo_core [] s" "ic_shutdown s = ShutDown"
    "\<forall>s'. (\<lambda>a b. ip_work demo_core a b \<or> ip_env demo_core a b)\<^sup>*\<^sup>* s s' \<longrightarrow> ic_listener s' \<noteq> LisDone"
    using inprocess_shutdown_hangs [of demo_core "[]" "[]" "Inl []" "[]"] by auto
  then show ?thesis by (intro exI [of _ s] conjI) (auto intro: r_into_rtranclp)
qed

lemma then_work: "ip_run co s n k u \<Longrightarrow> ip_work co u v \<Longrightarrow> v = w \<Longrightarrow> m = Suc n \<Longrightarrow> ip_run co s m k w"
  by (auto simp: ip_progress_def intro: run_progress)

lemma then_recv: "ip_run co s n k u \<Longrightarrow> ip_recv u v \<Longrightarrow> v = w \<Longrightarrow> m = Suc n \<Longrightarrow> ip_run co s m k w"
  by (auto simp: ip_progress_def intro: run_progress)

lemma then_env: "ip_run co s n k u \<Longrightarrow> ip_env co u v \<Longrightarrow> v = w \<Longrightarrow> l = Suc k \<Longrightarrow> ip_run co s n l w"
  by (auto intro: run_env)

text \<open>Flag data that come after the cancellation: the listener still handles them, then everything exits.\<close>

theorem inprocess_shutdown_completes_witness:
  "\<exists>s s'. ip_reachable demo_core [] s \<and> ic_shutdown s = ShutDown \<and> ip_run demo_core s 6 1 s' \<and> Shutdown_returns s' \<and>
     EvError \<in> EventType ` set (ic_delivered s')"
proof -
  let ?s = "mach False TimerOff [] False [] MonWait LisWait 0 ShutDown [] :: (nat flag list, nat) machine"
  have s0: "ip_reachable demo_core [] (mach False TimerOff [] False [] MonWait LisWait 0 Serving [])"
    using ip_reachable.start [of demo_core "[]"] by (simp add: machine_start_def)
  have s1: "ip_reachable demo_core [] (mach False TimerOff [] False [] MonWait LisWait 0 TimerStopped [])"
    using by_env [OF s0 ip_env.shut_timer] by (simp add: run_simps)
  have s2: "ip_reachable demo_core [] ?s"
    using by_env [OF s1 ip_env.shut_cancel] by simp
  let ?ev = "sync_error_event ''bad''"
  have r1: "ip_run demo_core ?s 0 1 (?s\<lparr>ic_listener := LisFailed ''bad''\<rparr>)"
    by (rule then_env [OF run_start ip_env.flag_data [of _ _ "Inr ''bad''"]]) (simp_all add: take_data_def)
  have r2: "ip_run demo_core ?s 1 1 (?s\<lparr>hs_events := [?ev]\<rparr>)"
    by (rule then_work [OF r1 ip_work.lis_failed]) (simp_all add: run_simps)
  let ?d = "?s\<lparr>ic_delivered := [?ev]\<rparr>"
  have r3: "ip_run demo_core ?s 2 1 ?d"
    by (rule then_recv [OF r2 ip_recv.recv]) simp_all
  have r4: "ip_run demo_core ?s 3 1 (?d\<lparr>ic_monitor := MonDone\<rparr>)"
    by (rule then_work [OF r3 ip_work.mon_exit]) simp_all
  have r5: "ip_run demo_core ?s 4 1 (?d\<lparr>ic_monitor := MonDone, ic_listener := LisClosing\<rparr>)"
    by (rule then_work [OF r4 ip_work.lis_exit]) simp_all
  have r6: "ip_run demo_core ?s 5 1 (?d\<lparr>ic_monitor := MonDone, ic_listener := LisDone\<rparr>)"
    by (rule then_work [OF r5 ip_work.lis_closed]) simp_all
  let ?e = "?d\<lparr>ic_monitor := MonDone, ic_listener := LisDone, ic_process := SyncOver\<rparr>"
  have r7: "ip_run demo_core ?s 6 1 ?e"
    by (rule then_work [OF r6 ip_work.proc_exit [of _ _ None]]) (simp_all add: sync_over_def runDataSyncProcess_def)
  have "\<nexists>s''. ip_progress demo_core ?e s''"
    by (auto simp: ip_progress_def elim!: ip_work.cases ip_recv.cases)
  with inprocess_shutdown_completes [OF s2 _ r7] have "Shutdown_returns ?e" by simp
  with s2 r7 show ?thesis
    by (intro exI [of _ ?s] exI [of _ ?e]) (simp add: sync_error_event_def)
qed

text \<open>A run in which the first flag sync makes the service ready, ends \<^verbatim>\<open>Init\<close> and reports the new flag.\<close>

lemma first_sync_run:
  "ip_reachable demo_core [] (mach True TimerOff [changes_event [''a'']] True [\<lparr>fl_Key = ''a'', fl_body = 1\<rparr>]
     MonWait LisWait 0 Serving [became_ready_event])"
proof -
  let ?a = "[\<lparr>fl_Key = ''a'', fl_body = 1\<rparr>] :: nat flag list"
  have s0: "ip_reachable demo_core [] (mach False TimerOff [] False [] MonWait LisWait 0 Serving [])"
    using ip_reachable.start [of demo_core "[]"] by (simp add: machine_start_def)
  have s1: "ip_reachable demo_core [] (mach False TimerOff [] False ?a MonWait (LisStopped Map.empty) 0 Serving [])"
    using by_env [OF s0 ip_env.flag_data [of _ _ "Inl ?a"]] by (simp add: take_data_def run_simps flag_map_def)
  have s2: "ip_reachable demo_core [] (mach True TimerOff [] False ?a MonWait (LisReady Map.empty) 0 Serving [])"
    using by_work [OF s1 ip_work.lis_test [of _ Map.empty]] by simp
  have s3: "ip_reachable demo_core [] (mach True TimerOff [became_ready_event] False ?a MonWait (LisNotify Map.empty) 0 Serving [])"
    using by_work [OF s2 ip_work.lis_ready [of _ Map.empty]] by (simp add: run_simps)
  have "computeChangedFlags demo_core Map.empty ?a = [''a'']"
    using some_order_empty by (simp add: computeChangedFlags_def)
  then have s4: "ip_reachable demo_core [] (mach True TimerOff [became_ready_event] True ?a MonWait (LisChanged [''a'']) 0 Serving [])"
    using by_work [OF s3 ip_work.lis_notify [of _ Map.empty]] by (simp add: notify_init_def)
  have s5: "ip_reachable demo_core [] (mach True TimerOff [became_ready_event, changes_event [''a'']] True ?a MonWait LisWait 0 Serving [])"
    using by_work [OF s4 ip_work.lis_changed [of _ "[''a'']"]] by (simp add: run_simps)
  show ?thesis using by_recv [OF s5] by simp
qed

theorem inprocess_machine_safe_witness:
  "\<exists>s :: (nat flag list, nat) machine. ip_reachable demo_core [] s \<and> hs_init s \<and> changes_event [''a''] \<in> set (hs_events s) \<and>
     length (hs_events s) \<le> 5 \<and> changes_after_ready (ic_delivered s @ hs_events s) \<and>
     became_ready_event \<in> set (ic_delivered s @ hs_events s)"
proof -
  let ?s = "mach True TimerOff [changes_event [''a'']] True [\<lparr>fl_Key = ''a'', fl_body = 1\<rparr>] MonWait LisWait 0 Serving
     [became_ready_event] :: (nat flag list, nat) machine"
  have init: "hs_init ?s" "changes_event [''a''] \<in> set (hs_events ?s)" by simp_all
  moreover from inprocess_machine_safe [OF first_sync_run] have "length (hs_events ?s) \<le> 5"
    "changes_after_ready (ic_delivered ?s @ hs_events ?s)" "hs_init ?s \<longrightarrow> became_ready_event \<in> set (ic_delivered ?s @ hs_events ?s)" by blast+
  ultimately show ?thesis using first_sync_run by blast
qed

section \<open>The handlers are runs\<close>

lemma one_work: "ip_work co s s' \<Longrightarrow> (ip_step co)\<^sup>*\<^sup>* s s'"
  by (blast intro: ip_step.work)

lemma one_env: "ip_env co s s' \<Longrightarrow> (ip_step co)\<^sup>*\<^sup>* s s'"
  by (blast intro: ip_step.env)

lemma processSyncData_run:
  assumes "ic_listener s = LisWait" "length (hs_events s) \<le> 3"
  shows "(ip_step co)\<^sup>*\<^sup>* s (processSyncData co d s)"
proof (cases "co_GetAll co (hs_store s)")
  case (Inl e)
  then have "processSyncData co d s = s" by (simp add: processSyncData_def)
  then show ?thesis by simp
next
  case (Inr fs)
  obtain st r where st: "co_SetState co d (hs_store s) = (st, r)" by (cases "co_SetState co d (hs_store s)")
  let ?s1 = "take_data co d s"
  have s1: "(ip_step co)\<^sup>*\<^sup>* s ?s1"
    by (rule one_env [OF ip_env.flag_data [OF assms(1)]])
  show ?thesis
  proof (cases r)
    case (Some err)
    have "ip_step co ?s1 (put_event (sync_error_event err) ?s1\<lparr>ic_listener := LisWait\<rparr>)"
      by (rule ip_step.work [OF ip_work.lis_failed])
        (use Inr st Some assms(2) in \<open>simp_all add: take_data_def has_room_def eventChannelBuffer_def\<close>)
    moreover have "put_event (sync_error_event err) ?s1\<lparr>ic_listener := LisWait\<rparr> = processSyncData co d s"
      using Inr st Some assms(1) by (simp add: take_data_def processSyncData_def put_event_def)
    ultimately show ?thesis using s1 by simp
  next
    case None
    let ?old = "flag_map fs"
    let ?s3 = "if hs_ready s then ?s1\<lparr>ic_listener := LisNotify ?old\<rparr>
      else put_event became_ready_event (?s1\<lparr>hs_ready := True, ic_listener := LisReady ?old\<rparr>)\<lparr>ic_listener := LisNotify ?old\<rparr>"
    have take: "?s1 = s\<lparr>hs_store := st, hs_timer := TimerOff, ic_listener := LisStopped ?old\<rparr>"
      using Inr st None by (simp add: take_data_def staleTimer_stop_def)
    have s3: "(ip_step co)\<^sup>*\<^sup>* ?s1 ?s3"
    proof (cases "hs_ready s")
      case True
      then show ?thesis
        using one_work [OF ip_work.lis_test [of ?s1 ?old]] by (simp add: take)
    next
      case False
      let ?s2 = "?s1\<lparr>hs_ready := True, ic_listener := LisReady ?old\<rparr>"
      have "ip_step co ?s1 ?s2"
        using ip_step.work [OF ip_work.lis_test [of ?s1 ?old]] False by (simp add: take)
      moreover have "ip_step co ?s2 (put_event became_ready_event ?s2\<lparr>ic_listener := LisNotify ?old\<rparr>)"
        by (rule ip_step.work [OF ip_work.lis_ready])
          (use assms(2) in \<open>simp_all add: take has_room_def eventChannelBuffer_def\<close>)
      ultimately show ?thesis using False by simp
    qed
    let ?s4 = "notify_init co ?old ?s3"
    have s4: "ip_step co ?s3 ?s4" by (rule ip_step.work [OF ip_work.lis_notify]) simp
    have "(ip_step co)\<^sup>*\<^sup>* ?s4 (processSyncData co d s)"
    proof (cases "\<exists>ks. ic_listener ?s4 = LisChanged ks")
      case True
      then obtain ks where ks: "ic_listener ?s4 = LisChanged ks" ..
      have "ip_step co ?s4 (put_event (changes_event ks) ?s4\<lparr>ic_listener := LisWait\<rparr>)"
        by (rule ip_step.work [OF ip_work.lis_changed [OF ks]])
          (use assms(2) in \<open>simp add: take notify_init_def has_room_def eventChannelBuffer_def\<close>)
      moreover have "put_event (changes_event ks) ?s4\<lparr>ic_listener := LisWait\<rparr> = processSyncData co d s"
        using ks Inr st None assms(1)
        by (auto simp: take notify_init_def processSyncData_def announce_changes_def staleTimer_stop_def
            put_event_def Let_def split: sum.splits if_splits)
      ultimately show ?thesis by simp
    next
      case False
      then have "?s4 = processSyncData co d s"
        using Inr st None assms(1)
        by (auto simp: take notify_init_def processSyncData_def announce_changes_def staleTimer_stop_def
            put_event_def Let_def split: sum.splits if_splits)
      then show ?thesis by simp
    qed
    with s1 s3 s4 show ?thesis by (meson rtranclp.rtrancl_into_rtrancl rtranclp_trans)
  qed
qed

lemma handleSyncEvent_run:
  assumes "ic_monitor s = MonWait" "has_room s"
  shows "(ip_step co)\<^sup>*\<^sup>* s (handleSyncEvent ev s)"
proof (cases ev)
  case SyncError
  let ?s1 = "s\<lparr>hs_ready := False, ic_monitor := MonMarked\<rparr>"
  let ?s2 = "put_event stale_event ?s1\<lparr>ic_monitor := MonSent\<rparr>"
  have "(ip_step co)\<^sup>*\<^sup>* s ?s1" by (rule one_env [OF ip_env.source_error [OF assms(1)]])
  moreover have "(ip_step co)\<^sup>*\<^sup>* ?s1 ?s2"
    by (rule one_work [OF ip_work.mon_stale]) (use assms(2) in \<open>simp_all add: has_room_def\<close>)
  moreover have "(ip_step co)\<^sup>*\<^sup>* ?s2 (?s2\<lparr>hs_timer := staleTimer_start (hs_timer ?s2), ic_monitor := MonWait\<rparr>)"
    by (rule one_work [OF ip_work.mon_timer]) simp
  moreover have "?s2\<lparr>hs_timer := staleTimer_start (hs_timer ?s2), ic_monitor := MonWait\<rparr> = handleSyncEvent ev s"
    using assms(1) by (simp add: SyncError handleSyncEvent_def handleProviderError_def put_event_def Let_def)
  ultimately show ?thesis by (metis rtranclp_trans)
next
  case SyncReady
  then show ?thesis using one_env [OF ip_env.source_ready [OF assms(1)]]
    by (simp add: handleSyncEvent_def handleProviderReady_def)
qed (simp add: handleSyncEvent_def)

lemma timer_callback_run:
  assumes "hs_timer s = TimerRunning" "ic_callbacks s = 0" "has_room s"
  shows "(ip_step co)\<^sup>*\<^sup>* s (timer_callback s)"
proof -
  let ?s1 = "s\<lparr>hs_timer := TimerExpired, ic_callbacks := Suc 0\<rparr>"
  have "(ip_step co)\<^sup>*\<^sup>* s ?s1" using one_env [OF ip_env.grace_over [OF assms(1)]] assms(2) by simp
  moreover have "(ip_step co)\<^sup>*\<^sup>* ?s1 (put_event expired_event ?s1\<lparr>ic_callbacks := 0\<rparr>)"
    by (rule one_work [OF ip_work.callback]) (use assms(3) in \<open>simp_all add: has_room_def\<close>)
  moreover have "put_event expired_event ?s1\<lparr>ic_callbacks := 0\<rparr> = timer_callback s"
    using assms(2) by (simp add: timer_callback_def put_event_def)
  ultimately show ?thesis by simp
qed

text \<open>
  C23: The two models of the goroutines agree: when the monitor and the listener wait, no timer
  callback is blocked and the channel has room, the machine can do exactly what a handler run to
  its end does.
\<close>

theorem handlers_are_runs:
  assumes "ic_monitor s = MonWait" "ic_listener s = LisWait" "ic_callbacks s = 0" "length (hs_events s) \<le> 3"
  shows "(ip_step co)\<^sup>*\<^sup>* s (health_input co i s)"
proof -
  have room: "has_room s" using assms(4) by (simp add: has_room_def eventChannelBuffer_def)
  show ?thesis
    using handleSyncEvent_run [OF assms(1) room, of co] timer_callback_run [OF _ assms(3) room, of co]
      processSyncData_run [OF assms(2,4), of co]
    by (cases i) (simp_all add: health_input_def)
qed

theorem handlers_are_runs_witness:
  "(ip_step demo_core)\<^sup>*\<^sup>* (machine_start []) (processSyncData demo_core (Inl [\<lparr>fl_Key = ''a'', fl_body = 1\<rparr>]) (machine_start []))"
  using handlers_are_runs [of "machine_start []" demo_core "FlagData (Inl [\<lparr>fl_Key = ''a'', fl_body = 1\<rparr>])"]
  by (simp add: machine_start_def health_input_def)

end
