(* ===== verification/Flagd_GrpcSync.thy ===== *)
theory Flagd_GrpcSync
  imports Flagd_InProcess
begin

text \<open>
  The gRPC flag source of the in-process service, \<^verbatim>\<open>grpc_sync.go\<close> and \<^verbatim>\<open>grpc_config.go\<close>: dial
  options and retry policy, the goroutine that receives from the stream, the retry loop of
  \<^verbatim>\<open>Sync\<close> with its fatal status codes, the connection monitor and shutdown.  gRPC itself, the
  credentials builder and JSON are parameters.
\<close>

section \<open>Configuration\<close>

definition grpcDefaultRetryBackoffMs :: int where "grpcDefaultRetryBackoffMs = 1000"
definition grpcDefaultRetryBackoffMaxMs :: int where "grpcDefaultRetryBackoffMaxMs = 12000"
definition defaultKeepaliveTime :: int64 where "defaultKeepaliveTime = 30 * 1000000000"
definition defaultKeepaliveTimeout :: int64 where "defaultKeepaliveTimeout = 5 * 1000000000"

record RetryPolicy =
  rp_MaxAttempts :: int
  rp_InitialBackoff :: string
  rp_MaxBackoff :: string
  rp_BackoffMultiplier :: float64
  rp_RetryableStatusCodes :: "string list"

text \<open>
  \<open>seconds\<close> prints a duration as \<^verbatim>\<open>fmt.Sprint(d.Seconds())\<close> does, \<open>marshal\<close> encodes the service
  name and the policy as JSON.
\<close>

definition millis :: "int \<Rightarrow> int64" where
  "millis ms = word_of_int ms * 1000000"

definition retry_policy :: "(int64 \<Rightarrow> string) \<Rightarrow> 'g GrpcSync \<Rightarrow> RetryPolicy" where
  "retry_policy seconds g =
     (let initialBackoffMs = (if gs_RetryBackOffMs g \<le> 0 then grpcDefaultRetryBackoffMs else gs_RetryBackOffMs g);
          maxBackoffMs = (if gs_RetryBackOffMaxMs g \<le> 0 then grpcDefaultRetryBackoffMaxMs else gs_RetryBackOffMaxMs g)
      in \<lparr>rp_MaxAttempts = 3, rp_InitialBackoff = seconds (millis initialBackoffMs) @ ''s'',
          rp_MaxBackoff = seconds (millis maxBackoffMs) @ ''s'', rp_BackoffMultiplier = Float64 0x4000000000000000,
          rp_RetryableStatusCodes = [''UNKNOWN'', ''UNAVAILABLE'']\<rparr>)"

definition buildRetryPolicy ::
  "(int64 \<Rightarrow> string) \<Rightarrow> (string \<Rightarrow> RetryPolicy \<Rightarrow> string) \<Rightarrow> 'g GrpcSync \<Rightarrow> string" where
  "buildRetryPolicy seconds marshal g = marshal ''flagd.sync.v1.FlagSyncService'' (retry_policy seconds g)"

text \<open>A status code of gRPC is a number; \<open>parse\<close> reads its JSON form.\<close>

definition nonRetryableStatusCodes :: "(string \<Rightarrow> nat option) \<Rightarrow> string list \<Rightarrow> nat set" where
  "nonRetryableStatusCodes parse codes =
     set (List.map_filter (\<lambda>code. parse ([CHR 0x22] @ code @ [CHR 0x22])) codes)"

text \<open>Dial options: an overriding one of the application, or one of those this file builds.\<close>

datatype 'g dial_option =
    OverrideOption 'g
  | TransportCredentials string
  | MaxCallRecvMsgSize int
  | KeepaliveParams int64 int64 bool
  | ServiceConfig string
  | SelectorUnaryInterceptor string
  | SelectorStreamInterceptor string

text \<open>\<open>credentials\<close> is \<^verbatim>\<open>CredentialBuilder.Build\<close>.\<close>

definition buildDialOptions ::
  "(bool \<Rightarrow> string \<Rightarrow> string + string) \<Rightarrow> ('g GrpcSync \<Rightarrow> string) \<Rightarrow> 'g GrpcSync \<Rightarrow> string + 'g dial_option list" where
  "buildDialOptions credentials policy g =
     (case credentials (gs_Secure g) (gs_CertPath g) of
        Inl err \<Rightarrow> Inl (''failed to build transport credentials: '' @ err)
      | Inr tCredentials \<Rightarrow> Inr ([TransportCredentials tCredentials] @
          (if gs_MaxMsgSize g > 0 then [MaxCallRecvMsgSize (gs_MaxMsgSize g)] else []) @
          [KeepaliveParams defaultKeepaliveTime defaultKeepaliveTimeout True, ServiceConfig (policy g)]))"

definition interceptor_options :: "'g GrpcSync \<Rightarrow> 'g dial_option list" where
  "interceptor_options g =
     (if gs_Selector g \<noteq> [] then [SelectorUnaryInterceptor (gs_Selector g), SelectorStreamInterceptor (gs_Selector g)]
      else [])"

text \<open>The URI and the options that \<^verbatim>\<open>grpc.NewClient\<close> is called with.\<close>

definition createConnection ::
  "(bool \<Rightarrow> string \<Rightarrow> string + string) \<Rightarrow> ('g GrpcSync \<Rightarrow> string) \<Rightarrow> 'g GrpcSync \<Rightarrow> string + string \<times> 'g dial_option list" where
  "createConnection credentials policy g =
     (if gs_GrpcDialOptionsOverride g \<noteq> []
      then Inr (gs_URI g, map OverrideOption (gs_GrpcDialOptionsOverride g) @ interceptor_options g)
      else case buildDialOptions credentials policy g of
             Inl err \<Rightarrow> Inl (''failed to build dial options: '' @ err)
           | Inr dialOptions \<Rightarrow> Inr (gs_URI g, dialOptions @ interceptor_options g))"

text \<open>
  The interceptors add the selector to the outgoing metadata of the call, a list of key and value,
  when it is not empty.
\<close>

definition append_selector :: "string \<Rightarrow> string \<Rightarrow> (string \<times> string) list \<Rightarrow> (string \<times> string) list" where
  "append_selector headerName selector outgoing =
     (if selector \<noteq> [] then outgoing @ [(headerName, selector)] else outgoing)"

definition selectorUnaryInterceptor ::
  "string \<Rightarrow> string \<Rightarrow> ((string \<times> string) list \<Rightarrow> 'a) \<Rightarrow> (string \<times> string) list \<Rightarrow> 'a" where
  "selectorUnaryInterceptor headerName selector invoker outgoing = invoker (append_selector headerName selector outgoing)"

definition selectorStreamInterceptor ::
  "string \<Rightarrow> string \<Rightarrow> ((string \<times> string) list \<Rightarrow> 'a) \<Rightarrow> (string \<times> string) list \<Rightarrow> 'a" where
  "selectorStreamInterceptor headerName selector streamer outgoing = streamer (append_selector headerName selector outgoing)"

section \<open>Errors\<close>

text \<open>A Go error: a gRPC status, a plain error, or an error wrapped with \<^verbatim>\<open>%w\<close> behind a prefix.\<close>

datatype go_error = StatusError nat string | PlainError string | WrappedError string go_error

text \<open>
  \<^verbatim>\<open>status.FromError\<close>, of gRPC, finds the status of an error through its wrappings; it is a
  parameter, and this is its documented behaviour on the errors of this file.
\<close>

definition status_from_error :: "(go_error \<Rightarrow> nat option) \<Rightarrow> bool" where
  "status_from_error FromError \<longleftrightarrow>
     (\<forall>c m. FromError (StatusError c m) = Some c) \<and> (\<forall>m. FromError (PlainError m) = None) \<and>
     (\<forall>p e. FromError (WrappedError p e) = FromError e)"

fun demo_FromError :: "go_error \<Rightarrow> nat option" where
  "demo_FromError (StatusError c m) = Some c"
| "demo_FromError (PlainError m) = None"
| "demo_FromError (WrappedError p e) = demo_FromError e"

lemma demo_FromError_status: "status_from_error demo_FromError"
  by (simp add: status_from_error_def)

section \<open>One stream\<close>

text \<open>
  \<^verbatim>\<open>handleFlagSync\<close>: a goroutine receives from the stream into \<^verbatim>\<open>streamChan\<close> and \<^verbatim>\<open>errChan\<close>, each
  with room for one, and closes both when it ends; the main loop selects between them and the
  context and hands each message on.  \<open>hf_rest\<close> is what the server still sends before the stream
  ends with \<open>end\<close>.
\<close>

datatype 'd receiver_pc = RecvWait | RecvHave 'd | RecvError go_error | RecvClosed

datatype 'd handler_pc = HandlerWait | HandlerForward 'd | HandlerReturned go_error

record 'd flag_sync =
  hf_rest :: "'d list"
  hf_receiver :: "'d receiver_pc"
  hf_streamChan :: "'d option"
  hf_errChan :: "go_error option"
  hf_handler :: "'d handler_pc"
  hf_ctxErr :: "string option"
  hf_ready :: bool
  hf_delivered :: "'d list"

definition handleFlagSync_start :: "'d list \<Rightarrow> bool \<Rightarrow> 'd flag_sync" where
  "handleFlagSync_start msgs ready = \<lparr>hf_rest = msgs, hf_receiver = RecvWait, hf_streamChan = None,
     hf_errChan = None, hf_handler = HandlerWait, hf_ctxErr = None, hf_ready = ready, hf_delivered = []\<rparr>"

inductive hf_step :: "go_error \<Rightarrow> 'd flag_sync \<Rightarrow> 'd flag_sync \<Rightarrow> bool" for stream_end where
  recv_data: "hf_receiver s = RecvWait \<Longrightarrow> hf_rest s = d # ds \<Longrightarrow>
    hf_step stream_end s (s\<lparr>hf_rest := ds, hf_receiver := RecvHave d\<rparr>)"
| recv_end: "hf_receiver s = RecvWait \<Longrightarrow> hf_rest s = [] \<Longrightarrow>
    hf_step stream_end s (s\<lparr>hf_receiver := RecvError stream_end\<rparr>)"
| recv_cancelled: "hf_receiver s = RecvWait \<Longrightarrow> hf_ctxErr s = Some t \<Longrightarrow>
    hf_step stream_end s (s\<lparr>hf_receiver := RecvError (StatusError 1 t)\<rparr>)"
| push_data: "hf_receiver s = RecvHave d \<Longrightarrow> hf_streamChan s = None \<Longrightarrow>
    hf_step stream_end s (s\<lparr>hf_streamChan := Some d, hf_receiver := RecvWait\<rparr>)"
| drop_data: "hf_receiver s = RecvHave d \<Longrightarrow> hf_ctxErr s = Some t \<Longrightarrow>
    hf_step stream_end s (s\<lparr>hf_receiver := RecvClosed\<rparr>)"
| push_error: "hf_receiver s = RecvError e \<Longrightarrow>
    hf_step stream_end s (s\<lparr>hf_errChan := Some e, hf_receiver := RecvClosed\<rparr>)"
| drop_error: "hf_receiver s = RecvError e \<Longrightarrow> hf_ctxErr s = Some t \<Longrightarrow>
    hf_step stream_end s (s\<lparr>hf_receiver := RecvClosed\<rparr>)"
| take_data: "hf_handler s = HandlerWait \<Longrightarrow> hf_streamChan s = Some d \<Longrightarrow>
    hf_step stream_end s (s\<lparr>hf_streamChan := None, hf_handler := HandlerForward d\<rparr>)"
| stream_closed: "hf_handler s = HandlerWait \<Longrightarrow> hf_streamChan s = None \<Longrightarrow> hf_receiver s = RecvClosed \<Longrightarrow>
    hf_step stream_end s (s\<lparr>hf_handler := HandlerReturned (PlainError ''stream channel closed'')\<rparr>)"
| take_error: "hf_handler s = HandlerWait \<Longrightarrow> hf_errChan s = Some e \<Longrightarrow>
    hf_step stream_end s (s\<lparr>hf_errChan := None, hf_handler := HandlerReturned (WrappedError ''stream error: '' e)\<rparr>)"
| error_closed: "hf_handler s = HandlerWait \<Longrightarrow> hf_errChan s = None \<Longrightarrow> hf_receiver s = RecvClosed \<Longrightarrow>
    hf_step stream_end s (s\<lparr>hf_handler := HandlerReturned (PlainError ''stream error: %!w(<nil>)'')\<rparr>)"
| ctx_done: "hf_handler s = HandlerWait \<Longrightarrow> hf_ctxErr s = Some t \<Longrightarrow>
    hf_step stream_end s (s\<lparr>hf_handler := HandlerReturned (PlainError t)\<rparr>)"
| forward: "hf_handler s = HandlerForward d \<Longrightarrow>
    hf_step stream_end s (s\<lparr>hf_delivered := hf_delivered s @ [d], hf_ready := True, hf_handler := HandlerWait\<rparr>)"
| forward_done: "hf_handler s = HandlerForward d \<Longrightarrow> hf_ctxErr s = Some t \<Longrightarrow>
    hf_step stream_end s (s\<lparr>hf_handler := HandlerReturned (PlainError t)\<rparr>)"
| cancel: "hf_ctxErr s = None \<Longrightarrow> hf_step stream_end s (s\<lparr>hf_ctxErr := Some t\<rparr>)"

definition hf_run :: "go_error \<Rightarrow> 'd list \<Rightarrow> bool \<Rightarrow> 'd flag_sync \<Rightarrow> bool" where
  "hf_run stream_end msgs ready = (hf_step stream_end)\<^sup>*\<^sup>* (handleFlagSync_start msgs ready)"

section \<open>The sync loop\<close>

text \<open>The error of a cycle: the stream could not be opened, or what \<^verbatim>\<open>handleFlagSync\<close> returned.\<close>

definition performSyncCycle :: "go_error option \<Rightarrow> go_error \<Rightarrow> go_error" where
  "performSyncCycle openError handled =
     (case openError of Some e \<Rightarrow> WrappedError ''failed to create sync stream: '' e | None \<Rightarrow> handled)"

text \<open>
  One round of \<^verbatim>\<open>Sync\<close> as the server, the event channel and the context decide it: the context
  error before the cycle, the error of the cycle, whether it delivered data, the context error
  after it, whether the event was dropped, and the context error after the event and during the
  pause.
\<close>

record cycle =
  cy_before :: "string option"
  cy_err :: go_error
  cy_data :: bool
  cy_after :: "string option"
  cy_dropped :: bool
  cy_after_event :: "string option"
  cy_in_pause :: "string option"

datatype sync_result = SyncCancelled string | SyncFatal string

record sync_log =
  sl_ready :: bool
  sl_errors :: nat
  sl_pauses :: "int64 list"

text \<open>\<open>sl_errors\<close> counts the error events sent, \<open>sl_pauses\<close> lists the pauses taken; \<open>name\<close> prints a code.\<close>

definition is_fatal :: "(go_error \<Rightarrow> nat option) \<Rightarrow> nat set \<Rightarrow> go_error \<Rightarrow> bool" where
  "is_fatal FromError nonRetryableCodes err =
     (case FromError err of Some code \<Rightarrow> code \<in> nonRetryableCodes | None \<Rightarrow> False)"

lemma is_fatal_iff: "is_fatal F codes e \<longleftrightarrow> (\<exists>code. F e = Some code \<and> code \<in> codes)"
  by (simp add: is_fatal_def split: option.split)

definition fatal_message :: "(go_error \<Rightarrow> nat option) \<Rightarrow> (nat \<Rightarrow> string) \<Rightarrow> go_error \<Rightarrow> string" where
  "fatal_message FromError name err =
     ''first sync cycle failed with non-retryable status: '' @ (case FromError err of Some code \<Rightarrow> name code | None \<Rightarrow> []) @
     '', returning provider fatal.''"

fun Sync_loop ::
  "(go_error \<Rightarrow> nat option) \<Rightarrow> nat set \<Rightarrow> (nat \<Rightarrow> string) \<Rightarrow> 'g GrpcSync \<Rightarrow> cycle list \<Rightarrow> sync_log \<Rightarrow>
   sync_log \<times> sync_result option" where
  "Sync_loop FromError nonRetryableCodes name g [] s = (s, None)"
| "Sync_loop FromError nonRetryableCodes name g (c # cs) s =
     (case cy_before c of
        Some t \<Rightarrow> (s, Some (SyncCancelled t))
      | None \<Rightarrow>
         (let s = s\<lparr>sl_ready := sl_ready s \<or> cy_data c\<rparr>
          in case cy_after c of
               Some t \<Rightarrow> (s, Some (SyncCancelled t))
             | None \<Rightarrow>
                 if \<not> sl_ready s \<and> is_fatal FromError nonRetryableCodes (cy_err c)
                 then (s, Some (SyncFatal (fatal_message FromError name (cy_err c))))
                 else let s = (if cy_dropped c then s else s\<lparr>sl_errors := Suc (sl_errors s)\<rparr>)
                      in case cy_after_event c of
                           Some t \<Rightarrow> (s, Some (SyncCancelled t))
                         | None \<Rightarrow>
                             (let s = s\<lparr>sl_pauses := sl_pauses s @ [millis (gs_RetryBackOffMaxMs g)]\<rparr>
                              in case cy_in_pause c of
                                   Some t \<Rightarrow> (s, Some (SyncCancelled t))
                                 | None \<Rightarrow> Sync_loop FromError nonRetryableCodes name g cs s)))"

section \<open>Events of the connection\<close>

text \<open>
  The channel \<^verbatim>\<open>events\<close> with room for ten.  \<^verbatim>\<open>sendEvent\<close> selects between the send, which is also
  ready, and panics, on a closed channel, and a done context, at the runtime's choice; otherwise
  the event is dropped.
\<close>

datatype connectivity = StateIdle | StateConnecting | StateReady | StateTransientFailure | StateShutdown

record event_channel =
  ch_buffer :: nat
  ch_closed :: bool

definition grpc_sendEvent :: "bool \<Rightarrow> bool \<Rightarrow> event_channel \<Rightarrow> event_channel outcome" where
  "grpc_sendEvent ctxDone preferSend ch =
     (if (ch_closed ch \<or> ch_buffer ch < 10) \<and> (preferSend \<or> \<not> ctxDone)
      then if ch_closed ch then Panic ''send on closed channel''
           else Return (ch\<lparr>ch_buffer := Suc (ch_buffer ch)\<rparr>)
      else Return ch)"

definition handleConnectionState :: "bool \<Rightarrow> bool \<Rightarrow> connectivity \<Rightarrow> event_channel \<Rightarrow> event_channel outcome" where
  "handleConnectionState ctxDone preferSend state ch =
     (case state of StateTransientFailure \<Rightarrow> grpc_sendEvent ctxDone preferSend ch | _ \<Rightarrow> Return ch)"

text \<open>
  The monitor: one entry per state change, with the context at the check before the handler and at
  the handler's select.
\<close>

fun monitorConnectionState :: "(connectivity \<times> bool \<times> bool \<times> bool) list \<Rightarrow> event_channel \<Rightarrow> event_channel outcome" where
  "monitorConnectionState [] ch = Return ch"
| "monitorConnectionState ((newState, doneBefore, doneAtSend, preferSend) # rest) ch =
     (if doneBefore then Return ch
      else bind_outcome (handleConnectionState doneAtSend preferSend newState ch) (monitorConnectionState rest))"

text \<open>\<^verbatim>\<open>Shutdown\<close> closes the channel without a guard against a second call; \<open>closeError\<close> is the result of closing the connection.\<close>

definition grpc_Shutdown :: "string option \<Rightarrow> event_channel \<Rightarrow> (event_channel \<times> string option) outcome" where
  "grpc_Shutdown closeError ch =
     (if ch_closed ch then Panic ''close of closed channel'' else Return (ch\<lparr>ch_closed := True\<rparr>, closeError))"

text \<open>
  The life of a source: \<^verbatim>\<open>Init\<close> makes new channels and a connection, \<^verbatim>\<open>Sync\<close> closes \<^verbatim>\<open>shutdownComplete\<close> when it
  returns, once (\<^verbatim>\<open>shutdownOnce\<close>).  \<open>gl_complete\<close>: \<open>None\<close> for the nil channel, else whether it is closed.
\<close>

record grpc_life =
  gl_complete :: "bool option"
  gl_once :: bool
  gl_events :: "event_channel option"
  gl_connected :: bool

definition grpc_new :: grpc_life where
  "grpc_new = \<lparr>gl_complete = None, gl_once = False, gl_events = None, gl_connected = False\<rparr>"

definition grpc_Init :: "string + unit \<Rightarrow> grpc_life \<Rightarrow> grpc_life \<times> string option" where
  "grpc_Init conn g =
     (let g = g\<lparr>gl_complete := Some False, gl_events := Some \<lparr>ch_buffer = 0, ch_closed = False\<rparr>\<rparr>
      in case conn of
           Inl err \<Rightarrow> (g, Some (''failed to create gRPC connection: '' @ err))
         | Inr _ \<Rightarrow> (g\<lparr>gl_connected := True\<rparr>, None))"

definition markShutdownComplete :: "grpc_life \<Rightarrow> grpc_life outcome" where
  "markShutdownComplete g =
     (if gl_once g then Return g
      else case gl_complete g of
             None \<Rightarrow> Panic ''close of nil channel''
           | Some True \<Rightarrow> Panic ''close of closed channel''
           | Some False \<Rightarrow> Return (g\<lparr>gl_once := True, gl_complete := Some True\<rparr>))"

text \<open>Whether the \<^verbatim>\<open>select\<close> of \<^verbatim>\<open>Shutdown\<close> has to wait for its five seconds.\<close>

definition grpc_waits_full :: "grpc_life \<Rightarrow> bool" where
  "grpc_waits_full g \<longleftrightarrow> gl_complete g \<noteq> Some True"

definition grpc_close :: "string option \<Rightarrow> grpc_life \<Rightarrow> (grpc_life \<times> string option) outcome" where
  "grpc_close closeError g =
     (case gl_events g of
        None \<Rightarrow> Return (g, if gl_connected g then closeError else None)
      | Some ch \<Rightarrow> map_result (\<lambda>(ch, err). (g\<lparr>gl_events := Some ch\<rparr>, if gl_connected g then err else None)) (grpc_Shutdown closeError ch))"

text \<open>
  A source whose \<^verbatim>\<open>Sync\<close> has returned shuts down at once, and a second time only with a panic.  After it was
  initialised again the wait is always the full one: \<^verbatim>\<open>shutdownOnce\<close> was spent on the old channel.
\<close>

lemma grpc_life_runs:
  assumes "grpc_Init (Inr ()) grpc_new = (g1, None)" "markShutdownComplete g1 = Return g2" "grpc_close e g2 = Return (g3, r)"
    and "grpc_Init (Inr ()) g3 = (g4, None)" "markShutdownComplete g4 = Return g5"
  shows "\<not> grpc_waits_full g2 \<and> r = e \<and> (\<exists>m. grpc_close e g3 = Panic m) \<and> grpc_waits_full g5 \<and> gl_once g5"
  using assms by (auto simp: grpc_Init_def grpc_new_def markShutdownComplete_def grpc_close_def grpc_Shutdown_def grpc_waits_full_def Let_def)

text \<open>
  \<^verbatim>\<open>ReSync\<close>: one fetch of all flags, handed on unless the context ends first.
\<close>

definition ReSync :: "string + 'd \<Rightarrow> string option \<Rightarrow> string + 'd" where
  "ReSync fetched ctxErr =
     (case fetched of
        Inl err \<Rightarrow> Inl (''failed to fetch all flags: '' @ err)
      | Inr data \<Rightarrow> (case ctxErr of Some t \<Rightarrow> Inl t | None \<Rightarrow> Inr data))"

section \<open>Lemmas on one stream\<close>

fun in_handler :: "'d handler_pc \<Rightarrow> 'd list" where
  "in_handler (HandlerForward d) = [d]" | "in_handler _ = []"

fun in_receiver :: "'d receiver_pc \<Rightarrow> 'd list" where
  "in_receiver (RecvHave d) = [d]" | "in_receiver _ = []"

fun returned :: "'d handler_pc \<Rightarrow> bool" where
  "returned (HandlerReturned e) = True" | "returned _ = False"

definition in_flight :: "'d flag_sync \<Rightarrow> 'd list" where
  "in_flight s = hf_delivered s @ in_handler (hf_handler s) @ (case hf_streamChan s of None \<Rightarrow> [] | Some d \<Rightarrow> [d]) @
     in_receiver (hf_receiver s)"

definition hf_inv :: "go_error \<Rightarrow> 'd list \<Rightarrow> 'd flag_sync \<Rightarrow> bool" where
  "hf_inv stream_end msgs s \<longleftrightarrow>
     (if returned (hf_handler s) then prefix (hf_delivered s) msgs
      else (case hf_receiver s of RecvWait \<Rightarrow> in_flight s @ hf_rest s = msgs
              | RecvHave d \<Rightarrow> in_flight s @ hf_rest s = msgs
              | _ \<Rightarrow> prefix (in_flight s) msgs)) \<and>
     (hf_ctxErr s = None \<longrightarrow>
        (case hf_receiver s of RecvWait \<Rightarrow> hf_errChan s = None | RecvHave d \<Rightarrow> hf_errChan s = None
           | RecvError e \<Rightarrow> e = stream_end \<and> hf_errChan s = None
           | RecvClosed \<Rightarrow> \<not> returned (hf_handler s) \<longrightarrow> hf_errChan s = Some stream_end) \<and>
        (case hf_handler s of HandlerReturned e \<Rightarrow>
             e = WrappedError ''stream error: '' stream_end \<or> e = PlainError ''stream channel closed''
           | _ \<Rightarrow> True))"

lemma hf_inv_start: "hf_inv e msgs (handleFlagSync_start msgs r)"
  by (simp add: hf_inv_def handleFlagSync_start_def in_flight_def)

lemma hf_inv_step: "hf_step e s s' \<Longrightarrow> hf_inv e msgs s \<Longrightarrow> hf_inv e msgs s'"
  by (cases rule: hf_step.cases, assumption)
    (auto simp: hf_inv_def in_flight_def dest: append_prefixD split: receiver_pc.splits handler_pc.splits option.splits if_splits)

fun receiver_weight :: "'d receiver_pc \<Rightarrow> nat" where
  "receiver_weight (RecvHave d) = 5" | "receiver_weight RecvWait = 2" | "receiver_weight (RecvError e) = 1"
| "receiver_weight RecvClosed = 0"

fun handler_weight :: "'d handler_pc \<Rightarrow> nat" where
  "handler_weight (HandlerForward d) = 2" | "handler_weight HandlerWait = 1" | "handler_weight (HandlerReturned e) = 0"

definition hf_weight :: "'d flag_sync \<Rightarrow> nat" where
  "hf_weight s = 4 * length (hf_rest s) + receiver_weight (hf_receiver s) +
     (case hf_streamChan s of None \<Rightarrow> 0 | Some d \<Rightarrow> 2) + handler_weight (hf_handler s) +
     (case hf_ctxErr s of None \<Rightarrow> 1 | Some t \<Rightarrow> 0)"

lemma hf_weight_step: "hf_step e s s' \<Longrightarrow> hf_weight s' < hf_weight s"
  by (cases rule: hf_step.cases, assumption) (auto simp: hf_weight_def)

lemma hf_steps_bound: "(hf_step e ^^ n) s s' \<Longrightarrow> n + hf_weight s' \<le> hf_weight s"
proof (induction n arbitrary: s')
  case (Suc n)
  then obtain u where u: "(hf_step e ^^ n) s u" "hf_step e u s'" by auto
  from hf_weight_step [OF u(2)] Suc.IH [OF u(1)] show ?case by simp
qed simp

lemma hf_steps_inv: "(hf_step e ^^ n) s s' \<Longrightarrow> hf_inv e msgs s \<Longrightarrow> hf_inv e msgs s'"
  by (induction n arbitrary: s') (auto intro: hf_inv_step)

lemma hf_stuck_returned:
  assumes "\<nexists>s'. hf_step e s s'"
  shows "returned (hf_handler s)"
proof (cases "hf_handler s")
  case HandlerWait
  have no: "\<not> hf_step e s s'" for s' using assms by blast
  have chan: "hf_streamChan s = None" using no hf_step.take_data [OF HandlerWait] by (cases "hf_streamChan s") auto
  have "False"
  proof (cases "hf_receiver s")
    case RecvWait
    then show False using no hf_step.recv_data [OF RecvWait] hf_step.recv_end [OF RecvWait] by (cases "hf_rest s") blast+
  next
    case (RecvHave d)
    then show False using no hf_step.push_data [OF RecvHave chan] by blast
  next
    case (RecvError x)
    then show False using no hf_step.push_error [OF RecvError] by blast
  next
    case RecvClosed
    then show False using no hf_step.stream_closed [OF HandlerWait chan RecvClosed] by blast
  qed
  then show ?thesis ..
next
  case (HandlerForward d)
  then show ?thesis using assms hf_step.forward [OF HandlerForward] by blast
qed simp

text \<open>
  C13: One stream, under every interleaving of its receiver, its handler and the context: a run takes
  at most 4n + 4 steps for n messages; the messages handed to the flag store are always a prefix of
  those the server sent, in their order; a run that can go no further has returned, and without a
  cancellation it returned the stream's error or the report that the stream channel is closed.
\<close>

theorem stream_runs:
  assumes "(hf_step stream_end ^^ n) (handleFlagSync_start msgs ready) s"
  shows "n \<le> 4 * length msgs + 4 \<and> prefix (hf_delivered s) msgs \<and>
    ((\<nexists>s'. hf_step stream_end s s') \<longrightarrow> returned (hf_handler s)) \<and>
    (hf_ctxErr s = None \<longrightarrow> (case hf_handler s of HandlerReturned e \<Rightarrow>
        e = WrappedError ''stream error: '' stream_end \<or> e = PlainError ''stream channel closed'' | _ \<Rightarrow> True))"
proof -
  have inv: "hf_inv stream_end msgs s" using hf_steps_inv [OF assms hf_inv_start] .
  have "prefix (hf_delivered s) msgs"
    using inv by (auto simp: hf_inv_def in_flight_def prefix_def split: if_splits receiver_pc.splits)
  moreover have "hf_weight (handleFlagSync_start msgs ready) = 4 * length msgs + 4"
    by (simp add: hf_weight_def handleFlagSync_start_def)
  ultimately show ?thesis
    using hf_steps_bound [OF assms] inv hf_stuck_returned [of stream_end s] by (simp add: hf_inv_def)
qed

text \<open>A state by its fields.\<close>

abbreviation fsync ::
  "'d list \<Rightarrow> 'd receiver_pc \<Rightarrow> 'd option \<Rightarrow> go_error option \<Rightarrow> 'd handler_pc \<Rightarrow> bool \<Rightarrow> 'd list \<Rightarrow> 'd flag_sync" where
  "fsync rest r ch ec h ready del \<equiv> \<lparr>hf_rest = rest, hf_receiver = r, hf_streamChan = ch, hf_errChan = ec,
     hf_handler = h, hf_ctxErr = None, hf_ready = ready, hf_delivered = del\<rparr>"

lemma stream_end_run:
  "hf_run e [] r (fsync [] RecvClosed None (Some e) HandlerWait r [])"
proof -
  have "hf_step e (fsync [] RecvWait None None HandlerWait r []) (fsync [] (RecvError e) None None HandlerWait r [])"
    using hf_step.recv_end [of "fsync [] RecvWait None None HandlerWait r []" e] by simp
  moreover have "hf_step e (fsync [] (RecvError e) None None HandlerWait r []) (fsync [] RecvClosed None (Some e) HandlerWait r [])"
    using hf_step.push_error [of "fsync [] (RecvError e) None None HandlerWait r []" e e] by simp
  ultimately show ?thesis unfolding hf_run_def handleFlagSync_start_def by (meson r_into_rtranclp rtranclp_trans)
qed

lemma stream_message_run:
  "hf_run e [d] r (fsync [] RecvClosed (Some d) (Some e) HandlerWait r [])"
proof -
  have "hf_step e (fsync [d] RecvWait None None HandlerWait r []) (fsync [] (RecvHave d) None None HandlerWait r [])"
    using hf_step.recv_data [of "fsync [d] RecvWait None None HandlerWait r []" d "[]" e] by simp
  moreover have "hf_step e (fsync [] (RecvHave d) None None HandlerWait r []) (fsync [] RecvWait (Some d) None HandlerWait r [])"
    using hf_step.push_data [of "fsync [] (RecvHave d) None None HandlerWait r []" d e] by simp
  moreover have "hf_step e (fsync [] RecvWait (Some d) None HandlerWait r []) (fsync [] (RecvError e) (Some d) None HandlerWait r [])"
    using hf_step.recv_end [of "fsync [] RecvWait (Some d) None HandlerWait r []" e] by simp
  moreover have "hf_step e (fsync [] (RecvError e) (Some d) None HandlerWait r []) (fsync [] RecvClosed (Some d) (Some e) HandlerWait r [])"
    using hf_step.push_error [of "fsync [] (RecvError e) (Some d) None HandlerWait r []" e e] by simp
  ultimately show ?thesis unfolding hf_run_def handleFlagSync_start_def by (meson r_into_rtranclp rtranclp_trans)
qed

lemma hf_run_step: "hf_run e msgs r s \<Longrightarrow> hf_step e s s' \<Longrightarrow> hf_run e msgs r s'"
  by (simp add: hf_run_def)

text \<open>
  The end of a stream is a race: when the server sends one message and ends the stream, the
  handler may return the stream's error without having delivered the message, and when it ends the
  stream at once, the handler may report a closed channel and lose the stream's error.
\<close>

theorem stream_end_is_racy:
  "(\<exists>s. hf_run e [d] r s \<and> hf_ctxErr s = None \<and> hf_handler s = HandlerReturned (WrappedError ''stream error: '' e) \<and>
      hf_delivered s = []) \<and>
   (\<exists>s. hf_run e ([] :: 'd list) r s \<and> hf_ctxErr s = None \<and> hf_handler s = HandlerReturned (PlainError ''stream channel closed'')) \<and>
   (\<exists>s. hf_run e ([] :: 'd list) r s \<and> hf_ctxErr s = None \<and> hf_handler s = HandlerReturned (WrappedError ''stream error: '' e))"
proof (intro conjI)
  show "\<exists>s. hf_run e [d] r s \<and> hf_ctxErr s = None \<and> hf_handler s = HandlerReturned (WrappedError ''stream error: '' e) \<and>
      hf_delivered s = []"
    by (rule exI, rule conjI, rule hf_run_step [OF stream_message_run hf_step.take_error]) simp_all
  show "\<exists>s. hf_run e ([] :: 'd list) r s \<and> hf_ctxErr s = None \<and> hf_handler s = HandlerReturned (PlainError ''stream channel closed'')"
    by (rule exI, rule conjI, rule hf_run_step [OF stream_end_run hf_step.stream_closed]) simp_all
  show "\<exists>s. hf_run e ([] :: 'd list) r s \<and> hf_ctxErr s = None \<and> hf_handler s = HandlerReturned (WrappedError ''stream error: '' e)"
    by (rule exI, rule conjI, rule hf_run_step [OF stream_end_run hf_step.take_error]) simp_all
qed

theorem stream_runs_witness:
  "\<exists>n s. (hf_step (PlainError ''EOF'') ^^ n) (handleFlagSync_start [1 :: nat] False) s \<and> n \<le> 8 \<and>
     hf_handler s = HandlerReturned (WrappedError ''stream error: '' (PlainError ''EOF''))"
proof -
  obtain s where s: "hf_run (PlainError ''EOF'') [1 :: nat] False s"
    "hf_handler s = HandlerReturned (WrappedError ''stream error: '' (PlainError ''EOF''))"
    using hf_run_step [OF stream_message_run [of "PlainError ''EOF''" "1 :: nat" False]
        hf_step.take_error [of "fsync [] RecvClosed (Some 1) (Some (PlainError ''EOF'')) HandlerWait False []"]]
    by auto
  then obtain n where "(hf_step (PlainError ''EOF'') ^^ n) (handleFlagSync_start [1 :: nat] False) s"
    unfolding hf_run_def by (auto dest: rtranclp_imp_relpowp)
  with stream_runs [OF this] s(2) show ?thesis by auto
qed

section \<open>Properties of the sync loop\<close>

definition undisturbed :: "cycle \<Rightarrow> bool" where
  "undisturbed c \<longleftrightarrow> cy_before c = None \<and> cy_after c = None \<and> cy_after_event c = None \<and> cy_in_pause c = None"

lemma undisturbed_simps [simp]:
  "undisturbed c \<Longrightarrow> cy_before c = None" "undisturbed c \<Longrightarrow> cy_after c = None"
  "undisturbed c \<Longrightarrow> cy_after_event c = None" "undisturbed c \<Longrightarrow> cy_in_pause c = None"
  by (simp_all add: undisturbed_def)

definition fresh_log :: sync_log where
  "fresh_log = \<lparr>sl_ready = False, sl_errors = 0, sl_pauses = []\<rparr>"

lemma Sync_loop_ready: "sl_ready s \<Longrightarrow> snd (Sync_loop F codes name g cs s) \<noteq> Some (SyncFatal m)"
  by (induction cs arbitrary: s) (simp_all add: Let_def split: option.split)

lemma Sync_loop_settled: "sl_ready s \<Longrightarrow> list_all undisturbed cs \<Longrightarrow> snd (Sync_loop F codes name g cs s) = None"
  by (induction cs arbitrary: s) (simp_all add: Let_def)

lemma Sync_loop_pauses:
  "set (sl_pauses s) \<subseteq> {millis (gs_RetryBackOffMaxMs g)} \<Longrightarrow>
    set (sl_pauses (fst (Sync_loop F codes name g cs s))) \<subseteq> {millis (gs_RetryBackOffMaxMs g)}"
proof (induction cs arbitrary: s)
  case (Cons c cs)
  note IH = Cons.IH
  from Cons.prems show ?case by (simp add: Let_def IH split: option.split)
qed simp

lemma Sync_loop_undisturbed:
  assumes "list_all undisturbed cs" "\<not> sl_ready s"
  shows "snd (Sync_loop F codes name g cs s) =
    map_option (\<lambda>c. SyncFatal (fatal_message F name (cy_err c)))
      (List.find (\<lambda>c. is_fatal F codes (cy_err c)) (takeWhile (\<lambda>c. \<not> cy_data c) cs))"
  using assms
proof (induction cs arbitrary: s)
  case (Cons c cs)
  then show ?case by (simp add: Let_def Sync_loop_settled)
qed simp

text \<open>
  While the context lives, Sync gives up for good exactly when a cycle that fails before any data
  has ever arrived does so with one of the configured fatal codes, and it reports the first such
  cycle; from the first data on it never gives up.  (\<open>takeWhile\<close> leaves the cycles before the
  first one that delivered data.)
\<close>

theorem sync_gives_up_iff:
  assumes "list_all undisturbed cs"
  shows "snd (Sync_loop F (nonRetryableStatusCodes parse codes) name g cs fresh_log) =
    map_option (\<lambda>c. SyncFatal (fatal_message F name (cy_err c)))
      (List.find (\<lambda>c. \<exists>code. F (cy_err c) = Some code \<and> code \<in> nonRetryableStatusCodes parse codes)
        (takeWhile (\<lambda>c. \<not> cy_data c) cs))"
  using Sync_loop_undisturbed [OF assms, of fresh_log F "nonRetryableStatusCodes parse codes" name g]
  unfolding is_fatal_iff by (simp add: fresh_log_def)

definition failed_cycle :: "go_error \<Rightarrow> bool \<Rightarrow> cycle" where
  "failed_cycle e data = \<lparr>cy_before = None, cy_err = e, cy_data = data, cy_after = None, cy_dropped = False,
     cy_after_event = None, cy_in_pause = None\<rparr>"

lemma failed_cycle_simps [simp]:
  "undisturbed (failed_cycle e b)" "cy_data (failed_cycle e b) = b" "cy_err (failed_cycle e b) = e"
  by (simp_all add: failed_cycle_def undisturbed_def)

definition demo_grpc :: "nat GrpcSync" where
  "demo_grpc = \<lparr>gs_GrpcDialOptionsOverride = [], gs_CertPath = [], gs_ProviderID = [], gs_Secure = False,
     gs_Selector = [], gs_URI = ''flags:8015'', gs_MaxMsgSize = 0, gs_RetryGracePeriod = 0, gs_RetryBackOffMs = 0,
     gs_RetryBackOffMaxMs = 0, gs_FatalStatusCodes = [''UNAUTHENTICATED'']\<rparr>"

definition demo_parse :: "string \<Rightarrow> nat option" where
  "demo_parse s = (if s = [CHR 0x22] @ ''UNAUTHENTICATED'' @ [CHR 0x22] then Some 16 else None)"

lemma demo_codes: "nonRetryableStatusCodes demo_parse [''UNAUTHENTICATED''] = {16}"
  by (simp add: nonRetryableStatusCodes_def demo_parse_def List.map_filter_def)

theorem sync_gives_up_iff_witness:
  "(\<exists>m. snd (Sync_loop demo_FromError (nonRetryableStatusCodes demo_parse [''UNAUTHENTICATED'']) (\<lambda>n. []) demo_grpc
      [failed_cycle (StatusError 16 []) False] fresh_log) = Some (SyncFatal m)) \<and>
   snd (Sync_loop demo_FromError (nonRetryableStatusCodes demo_parse [''UNAUTHENTICATED'']) (\<lambda>n. []) demo_grpc
      [failed_cycle (PlainError []) True, failed_cycle (StatusError 16 []) False] fresh_log) = None"
  using sync_gives_up_iff [of "[failed_cycle (StatusError 16 []) False]" demo_FromError demo_parse
      "[''UNAUTHENTICATED'']" "\<lambda>n. []" demo_grpc]
    sync_gives_up_iff [of "[failed_cycle (PlainError []) True, failed_cycle (StatusError 16 []) False]" demo_FromError
      demo_parse "[''UNAUTHENTICATED'']" "\<lambda>n. []" demo_grpc]
  by (simp add: demo_codes)

text \<open>
  A fatal status of the very first stream may or may not stop the provider: the same stream, which
  ends at once with a configured fatal code, has a run after which Sync gives up and a run after
  which it sends an error event, pauses and tries again, because the closed channel won the
  handler's select.
\<close>

theorem fatal_status_may_be_retried:
  assumes "status_from_error F" "code \<in> nonRetryableStatusCodes parse codes"
  shows "\<exists>s1 s2 e1 e2. hf_run (StatusError code m) ([] :: 'd list) False s1 \<and> hf_handler s1 = HandlerReturned e1 \<and>
      hf_run (StatusError code m) ([] :: 'd list) False s2 \<and> hf_handler s2 = HandlerReturned e2 \<and>
      (\<exists>t. snd (Sync_loop F (nonRetryableStatusCodes parse codes) name g
        [failed_cycle (performSyncCycle None e1) False] fresh_log) = Some (SyncFatal t)) \<and>
      (let r = Sync_loop F (nonRetryableStatusCodes parse codes) name g
        [failed_cycle (performSyncCycle None e2) False] fresh_log in snd r = None \<and> sl_errors (fst r) = 1)"
proof -
  let ?K = "nonRetryableStatusCodes parse codes"
  obtain s1 s2 :: "'d flag_sync" where
    s1: "hf_run (StatusError code m) [] False s1"
      "hf_handler s1 = HandlerReturned (WrappedError ''stream error: '' (StatusError code m))" and
    s2: "hf_run (StatusError code m) [] False s2"
      "hf_handler s2 = HandlerReturned (PlainError ''stream channel closed'')"
    using hf_run_step [OF stream_end_run hf_step.take_error] hf_run_step [OF stream_end_run hf_step.stream_closed]
    by fastforce
  have "is_fatal F ?K (WrappedError ''stream error: '' (StatusError code m))"
    "\<not> is_fatal F ?K (PlainError ''stream channel closed'')"
    using assms by (simp_all add: is_fatal_def status_from_error_def)
  then have "\<exists>t. snd (Sync_loop F ?K name g
        [failed_cycle (performSyncCycle None (WrappedError ''stream error: '' (StatusError code m))) False] fresh_log) = Some (SyncFatal t)"
    "let r = Sync_loop F ?K name g [failed_cycle (performSyncCycle None (PlainError ''stream channel closed'')) False] fresh_log
     in snd r = None \<and> sl_errors (fst r) = 1"
    by (simp_all add: performSyncCycle_def failed_cycle_def fresh_log_def Let_def)
  with s1 s2 show ?thesis by blast
qed

theorem fatal_status_may_be_retried_witness:
  "\<exists>s e. hf_run (StatusError 16 ''denied'') ([] :: nat list) False s \<and> hf_handler s = HandlerReturned e \<and>
     snd (Sync_loop demo_FromError (nonRetryableStatusCodes demo_parse [''UNAUTHENTICATED'']) (\<lambda>n. []) demo_grpc
       [failed_cycle (performSyncCycle None e) False] fresh_log) = None"
proof -
  have code: "16 \<in> nonRetryableStatusCodes demo_parse [''UNAUTHENTICATED'']" by (simp add: demo_codes)
  show ?thesis
    using fatal_status_may_be_retried [OF demo_FromError_status code, of "''denied''" "\<lambda>n. []" demo_grpc, where 'd = nat]
    unfolding Let_def by blast
qed

text \<open>
  The pause after a failed cycle is the configured maximum as it stands: with no maximum configured
  the loop does not pause at all, while the retry policy handed to gRPC falls back to 12 seconds.
\<close>

theorem unset_backoff_spins:
  assumes "gs_RetryBackOffMaxMs g = 0"
  shows "set (sl_pauses (fst (Sync_loop F codes name g cs fresh_log))) \<subseteq> {0} \<and>
    rp_MaxBackoff (retry_policy seconds g) = seconds 12000000000 @ ''s''"
  using Sync_loop_pauses [of fresh_log g F codes name cs] assms
  by (simp add: retry_policy_def millis_def grpcDefaultRetryBackoffMaxMs_def fresh_log_def)

theorem unset_backoff_spins_witness:
  "sl_pauses (fst (Sync_loop demo_FromError {} (\<lambda>n. []) demo_grpc [failed_cycle (PlainError []) False] fresh_log)) = [0]"
proof -
  let ?r = "fst (Sync_loop demo_FromError {} (\<lambda>n. []) demo_grpc [failed_cycle (PlainError []) False] fresh_log)"
  obtain p where p: "sl_pauses ?r = [p]" by (simp add: failed_cycle_def fresh_log_def is_fatal_def Let_def)
  have "gs_RetryBackOffMaxMs demo_grpc = 0" by (simp add: demo_grpc_def)
  from unset_backoff_spins [OF this, of demo_FromError "{}" "\<lambda>n. []" "[failed_cycle (PlainError []) False]"]
  have "set (sl_pauses ?r) \<subseteq> {0}" by blast
  with p show ?thesis by simp
qed

text \<open>
  Sending on the source's event channel after Shutdown may panic: Shutdown closes the channel while
  the connection monitor may be past its check of the context, and the closed channel is then one
  of the ready cases of its select.  Before Shutdown no send panics.
\<close>

theorem send_after_shutdown:
  "returns (grpc_sendEvent ctxDone preferSend \<lparr>ch_buffer = n, ch_closed = False\<rparr>) \<and>
   (\<exists>ch err. grpc_Shutdown None \<lparr>ch_buffer = n, ch_closed = False\<rparr> = Return (ch, err) \<and>
      monitorConnectionState [(StateTransientFailure, False, True, True)] ch = Panic ''send on closed channel'' \<and>
      grpc_Shutdown None ch = Panic ''close of closed channel'')"
  by (simp add: grpc_sendEvent_def grpc_Shutdown_def handleConnectionState_def)

end
