(* ===== verification/MP_Strategies.thy ===== *)
theory MP_Strategies
  imports OpenFeature
begin

text \<open>
  What the multi-provider's strategies share, \<^verbatim>\<open>providers/multi-provider/pkg/strategies/strategies.go\<close>,
  and its errors, \<^verbatim>\<open>providers/multi-provider/pkg/errors/aggregate-errors.go\<close>.  A Go error is
  carried as its text.
\<close>

section \<open>Constants and wrappers\<close>

definition MetadataSuccessfulProviderName :: string where
  "MetadataSuccessfulProviderName = ''multiprovider-successful-provider-name''"
definition MetadataStrategyUsed :: string where
  "MetadataStrategyUsed = ''multiprovider-strategy-used''"
definition MetadataFallbackUsed :: string where
  "MetadataFallbackUsed = ''multiprovider-fallback-used''"
definition StrategyFirstMatch :: string where "StrategyFirstMatch = ''strategy-first-match''"
definition StrategyFirstSuccess :: string where "StrategyFirstSuccess = ''strategy-first-success''"
definition StrategyComparison :: string where "StrategyComparison = ''strategy-comparison''"
definition ReasonAggregated :: string where "ReasonAggregated = ''AGGREGATED''"
definition ReasonAggregatedFallback :: string where
  "ReasonAggregatedFallback = ''AGGREGATED_FALLBACK''"
definition ErrAggregationNotAllowedText :: string where
  "ErrAggregationNotAllowedText = ''object evaluation not allowed for non-comparable types''"

lemmas metadata_keys = MetadataSuccessfulProviderName_def MetadataStrategyUsed_def
  MetadataFallbackUsed_def
lemmas strategy_names = StrategyFirstMatch_def StrategyFirstSuccess_def StrategyComparison_def

record NamedProvider =
  np_Name :: string
  np_Provider :: feature_provider

record 'v resultWrapper =
  rw_name :: string
  rw_result :: "'v resolution_detail"
  rw_detail :: provider_detail

type_synonym 'v evaluator = "NamedProvider \<Rightarrow> 'v resultWrapper"

text \<open>
  The instances of \<^verbatim>\<open>resultConstraint\<close>, and what the generic code does at each: the result
  type \<^verbatim>\<open>R\<close>, the dynamic type of a default value as the type switch of
  \<^verbatim>\<open>buildDefaultResult\<close> sees it, and the provider's evaluation.
\<close>

datatype resultConstraint = BoolResult | IntResult | StringResult | FloatResult | InterfaceResult

fun type_switch :: "go_any \<Rightarrow> resultConstraint" where
  "type_switch (VBool b) = BoolResult"
| "type_switch (VString s) = StringResult"
| "type_switch (VInt64 i) = IntResult"
| "type_switch (VFloat64 f) = FloatResult"
| "type_switch _ = InterfaceResult"

record 'v flag_type =
  ft_result :: resultConstraint
  ft_switch :: "'v \<Rightarrow> resultConstraint"
  ft_evaluation :: "feature_provider \<Rightarrow> 'v evaluation"

definition bool_flag :: "bool flag_type" where
  "bool_flag = \<lparr>ft_result = BoolResult, ft_switch = (\<lambda>v. BoolResult), ft_evaluation = p_Boolean\<rparr>"
definition string_flag :: "string flag_type" where
  "string_flag = \<lparr>ft_result = StringResult, ft_switch = (\<lambda>v. StringResult), ft_evaluation = p_String\<rparr>"
definition float_flag :: "float64 flag_type" where
  "float_flag = \<lparr>ft_result = FloatResult, ft_switch = (\<lambda>v. FloatResult), ft_evaluation = p_Float\<rparr>"
definition int_flag :: "int64 flag_type" where
  "int_flag = \<lparr>ft_result = IntResult, ft_switch = (\<lambda>v. IntResult), ft_evaluation = p_Int\<rparr>"
definition object_flag :: "go_any flag_type" where
  "object_flag = \<lparr>ft_result = InterfaceResult, ft_switch = type_switch, ft_evaluation = p_Object\<rparr>"

lemmas flag_type_defs = bool_flag_def string_flag_def float_flag_def int_flag_def object_flag_def

text \<open>The default values at which the type switch agrees with the result type.\<close>

definition default_fits :: "'v flag_type \<Rightarrow> 'v \<Rightarrow> bool" where
  "default_fits ft v \<longleftrightarrow> ft_switch ft v = ft_result ft"

lemma default_fits_simps [simp]:
  "default_fits bool_flag b" "default_fits string_flag s" "default_fits float_flag f"
  "default_fits int_flag i"
  "default_fits object_flag v \<longleftrightarrow> type_switch v = InterfaceResult"
  by (simp_all add: default_fits_def flag_type_defs)

lemma flag_type_simps [simp]:
  "ft_evaluation bool_flag = p_Boolean" "ft_evaluation string_flag = p_String"
  "ft_evaluation float_flag = p_Float" "ft_evaluation int_flag = p_Int"
  "ft_evaluation object_flag = p_Object"
  by (simp_all add: flag_type_defs)

text \<open>
  The evaluator every strategy method builds: call the provider's evaluation and wrap its
  result.
\<close>

definition eval_with :: "'v flag_type \<Rightarrow> string \<Rightarrow> 'v \<Rightarrow> go_map \<Rightarrow> 'v evaluator" where
  "eval_with ft flag defaultValue evalCtx p =
     (let r = ft_evaluation ft (np_Provider p) flag defaultValue evalCtx
      in \<lparr>rw_name = np_Name p, rw_result = r, rw_detail = Detail r\<rparr>)"

lemma eval_with_simps [simp]:
  "rw_name (eval_with ft flag d ctx p) = np_Name p"
  "rw_result (eval_with ft flag d ctx p) = ft_evaluation ft (np_Provider p) flag d ctx"
  "rw_detail (eval_with ft flag d ctx p) = Detail (ft_evaluation ft (np_Provider p) flag d ctx)"
  by (simp_all add: eval_with_def Let_def)

section \<open>Error messages\<close>

text \<open>
  The codes of \<^verbatim>\<open>cleanErrorMessage\<close>'s regular expression, in its order, and the leftmost
  match of \<^verbatim>\<open>(?:CODES): (.*)\<close>: the group ends before a line feed.
\<close>

definition error_codes :: "string list" where
  "error_codes = map code_string
     [ProviderNotReadyCode, FlagNotFoundCode, ParseErrorCode, TypeMismatchCode,
      TargetingKeyMissingCode, GeneralCode]"

definition match_code :: "string \<Rightarrow> string option" where
  "match_code s =
     (case List.find (\<lambda>c. prefix (c @ '': '') s) error_codes of
        None \<Rightarrow> None
      | Some c \<Rightarrow> Some (takeWhile (\<lambda>x. x \<noteq> CHR 0x0A) (drop (length c + 2) s)))"

fun find_match :: "string \<Rightarrow> string option" where
  "find_match [] = match_code []"
| "find_match (x # xs) =
     (case match_code (x # xs) of Some m \<Rightarrow> Some m | None \<Rightarrow> find_match xs)"

definition cleanErrorMessage :: "string \<Rightarrow> string" where
  "cleanErrorMessage msg = (case find_match msg of None \<Rightarrow> msg | Some m \<Rightarrow> trim_space m)"

section \<open>Default results and metadata\<close>

definition default_result :: "string \<Rightarrow> 'v \<Rightarrow> string option \<Rightarrow> 'v resultWrapper" where
  "default_result strategy defaultValue err =
     (let (rErr, reason) = (case err of
            Some msg \<Rightarrow> (NewGeneralResolutionError (cleanErrorMessage msg), ErrorReason)
          | None \<Rightarrow> (NewFlagNotFoundResolutionError ''not found in any provider'', DefaultReason));
          details = \<lparr>ResolutionError = rErr, Reason = reason, Variant = [],
            FlagMetadata = Some [MetadataSuccessfulProviderName \<mapsto> VString ''none'',
                                 MetadataStrategyUsed \<mapsto> VString strategy]\<rparr>
      in \<lparr>rw_name = [], rw_result = \<lparr>Value = defaultValue, Detail = details\<rparr>, rw_detail = details\<rparr>)"

lemma default_result_simps [simp]:
  "rw_name (default_result st dv err) = []"
  "Value (rw_result (default_result st dv err)) = dv"
  "Detail (rw_result (default_result st dv err)) = rw_detail (default_result st dv err)"
  "has_error (rw_detail (default_result st dv err))"
  "is_not_found (rw_detail (default_result st dv err)) \<longleftrightarrow> err = None"
  "FlagMetadata (rw_detail (default_result st dv err)) =
     Some [MetadataSuccessfulProviderName \<mapsto> VString ''none'', MetadataStrategyUsed \<mapsto> VString st]"
  "Variant (rw_detail (default_result st dv err)) = []"
  by (auto simp: default_result_def has_error_def is_not_found_def Let_def split: option.split)

text \<open>
  The type switch on the default value asserts that the result is of the matching type; the
  assertion panics when the default of an object evaluation holds a bool, a string, an int64
  or a float64.
\<close>

definition buildDefaultResult ::
  "'v flag_type \<Rightarrow> string \<Rightarrow> 'v \<Rightarrow> string option \<Rightarrow> 'v resultWrapper outcome" where
  "buildDefaultResult ft strategy defaultValue err =
     (if ft_switch ft defaultValue = ft_result ft
      then Return (default_result strategy defaultValue err)
      else Panic ''interface conversion: interface {} is not the expected resolution detail'')"

lemma buildDefaultResult_fits [simp]:
  "default_fits ft dv \<Longrightarrow> buildDefaultResult ft st dv err = Return (default_result st dv err)"
  by (simp add: buildDefaultResult_def default_fits_def)

lemma buildDefaultResult_returns [simp]:
  "returns (buildDefaultResult ft st dv err) \<longleftrightarrow> default_fits ft dv"
  by (simp add: buildDefaultResult_def default_fits_def)

lemma buildDefaultResult_Return [simp]:
  "buildDefaultResult ft st dv err = Return r \<longleftrightarrow> default_fits ft dv \<and> r = default_result st dv err"
  by (auto simp: buildDefaultResult_def default_fits_def)

definition setFlagMetadata :: "string \<Rightarrow> string \<Rightarrow> go_map \<Rightarrow> go_map" where
  "setFlagMetadata strategyUsed successProviderName metadata =
     (let m = (case metadata of None \<Rightarrow> Map.empty | Some f \<Rightarrow> f)
      in Some (m(MetadataSuccessfulProviderName \<mapsto> VString successProviderName,
                 MetadataStrategyUsed \<mapsto> VString strategyUsed)))"

text \<open>\<^verbatim>\<open>mergeFlagTags\<close>: later maps win; iteration order inside one map does not matter.\<close>

definition mergeFlagTags :: "go_map list \<Rightarrow> go_map" where
  "mergeFlagTags tags = (case tags of
       [] \<Rightarrow> make_map
     | [t] \<Rightarrow> t
     | _ \<Rightarrow> Some (foldl (\<lambda>merged t. merged ++ map_view t) Map.empty tags))"

lemma mergeFlagTags_two: "mergeFlagTags [a, b] = Some (map_view a ++ map_view b)"
  by (simp add: mergeFlagTags_def)

lemma setFlagMetadata_view:
  "setFlagMetadata st n m = Some ((map_view m)(MetadataSuccessfulProviderName \<mapsto> VString n,
     MetadataStrategyUsed \<mapsto> VString st))"
  by (simp add: setFlagMetadata_def Let_def map_view_def)

lemma foldl_map_add:
  "foldl (\<lambda>m t. m ++ map_view t) m0 tags = m0 ++ foldl (\<lambda>m t. m ++ map_view t) Map.empty tags"
proof (induction tags arbitrary: m0)
  case (Cons t ts)
  show ?case using Cons [of "m0 ++ map_view t"] Cons [of "map_view t"] by simp
qed simp

text \<open>A key of the merged metadata comes from the last of the maps that has it.\<close>

lemma mergeFlagTags_lookup:
  "map_get (mergeFlagTags tags) k =
     (case List.find (\<lambda>t. map_get t k \<noteq> None) (rev tags) of None \<Rightarrow> None | Some t \<Rightarrow> map_get t k)"
proof -
  have "foldl (\<lambda>m t. m ++ map_view t) Map.empty tags k =
     (case List.find (\<lambda>t. map_get t k \<noteq> None) (rev tags) of None \<Rightarrow> None | Some t \<Rightarrow> map_get t k)"
    by (induction tags rule: rev_induct)
      (auto simp: map_add_def map_get_def map_view_def split: option.splits)
  moreover have "map_get (mergeFlagTags tags) k = foldl (\<lambda>m t. m ++ map_view t) Map.empty tags k"
    by (cases tags rule: list.exhaust; cases "tl tags")
      (auto simp: mergeFlagTags_def map_get_def map_view_def make_map_def split: option.splits list.splits)
  ultimately show ?thesis by simp
qed

section \<open>Provider errors\<close>

record ProviderError =
  pe_Err :: string
  pe_ProviderName :: string

definition ProviderError_Error :: "ProviderError \<Rightarrow> string" where
  "ProviderError_Error e = ''Provider '' @ pe_ProviderName e @ '': '' @ pe_Err e"

type_synonym AggregateError = "string \<rightharpoonup> ProviderError"

definition NewAggregateError :: "ProviderError list \<Rightarrow> AggregateError" where
  "NewAggregateError providerErrors =
     foldl (\<lambda>err se. err(pe_ProviderName se \<mapsto> se)) Map.empty providerErrors"

text \<open>\<^verbatim>\<open>Error\<close> lists the errors in the map's iteration order.\<close>

definition AggregateError_Error :: "(AggregateError \<Rightarrow> string list) \<Rightarrow> AggregateError \<Rightarrow> string" where
  "AggregateError_Error order ae =
     (let ks = order ae
      in if length ks = 0 then []
         else if length ks = 1 then ProviderError_Error (the (ae (hd ks)))
         else join_with '', '' (map (\<lambda>k. ProviderError_Error (the (ae k))) ks))"

lemma AggregateError_Error_join:
  "AggregateError_Error order ae = join_with '', '' (map (\<lambda>k. ProviderError_Error (the (ae k))) (order ae))"
  by (cases "order ae" rule: list.exhaust; cases "tl (order ae)")
    (auto simp: AggregateError_Error_def Let_def)

text \<open>One error per provider name survives: the last one reported.\<close>

lemma NewAggregateError_lookup:
  "NewAggregateError es k = List.find (\<lambda>e. pe_ProviderName e = k) (rev es)"
  unfolding NewAggregateError_def by (induction es rule: rev_induct) auto

lemma dom_NewAggregateError: "dom (NewAggregateError es) = pe_ProviderName ` set es"
  by (auto simp: dom_def NewAggregateError_lookup find_None_iff image_iff not_None_eq [symmetric]
      simp del: not_None_eq)

section \<open>What cleaning a message keeps\<close>

lemma match_code_text:
  assumes "c \<in> {ProviderNotReadyCode, FlagNotFoundCode, ParseErrorCode, TypeMismatchCode,
      TargetingKeyMissingCode, GeneralCode}"
  shows "match_code (code_string c @ '': '' @ m) = Some (takeWhile (\<lambda>x. x \<noteq> CHR 0x0A) m)"
  using assms by (auto simp: match_code_def error_codes_def)

text \<open>
  Cleaning the text of a resolution error gives back its message, trimmed, for every code
  the pattern lists and every one-line message.
\<close>

theorem cleanErrorMessage_resolution_error:
  assumes "c \<in> {ProviderNotReadyCode, FlagNotFoundCode, ParseErrorCode, TypeMismatchCode,
      TargetingKeyMissingCode, GeneralCode}" "CHR 0x0A \<notin> set m"
  shows "cleanErrorMessage (resolution_error_text (ResolutionErr c m)) = trim_space m"
proof -
  have take: "takeWhile (\<lambda>x. x \<noteq> CHR 0x0A) m = m" using assms(2) by (auto simp: takeWhile_eq_all_conv)
  have "find_match (code_string c @ '': '' @ m) = Some m"
    using match_code_text [OF assms(1), of m] take
    by (cases "code_string c @ '': '' @ m") auto
  then show ?thesis by (simp add: cleanErrorMessage_def)
qed

theorem cleanErrorMessage_resolution_error_witness:
  "cleanErrorMessage (resolution_error_text (NewParseErrorResolutionError ''bad json'')) = trim_space ''bad json''"
  by (rule cleanErrorMessage_resolution_error) simp_all

section \<open>Example providers\<close>

text \<open>Providers with a fixed boolean answer, at which the properties are instantiated.\<close>

definition answering :: "bool resolution_detail \<Rightarrow> feature_provider" where
  "answering r = \<lparr>p_Name = [], p_Boolean = (\<lambda>f d c. r),
     p_String = (\<lambda>f d c. \<lparr>Value = d, Detail = empty_detail\<rparr>),
     p_Float = (\<lambda>f d c. \<lparr>Value = d, Detail = empty_detail\<rparr>),
     p_Int = (\<lambda>f d c. \<lparr>Value = d, Detail = empty_detail\<rparr>),
     p_Object = (\<lambda>f d c. \<lparr>Value = d, Detail = empty_detail\<lparr>ResolutionError :=
        NewFlagNotFoundResolutionError ''no objects''\<rparr>\<rparr>), p_Init = None\<rparr>"

definition demo_unknown :: NamedProvider where
  "demo_unknown = \<lparr>np_Name = ''a'', np_Provider = answering \<lparr>Value = False,
     Detail = empty_detail\<lparr>ResolutionError := NewFlagNotFoundResolutionError ''gone''\<rparr>\<rparr>\<rparr>"

definition demo_known :: "bool \<Rightarrow> NamedProvider" where
  "demo_known b = \<lparr>np_Name = ''b'', np_Provider = answering \<lparr>Value = b, Detail = empty_detail\<rparr>\<rparr>"

definition demo_failing :: NamedProvider where
  "demo_failing = \<lparr>np_Name = ''c'', np_Provider = answering \<lparr>Value = False,
     Detail = empty_detail\<lparr>ResolutionError := NewParseErrorResolutionError ''bad''\<rparr>\<rparr>\<rparr>"

lemmas demo_provider_defs = demo_unknown_def demo_known_def demo_failing_def answering_def

end
