(* ===== verification/MP_FirstMatch.thy ===== *)
theory MP_FirstMatch
  imports MP_Strategies
begin

text \<open>
  The first-match strategy, \<^verbatim>\<open>providers/multi-provider/pkg/strategies/first_match.go\<close>: the
  providers are asked in order, a provider that does not know the flag is passed over, and the
  first other answer, an error included, is the result.
\<close>

section \<open>Model\<close>

record FirstMatchStrategy =
  fm_providers :: "NamedProvider list"

definition NewFirstMatchStrategy :: "NamedProvider list \<Rightarrow> FirstMatchStrategy" where
  "NewFirstMatchStrategy providers = \<lparr>fm_providers = providers\<rparr>"

definition FirstMatch_Name :: "FirstMatchStrategy \<Rightarrow> string" where
  "FirstMatch_Name f = StrategyFirstMatch"

fun evaluateFirstMatch ::
  "'v flag_type \<Rightarrow> NamedProvider list \<Rightarrow> 'v evaluator \<Rightarrow> 'v \<Rightarrow> 'v resultWrapper outcome" where
  "evaluateFirstMatch ft [] e defaultVal = buildDefaultResult ft StrategyFirstMatch defaultVal None"
| "evaluateFirstMatch ft (p # ps) e defaultVal =
     (let r = e p; d = rw_detail r
      in if has_error d \<and> is_not_found d then evaluateFirstMatch ft ps e defaultVal
         else if has_error d then
           Return (r\<lparr>rw_detail := d\<lparr>FlagMetadata := mergeFlagTags [FlagMetadata d,
             Some [MetadataSuccessfulProviderName \<mapsto> VString ''none'',
                   MetadataStrategyUsed \<mapsto> VString StrategyFirstMatch]]\<rparr>\<rparr>)
         else Return (r\<lparr>rw_detail := d\<lparr>FlagMetadata :=
             setFlagMetadata StrategyFirstMatch (np_Name p) (FlagMetadata d)\<rparr>\<rparr>))"

text \<open>Every evaluation method copies the detail of the wrapper into the result.\<close>

definition firstMatch_method ::
  "'v flag_type \<Rightarrow> FirstMatchStrategy \<Rightarrow> string \<Rightarrow> 'v \<Rightarrow> go_map \<Rightarrow> 'v resolution_detail outcome" where
  "firstMatch_method ft f flag defaultValue evalCtx =
     map_result (\<lambda>r. (rw_result r)\<lparr>Detail := rw_detail r\<rparr>)
       (evaluateFirstMatch ft (fm_providers f) (eval_with ft flag defaultValue evalCtx) defaultValue)"

definition FirstMatch_BooleanEvaluation where
  "FirstMatch_BooleanEvaluation = firstMatch_method bool_flag"
definition FirstMatch_StringEvaluation where
  "FirstMatch_StringEvaluation = firstMatch_method string_flag"
definition FirstMatch_FloatEvaluation where
  "FirstMatch_FloatEvaluation = firstMatch_method float_flag"
definition FirstMatch_IntEvaluation where
  "FirstMatch_IntEvaluation = firstMatch_method int_flag"
definition FirstMatch_ObjectEvaluation where
  "FirstMatch_ObjectEvaluation = firstMatch_method object_flag"

section \<open>Specification\<close>

text \<open>The answer of one provider, as the strategy reports it.\<close>

definition mark_result :: "string \<Rightarrow> 'v resolution_detail \<Rightarrow> 'v resolution_detail" where
  "mark_result name r = (let d = Detail r in
     r\<lparr>Detail := d\<lparr>FlagMetadata := Some ((map_view (FlagMetadata d))
       (MetadataSuccessfulProviderName \<mapsto> VString (if has_error d then ''none'' else name),
        MetadataStrategyUsed \<mapsto> VString StrategyFirstMatch))\<rparr>\<rparr>)"

text \<open>The provider that decides: the first that knows the flag.\<close>

definition knowing ::
  "'v flag_type \<Rightarrow> string \<Rightarrow> 'v \<Rightarrow> go_map \<Rightarrow> NamedProvider list \<Rightarrow> NamedProvider option" where
  "knowing ft flag dv ctx ps =
     List.find (\<lambda>p. \<not> is_not_found (Detail (ft_evaluation ft (np_Provider p) flag dv ctx))) ps"

definition first_match_spec ::
  "'v flag_type \<Rightarrow> NamedProvider list \<Rightarrow> string \<Rightarrow> 'v \<Rightarrow> go_map \<Rightarrow> 'v resolution_detail outcome" where
  "first_match_spec ft ps flag dv ctx = (case knowing ft flag dv ctx ps of
       None \<Rightarrow> map_result rw_result (buildDefaultResult ft StrategyFirstMatch dv None)
     | Some p \<Rightarrow> Return (mark_result (np_Name p) (ft_evaluation ft (np_Provider p) flag dv ctx)))"

lemma metadata_override:
  "m ++ [MetadataSuccessfulProviderName \<mapsto> a, MetadataStrategyUsed \<mapsto> b] =
   m(MetadataSuccessfulProviderName \<mapsto> a, MetadataStrategyUsed \<mapsto> b)"
  by simp

lemma evaluateFirstMatch_spec:
  "map_result (\<lambda>r. (rw_result r)\<lparr>Detail := rw_detail r\<rparr>)
     (evaluateFirstMatch ft ps (eval_with ft flag dv ctx) dv) = first_match_spec ft ps flag dv ctx"
proof (induction ps)
  case Nil
  then show ?case
    by (cases "default_fits ft dv")
      (auto simp: first_match_spec_def knowing_def buildDefaultResult_def default_fits_def
        default_result_def Let_def)
next
  case (Cons p ps)
  let ?d = "Detail (ft_evaluation ft (np_Provider p) flag dv ctx)"
  show ?case
  proof (cases "is_not_found ?d")
    case True
    with Cons is_not_found_has_error [OF True] show ?thesis
      by (simp add: first_match_spec_def knowing_def Let_def)
  next
    case False
    then show ?thesis
      by (simp add: first_match_spec_def knowing_def Let_def mark_result_def
          mergeFlagTags_two setFlagMetadata_view metadata_override)
  qed
qed

text \<open>
  C12: Refinement: each evaluation method of the first-match strategy returns the answer of the
  first provider that knows the flag, with the strategy's two metadata entries set (the
  provider's name, or ''none'' when that answer is an error), and the default result when no
  provider knows it.
\<close>

theorem first_match_refines:
  "FirstMatch_BooleanEvaluation f flag b ctx = first_match_spec bool_flag (fm_providers f) flag b ctx \<and>
   FirstMatch_StringEvaluation f flag s ctx = first_match_spec string_flag (fm_providers f) flag s ctx \<and>
   FirstMatch_FloatEvaluation f flag x ctx = first_match_spec float_flag (fm_providers f) flag x ctx \<and>
   FirstMatch_IntEvaluation f flag i ctx = first_match_spec int_flag (fm_providers f) flag i ctx \<and>
   FirstMatch_ObjectEvaluation f flag v ctx = first_match_spec object_flag (fm_providers f) flag v ctx"
  by (simp add: FirstMatch_BooleanEvaluation_def FirstMatch_StringEvaluation_def
      FirstMatch_FloatEvaluation_def FirstMatch_IntEvaluation_def FirstMatch_ObjectEvaluation_def
      firstMatch_method_def evaluateFirstMatch_spec)

lemma firstMatch_method_spec:
  "firstMatch_method ft f flag dv ctx = first_match_spec ft (fm_providers f) flag dv ctx"
  by (simp add: firstMatch_method_def evaluateFirstMatch_spec)

lemma knowing_append:
  "knowing ft flag dv ctx (us @ vs) = (case knowing ft flag dv ctx us of
     None \<Rightarrow> knowing ft flag dv ctx vs | Some p \<Rightarrow> Some p)"
  by (simp add: knowing_def find_append split: option.split)

lemma knowing_None:
  "knowing ft flag dv ctx ps = None \<longleftrightarrow>
     (\<forall>p \<in> set ps. is_not_found (Detail (ft_evaluation ft (np_Provider p) flag dv ctx)))"
  by (auto simp: knowing_def find_None_iff)

text \<open>
  Short circuit: once a provider knows the flag, with a value or with an error, the
  providers after it cannot change what any method returns; providers before it that do not
  know the flag can be left out.
\<close>

theorem first_match_short_circuit:
  assumes "\<forall>q \<in> set us. is_not_found (Detail (ft_evaluation ft (np_Provider q) flag dv ctx))"
    and "\<not> is_not_found (Detail (ft_evaluation ft (np_Provider p) flag dv ctx))"
  shows "firstMatch_method ft (NewFirstMatchStrategy (us @ p # vs)) flag dv ctx =
    firstMatch_method ft (NewFirstMatchStrategy [p]) flag dv ctx"
proof -
  have "knowing ft flag dv ctx us = None" using assms(1) by (simp add: knowing_None)
  moreover have "knowing ft flag dv ctx (p # vs) = Some p" "knowing ft flag dv ctx [p] = Some p"
    using assms(2) by (simp_all add: knowing_def)
  ultimately show ?thesis
    by (simp add: firstMatch_method_spec first_match_spec_def NewFirstMatchStrategy_def knowing_append)
qed

theorem first_match_short_circuit_witness:
  "firstMatch_method bool_flag (NewFirstMatchStrategy ([demo_unknown] @ demo_known True # [demo_failing]))
     ''flag'' False None =
   firstMatch_method bool_flag (NewFirstMatchStrategy [demo_known True]) ''flag'' False None"
  by (rule first_match_short_circuit) (simp_all add: demo_provider_defs is_not_found_def empty_detail_def)

lemma first_match_object_returns:
  "returns (FirstMatch_ObjectEvaluation f flag v ctx) \<longleftrightarrow> default_fits object_flag v \<or>
     \<not> list_all (\<lambda>p. is_not_found (Detail (p_Object (np_Provider p) flag v ctx))) (fm_providers f)"
proof (cases "knowing object_flag flag v ctx (fm_providers f)")
  case None
  with knowing_None [of object_flag flag v ctx "fm_providers f"] show ?thesis
    by (simp add: FirstMatch_ObjectEvaluation_def firstMatch_method_spec first_match_spec_def
        list_all_iff returns_def)
next
  case (Some p)
  with knowing_None [of object_flag flag v ctx "fm_providers f"] show ?thesis
    by (simp add: FirstMatch_ObjectEvaluation_def firstMatch_method_spec first_match_spec_def
        list_all_iff)
qed

lemma first_match_typed_returns:
  "returns (FirstMatch_BooleanEvaluation f flag b ctx)"
  "returns (FirstMatch_StringEvaluation f flag s ctx)"
  "returns (FirstMatch_FloatEvaluation f flag x ctx)"
  "returns (FirstMatch_IntEvaluation f flag i ctx)"
  by (auto simp: FirstMatch_BooleanEvaluation_def FirstMatch_StringEvaluation_def
      FirstMatch_FloatEvaluation_def FirstMatch_IntEvaluation_def firstMatch_method_spec
      first_match_spec_def returns_def split: option.split)

text \<open>
  An evaluation panics exactly when no provider knows the flag and the default value's
  dynamic type is not the one the result is built for: never for boolean, string, float and int
  flags, and for object flags with a bool, string, int64 or float64 default.
\<close>

theorem first_match_panics:
  "returns (FirstMatch_BooleanEvaluation f flag b ctx) \<and>
   returns (FirstMatch_StringEvaluation f flag s ctx) \<and>
   returns (FirstMatch_FloatEvaluation f flag x ctx) \<and>
   returns (FirstMatch_IntEvaluation f flag i ctx) \<and>
   ((\<not> returns (FirstMatch_ObjectEvaluation f flag v ctx)) \<longleftrightarrow>
     type_switch v \<in> {BoolResult, StringResult, IntResult, FloatResult} \<and>
     list_all (\<lambda>p. is_not_found (Detail (p_Object (np_Provider p) flag v ctx))) (fm_providers f))"
  by (simp add: first_match_typed_returns first_match_object_returns)
    (cases "type_switch v"; simp)

end
