(* ===== verification/MP_FirstSuccess.thy ===== *)
theory MP_FirstSuccess
  imports MP_Strategies
begin

text \<open>
  The first-success strategy, \<^verbatim>\<open>providers/multi-provider/pkg/strategies/first_success.go\<close>: all
  providers are asked at once, each in a goroutine, and the first successful answer wins.  The
  goroutines, the channels and the receiving loop are a step relation; a state records what
  each of them holds.
\<close>

section \<open>Model\<close>

record FirstSuccessStrategy =
  fs_providers :: "NamedProvider list"
  fs_timeout :: int64

definition NewFirstSuccessStrategy :: "NamedProvider list \<Rightarrow> int64 \<Rightarrow> FirstSuccessStrategy" where
  "NewFirstSuccessStrategy providers timeout = \<lparr>fs_providers = providers, fs_timeout = timeout\<rparr>"

definition FirstSuccess_Name :: "FirstSuccessStrategy \<Rightarrow> string" where
  "FirstSuccess_Name f = StrategyFirstSuccess"

text \<open>
  A provider's goroutine waits for the evaluation or the context, blocks on the unbuffered
  not-found channel, has handed over its answer, or has left because the context was done.
\<close>

datatype goroutine = GWaiting | GSendNotFound | GSent | GAborted

text \<open>
  The arguments of one call, and its state: the goroutines with their providers, the two
  buffered channels (their capacity is the number of providers, so a send never blocks), the
  local variables \<^verbatim>\<open>errs\<close> and \<^verbatim>\<open>notFoundCount\<close>, the text of \<^verbatim>\<open>ctx.Err()\<close> once the context is done,
  and what the call returned.
\<close>

record 'v fs_call =
  fc_type :: "'v flag_type"
  fc_providers :: "NamedProvider list"
  fc_eval :: "'v evaluator"
  fc_default :: 'v
  fc_order :: "AggregateError \<Rightarrow> string list"

record 'v fs_state =
  fs_gor :: "(NamedProvider \<times> goroutine) list"
  fs_errChan :: "ProviderError list"
  fs_finishChan :: "'v resultWrapper list"
  fs_errs :: "ProviderError list"
  fs_notFoundCount :: nat
  fs_ctxErr :: "string option"
  fs_ret :: "('v resultWrapper \<times> go_map) outcome option"

definition fs_start :: "'v fs_call \<Rightarrow> 'v fs_state" where
  "fs_start c = \<lparr>fs_gor = map (\<lambda>p. (p, GWaiting)) (fc_providers c), fs_errChan = [],
     fs_finishChan = [], fs_errs = [], fs_notFoundCount = 0, fs_ctxErr = None, fs_ret = None\<rparr>"

text \<open>How a goroutine classifies its answer, and the error it sends.\<close>

datatype answer = ANotFound | AError | ASuccess

definition answer_of :: "'v fs_call \<Rightarrow> NamedProvider \<Rightarrow> answer" where
  "answer_of c p = (let d = rw_detail (fc_eval c p)
     in if has_error d \<and> is_not_found d then ANotFound else if has_error d then AError else ASuccess)"

abbreviation answers_not_found :: "'v fs_call \<Rightarrow> NamedProvider \<Rightarrow> bool" where
  "answers_not_found c \<equiv> (\<lambda>p. answer_of c p = ANotFound)"
abbreviation answers_error :: "'v fs_call \<Rightarrow> NamedProvider \<Rightarrow> bool" where
  "answers_error c \<equiv> (\<lambda>p. answer_of c p = AError)"
abbreviation answers_ok :: "'v fs_call \<Rightarrow> NamedProvider \<Rightarrow> bool" where
  "answers_ok c \<equiv> (\<lambda>p. answer_of c p = ASuccess)"

lemma answer_of_simps:
  "answer_of c p = ANotFound \<longleftrightarrow> is_not_found (rw_detail (fc_eval c p))"
  "answer_of c p = ASuccess \<longleftrightarrow> \<not> has_error (rw_detail (fc_eval c p))"
  using is_not_found_has_error by (auto simp: answer_of_def Let_def)

definition provider_error :: "'v fs_call \<Rightarrow> NamedProvider \<Rightarrow> ProviderError" where
  "provider_error c p =
     \<lparr>pe_Err = resolution_error_text (ResolutionError (rw_detail (fc_eval c p))),
      pe_ProviderName = np_Name p\<rparr>"

definition default_return :: "'v fs_call \<Rightarrow> string option \<Rightarrow> ('v resultWrapper \<times> go_map) outcome" where
  "default_return c err = map_result (\<lambda>r. (r, FlagMetadata (rw_detail r)))
     (buildDefaultResult (fc_type c) StrategyFirstSuccess (fc_default c) err)"

definition aggregate_text :: "'v fs_call \<Rightarrow> ProviderError list \<Rightarrow> string" where
  "aggregate_text c errs = AggregateError_Error (fc_order c) (NewAggregateError errs)"

definition success_return :: "'v resultWrapper \<Rightarrow> ('v resultWrapper \<times> go_map) outcome" where
  "success_return r = Return (r, Some [MetadataStrategyUsed \<mapsto> VString StrategyFirstSuccess,
     MetadataSuccessfulProviderName \<mapsto> VString (rw_name r)])"

text \<open>
  One step of the goroutines or of the receiving loop.  A goroutine whose answer and whose
  context are both there may take either branch of its \<^verbatim>\<open>select\<close>, and so may the loop.  A call
  that returns also cancels the context.
\<close>

inductive fs_work :: "'v fs_call \<Rightarrow> 'v fs_state \<Rightarrow> 'v fs_state \<Rightarrow> bool" for c where
  answer_not_found: "fs_gor s = us @ (p, GWaiting) # vs \<Longrightarrow> answers_not_found c p \<Longrightarrow>
    fs_work c s (s\<lparr>fs_gor := us @ (p, GSendNotFound) # vs\<rparr>)"
| answer_error: "fs_gor s = us @ (p, GWaiting) # vs \<Longrightarrow> answers_error c p \<Longrightarrow>
    fs_work c s (s\<lparr>fs_gor := us @ (p, GSent) # vs, fs_errChan := fs_errChan s @ [provider_error c p]\<rparr>)"
| answer_ok: "fs_gor s = us @ (p, GWaiting) # vs \<Longrightarrow> answers_ok c p \<Longrightarrow>
    fs_work c s (s\<lparr>fs_gor := us @ (p, GSent) # vs, fs_finishChan := fs_finishChan s @ [fc_eval c p]\<rparr>)"
| abort: "fs_gor s = us @ (p, GWaiting) # vs \<Longrightarrow> fs_ctxErr s = Some t \<Longrightarrow>
    fs_work c s (s\<lparr>fs_gor := us @ (p, GAborted) # vs\<rparr>)"
| all_errors: "fs_ret s = None \<Longrightarrow> length (fs_errs s) = length (fc_providers c) \<Longrightarrow>
    fs_work c s (s\<lparr>fs_ret := Some (default_return c (Some (aggregate_text c (fs_errs s)))),
      fs_ctxErr := Some (case fs_ctxErr s of None \<Rightarrow> ''context canceled'' | Some t \<Rightarrow> t)\<rparr>)"
| recv_finish: "fs_ret s = None \<Longrightarrow> length (fs_errs s) \<noteq> length (fc_providers c) \<Longrightarrow>
    fs_finishChan s = r # rs \<Longrightarrow>
    fs_work c s (s\<lparr>fs_finishChan := rs, fs_ret := Some (success_return r),
      fs_ctxErr := Some (case fs_ctxErr s of None \<Rightarrow> ''context canceled'' | Some t \<Rightarrow> t)\<rparr>)"
| recv_error: "fs_ret s = None \<Longrightarrow> length (fs_errs s) \<noteq> length (fc_providers c) \<Longrightarrow>
    fs_errChan s = e # es \<Longrightarrow>
    fs_work c s (s\<lparr>fs_errChan := es, fs_errs := fs_errs s @ [e]\<rparr>)"
| recv_not_found: "fs_ret s = None \<Longrightarrow> length (fs_errs s) \<noteq> length (fc_providers c) \<Longrightarrow>
    fs_gor s = us @ (p, GSendNotFound) # vs \<Longrightarrow>
    fs_notFoundCount s + 1 \<noteq> length (fc_providers c) \<Longrightarrow>
    fs_work c s (s\<lparr>fs_gor := us @ (p, GSent) # vs, fs_notFoundCount := fs_notFoundCount s + 1\<rparr>)"
| recv_last_not_found: "fs_ret s = None \<Longrightarrow> length (fs_errs s) \<noteq> length (fc_providers c) \<Longrightarrow>
    fs_gor s = us @ (p, GSendNotFound) # vs \<Longrightarrow>
    fs_notFoundCount s + 1 = length (fc_providers c) \<Longrightarrow>
    fs_work c s (s\<lparr>fs_gor := us @ (p, GSent) # vs, fs_notFoundCount := fs_notFoundCount s + 1,
      fs_ret := Some (default_return c None),
      fs_ctxErr := Some (case fs_ctxErr s of None \<Rightarrow> ''context canceled'' | Some t \<Rightarrow> t)\<rparr>)"
| recv_done: "fs_ret s = None \<Longrightarrow> length (fs_errs s) \<noteq> length (fc_providers c) \<Longrightarrow>
    fs_ctxErr s = Some t \<Longrightarrow>
    fs_work c s (s\<lparr>fs_ret := Some (default_return c
      (Some (if fs_errs s \<noteq> [] then aggregate_text c (fs_errs s) else t)))\<rparr>)"

text \<open>The context ends while the call runs: its timeout, its parent's deadline or cancellation.\<close>

inductive fs_step :: "'v fs_call \<Rightarrow> 'v fs_state \<Rightarrow> 'v fs_state \<Rightarrow> bool" for c where
  work: "fs_work c s s' \<Longrightarrow> fs_step c s s'"
| context_done: "fs_ctxErr s = None \<Longrightarrow> fs_step c s (s\<lparr>fs_ctxErr := Some t\<rparr>)"

inductive fs_reachable :: "'v fs_call \<Rightarrow> 'v fs_state \<Rightarrow> bool" for c where
  start: "fs_reachable c (fs_start c)"
| step: "fs_reachable c s \<Longrightarrow> fs_step c s s' \<Longrightarrow> fs_reachable c s'"

inductive_cases fs_stepE: "fs_step c s s'"

text \<open>
  What the evaluation methods return: the result of the call with its metadata merged into the
  result's own.
\<close>

definition firstSuccess_result :: "'v resultWrapper \<times> go_map \<Rightarrow> 'v resolution_detail" where
  "firstSuccess_result rm = (let r = rw_result (fst rm) in r\<lparr>Detail := (Detail r)\<lparr>FlagMetadata :=
     mergeFlagTags [FlagMetadata (Detail r), snd rm]\<rparr>\<rparr>)"

definition firstSuccess_call ::
  "'v flag_type \<Rightarrow> (AggregateError \<Rightarrow> string list) \<Rightarrow> FirstSuccessStrategy \<Rightarrow> string \<Rightarrow> 'v \<Rightarrow>
   go_map \<Rightarrow> 'v fs_call" where
  "firstSuccess_call ft order f flag defaultValue evalCtx =
     \<lparr>fc_type = ft, fc_providers = fs_providers f,
      fc_eval = eval_with ft flag defaultValue evalCtx, fc_default = defaultValue, fc_order = order\<rparr>"

definition firstSuccess_method ::
  "'v flag_type \<Rightarrow> (AggregateError \<Rightarrow> string list) \<Rightarrow> FirstSuccessStrategy \<Rightarrow> string \<Rightarrow> 'v \<Rightarrow>
   go_map \<Rightarrow> 'v resolution_detail outcome \<Rightarrow> bool" where
  "firstSuccess_method ft order f flag defaultValue evalCtx out \<longleftrightarrow>
     (\<exists>s rm. fs_reachable (firstSuccess_call ft order f flag defaultValue evalCtx) s \<and>
        fs_ret s = Some rm \<and> out = map_result firstSuccess_result rm)"

definition FirstSuccess_BooleanEvaluation where
  "FirstSuccess_BooleanEvaluation = firstSuccess_method bool_flag"
definition FirstSuccess_StringEvaluation where
  "FirstSuccess_StringEvaluation = firstSuccess_method string_flag"
definition FirstSuccess_FloatEvaluation where
  "FirstSuccess_FloatEvaluation = firstSuccess_method float_flag"
definition FirstSuccess_IntEvaluation where
  "FirstSuccess_IntEvaluation = firstSuccess_method int_flag"
definition FirstSuccess_ObjectEvaluation where
  "FirstSuccess_ObjectEvaluation = firstSuccess_method object_flag"

section \<open>Invariant\<close>

text \<open>
  A returned result is settled by the providers' answers (one succeeded, or all failed alike), or
  was forced by the end of the context.  The invariant: what has been received plus what is in
  the channels is what the goroutines have sent.
\<close>

definition sent_by :: "(NamedProvider \<Rightarrow> bool) \<Rightarrow> (NamedProvider \<times> goroutine) list \<Rightarrow> NamedProvider list" where
  "sent_by P gs = map fst (filter (\<lambda>(p, g). g = GSent \<and> P p) gs)"

definition fs_settled :: "'v fs_call \<Rightarrow> ('v resultWrapper \<times> go_map) outcome \<Rightarrow> bool" where
  "fs_settled c out \<longleftrightarrow>
     (\<exists>p \<in> set (fc_providers c). answers_ok c p \<and> out = success_return (fc_eval c p)) \<or>
     (list_all (answers_error c) (fc_providers c) \<and>
        (\<exists>es. mset es = mset (map (provider_error c) (fc_providers c)) \<and>
          out = default_return c (Some (aggregate_text c es)))) \<or>
     (list_all (answers_not_found c) (fc_providers c) \<and> out = default_return c None)"

definition fs_cancelled :: "'v fs_call \<Rightarrow> string \<Rightarrow> ('v resultWrapper \<times> go_map) outcome \<Rightarrow> bool" where
  "fs_cancelled c t out \<longleftrightarrow>
     (\<exists>es. mset es \<subseteq># mset (map (provider_error c) (filter (answers_error c) (fc_providers c))) \<and>
        out = default_return c (Some (if es \<noteq> [] then aggregate_text c es else t)))"

definition fs_inv :: "'v fs_call \<Rightarrow> 'v fs_state \<Rightarrow> bool" where
  "fs_inv c s \<longleftrightarrow>
     map fst (fs_gor s) = fc_providers c \<and>
     mset (fs_errs s) + mset (fs_errChan s) = mset (map (provider_error c) (sent_by (answers_error c) (fs_gor s))) \<and>
     fs_notFoundCount s = length (sent_by (answers_not_found c) (fs_gor s)) \<and>
     mset (fs_finishChan s) \<subseteq># mset (map (fc_eval c) (sent_by (answers_ok c) (fs_gor s))) \<and>
     (fs_ret s = None \<longrightarrow> mset (fs_finishChan s) = mset (map (fc_eval c) (sent_by (answers_ok c) (fs_gor s)))) \<and>
     (fs_ret s = None \<longrightarrow> fs_notFoundCount s = length (fc_providers c) \<longrightarrow> fc_providers c = []) \<and>
     (\<forall>p. (p, GSendNotFound) \<in> set (fs_gor s) \<longrightarrow> answers_not_found c p) \<and>
     (\<forall>p. (p, GAborted) \<in> set (fs_gor s) \<longrightarrow> fs_ctxErr s \<noteq> None)"

lemma sent_by_append [simp]: "sent_by P (us @ vs) = sent_by P us @ sent_by P vs"
  by (simp add: sent_by_def)

lemma sent_by_Cons [simp]:
  "sent_by P ((p, g) # gs) = (if g = GSent \<and> P p then p # sent_by P gs else sent_by P gs)"
  by (simp add: sent_by_def)

lemma fs_inv_start: "fs_inv c (fs_start c)"
  by (auto simp: fs_inv_def fs_start_def sent_by_def filter_empty_conv comp_def)

lemma fs_inv_work: "fs_work c s s' \<Longrightarrow> fs_inv c s \<Longrightarrow> fs_inv c s'"
proof (induction rule: fs_work.induct)
  case (recv_finish s r rs)
  then have "add_mset r (mset rs) = mset (map (fc_eval c) (sent_by (answers_ok c) (fs_gor s)))"
    by (simp add: fs_inv_def)
  moreover have "mset rs \<subseteq># add_mset r (mset rs)" by simp
  ultimately have "mset rs \<subseteq># mset (map (fc_eval c) (sent_by (answers_ok c) (fs_gor s)))" by simp
  with recv_finish show ?case by (simp add: fs_inv_def)
qed (simp_all add: fs_inv_def)

lemma fs_inv_step: "fs_step c s s' \<Longrightarrow> fs_inv c s \<Longrightarrow> fs_inv c s'"
  by (induction rule: fs_step.induct) (blast intro: fs_inv_work, simp add: fs_inv_def)

lemma fs_inv_reachable: "fs_reachable c s \<Longrightarrow> fs_inv c s"
  by (induction rule: fs_reachable.induct) (auto intro: fs_inv_start fs_inv_step)

section \<open>What a returned result is\<close>

lemma sent_by_map_fst: "mset (sent_by P gs) \<subseteq># mset (filter P (map fst gs))"
proof (induction gs)
  case (Cons pg gs)
  obtain p g where "pg = (p, g)" by (cases pg)
  with Cons show ?case by (auto intro: subset_mset.order_trans [OF Cons])
qed (simp add: sent_by_def)

lemma sent_by_length: "length (sent_by P gs) \<le> length gs"
  by (simp add: sent_by_def)

text \<open>All providers have answered alike once as many answers as providers are counted.\<close>

lemma sent_by_all: "length (sent_by P gs) = length gs \<Longrightarrow> sent_by P gs = map fst gs \<and> list_all P (map fst gs)"
proof (induction gs)
  case (Cons pg gs)
  obtain p g where "pg = (p, g)" by (cases pg)
  with Cons sent_by_length [of P gs] show ?case by (auto split: if_splits)
qed (simp add: sent_by_def)

lemma set_sent_by: "p \<in> set (sent_by P gs) \<Longrightarrow> p \<in> fst ` set gs \<and> P p"
  by (force simp: sent_by_def)

lemma fs_result_work:
  assumes "fs_work c s s'" "fs_inv c s" "fs_ret s = None" "fs_ret s' = Some out"
  shows "fs_settled c out \<or> (\<exists>t. fs_ctxErr s = Some t \<and> fs_cancelled c t out)"
  using assms
proof (induction rule: fs_work.induct)
  case (all_errors s)
  then have len: "length (fs_gor s) = length (fc_providers c)"
    by (metis fs_inv_def length_map)
  have eq: "mset (fs_errs s) + mset (fs_errChan s) =
      mset (map (provider_error c) (sent_by (answers_error c) (fs_gor s)))"
    using all_errors by (simp add: fs_inv_def)
  then have "length (fs_errs s) + length (fs_errChan s) = length (sent_by (answers_error c) (fs_gor s))"
    by (metis length_map size_mset size_union)
  with all_errors len sent_by_length [of "answers_error c" "fs_gor s"]
  have full: "length (sent_by (answers_error c) (fs_gor s)) = length (fs_gor s)"
    and "length (fs_errChan s) = 0" by linarith+
  have gor: "map fst (fs_gor s) = fc_providers c" using all_errors by (simp add: fs_inv_def)
  have "list_all (answers_error c) (fc_providers c)"
    using sent_by_all [OF full] gor by simp
  moreover have "mset (fs_errs s) = mset (map (provider_error c) (fc_providers c))"
    using eq sent_by_all [OF full] gor \<open>length (fs_errChan s) = 0\<close> by simp
  moreover have "out = default_return c (Some (aggregate_text c (fs_errs s)))"
    using all_errors by simp
  ultimately show ?case unfolding fs_settled_def by blast
next
  case (recv_finish s r rs)
  then have "mset (fs_finishChan s) = mset (map (fc_eval c) (sent_by (answers_ok c) (fs_gor s)))"
    by (simp add: fs_inv_def)
  then have "r \<in> set (map (fc_eval c) (sent_by (answers_ok c) (fs_gor s)))"
    using recv_finish(3) by (metis list.set_intros(1) mset_eq_setD)
  then obtain p where "p \<in> set (sent_by (answers_ok c) (fs_gor s))" "r = fc_eval c p" by auto
  moreover from this have "p \<in> set (map fst (fs_gor s))" "answers_ok c p"
    using set_sent_by [of p "answers_ok c"] by auto
  moreover have "map fst (fs_gor s) = fc_providers c" using recv_finish by (simp add: fs_inv_def)
  ultimately show ?case using recv_finish by (auto simp: fs_settled_def)
next
  case (recv_last_not_found s us p vs)
  then have nf: "answers_not_found c p" "map fst (fs_gor s) = fc_providers c"
      "length (sent_by (answers_not_found c) (fs_gor s)) + 1 = length (fc_providers c)"
    by (simp_all add: fs_inv_def)
  let ?gs = "us @ (p, GSent) # vs"
  from nf recv_last_not_found(3) have "length (sent_by (answers_not_found c) ?gs) = length ?gs"
    by (simp flip: nf(2))
  from sent_by_all [OF this] nf recv_last_not_found(3) have "list_all (answers_not_found c) (fc_providers c)"
    by (simp flip: nf(2))
  with recv_last_not_found show ?case by (auto simp: fs_settled_def)
next
  case (recv_done s t)
  then have "mset (fs_errs s) + mset (fs_errChan s) =
      mset (map (provider_error c) (sent_by (answers_error c) (fs_gor s)))" "map fst (fs_gor s) = fc_providers c"
    by (simp_all add: fs_inv_def)
  moreover have "mset (map (provider_error c) (sent_by (answers_error c) (fs_gor s))) \<subseteq>#
      mset (map (provider_error c) (filter (answers_error c) (map fst (fs_gor s))))"
    using image_mset_subseteq_mono [OF sent_by_map_fst, of "provider_error c" "answers_error c" "fs_gor s"]
    by simp
  ultimately have "mset (fs_errs s) \<subseteq># mset (map (provider_error c) (filter (answers_error c) (fc_providers c)))"
    by (metis mset_subset_eq_add_left subset_mset.order_trans)
  moreover have "out = default_return c (Some (if fs_errs s \<noteq> [] then aggregate_text c (fs_errs s) else t))"
    using recv_done(6) by simp
  ultimately have "fs_cancelled c t out" unfolding fs_cancelled_def by blast
  with recv_done(3) show ?case by blast
qed simp_all

lemma fs_work_after_return: "fs_work c s s' \<Longrightarrow> fs_ret s = Some out \<Longrightarrow> fs_ret s' = Some out"
  by (induction rule: fs_work.induct) simp_all

lemma fs_result_reachable:
  "fs_reachable c s \<Longrightarrow> fs_ret s = Some out \<Longrightarrow> fs_settled c out \<or> (\<exists>t. fs_cancelled c t out)"
proof (induction arbitrary: out rule: fs_reachable.induct)
  case start
  then show ?case by (simp add: fs_start_def)
next
  case (step s s')
  from step(2) show ?case
  proof (cases rule: fs_step.cases)
    case work
    show ?thesis
    proof (cases "fs_ret s")
      case None
      from fs_result_work [OF work fs_inv_reachable [OF step(1)] None step(4)] show ?thesis by blast
    next
      case (Some out')
      with work fs_work_after_return step show ?thesis by fastforce
    qed
  next
    case (context_done t)
    with step show ?thesis by simp
  qed
qed

definition marked :: "'v resolution_detail \<Rightarrow> string \<Rightarrow> bool" where
  "marked r name \<longleftrightarrow>
     map_get (FlagMetadata (Detail r)) MetadataSuccessfulProviderName = Some (VString name) \<and>
     map_get (FlagMetadata (Detail r)) MetadataStrategyUsed = Some (VString StrategyFirstSuccess)"

lemma firstSuccess_result_success:
  "success_return (fc_eval c p) = Return rm \<Longrightarrow>
    Value (firstSuccess_result rm) = Value (rw_result (fc_eval c p)) \<and>
    ResolutionError (Detail (firstSuccess_result rm)) = ResolutionError (Detail (rw_result (fc_eval c p))) \<and>
    marked (firstSuccess_result rm) (rw_name (fc_eval c p))"
  by (auto simp: success_return_def firstSuccess_result_def Let_def marked_def mergeFlagTags_two metadata_keys)

lemma firstSuccess_result_default:
  "default_return c err = Return rm \<Longrightarrow>
    Value (firstSuccess_result rm) = fc_default c \<and> has_error (Detail (firstSuccess_result rm)) \<and>
    marked (firstSuccess_result rm) ''none''"
  by (auto simp: default_return_def firstSuccess_result_def Let_def marked_def mergeFlagTags_two metadata_keys)

text \<open>
  C2: Safety of every schedule: whatever the interleaving of goroutines, channel receptions and
  the end of the context, a first-success evaluation that returns gives either the value and the
  (empty) error of a provider that answered successfully, marked with that provider's name, or
  the caller's default with an error, marked ''none''.
\<close>

theorem first_success_sound:
  assumes "firstSuccess_method ft order f flag dv ctx (Return r)"
  shows "(\<exists>p. p \<in> set (fs_providers f) \<and>
      Value r = Value (ft_evaluation ft (np_Provider p) flag dv ctx) \<and>
      \<not> has_error (Detail (ft_evaluation ft (np_Provider p) flag dv ctx)) \<and>
      \<not> has_error (Detail r) \<and> marked r (np_Name p)) \<or>
    (Value r = dv \<and> has_error (Detail r) \<and> marked r ''none'')"
proof -
  let ?c = "firstSuccess_call ft order f flag dv ctx"
  obtain s out where s: "fs_reachable ?c s" "fs_ret s = Some out" "Return r = map_result firstSuccess_result out"
    using assms by (auto simp: firstSuccess_method_def)
  then obtain rm where rm: "out = Return rm" "r = firstSuccess_result rm" by (cases out) auto
  have c: "fc_providers ?c = fs_providers f" "fc_eval ?c = eval_with ft flag dv ctx" "fc_default ?c = dv"
    by (simp_all add: firstSuccess_call_def)
  from fs_result_reachable [OF s(1,2)]
  have "(\<exists>p \<in> set (fs_providers f). answers_ok ?c p \<and> success_return (fc_eval ?c p) = Return rm) \<or>
      (\<exists>err. default_return ?c err = Return rm)"
    unfolding fs_settled_def fs_cancelled_def c(1) rm(1) by metis
  then show ?thesis
  proof
    assume "\<exists>p \<in> set (fs_providers f). answers_ok ?c p \<and> success_return (fc_eval ?c p) = Return rm"
    then obtain p where p: "p \<in> set (fs_providers f)" "answers_ok ?c p" "success_return (fc_eval ?c p) = Return rm"
      by blast
    have "\<not> has_error (Detail (ft_evaluation ft (np_Provider p) flag dv ctx))"
      using p(2) c(2) by (simp add: answer_of_simps)
    with p(1) firstSuccess_result_success [OF p(3)] rm(2) c(2) show ?thesis
      by (auto simp: has_error_def)
  next
    assume "\<exists>err. default_return ?c err = Return rm"
    then obtain err where "default_return ?c err = Return rm" by blast
    from firstSuccess_result_default [OF this] rm(2) c(3) show ?thesis by simp
  qed
qed

section \<open>Termination and progress\<close>

fun gor_weight :: "goroutine \<Rightarrow> nat" where
  "gor_weight GWaiting = 2" | "gor_weight GSendNotFound = 1" | "gor_weight _ = 0"

definition fs_weight :: "'v fs_state \<Rightarrow> nat" where
  "fs_weight s = sum_list (map (gor_weight \<circ> snd) (fs_gor s)) + length (fs_errChan s) +
     length (fs_finishChan s) + (if fs_ret s = None then 1 else 0) + (if fs_ctxErr s = None then 1 else 0)"

lemma fs_weight_work: "fs_work c s s' \<Longrightarrow> fs_weight s' < fs_weight s"
  by (induction rule: fs_work.induct) (simp_all add: fs_weight_def)

lemma fs_weight_step: "fs_step c s s' \<Longrightarrow> fs_weight s' < fs_weight s"
  by (induction rule: fs_step.induct) (rule fs_weight_work, assumption, simp add: fs_weight_def)

lemma fs_weight_steps: "(fs_step c ^^ k) s s' \<Longrightarrow> fs_weight s' + k \<le> fs_weight s"
proof (induction k arbitrary: s')
  case (Suc k)
  then obtain s1 where "(fs_step c ^^ k) s s1" "fs_step c s1 s'" by auto
  with Suc.IH fs_weight_step show ?case by fastforce
qed simp

text \<open>Runs in which the context does not end before the call returns.\<close>

definition fs_undisturbed :: "'v fs_call \<Rightarrow> 'v fs_state \<Rightarrow> bool" where
  "fs_undisturbed c s \<longleftrightarrow> (fs_work c)\<^sup>*\<^sup>* (fs_start c) s"

lemma fs_undisturbed_start: "fs_undisturbed c (fs_start c)"
  by (simp add: fs_undisturbed_def)

lemma fs_undisturbed_step: "fs_undisturbed c s \<Longrightarrow> fs_work c s s' \<Longrightarrow> fs_undisturbed c s'"
  unfolding fs_undisturbed_def by (rule rtranclp.rtrancl_into_rtrancl)

lemma fs_work_ctx: "fs_work c s s' \<Longrightarrow> (fs_ret s = None \<longrightarrow> fs_ctxErr s = None) \<Longrightarrow>
    (fs_ret s' = None \<longrightarrow> fs_ctxErr s' = None)"
  by (induction rule: fs_work.induct) simp_all

lemma fs_undisturbed_inv:
  "fs_undisturbed c s \<Longrightarrow> fs_inv c s \<and> (fs_ret s = None \<longrightarrow> fs_ctxErr s = None) \<and>
     (\<forall>out. fs_ret s = Some out \<longrightarrow> fs_settled c out)"
  unfolding fs_undisturbed_def
proof (induction rule: rtranclp_induct)
  case base
  then show ?case by (simp add: fs_inv_start) (simp add: fs_start_def)
next
  case (step s s')
  then have IH: "fs_inv c s" "fs_ret s = None \<longrightarrow> fs_ctxErr s = None"
      "\<forall>out. fs_ret s = Some out \<longrightarrow> fs_settled c out" by auto
  have "fs_settled c out" if "fs_ret s' = Some out" for out
  proof (cases "fs_ret s")
    case None
    with fs_result_work [OF step(2) IH(1) None that] IH(2) show ?thesis by auto
  next
    case (Some out')
    with fs_work_after_return [OF step(2) Some] that IH(3) show ?thesis by simp
  qed
  with fs_inv_work [OF step(2) IH(1)] fs_work_ctx [OF step(2) IH(2)] show ?case by blast
qed

lemma sent_by_all_sent:
  "(\<And>p g. (p, g) \<in> set gs \<Longrightarrow> g = GSent) \<Longrightarrow> sent_by P gs = filter P (map fst gs)"
proof (induction gs)
  case (Cons pg gs)
  obtain p g where pg: "pg = (p, g)" by (cases pg)
  then have "g = GSent" using Cons.prems [of p g] by simp
  moreover have "sent_by P gs = filter P (map fst gs)"
    by (rule Cons.IH) (use Cons.prems in auto)
  ultimately show ?case using pg by simp
qed (simp add: sent_by_def)

text \<open>A state in which nothing can move although the call has not returned.\<close>

lemma fs_quiescent:
  assumes "fs_inv c s" "fs_ret s = None" "fs_ctxErr s = None" "\<nexists>s'. fs_work c s s'"
  shows "fs_errChan s = []" "fs_finishChan s = []" "length (fs_errs s) \<noteq> length (fc_providers c)"
    and "\<And>p g. (p, g) \<in> set (fs_gor s) \<Longrightarrow> g = GSent"
proof -
  show le: "length (fs_errs s) \<noteq> length (fc_providers c)"
    using assms(2,4) by (blast intro: all_errors)
  show "fs_errChan s = []"
    using assms(2,4) le by (cases "fs_errChan s") (blast intro: recv_error)+
  show "fs_finishChan s = []"
    using assms(2,4) le by (cases "fs_finishChan s") (blast intro: recv_finish)+
  show "g = GSent" if mem: "(p, g) \<in> set (fs_gor s)" for p g
  proof (cases g)
    case GWaiting
    then obtain us vs where "fs_gor s = us @ (p, GWaiting) # vs" using split_list [OF mem] by blast
    then show ?thesis using assms(4)
      by (cases "answer_of c p") (blast intro: answer_not_found answer_error answer_ok)+
  next
    case GSendNotFound
    then obtain us vs where "fs_gor s = us @ (p, GSendNotFound) # vs" using split_list [OF mem] by blast
    then show ?thesis using assms(2,4) le
      by (cases "fs_notFoundCount s + 1 = length (fc_providers c)")
        (blast intro: recv_not_found recv_last_not_found)+
  next
    case GAborted
    then show ?thesis using mem assms(1,3) by (auto simp: fs_inv_def)
  qed simp
qed

definition mixed_failures :: "'v fs_call \<Rightarrow> bool" where
  "mixed_failures c \<longleftrightarrow> list_ex (answers_error c) (fc_providers c) \<and>
     list_ex (answers_not_found c) (fc_providers c) \<and> \<not> list_ex (answers_ok c) (fc_providers c)"

lemma settled_not_mixed: "fs_settled c out \<Longrightarrow> \<not> mixed_failures c"
  by (auto simp: fs_settled_def mixed_failures_def list_ex_iff list_all_iff)

lemma fs_stuck_mixed:
  assumes "fs_inv c s" "fs_ret s = None" "fs_ctxErr s = None" "\<nexists>s'. fs_work c s s'"
  shows "mixed_failures c"
proof -
  note q = fs_quiescent [OF assms]
  have sent: "sent_by P (fs_gor s) = filter P (fc_providers c)" for P
    using sent_by_all_sent [OF q(4)] assms(1) by (simp add: fs_inv_def)
  have "mset (fs_errs s) = mset (map (provider_error c) (filter (answers_error c) (fc_providers c)))"
    using assms(1) q(1) sent by (simp add: fs_inv_def)
  then have "length (fs_errs s) = length (filter (answers_error c) (fc_providers c))"
    by (metis length_map size_mset)
  with q(3) have some_other: "\<exists>p \<in> set (fc_providers c). \<not> answers_error c p"
    by (simp add: filter_shorter)
  have "mset (fs_finishChan s) = mset (map (fc_eval c) (filter (answers_ok c) (fc_providers c)))"
    using assms(1,2) sent by (simp add: fs_inv_def)
  with q(2) have none_ok: "\<forall>p \<in> set (fc_providers c). \<not> answers_ok c p"
    by (simp add: filter_empty_conv)
  have "fs_notFoundCount s = length (filter (answers_not_found c) (fc_providers c))"
    using assms(1) sent by (simp add: fs_inv_def)
  moreover have "fs_notFoundCount s = length (fc_providers c) \<longrightarrow> fc_providers c = []"
    using assms(1,2) by (simp add: fs_inv_def)
  ultimately have "length (filter (answers_not_found c) (fc_providers c)) \<noteq> length (fc_providers c)"
    using some_other by auto
  then have "\<exists>p \<in> set (fc_providers c). \<not> answers_not_found c p" by (rule filter_shorter)
  with some_other none_ok answer.exhaust show ?thesis
    by (simp add: mixed_failures_def list_ex_iff) metis
qed

text \<open>
  Bounded work: no schedule of one call takes more than \<open>2 * n + 2\<close> steps for \<open>n\<close> providers,
  goroutines that outlive the call included.
\<close>

theorem first_success_bounded:
  assumes "(fs_step c ^^ k) (fs_start c) s"
  shows "k \<le> 2 * length (fc_providers c) + 2"
proof -
  have "fs_weight (fs_start c) = 2 * length (fc_providers c) + 2"
    by (simp add: fs_weight_def fs_start_def comp_def sum_list_triv)
  with fs_weight_steps [OF assms] show ?thesis by simp
qed

text \<open>
  C10: When the call needs its timeout: a run that nothing disturbs and that can go no further has
  not returned exactly when no provider succeeded but some failed and others do not know the
  flag.  In every other case it has returned a settled result.
\<close>

theorem first_success_stuck_iff_mixed:
  assumes "fs_undisturbed c s" and "\<nexists>s'. fs_work c s s'"
  shows "(fs_ret s = None) = mixed_failures c \<and>
    (case fs_ret s of None \<Rightarrow> True | Some out \<Rightarrow> fs_settled c out)"
proof (cases "fs_ret s")
  case None
  with fs_undisturbed_inv [OF assms(1)] fs_stuck_mixed [OF _ None _ assms(2)] show ?thesis by simp
next
  case (Some out)
  with fs_undisturbed_inv [OF assms(1)] settled_not_mixed show ?thesis by auto
qed

text \<open>
  A goroutine that blocks on the not-found channel when the call has returned stays there in
  every continuation: nothing receives from that channel any more.
\<close>

theorem first_success_leaks_blocked_sender:
  assumes "(fs_step c)\<^sup>*\<^sup>* s s'" "fs_ret s \<noteq> None" "(p, GSendNotFound) \<in> set (fs_gor s)"
  shows "fs_ret s' \<noteq> None \<and> (p, GSendNotFound) \<in> set (fs_gor s')"
  using assms
proof (induction rule: rtranclp_induct)
  case (step s1 s2)
  have "fs_ret s2 \<noteq> None \<and> (p, GSendNotFound) \<in> set (fs_gor s2)"
    if "fs_work c s1 s2" "fs_ret s1 \<noteq> None" "(p, GSendNotFound) \<in> set (fs_gor s1)"
    using that by (induction rule: fs_work.induct) auto
  with step show ?case by (auto elim: fs_stepE)
qed simp

section \<open>Concrete runs\<close>

definition demo_call :: "NamedProvider list \<Rightarrow> bool fs_call" where
  "demo_call ps = firstSuccess_call bool_flag (\<lambda>ae. []) (NewFirstSuccessStrategy ps 5) ''flag'' False None"

lemma demo_call_simps [simp]:
  "fc_type (demo_call ps) = bool_flag" "fc_providers (demo_call ps) = ps"
  "fc_eval (demo_call ps) = eval_with bool_flag ''flag'' False None"
  "fc_default (demo_call ps) = False"
  by (simp_all add: demo_call_def firstSuccess_call_def NewFirstSuccessStrategy_def)

lemma demo_answers [simp]:
  "answer_of (demo_call ps) demo_unknown = ANotFound"
  "answer_of (demo_call ps) (demo_known b) = ASuccess"
  "answer_of (demo_call ps) demo_failing = AError"
  by (simp_all add: answer_of_def demo_provider_defs is_not_found_def has_error_def empty_detail_def Let_def)

text \<open>One provider, which succeeds.\<close>

definition demo_success :: "bool fs_state" where
  "demo_success = (fs_start (demo_call [demo_known True]))\<lparr>fs_gor := [(demo_known True, GSent)],
     fs_ctxErr := Some ''context canceled'',
     fs_ret := Some (success_return (eval_with bool_flag ''flag'' False None (demo_known True)))\<rparr>"

lemma demo_success_steps:
  "fs_step (demo_call [demo_known True]) (fs_start (demo_call [demo_known True]))
     ((fs_start (demo_call [demo_known True]))\<lparr>fs_gor := [(demo_known True, GSent)],
       fs_finishChan := [eval_with bool_flag ''flag'' False None (demo_known True)]\<rparr>)"
  "fs_step (demo_call [demo_known True]) ((fs_start (demo_call [demo_known True]))\<lparr>fs_gor := [(demo_known True, GSent)],
       fs_finishChan := [eval_with bool_flag ''flag'' False None (demo_known True)]\<rparr>) demo_success"
proof -
  let ?c = "demo_call [demo_known True]"
  show "fs_step ?c (fs_start ?c) ((fs_start ?c)\<lparr>fs_gor := [(demo_known True, GSent)],
       fs_finishChan := [eval_with bool_flag ''flag'' False None (demo_known True)]\<rparr>)"
    using answer_ok [of "fs_start ?c" "[]" "demo_known True" "[]" ?c]
    by (simp add: fs_step.work fs_start_def)
  show "fs_step ?c ((fs_start ?c)\<lparr>fs_gor := [(demo_known True, GSent)],
       fs_finishChan := [eval_with bool_flag ''flag'' False None (demo_known True)]\<rparr>) demo_success"
    using recv_finish [of "(fs_start ?c)\<lparr>fs_gor := [(demo_known True, GSent)],
       fs_finishChan := [eval_with bool_flag ''flag'' False None (demo_known True)]\<rparr>" ?c]
    by (simp add: fs_step.work fs_start_def demo_success_def)
qed

theorem first_success_sound_witness:
  "(\<exists>p. p \<in> {demo_known True} \<and> True = Value (p_Boolean (np_Provider p) ''flag'' False None) \<and>
     \<not> has_error (Detail (p_Boolean (np_Provider p) ''flag'' False None)))"
proof -
  let ?c = "demo_call [demo_known True]"
  let ?r = "firstSuccess_result (eval_with bool_flag ''flag'' False None (demo_known True),
     Some [MetadataStrategyUsed \<mapsto> VString StrategyFirstSuccess,
           MetadataSuccessfulProviderName \<mapsto> VString ''b''])"
  have "fs_reachable ?c demo_success"
    by (meson fs_reachable.intros demo_success_steps)
  moreover have "fs_ret demo_success = Some (Return (eval_with bool_flag ''flag'' False None (demo_known True),
     Some [MetadataStrategyUsed \<mapsto> VString StrategyFirstSuccess,
           MetadataSuccessfulProviderName \<mapsto> VString ''b'']))"
    by (simp add: demo_success_def success_return_def demo_known_def)
  ultimately have "firstSuccess_method bool_flag (\<lambda>ae. []) (NewFirstSuccessStrategy [demo_known True] 5)
      ''flag'' False None (Return ?r)"
    unfolding firstSuccess_method_def demo_call_def by force
  from first_success_sound [OF this] show ?thesis
    by (auto simp: NewFirstSuccessStrategy_def firstSuccess_result_def Let_def demo_known_def answering_def)
qed

theorem first_success_bounded_witness: "(2::nat) \<le> 2 * length (fc_providers (demo_call [demo_known True])) + 2"
  by (rule first_success_bounded [where c = "demo_call [demo_known True]" and s = demo_success])
    (use demo_success_steps in \<open>auto simp: numeral_2_eq_2\<close>)

text \<open>Two providers, one that fails and one that does not know the flag: the run gets stuck.\<close>

definition demo_mixed :: "bool fs_call" where
  "demo_mixed = demo_call [demo_failing, demo_unknown]"

definition demo_stuck :: "bool fs_state" where
  "demo_stuck = (fs_start demo_mixed)\<lparr>fs_gor := [(demo_failing, GSent), (demo_unknown, GSent)],
     fs_errs := [provider_error demo_mixed demo_failing], fs_notFoundCount := 1\<rparr>"

lemma demo_mixed_simps [simp]:
  "fc_providers demo_mixed = [demo_failing, demo_unknown]"
  "answer_of demo_mixed demo_unknown = ANotFound" "answer_of demo_mixed demo_failing = AError"
  by (simp_all add: demo_mixed_def)

lemma demo_stuck_undisturbed: "fs_undisturbed demo_mixed demo_stuck"
proof -
  let ?s0 = "fs_start demo_mixed"
  let ?s1 = "?s0\<lparr>fs_gor := [(demo_failing, GSent), (demo_unknown, GWaiting)],
     fs_errChan := [provider_error demo_mixed demo_failing]\<rparr>"
  let ?s2 = "?s1\<lparr>fs_gor := [(demo_failing, GSent), (demo_unknown, GSendNotFound)]\<rparr>"
  let ?s3 = "?s2\<lparr>fs_errChan := [], fs_errs := [provider_error demo_mixed demo_failing]\<rparr>"
  have "fs_work demo_mixed ?s0 ?s1"
    using answer_error [of ?s0 "[]" demo_failing "[(demo_unknown, GWaiting)]" demo_mixed]
    by (simp add: fs_start_def)
  moreover have "fs_work demo_mixed ?s1 ?s2"
    using answer_not_found [of ?s1 "[(demo_failing, GSent)]" demo_unknown "[]" demo_mixed] by simp
  moreover have "fs_work demo_mixed ?s2 ?s3"
    using recv_error [of ?s2 demo_mixed] by (simp add: fs_start_def)
  moreover have "fs_work demo_mixed ?s3 demo_stuck"
    using recv_not_found [of ?s3 demo_mixed "[(demo_failing, GSent)]" demo_unknown "[]"]
    by (simp add: fs_start_def demo_stuck_def)
  ultimately show ?thesis by (meson fs_undisturbed_start fs_undisturbed_step)
qed

lemma demo_stuck_no_step: "\<nexists>s'. fs_work demo_mixed demo_stuck s'"
proof
  assume "\<exists>s'. fs_work demo_mixed demo_stuck s'"
  then obtain s' where "fs_work demo_mixed demo_stuck s'" by blast
  then show False
    by (cases rule: fs_work.cases) (auto simp: demo_stuck_def fs_start_def append_eq_Cons_conv Cons_eq_append_conv)
qed

theorem first_success_stuck_iff_mixed_witness:
  "(fs_ret demo_stuck = None) = mixed_failures demo_mixed \<and> mixed_failures demo_mixed"
  using first_success_stuck_iff_mixed [OF demo_stuck_undisturbed demo_stuck_no_step]
  by (simp add: demo_stuck_def fs_start_def)

text \<open>A run that leaks: one provider succeeds while the other's goroutine is about to report.\<close>

definition demo_leak :: "bool fs_call" where
  "demo_leak = demo_call [demo_known True, demo_unknown]"

definition demo_leaked :: "bool fs_state" where
  "demo_leaked = (fs_start demo_leak)\<lparr>fs_gor := [(demo_known True, GSent), (demo_unknown, GSendNotFound)],
     fs_ctxErr := Some ''context canceled'',
     fs_ret := Some (success_return (fc_eval demo_leak (demo_known True)))\<rparr>"

lemma demo_leak_simps [simp]:
  "fc_providers demo_leak = [demo_known True, demo_unknown]"
  "answer_of demo_leak demo_unknown = ANotFound" "answer_of demo_leak (demo_known b) = ASuccess"
  by (simp_all add: demo_leak_def)

lemma demo_leaked_reachable: "fs_reachable demo_leak demo_leaked"
proof -
  let ?s0 = "fs_start demo_leak"
  let ?s1 = "?s0\<lparr>fs_gor := [(demo_known True, GSent), (demo_unknown, GWaiting)],
     fs_finishChan := [fc_eval demo_leak (demo_known True)]\<rparr>"
  let ?s2 = "?s1\<lparr>fs_gor := [(demo_known True, GSent), (demo_unknown, GSendNotFound)]\<rparr>"
  have "fs_work demo_leak ?s0 ?s1"
    using answer_ok [of ?s0 "[]" "demo_known True" "[(demo_unknown, GWaiting)]" demo_leak]
    by (simp add: fs_start_def)
  moreover have "fs_work demo_leak ?s1 ?s2"
    using answer_not_found [of ?s1 "[(demo_known True, GSent)]" demo_unknown "[]" demo_leak] by simp
  moreover have "fs_work demo_leak ?s2 demo_leaked"
    using recv_finish [of ?s2 demo_leak] by (simp add: fs_start_def demo_leaked_def)
  ultimately show ?thesis by (meson fs_reachable.intros fs_step.work)
qed

theorem first_success_leaks_blocked_sender_witness:
  "fs_reachable demo_leak demo_leaked \<and> fs_ret demo_leaked \<noteq> None \<and>
   (demo_unknown, GSendNotFound) \<in> set (fs_gor demo_leaked)"
proof -
  have "fs_ret demo_leaked \<noteq> None \<and> (demo_unknown, GSendNotFound) \<in> set (fs_gor demo_leaked)"
    by (rule first_success_leaks_blocked_sender [of demo_leak demo_leaked])
      (simp_all add: demo_leaked_def)
  with demo_leaked_reachable show ?thesis by simp
qed

end
