(* ===== verification/MP_Comparison.thy ===== *)
theory MP_Comparison
  imports MP_Strategies
begin

text \<open>
  The comparison strategy, \<^verbatim>\<open>providers/multi-provider/pkg/strategies/comparison.go\<close>: all
  providers are asked, and the answers of those that know the flag must be equal.  The loop that
  receives the answers is a function of the sequence of messages it receives; \<open>receives\<close> says
  which sequences the goroutines and the error group can produce.  \<^verbatim>\<open>FlagMetadata.GetBool\<close> and
  \<^verbatim>\<open>GetString\<close> belong to the SDK and are parameters.
\<close>

section \<open>Model\<close>

definition MetadataIsDefault :: string where
  "MetadataIsDefault = ''multiprovider-is-default-result''"
definition MetadataNoneFound :: string where
  "MetadataNoneFound = ''multiprovider-flag-not-found-all-providers''"
definition MetadataEvaluationError :: string where
  "MetadataEvaluationError = ''multiprovider-comparison-first-error''"

lemmas comparison_keys = metadata_keys MetadataIsDefault_def MetadataNoneFound_def MetadataEvaluationError_def

record ComparisonStrategy =
  cs_providers :: "NamedProvider list"
  cs_fallbackProvider :: "feature_provider option"

definition NewComparisonStrategy :: "NamedProvider list \<Rightarrow> feature_provider option \<Rightarrow> ComparisonStrategy" where
  "NewComparisonStrategy providers fallbackProvider =
     \<lparr>cs_providers = providers, cs_fallbackProvider = fallbackProvider\<rparr>"

definition Comparison_Name :: "ComparisonStrategy \<Rightarrow> string" where
  "Comparison_Name c = StrategyComparison"

text \<open>The comparator of one flag type, from Go's \<^verbatim>\<open>==\<close> at that type.\<close>

fun compFunc :: "('v \<Rightarrow> 'v \<Rightarrow> bool) \<Rightarrow> 'v list \<Rightarrow> bool outcome" where
  "compFunc eq [] = Panic ''index out of range [0] with length 0''"
| "compFunc eq (current # vs) = Return (list_all (\<lambda>v. eq current v) vs)"

text \<open>
  What the loop's \<^verbatim>\<open>select\<close> receives: an answer, a not-found signal (with \<^verbatim>\<open>ctx.Err()\<close> at that
  moment), or the end of the context with its error.
\<close>

datatype 'v message = MResult "'v resultWrapper" | MNotFound "string option" | MDone string

definition metadata_put :: "(string \<times> go_any) list \<Rightarrow> go_map \<Rightarrow> go_map outcome" where
  "metadata_put kvs m = foldl (\<lambda>r (k, v). bind_outcome r (\<lambda>f. map_set f k v)) (Return m) kvs"

definition default_comparison ::
  "'v flag_type \<Rightarrow> 'v \<Rightarrow> string option \<Rightarrow> (string \<times> go_any) list \<Rightarrow>
   ('v resultWrapper list \<times> go_map) outcome" where
  "default_comparison ft defaultVal err extra =
     bind_outcome (buildDefaultResult ft StrategyComparison defaultVal err) (\<lambda>result.
     bind_outcome (metadata_put ([(MetadataFallbackUsed, VBool False), (MetadataIsDefault, VBool True)] @ extra)
        (FlagMetadata (rw_detail result))) (\<lambda>metadata.
     Return ([result], metadata)))"

definition agreement_metadata :: "'v resultWrapper list \<Rightarrow> go_map" where
  "agreement_metadata results =
     (let m0 = [MetadataStrategyUsed \<mapsto> VString StrategyComparison,
                MetadataFallbackUsed \<mapsto> VBool False, MetadataIsDefault \<mapsto> VBool False];
          m1 = foldl (\<lambda>m r. m(rw_name r \<mapsto> VMetadata (FlagMetadata (rw_detail r)))) m0 results;
          success = sort (map rw_name results)
      in Some (m1(MetadataSuccessfulProviderName @ ''s'' \<mapsto> VString (join_with '', '' success))))"

definition continueComparison ::
  "'v flag_type \<Rightarrow> ('v \<Rightarrow> 'v \<Rightarrow> bool) \<Rightarrow> 'v evaluator \<Rightarrow> feature_provider option \<Rightarrow> 'v \<Rightarrow>
   'v resultWrapper list \<Rightarrow> ('v resultWrapper list \<times> go_map) outcome" where
  "continueComparison ft eq e fallbackProvider defaultVal results =
     bind_outcome (compFunc eq (map (\<lambda>r. Value (rw_result r)) results)) (\<lambda>agreement.
       if agreement then Return (results, agreement_metadata results)
       else case fallbackProvider of
         Some fb \<Rightarrow>
           (let fallbackResult = e \<lparr>np_Name = ''fallback'', np_Provider = fb\<rparr>
            in bind_outcome (metadata_put
                 [(MetadataFallbackUsed, VBool True), (MetadataIsDefault, VBool False),
                  (MetadataSuccessfulProviderName, VString ''fallback''),
                  (MetadataStrategyUsed, VString StrategyComparison)]
                 (FlagMetadata (rw_detail fallbackResult)))
               (\<lambda>metadata. Return ([fallbackResult], metadata)))
       | None \<Rightarrow> default_comparison ft defaultVal (Some ''no fallback provider configured'') [])"

text \<open>The receiving loop; \<open>None\<close>: it still waits when the messages are used up.\<close>

fun comparison_loop ::
  "'v flag_type \<Rightarrow> ('v \<Rightarrow> 'v \<Rightarrow> bool) \<Rightarrow> 'v evaluator \<Rightarrow> feature_provider option \<Rightarrow> 'v \<Rightarrow> nat \<Rightarrow>
   'v resultWrapper list \<Rightarrow> nat \<Rightarrow> 'v message list \<Rightarrow> ('v resultWrapper list \<times> go_map) outcome option" where
  "comparison_loop ft eq e fb dv n results notFoundCount [] = None"
| "comparison_loop ft eq e fb dv n results notFoundCount (MDone t # ms) =
     Some (default_comparison ft dv (Some t) [(MetadataEvaluationError, VString t)])"
| "comparison_loop ft eq e fb dv n results notFoundCount (MResult r # ms) =
     (if length (results @ [r]) + notFoundCount = n
      then Some (continueComparison ft eq e fb dv (results @ [r]))
      else comparison_loop ft eq e fb dv n (results @ [r]) notFoundCount ms)"
| "comparison_loop ft eq e fb dv n results notFoundCount (MNotFound ctxErr # ms) =
     (if notFoundCount + 1 = n then Some (default_comparison ft dv ctxErr [])
      else if length results + (notFoundCount + 1) = n
      then Some (continueComparison ft eq e fb dv results)
      else comparison_loop ft eq e fb dv n results (notFoundCount + 1) ms)"

definition evaluateComparison ::
  "'v flag_type \<Rightarrow> ('v \<Rightarrow> 'v \<Rightarrow> bool) \<Rightarrow> NamedProvider list \<Rightarrow> 'v evaluator \<Rightarrow>
   feature_provider option \<Rightarrow> 'v \<Rightarrow> 'v message list \<Rightarrow> ('v resultWrapper list \<times> go_map) outcome option" where
  "evaluateComparison ft eq providers e fallbackProvider defaultVal msgs = (case providers of
       [p] \<Rightarrow>
         (let result = e p;
              name = (if rw_name result \<noteq> [] then rw_name result else np_Name p)
          in Some (bind_outcome (metadata_put [(MetadataFallbackUsed, VBool False)]
                      (setFlagMetadata StrategyComparison name make_map))
                (\<lambda>metadata. Return ([result], metadata))))
     | _ \<Rightarrow> comparison_loop ft eq e fallbackProvider defaultVal (length providers) [] 0 msgs)"

text \<open>
  The SDK's readers of a metadata entry, with an error for a missing key or another type.
\<close>

type_synonym 'a reader = "go_map \<Rightarrow> string \<Rightarrow> 'a \<times> string option"

definition comparisonResolutionReason :: "bool reader \<Rightarrow> go_map \<Rightarrow> string" where
  "comparisonResolutionReason GetBool metadata =
     (case GetBool metadata MetadataFallbackUsed of (fallbackUsed, err) \<Rightarrow>
        if fallbackUsed \<and> err = None then ReasonAggregatedFallback
        else (case GetBool metadata MetadataIsDefault of (defaultUsed, err) \<Rightarrow>
                if defaultUsed \<and> err = None then DefaultReason else ReasonAggregated))"

definition comparisonResolutionError :: "bool reader \<Rightarrow> string reader \<Rightarrow> go_map \<Rightarrow> resolution_error" where
  "comparisonResolutionError GetBool GetString metadata =
     (case GetBool metadata MetadataIsDefault of (isDefault, err) \<Rightarrow>
        if err \<noteq> None \<or> \<not> isDefault then NoResolutionError
        else (case GetBool metadata MetadataNoneFound of (notFound, err) \<Rightarrow>
          if err = None \<and> notFound then NewFlagNotFoundResolutionError ''not found in any providers''
          else (case GetString metadata MetadataEvaluationError of (evalErr, err) \<Rightarrow>
            if evalErr \<noteq> [] \<and> err \<noteq> None then NewGeneralResolutionError evalErr
            else NewGeneralResolutionError ''comparison failure'')))"

definition comparison_result ::
  "bool reader \<Rightarrow> string reader \<Rightarrow> 'v resultWrapper list \<times> go_map \<Rightarrow> 'v resolution_detail outcome" where
  "comparison_result GetBool GetString = (\<lambda>(results, metadata). case results of
       [] \<Rightarrow> Panic ''index out of range [0] with length 0''
     | r # rs \<Rightarrow> Return \<lparr>Value = Value (rw_result r),
         Detail = \<lparr>ResolutionError = comparisonResolutionError GetBool GetString metadata,
           Reason = comparisonResolutionReason GetBool metadata,
           Variant = Variant (rw_detail r), FlagMetadata = metadata\<rparr>\<rparr>)"

definition comparison_method ::
  "'v flag_type \<Rightarrow> ('v \<Rightarrow> 'v \<Rightarrow> bool) \<Rightarrow> bool reader \<Rightarrow> string reader \<Rightarrow> ComparisonStrategy \<Rightarrow> string \<Rightarrow>
   'v \<Rightarrow> go_map \<Rightarrow> 'v message list \<Rightarrow> 'v resolution_detail outcome option" where
  "comparison_method ft eq GetBool GetString c flag defaultValue evalCtx msgs =
     map_option (\<lambda>r. bind_outcome r (comparison_result GetBool GetString))
       (evaluateComparison ft eq (cs_providers c) (eval_with ft flag defaultValue evalCtx)
          (cs_fallbackProvider c) defaultValue msgs)"

definition Comparison_BooleanEvaluation where
  "Comparison_BooleanEvaluation = comparison_method bool_flag (=)"
definition Comparison_StringEvaluation where
  "Comparison_StringEvaluation = comparison_method string_flag (=)"
definition Comparison_FloatEvaluation where
  "Comparison_FloatEvaluation = comparison_method float_flag float_eq"
definition Comparison_IntEvaluation where
  "Comparison_IntEvaluation = comparison_method int_flag (=)"

definition Comparison_ObjectEvaluation :: "ComparisonStrategy \<Rightarrow> string \<Rightarrow> go_any \<Rightarrow> go_map \<Rightarrow> go_any resolution_detail" where
  "Comparison_ObjectEvaluation c flag defaultValue evalCtx =
     \<lparr>Value = defaultValue, Detail = \<lparr>ResolutionError = NewGeneralResolutionError ErrAggregationNotAllowedText,
       Reason = DefaultReason, Variant = [],
       FlagMetadata = Some [MetadataStrategyUsed \<mapsto> VString StrategyComparison,
         MetadataSuccessfulProviderName \<mapsto> VString ''none'', MetadataFallbackUsed \<mapsto> VBool False]\<rparr>\<rparr>"

text \<open>
  What the goroutines send.  A provider that fails with another error makes the error group
  cancel the context and sends nothing; the context may also end from outside (\<open>outer\<close>).
\<close>

definition provider_message :: "'v resultWrapper \<Rightarrow> 'v message option" where
  "provider_message r =
     (if is_not_found (rw_detail r) then Some (MNotFound None)
      else if has_error (rw_detail r) then None else Some (MResult r))"

definition ctx_errors :: "string set \<Rightarrow> 'v evaluator \<Rightarrow> NamedProvider list \<Rightarrow> string set" where
  "ctx_errors outer e ps = outer \<union>
     (if \<exists>p \<in> set ps. provider_message (e p) = None then {''context canceled''} else {})"

fun untimed :: "'v message \<Rightarrow> 'v message" where
  "untimed (MNotFound t) = MNotFound None"
| "untimed m = m"

fun message_ctx :: "'v message \<Rightarrow> string set" where
  "message_ctx (MDone t) = {t}"
| "message_ctx (MNotFound t) = set_option t"
| "message_ctx (MResult r) = {}"

definition is_answer :: "'v message \<Rightarrow> bool" where
  "is_answer m \<longleftrightarrow> (case m of MDone t \<Rightarrow> False | _ \<Rightarrow> True)"

definition receives :: "string set \<Rightarrow> 'v evaluator \<Rightarrow> NamedProvider list \<Rightarrow> 'v message list \<Rightarrow> bool" where
  "receives outer e ps ms \<longleftrightarrow>
     mset (map untimed (filter is_answer ms)) \<subseteq># mset (List.map_filter (\<lambda>p. provider_message (e p)) ps) \<and>
     (\<Union>m \<in> set ms. message_ctx m) \<subseteq> ctx_errors outer e ps"

text \<open>The documented behaviour of the SDK's readers.\<close>

definition GetBool_law :: "bool reader \<Rightarrow> bool" where
  "GetBool_law GetBool \<longleftrightarrow> (\<forall>m k. case map_get m k of
       Some (VBool b) \<Rightarrow> GetBool m k = (b, None)
     | _ \<Rightarrow> (\<exists>err. GetBool m k = (False, Some err)))"

definition GetString_law :: "string reader \<Rightarrow> bool" where
  "GetString_law GetString \<longleftrightarrow> (\<forall>m k. case map_get m k of
       Some (VString s) \<Rightarrow> GetString m k = (s, None)
     | _ \<Rightarrow> (\<exists>err. GetString m k = ([], Some err)))"

end
