(* ===== verification/MP_Comparison_Correct.thy ===== *)
theory MP_Comparison_Correct
  imports MP_Comparison
begin

text \<open>
  What the comparison strategy guarantees: the three kinds of result and when they occur,
  independence of the order of arrival, and when an evaluation panics.
\<close>

section \<open>Metadata\<close>

lemma metadata_put_Nil [simp]: "metadata_put [] m = Return m"
  by (simp add: metadata_put_def)

lemma metadata_put_panic: "foldl (\<lambda>r (k, v). bind_outcome r (\<lambda>f. map_set f k v)) (Panic p) kvs = Panic p"
  by (induction kvs) auto

lemma metadata_put_Cons [simp]:
  "metadata_put ((k, v) # kvs) (Some f) = metadata_put kvs (Some (f(k \<mapsto> v)))"
  "metadata_put ((k, v) # kvs) None = Panic ''assignment to entry in nil map''"
  by (simp_all add: metadata_put_def metadata_put_panic)

lemma GetBool_true:
  "GetBool_law gb \<Longrightarrow> (fst (gb m k) \<and> snd (gb m k) = None) \<longleftrightarrow> map_get m k = Some (VBool True)"
  unfolding GetBool_law_def by (drule spec [of _ m], drule spec [of _ k]) (auto split: option.splits go_any.splits)

lemma GetBool_false:
  "GetBool_law gb \<Longrightarrow> (snd (gb m k) \<noteq> None \<or> \<not> fst (gb m k)) \<longleftrightarrow> map_get m k \<noteq> Some (VBool True)"
  using GetBool_true [of gb m k] by auto

lemma GetString_error: "GetString_law gs \<Longrightarrow> snd (gs m k) \<noteq> None \<Longrightarrow> fst (gs m k) = []"
  unfolding GetString_law_def by (drule spec [of _ m], drule spec [of _ k]) (auto split: option.splits go_any.splits)

lemma comparisonResolutionReason_eq:
  "GetBool_law gb \<Longrightarrow> comparisonResolutionReason gb m =
     (if map_get m MetadataFallbackUsed = Some (VBool True) then ReasonAggregatedFallback
      else if map_get m MetadataIsDefault = Some (VBool True) then DefaultReason else ReasonAggregated)"
  using GetBool_true [of gb m MetadataFallbackUsed] GetBool_true [of gb m MetadataIsDefault]
  by (simp add: comparisonResolutionReason_def case_prod_beta)

text \<open>The entry with the first evaluation error is never reported: its reader's error is tested the wrong way round.\<close>

lemma comparisonResolutionError_eq:
  assumes "GetBool_law gb" "GetString_law gs"
  shows "comparisonResolutionError gb gs m =
     (if map_get m MetadataIsDefault \<noteq> Some (VBool True) then NoResolutionError
      else if map_get m MetadataNoneFound = Some (VBool True)
      then NewFlagNotFoundResolutionError ''not found in any providers''
      else NewGeneralResolutionError ''comparison failure'')"
  using GetBool_false [OF assms(1), of m MetadataIsDefault] GetBool_true [OF assms(1), of m MetadataNoneFound]
    GetString_error [OF assms(2), of m MetadataEvaluationError]
  unfolding comparisonResolutionError_def case_prod_beta by (smt (verit, best))

lemma agreement_metadata_not_true: "map_get (agreement_metadata rs) k \<noteq> Some (VBool True)"
proof -
  have "foldl (\<lambda>m r. m(rw_name r \<mapsto> VMetadata (FlagMetadata (rw_detail r)))) m0 rs k \<noteq> Some (VBool True)"
    if "m0 k \<noteq> Some (VBool True)" for m0 :: "string \<rightharpoonup> go_any"
    using that by (induction rs arbitrary: m0) auto
  then show ?thesis by (auto simp: agreement_metadata_def Let_def)
qed

lemma agreement_reason:
  "GetBool_law gb \<Longrightarrow> comparisonResolutionReason gb (agreement_metadata rs) = ReasonAggregated"
  by (simp add: comparisonResolutionReason_eq agreement_metadata_not_true)

lemma agreement_no_error:
  "GetBool_law gb \<Longrightarrow> GetString_law gs \<Longrightarrow>
     comparisonResolutionError gb gs (agreement_metadata rs) = NoResolutionError"
  by (simp add: comparisonResolutionError_eq agreement_metadata_not_true)

section \<open>The receiving loop\<close>

definition answers :: "'v message list \<Rightarrow> 'v resultWrapper list" where
  "answers ms = List.map_filter (\<lambda>m. case m of MResult r \<Rightarrow> Some r | _ \<Rightarrow> None) ms"

lemma answers_simps [simp]:
  "answers [] = []" "answers (MResult r # ms) = r # answers ms"
  "answers (MNotFound c # ms) = answers ms" "answers (MDone t # ms) = answers ms"
  by (simp_all add: answers_def map_filter_simps)

lemma is_answer_simps [simp]: "is_answer (MResult r)" "is_answer (MNotFound c)" "\<not> is_answer (MDone t)"
  by (simp_all add: is_answer_def)

definition is_default_return :: "'v flag_type \<Rightarrow> 'v \<Rightarrow> ('v resultWrapper list \<times> go_map) outcome \<Rightarrow> bool" where
  "is_default_return ft dv out \<longleftrightarrow>
     (\<exists>err. out = default_comparison ft dv err []) \<or>
     (\<exists>t. out = default_comparison ft dv (Some t) [(MetadataEvaluationError, VString t)])"

lemma comparison_loop_cases:
  assumes "comparison_loop ft eq e fb dv n results nf ms = Some out" "nf < n"
  shows "is_default_return ft dv out \<or>
    (\<exists>us vs. ms = us @ vs \<and> list_all is_answer us \<and> length results + nf \<le> length results + nf + length us \<and>
       out = continueComparison ft eq e fb dv (results @ answers us) \<and>
       (length results + nf < n \<longrightarrow> length results + nf + length us = n) \<and>
       (length results + nf < n \<longrightarrow> results @ answers us \<noteq> []))"
  using assms
proof (induction ms arbitrary: results nf)
  case (Cons m ms)
  show ?case
  proof (cases m)
    case (MDone t)
    with Cons.prems show ?thesis by (auto simp: is_default_return_def)
  next
    case (MResult r)
    show ?thesis
    proof (cases "length (results @ [r]) + nf = n")
      case True
      with Cons.prems MResult show ?thesis
        by (intro disjI2 exI [of _ "[m]"] exI [of _ ms]) simp
    next
      case False
      then have "comparison_loop ft eq e fb dv n (results @ [r]) nf ms = Some out"
        using Cons.prems MResult by simp
      from Cons.IH [OF this Cons.prems(2)] False show ?thesis
      proof (elim disjE exE conjE)
        fix us vs
        assume "ms = us @ vs" "list_all is_answer us"
          "out = continueComparison ft eq e fb dv ((results @ [r]) @ answers us)"
          "length (results @ [r]) + nf < n \<longrightarrow> length (results @ [r]) + nf + length us = n"
        with False MResult show ?thesis
          by (intro disjI2 exI [of _ "m # us"] exI [of _ vs]) auto
      qed simp
    qed
  next
    case (MNotFound t)
    show ?thesis
    proof (cases "nf + 1 = n")
      case True
      with Cons.prems MNotFound show ?thesis by (auto simp: is_default_return_def)
    next
      case nf: False
      show ?thesis
      proof (cases "length results + (nf + 1) = n")
        case True
        with nf Cons.prems MNotFound show ?thesis
          by (intro disjI2 exI [of _ "[m]"] exI [of _ ms]) auto
      next
        case False
        then have "comparison_loop ft eq e fb dv n results (nf + 1) ms = Some out" "nf + 1 < n"
          using Cons.prems MNotFound nf by auto
        from Cons.IH [OF this] False show ?thesis
        proof (elim disjE exE conjE)
          fix us vs
          assume "ms = us @ vs" "list_all is_answer us"
            "out = continueComparison ft eq e fb dv (results @ answers us)"
            "length results + (nf + 1) < n \<longrightarrow> length results + (nf + 1) + length us = n"
            "length results + (nf + 1) < n \<longrightarrow> results @ answers us \<noteq> []"
          with False MNotFound show ?thesis
            by (intro disjI2 exI [of _ "m # us"] exI [of _ vs]) auto
        qed simp
      qed
    qed
  qed
qed simp

lemma comparison_loop_start:
  assumes "comparison_loop ft eq e fb dv n [] 0 ms = Some out"
  shows "is_default_return ft dv out \<or>
    (\<exists>us vs. ms = us @ vs \<and> list_all is_answer us \<and> length us = n \<and> answers us \<noteq> [] \<and>
       out = continueComparison ft eq e fb dv (answers us))"
proof (cases "0 < n")
  case True
  from comparison_loop_cases [OF assms True] True show ?thesis by auto
next
  case False
  have "is_default_return ft dv out" if "comparison_loop ft eq e fb dv 0 results nf ms = Some out"
    "0 < n \<or> results = results" for results nf
    using that
  proof (induction ms arbitrary: results nf)
    case (Cons m ms)
    then show ?case by (cases m) (auto simp: is_default_return_def split: if_splits)
  qed simp
  with False assms show ?thesis by auto
qed

text \<open>A run that receives exactly one message per provider, with the context alive.\<close>

definition complete :: "nat \<Rightarrow> 'v message list \<Rightarrow> bool" where
  "complete n ms \<longleftrightarrow> length ms = n \<and> list_all (\<lambda>m. is_answer m \<and> untimed m = m) ms"

lemma comparison_loop_complete:
  assumes "list_all (\<lambda>m. is_answer m \<and> untimed m = m) ms" "length results + nf + length ms = n"
    "ms \<noteq> []" "nf < n"
  shows "comparison_loop ft eq e fb dv n results nf ms =
    Some (if results @ answers ms = [] then default_comparison ft dv None []
          else continueComparison ft eq e fb dv (results @ answers ms))"
  using assms
proof (induction ms arbitrary: results nf)
  case (Cons m ms)
  show ?case
  proof (cases m)
    case (MDone t)
    with Cons.prems show ?thesis by simp
  next
    case (MResult r)
    show ?thesis
    proof (cases "ms = []")
      case True
      with MResult Cons.prems show ?thesis by simp
    next
      case False
      then have "0 < length ms" by simp
      with MResult Cons.prems Cons.IH [of "results @ [r]" nf] False show ?thesis by auto
    qed
  next
    case (MNotFound t)
    with Cons.prems have "t = None" by simp
    show ?thesis
    proof (cases "ms = []")
      case True
      with MNotFound \<open>t = None\<close> Cons.prems show ?thesis by auto
    next
      case False
      with Cons.prems(2) have "nf + 1 < n" by (cases ms) auto
      with False MNotFound Cons.prems Cons.IH [of results "nf + 1"] show ?thesis by auto
    qed
  qed
qed simp

section \<open>Results\<close>

lemma default_comparison_eq:
  assumes "default_fits ft dv"
  shows "\<exists>m. default_comparison ft dv err [] = Return ([default_result StrategyComparison dv err], m) \<and>
      map_get m MetadataFallbackUsed = Some (VBool False) \<and> map_get m MetadataIsDefault = Some (VBool True) \<and>
      map_get m MetadataNoneFound = None"
    and "\<exists>m. default_comparison ft dv (Some t) [(MetadataEvaluationError, VString t)] =
        Return ([default_result StrategyComparison dv (Some t)], m) \<and>
      map_get m MetadataFallbackUsed = Some (VBool False) \<and> map_get m MetadataIsDefault = Some (VBool True) \<and>
      map_get m MetadataNoneFound = None"
  using assms by (simp_all add: default_comparison_def comparison_keys)

lemma default_return_result:
  assumes "is_default_return ft dv out" "default_fits ft dv" "GetBool_law gb" "GetString_law gs"
  shows "\<exists>r. bind_outcome out (comparison_result gb gs) = Return r \<and> Value r = dv \<and>
    Reason (Detail r) = DefaultReason \<and>
    ResolutionError (Detail r) = NewGeneralResolutionError ''comparison failure''"
proof -
  obtain err m where "out = Return ([default_result StrategyComparison dv err], m)"
      "map_get m MetadataFallbackUsed = Some (VBool False)" "map_get m MetadataIsDefault = Some (VBool True)"
      "map_get m MetadataNoneFound = None"
    using assms(1) default_comparison_eq [OF assms(2)] unfolding is_default_return_def by metis
  then show ?thesis
    by (simp add: comparison_result_def comparisonResolutionReason_eq [OF assms(3)]
        comparisonResolutionError_eq [OF assms(3,4)])
qed

lemma fallback_result:
  assumes "GetBool_law gb" "GetString_law gs" "FlagMetadata (rw_detail (e \<lparr>np_Name = ''fallback'', np_Provider = fb\<rparr>)) = Some f"
    "compFunc eq (map (\<lambda>r. Value (rw_result r)) rs) = Return False"
  shows "\<exists>r. bind_outcome (continueComparison ft eq e (Some fb) dv rs) (comparison_result gb gs) = Return r \<and>
    Value r = Value (rw_result (e \<lparr>np_Name = ''fallback'', np_Provider = fb\<rparr>)) \<and>
    Reason (Detail r) = ReasonAggregatedFallback \<and> ResolutionError (Detail r) = NoResolutionError"
  using assms(3,4)
  by (simp add: continueComparison_def comparison_result_def comparisonResolutionReason_eq [OF assms(1)]
      comparisonResolutionError_eq [OF assms(1,2)] comparison_keys)

lemma fallback_panics:
  assumes "FlagMetadata (rw_detail (e \<lparr>np_Name = ''fallback'', np_Provider = fb\<rparr>)) = None"
    "compFunc eq (map (\<lambda>r. Value (rw_result r)) rs) = Return False"
  shows "continueComparison ft eq e (Some fb) dv rs = Panic ''assignment to entry in nil map''"
  using assms by (simp add: continueComparison_def)

lemma agreement_result:
  assumes "GetBool_law gb" "GetString_law gs"
    "compFunc eq (map (\<lambda>r. Value (rw_result r)) (w # ws)) = Return True"
  shows "bind_outcome (continueComparison ft eq e fb dv (w # ws)) (comparison_result gb gs) =
    Return \<lparr>Value = Value (rw_result w), Detail = \<lparr>ResolutionError = NoResolutionError,
      Reason = ReasonAggregated, Variant = Variant (rw_detail w),
      FlagMetadata = agreement_metadata (w # ws)\<rparr>\<rparr>"
proof -
  have "continueComparison ft eq e fb dv (w # ws) = Return (w # ws, agreement_metadata (w # ws))"
    using assms(3) by (simp add: continueComparison_def)
  then show ?thesis
    using agreement_reason [OF assms(1), of "w # ws"] agreement_no_error [OF assms(1,2), of "w # ws"]
    by (simp add: comparison_result_def)
qed

lemma disagreement_result:
  assumes "compFunc eq (map (\<lambda>r. Value (rw_result r)) ws) = Return False" "default_fits ft dv"
  shows "is_default_return ft dv (continueComparison ft eq e None dv ws)"
  using assms by (auto simp: continueComparison_def is_default_return_def)

section \<open>What was received\<close>

lemma receives_complete:
  assumes "receives outer e ps (us @ vs)" "list_all is_answer us" "length us = length ps"
  shows "mset (map untimed us) = mset (List.map_filter (\<lambda>p. provider_message (e p)) ps)"
    and "\<forall>p \<in> set ps. provider_message (e p) \<noteq> None"
proof -
  let ?all = "List.map_filter (\<lambda>p. provider_message (e p)) ps"
  have us: "filter is_answer us = us" using assms(2) by (simp add: list_all_iff)
  have sub: "mset (map untimed us) + mset (map untimed (filter is_answer vs)) \<subseteq># mset ?all"
    using assms(1) us by (simp add: receives_def)
  have le: "length ?all = length (filter (\<lambda>p. provider_message (e p) \<noteq> None) ps)"
    by (simp add: map_filter_def)
  have "length us \<le> length ?all"
    using size_mset_mono [OF sub] by simp
  with assms(3) le have full: "length (filter (\<lambda>p. provider_message (e p) \<noteq> None) ps) = length ps"
    using length_filter_le [of "\<lambda>p. provider_message (e p) \<noteq> None" ps] by linarith
  then show "\<forall>p \<in> set ps. provider_message (e p) \<noteq> None" by (auto dest: filter_full)
  have "size (mset (map untimed us)) = size (mset ?all)" using assms(3) le full by simp
  moreover have "mset (map untimed us) \<subseteq># mset ?all"
    using sub by (meson mset_subset_eq_add_left subset_mset.order_trans)
  ultimately show "mset (map untimed us) = mset ?all"
    by (metis mset_subset_size nat_neq_iff subset_mset.le_imp_less_or_eq)
qed

lemma answers_untimed: "answers (map untimed ms) = answers ms"
  by (induction ms) (auto, metis answers_simps message.exhaust untimed.simps)

lemma answers_set: "w \<in> set (answers ms) \<longleftrightarrow> MResult w \<in> set ms"
proof (induction ms)
  case (Cons m ms)
  then show ?case by (cases m) auto
qed simp

lemma received_answers:
  assumes "receives outer e ps (us @ vs)" "list_all is_answer us" "length us = length ps"
  shows "set (answers us) = {e p |p. p \<in> set ps \<and> \<not> is_not_found (rw_detail (e p))}"
    and "\<forall>p \<in> set ps. is_not_found (rw_detail (e p)) \<or> \<not> has_error (rw_detail (e p))"
proof -
  note r = receives_complete [OF assms]
  have "set (answers us) = set (answers (map untimed us))" by (simp add: answers_untimed)
  also have "\<dots> = {w. MResult w \<in> set (List.map_filter (\<lambda>p. provider_message (e p)) ps)}"
    using mset_eq_setD [OF r(1)] answers_set [of _ "map untimed us"] by blast
  also have "\<dots> = {e p |p. p \<in> set ps \<and> \<not> is_not_found (rw_detail (e p)) \<and> \<not> has_error (rw_detail (e p))}"
    by (auto simp: map_filter_def provider_message_def split: if_splits)
  finally show "set (answers us) = {e p |p. p \<in> set ps \<and> \<not> is_not_found (rw_detail (e p))}"
    using r(2) by (auto simp: provider_message_def split: if_splits)
  show "\<forall>p \<in> set ps. is_not_found (rw_detail (e p)) \<or> \<not> has_error (rw_detail (e p))"
    using r(2) by (auto simp: provider_message_def split: if_splits)
qed

section \<open>The comparator\<close>

lemma compFunc_all_pairs:
  assumes "symp eq" "transp eq"
  shows "compFunc eq (x # xs) =
    Return (xs = [] \<or> list_all (\<lambda>a. list_all (\<lambda>b. eq a b) (x # xs)) (x # xs))"
proof -
  have "eq a b" if ab: "list_all (\<lambda>v. eq x v) xs" "a \<in> set (x # xs)" "b \<in> set (x # xs)" "xs \<noteq> []" for a b
  proof -
    have all: "eq x v" "eq v x" if "v \<in> set xs" for v
      using that ab(1) assms(1) by (auto simp: list_all_iff dest: sympD)
    obtain y where "y \<in> set xs" using ab(4) by (meson list.set_sel(1))
    then have refl: "eq x x" using all assms(2) by (blast dest: transpD)
    with all have "eq a x" "eq x b" using ab(2,3) by auto
    then show ?thesis using assms(2) by (blast dest: transpD)
  qed
  then show ?thesis by (auto simp: list_all_iff)
qed

lemma compFunc_permute:
  assumes "symp eq" "transp eq" "mset xs = mset ys"
  shows "compFunc eq xs = compFunc eq ys"
proof (cases xs)
  case Nil
  with assms(3) show ?thesis by simp
next
  case (Cons x xs')
  with assms(3) obtain y ys' where ys: "ys = y # ys'" by (cases ys) auto
  have "set xs = set ys" using assms(3) by (rule mset_eq_setD)
  moreover have "length xs' = length ys'" using mset_eq_length [OF assms(3)] Cons ys by simp
  ultimately show ?thesis
    unfolding Cons ys compFunc_all_pairs [OF assms(1,2)] by (simp only: list_all_iff) auto
qed

lemma answers_permute: "mset ms = mset ms' \<Longrightarrow> mset (answers ms) = mset (answers ms')"
  by (simp add: answers_def map_filter_def)

lemma go_equalities: "symp ((=) :: 'a \<Rightarrow> 'a \<Rightarrow> bool)" "transp ((=) :: 'a \<Rightarrow> 'a \<Rightarrow> bool)" "symp float_eq" "transp float_eq"
  by (auto simp: symp_def transp_def float_eq_def float_is_zero_def)

section \<open>Properties\<close>

definition provider_answer :: "'v flag_type \<Rightarrow> string \<Rightarrow> 'v \<Rightarrow> go_map \<Rightarrow> NamedProvider \<Rightarrow> 'v resolution_detail" where
  "provider_answer ft flag dv ctx p = ft_evaluation ft (np_Provider p) flag dv ctx"

text \<open>The three results a comparison of several providers may give.\<close>

definition agreed ::
  "'v flag_type \<Rightarrow> ('v \<Rightarrow> 'v \<Rightarrow> bool) \<Rightarrow> string \<Rightarrow> 'v \<Rightarrow> go_map \<Rightarrow> NamedProvider list \<Rightarrow> 'v resolution_detail \<Rightarrow> bool" where
  "agreed ft eq flag dv ctx ps r \<longleftrightarrow>
     Reason (Detail r) = ReasonAggregated \<and> \<not> has_error (Detail r) \<and>
     (\<exists>p \<in> set ps. \<not> has_error (Detail (provider_answer ft flag dv ctx p)) \<and>
        Value r = Value (provider_answer ft flag dv ctx p)) \<and>
     (\<forall>p \<in> set ps. is_not_found (Detail (provider_answer ft flag dv ctx p)) \<or>
        (\<not> has_error (Detail (provider_answer ft flag dv ctx p)) \<and>
          (Value (provider_answer ft flag dv ctx p) = Value r \<or> eq (Value r) (Value (provider_answer ft flag dv ctx p)))))"

definition fell_back ::
  "'v flag_type \<Rightarrow> string \<Rightarrow> 'v \<Rightarrow> go_map \<Rightarrow> feature_provider option \<Rightarrow> 'v resolution_detail \<Rightarrow> bool" where
  "fell_back ft flag dv ctx fallback r \<longleftrightarrow>
     Reason (Detail r) = ReasonAggregatedFallback \<and> \<not> has_error (Detail r) \<and>
     (\<exists>fb. fallback = Some fb \<and> Value r = Value (ft_evaluation ft fb flag dv ctx))"

definition defaulted :: "'v \<Rightarrow> 'v resolution_detail \<Rightarrow> bool" where
  "defaulted dv r \<longleftrightarrow> Reason (Detail r) = DefaultReason \<and> Value r = dv \<and>
     ResolutionError (Detail r) = NewGeneralResolutionError ''comparison failure''"

lemma evaluateComparison_many:
  "length ps \<noteq> 1 \<Longrightarrow> evaluateComparison ft eq ps e fb dv ms =
     comparison_loop ft eq e fb dv (length ps) [] 0 ms"
  by (cases ps rule: list.exhaust; cases "tl ps") (auto simp: evaluateComparison_def)

lemma comparison_agreement:
  assumes "GetBool_law gb" "GetString_law gs" "receives outer (eval_with ft flag dv ctx) ps (us @ vs)"
    "list_all is_answer us" "length us = length ps" "answers us = w # ws"
    "compFunc eq (map (\<lambda>r. Value (rw_result r)) (w # ws)) = Return True"
    "bind_outcome (continueComparison ft eq (eval_with ft flag dv ctx) fb dv (w # ws)) (comparison_result gb gs) = Return r"
  shows "agreed ft eq flag dv ctx ps r"
proof -
  note rec = received_answers [OF assms(3-5)]
  have r: "Value r = Value (rw_result w)" "Reason (Detail r) = ReasonAggregated" "\<not> has_error (Detail r)"
    using agreement_result [OF assms(1,2,7), of ft "eval_with ft flag dv ctx" fb dv] assms(8)
    by (auto simp: has_error_def)
  obtain p where p: "p \<in> set ps" "w = eval_with ft flag dv ctx p" "\<not> is_not_found (rw_detail w)"
  proof -
    have "w \<in> set (answers us)" using assms(6) by simp
    then show ?thesis using rec(1) that by auto
  qed
  have others: "Value (provider_answer ft flag dv ctx q) = Value r \<or> eq (Value r) (Value (provider_answer ft flag dv ctx q))"
    if "q \<in> set ps" "\<not> is_not_found (Detail (provider_answer ft flag dv ctx q))" for q
  proof -
    have "eval_with ft flag dv ctx q \<in> set (w # ws)"
      using that rec(1) assms(6) by (auto simp: provider_answer_def)
    then show ?thesis using assms(7) r(1) by (auto simp: list_all_iff provider_answer_def)
  qed
  have "Value r = Value (provider_answer ft flag dv ctx p)" "\<not> has_error (Detail (provider_answer ft flag dv ctx p))"
    using p r(1) rec(2) by (auto simp: provider_answer_def)
  with p(1) r(2,3) others rec(2) show ?thesis
    unfolding agreed_def by (auto simp: provider_answer_def)
qed

text \<open>What the providers answered: a failure is an error other than not-found; the others that know the flag.\<close>

definition fails :: "'v resolution_detail \<Rightarrow> bool" where
  "fails a \<longleftrightarrow> has_error (Detail a) \<and> \<not> is_not_found (Detail a)"

definition known_answers :: "'v flag_type \<Rightarrow> string \<Rightarrow> 'v \<Rightarrow> go_map \<Rightarrow> NamedProvider list \<Rightarrow> 'v resolution_detail list" where
  "known_answers ft flag dv ctx ps = filter (\<lambda>a. \<not> is_not_found (Detail a)) (map (provider_answer ft flag dv ctx) ps)"

definition concur :: "('v \<Rightarrow> 'v \<Rightarrow> bool) \<Rightarrow> 'v list \<Rightarrow> bool" where
  "concur eq vs \<longleftrightarrow> length vs \<le> 1 \<or> (\<forall>a \<in> set vs. \<forall>b \<in> set vs. eq a b)"

text \<open>The result that the answers determine when no provider fails and the context stays alive.\<close>

definition settled ::
  "'v flag_type \<Rightarrow> ('v \<Rightarrow> 'v \<Rightarrow> bool) \<Rightarrow> string \<Rightarrow> 'v \<Rightarrow> go_map \<Rightarrow> ComparisonStrategy \<Rightarrow> 'v resolution_detail outcome \<Rightarrow> bool" where
  "settled ft eq flag dv ctx c out \<longleftrightarrow>
     (let vs = map Value (known_answers ft flag dv ctx (cs_providers c))
      in if vs = [] then \<exists>r. out = Return r \<and> defaulted dv r
         else if concur eq vs then \<exists>r. out = Return r \<and> agreed ft eq flag dv ctx (cs_providers c) r
         else case cs_fallbackProvider c of
           None \<Rightarrow> \<exists>r. out = Return r \<and> defaulted dv r
         | Some fb \<Rightarrow>
             if FlagMetadata (Detail (ft_evaluation ft fb flag dv ctx)) = None then \<exists>msg. out = Panic msg
             else \<exists>r. out = Return r \<and> fell_back ft flag dv ctx (cs_fallbackProvider c) r)"

lemma comparison_loop_returns:
  "(\<exists>t. MDone t \<in> set ms) \<or> length results + nf + length ms = n \<Longrightarrow> length results + nf < n \<Longrightarrow>
     comparison_loop ft eq e fb dv n results nf ms \<noteq> None"
proof (induction ms arbitrary: results nf)
  case (Cons m ms)
  show ?case
  proof (cases m)
    case (MResult r)
    with Cons.prems Cons.IH [of "results @ [r]" nf] show ?thesis by auto
  next
    case (MNotFound t)
    with Cons.prems Cons.IH [of results "nf + 1"] show ?thesis by auto
  qed simp
qed simp

lemma answers_sent:
  "answers (List.map_filter (\<lambda>p. provider_message (e p)) ps) =
     filter (\<lambda>w. \<not> is_not_found (rw_detail w) \<and> \<not> has_error (rw_detail w)) (map e ps)"
  by (induction ps) (auto simp: map_filter_simps provider_message_def answers_def)

lemma received_values:
  assumes "receives outer (eval_with ft flag dv ctx) ps (us @ vs)" "list_all is_answer us" "length us = length ps"
  shows "mset (map (\<lambda>r. Value (rw_result r)) (answers us)) = mset (map Value (known_answers ft flag dv ctx ps))"
    and "\<not> (\<exists>p \<in> set ps. fails (provider_answer ft flag dv ctx p))"
proof -
  let ?e = "eval_with ft flag dv ctx"
  have known: "\<forall>p \<in> set ps. is_not_found (rw_detail (?e p)) \<or> \<not> has_error (rw_detail (?e p))"
    by (rule received_answers(2) [OF assms])
  then show "\<not> (\<exists>p \<in> set ps. fails (provider_answer ft flag dv ctx p))" by (auto simp: fails_def provider_answer_def)
  have "mset (answers us) = mset (answers (map untimed us))" by (simp add: answers_untimed)
  also have "\<dots> = mset (filter (\<lambda>w. \<not> is_not_found (rw_detail w) \<and> \<not> has_error (rw_detail w)) (map ?e ps))"
    using answers_permute [OF receives_complete(1) [OF assms]] by (simp add: answers_sent)
  also have "filter (\<lambda>w. \<not> is_not_found (rw_detail w) \<and> \<not> has_error (rw_detail w)) (map ?e ps) =
      filter (\<lambda>w. \<not> is_not_found (rw_detail w)) (map ?e ps)"
    by (rule filter_cong) (use known in auto)
  finally have "mset (map (\<lambda>r. Value (rw_result r)) (answers us)) =
      mset (map (\<lambda>r. Value (rw_result r)) (filter (\<lambda>w. \<not> is_not_found (rw_detail w)) (map ?e ps)))"
    by (metis mset_map)
  also have "map (\<lambda>r. Value (rw_result r)) (filter (\<lambda>w. \<not> is_not_found (rw_detail w)) (map ?e ps)) =
      map Value (known_answers ft flag dv ctx ps)"
    by (simp add: known_answers_def filter_map comp_def provider_answer_def)
  finally show "mset (map (\<lambda>r. Value (rw_result r)) (answers us)) = mset (map Value (known_answers ft flag dv ctx ps))" .
qed

lemma continue_settled:
  assumes "symp eq" "transp eq" "GetBool_law gb" "GetString_law gs" "default_fits ft dv"
    and us: "receives outer (eval_with ft flag dv ctx) (cs_providers c) (us @ vs)" "list_all is_answer us"
      "length us = length (cs_providers c)" "answers us = w # ws"
  shows "settled ft eq flag dv ctx c (bind_outcome
    (continueComparison ft eq (eval_with ft flag dv ctx) (cs_fallbackProvider c) dv (w # ws)) (comparison_result gb gs))"
proof -
  let ?e = "eval_with ft flag dv ctx" and ?known = "map Value (known_answers ft flag dv ctx (cs_providers c))"
  let ?vs = "map (\<lambda>r. Value (rw_result r)) (w # ws)"
  have perm: "mset ?vs = mset ?known" using received_values(1) [OF us(1-3)] us(4) by simp
  have ne: "?known \<noteq> []" using arg_cong [OF perm, of size] by auto
  have comp: "compFunc eq ?vs = Return (concur eq ?known)"
  proof -
    have "compFunc eq ?vs = Return (concur eq ?vs)"
      using compFunc_all_pairs [OF assms(1,2), of "Value (rw_result w)" "map (\<lambda>r. Value (rw_result r)) ws"]
      by (simp only: list.map) (auto simp: concur_def list_all_iff)
    moreover have "concur eq ?vs = concur eq ?known"
      unfolding concur_def using mset_eq_length [OF perm] mset_eq_setD [OF perm] by metis
    ultimately show ?thesis by simp
  qed
  show ?thesis
  proof (cases "concur eq ?known")
    case True
    then have agree: "compFunc eq ?vs = Return True" using comp by simp
    obtain r where "bind_outcome (continueComparison ft eq ?e (cs_fallbackProvider c) dv (w # ws)) (comparison_result gb gs) = Return r"
      using agreement_result [OF assms(3,4) agree] by blast
    with comparison_agreement [OF assms(3,4) us(1-4) agree this] ne True show ?thesis by (simp add: settled_def Let_def del: bind_outcome_Return_iff)
  next
    case False
    then have differ: "compFunc eq ?vs = Return False" using comp by simp
    show ?thesis
    proof (cases "cs_fallbackProvider c")
      case None
      from default_return_result [OF disagreement_result [OF differ assms(5), where e = ?e] assms(5,3,4)] None ne False
      show ?thesis unfolding settled_def Let_def defaulted_def by (auto simp del: bind_outcome_Return_iff)
    next
      case (Some fb)
      show ?thesis
      proof (cases "FlagMetadata (Detail (ft_evaluation ft fb flag dv ctx))")
        case None
        from fallback_panics [where e = ?e and ft = ft and fb = fb and dv = dv, OF _ differ] None Some ne False show ?thesis
          by (simp add: settled_def Let_def del: bind_outcome_Return_iff)
      next
        case (Some f)
        from fallback_result [where e = ?e and ft = ft and dv = dv and fb = fb and f = f, OF assms(3,4) _ differ] Some
        obtain r where "bind_outcome (continueComparison ft eq ?e (Some fb) dv (w # ws)) (comparison_result gb gs) = Return r"
          "Value r = Value (ft_evaluation ft fb flag dv ctx)" "Reason (Detail r) = ReasonAggregatedFallback"
          "ResolutionError (Detail r) = NoResolutionError" by (auto simp del: bind_outcome_Return_iff)
        with Some \<open>cs_fallbackProvider c = Some fb\<close> ne False show ?thesis
          by (simp add: settled_def Let_def fell_back_def has_error_def del: bind_outcome_Return_iff)
      qed
    qed
  qed
qed

text \<open>When no provider fails and nobody ends the context, every provider's message has come and no other.\<close>

lemma undisturbed_messages:
  assumes "receives {} (eval_with ft flag dv ctx) ps ms" "\<not> (\<exists>p \<in> set ps. fails (provider_answer ft flag dv ctx p))"
  shows "list_all (\<lambda>m. is_answer m \<and> untimed m = m) ms"
proof -
  have "\<forall>p \<in> set ps. provider_message (eval_with ft flag dv ctx p) \<noteq> None"
    using assms(2) by (auto simp: provider_message_def fails_def provider_answer_def)
  then have "ctx_errors {} (eval_with ft flag dv ctx) ps = {}" by (auto simp: ctx_errors_def)
  then have "message_ctx m = {}" if "m \<in> set ms" for m using assms(1) that by (auto simp: receives_def)
  moreover have "message_ctx m = {} \<Longrightarrow> is_answer m \<and> untimed m = m" for m :: "'a message"
    by (cases m) (auto simp: is_answer_def)
  ultimately show ?thesis by (simp add: list_all_iff)
qed


text \<open>The SDK's readers as functions, and three providers at which the properties are instantiated.\<close>

definition demo_GetBool :: "bool reader" where
  "demo_GetBool m k = (case map_get m k of Some (VBool b) \<Rightarrow> (b, None) | _ \<Rightarrow> (False, Some ''wrong type''))"

definition demo_GetString :: "string reader" where
  "demo_GetString m k = (case map_get m k of Some (VString s) \<Rightarrow> (s, None) | _ \<Rightarrow> ([], Some ''wrong type''))"

lemma demo_readers [simp]: "GetBool_law demo_GetBool" "GetString_law demo_GetString"
  by (auto simp: GetBool_law_def GetString_law_def demo_GetBool_def demo_GetString_def
      split: option.splits go_any.splits)

definition demo_comparison :: ComparisonStrategy where
  "demo_comparison = NewComparisonStrategy [demo_known True, demo_unknown, (demo_known True)\<lparr>np_Name := ''a''\<rparr>]
     (Some (answering \<lparr>Value = True, Detail = empty_detail\<rparr>))"

abbreviation demo_eval :: "bool evaluator" where
  "demo_eval \<equiv> eval_with bool_flag ''flag'' False None"

definition demo_messages :: "bool message list" where
  "demo_messages = [MResult (demo_eval (demo_known True)), MNotFound None,
     MResult (demo_eval ((demo_known True)\<lparr>np_Name := ''a''\<rparr>))]"

lemma demo_details:
  "\<not> has_error (Detail (p_Boolean (np_Provider (demo_known b)) flag d ctx))"
  "\<not> is_not_found (Detail (p_Boolean (np_Provider (demo_known b)) flag d ctx))"
  "is_not_found (Detail (p_Boolean (np_Provider demo_unknown) flag d ctx))"
  by (simp_all add: demo_provider_defs has_error_def is_not_found_def empty_detail_def)

lemma demo_receives: "receives {} demo_eval (cs_providers demo_comparison) demo_messages"
  by (simp add: receives_def demo_messages_def demo_comparison_def NewComparisonStrategy_def
      map_filter_simps provider_message_def demo_details)

text \<open>Two providers that agree beside one that does not know the flag; the same with one that fails.\<close>

lemma demo_agrees:
  "known_answers bool_flag ''flag'' False None (cs_providers demo_comparison) = [provider_answer bool_flag ''flag'' False None (demo_known True),
     provider_answer bool_flag ''flag'' False None ((demo_known True)\<lparr>np_Name := ''a''\<rparr>)]"
  "\<not> (\<exists>p \<in> set (cs_providers demo_comparison). fails (provider_answer bool_flag ''flag'' False None p))"
  by (simp_all add: known_answers_def fails_def demo_comparison_def NewComparisonStrategy_def provider_answer_def demo_details)


text \<open>
  An evaluation with one provider returns that provider's value and variant and drops its
  error: the result has no resolution error whatever the provider answered.
\<close>

theorem comparison_single_provider_drops_error:
  assumes "GetBool_law gb" "GetString_law gs" "cs_providers c = [p]"
  shows "\<exists>m. comparison_method ft eq gb gs c flag dv ctx ms = Some (Return
    \<lparr>Value = Value (provider_answer ft flag dv ctx p),
     Detail = \<lparr>ResolutionError = NoResolutionError, Reason = ReasonAggregated,
       Variant = Variant (Detail (provider_answer ft flag dv ctx p)), FlagMetadata = m\<rparr>\<rparr>) \<and>
    map_get m MetadataSuccessfulProviderName = Some (VString (np_Name p))"
proof -
  let ?m = "Some ((map_view make_map)(MetadataSuccessfulProviderName \<mapsto> VString (np_Name p),
      MetadataStrategyUsed \<mapsto> VString StrategyComparison, MetadataFallbackUsed \<mapsto> VBool False))"
  have "comparison_method ft eq gb gs c flag dv ctx ms =
      Some (comparison_result gb gs ([eval_with ft flag dv ctx p], ?m))"
    using assms(3) by (simp add: comparison_method_def evaluateComparison_def Let_def setFlagMetadata_view)
  then show ?thesis
    by (simp add: comparison_result_def comparisonResolutionReason_eq [OF assms(1)]
        comparisonResolutionError_eq [OF assms(1,2)] comparison_keys provider_answer_def)
qed

theorem comparison_single_provider_drops_error_witness:
  "\<exists>m. comparison_method bool_flag (=) demo_GetBool demo_GetString (NewComparisonStrategy [demo_failing] None)
      ''flag'' False None [] = Some (Return
    \<lparr>Value = Value (provider_answer bool_flag ''flag'' False None demo_failing),
     Detail = \<lparr>ResolutionError = NoResolutionError, Reason = ReasonAggregated,
       Variant = Variant (Detail (provider_answer bool_flag ''flag'' False None demo_failing)), FlagMetadata = m\<rparr>\<rparr>) \<and>
    map_get m MetadataSuccessfulProviderName = Some (VString (np_Name demo_failing))"
  by (rule comparison_single_provider_drops_error) (simp_all add: NewComparisonStrategy_def)

text \<open>When an evaluation of several providers may panic: only for a fallback without metadata.\<close>

lemma comparison_loop_outcomes:
  assumes "comparison_loop ft eq e fb dv n [] 0 ms = Some out"
  shows "is_default_return ft dv out \<or>
    (\<exists>w ws. out = continueComparison ft eq e fb dv (w # ws))"
  using comparison_loop_start [OF assms] by (metis neq_Nil_conv)

lemma continueComparison_returns:
  assumes "default_fits ft dv" "GetBool_law gb" "GetString_law gs"
    and "\<And>f. fb = Some f \<Longrightarrow> FlagMetadata (rw_detail (e \<lparr>np_Name = ''fallback'', np_Provider = f\<rparr>)) \<noteq> None"
  shows "returns (bind_outcome (continueComparison ft eq e fb dv (w # ws)) (comparison_result gb gs))"
proof -
  consider (agree) "compFunc eq (map (\<lambda>r. Value (rw_result r)) (w # ws)) = Return True"
    | (differ) "compFunc eq (map (\<lambda>r. Value (rw_result r)) (w # ws)) = Return False" by fastforce
  then show ?thesis
  proof cases
    case agree
    then show ?thesis by (simp only: agreement_result [OF assms(2,3) agree] returns_simps)
  next
    case differ
    show ?thesis
    proof (cases fb)
      case None
      from default_return_result [OF disagreement_result [OF differ assms(1)] assms(1-3)] None
      show ?thesis unfolding returns_def by metis
    next
      case (Some f)
      with assms(4) obtain g where "FlagMetadata (rw_detail (e \<lparr>np_Name = ''fallback'', np_Provider = f\<rparr>)) = Some g"
        by blast
      from fallback_result [where e = e and dv = dv and ft = ft, OF assms(2,3) this differ] Some
      show ?thesis unfolding returns_def by metis
    qed
  qed
qed

text \<open>
  No panic: with a fallback provider that returns metadata, or none at all, no schedule makes
  an evaluation panic; in particular the comparator never indexes an empty list and the result
  list is never empty.
\<close>

theorem comparison_never_panics:
  assumes "GetBool_law gb" "GetString_law gs" "default_fits ft dv"
    and "\<And>fb. cs_fallbackProvider c = Some fb \<Longrightarrow> FlagMetadata (Detail (ft_evaluation ft fb flag dv ctx)) \<noteq> None"
    and "comparison_method ft eq gb gs c flag dv ctx ms = Some out"
  shows "returns out"
proof (cases "length (cs_providers c) = 1")
  case True
  then obtain p where "cs_providers c = [p]" by (auto simp: length_Suc_conv)
  with assms(5) show ?thesis
    by (auto simp: comparison_method_def evaluateComparison_def Let_def setFlagMetadata_view comparison_result_def)
next
  case False
  let ?e = "eval_with ft flag dv ctx"
  obtain res where res: "comparison_loop ft eq ?e (cs_fallbackProvider c) dv (length (cs_providers c)) [] 0 ms = Some res"
      "out = bind_outcome res (comparison_result gb gs)"
    using assms(5) unfolding comparison_method_def evaluateComparison_many [OF False] by auto
  from comparison_loop_outcomes [OF res(1)] show ?thesis
  proof (elim disjE exE)
    assume "is_default_return ft dv res"
    from default_return_result [OF this assms(3,1,2)] res(2) show ?thesis by (auto simp: returns_def)
  next
    fix w ws
    assume "res = continueComparison ft eq ?e (cs_fallbackProvider c) dv (w # ws)"
    with continueComparison_returns [OF assms(3,1,2), of "cs_fallbackProvider c" ?e eq w ws] assms(4) res(2)
    show ?thesis by simp
  qed
qed

theorem comparison_never_panics_witness:
  "returns (the (comparison_method bool_flag (=) demo_GetBool demo_GetString
     (NewComparisonStrategy [demo_known True, demo_known False] None) ''flag'' False None
     [MResult (demo_eval (demo_known True)), MResult (demo_eval (demo_known False))]))"
proof (rule comparison_never_panics [where c = "NewComparisonStrategy [demo_known True, demo_known False] None"
      and ft = bool_flag and eq = "(=)" and ms = "[MResult (demo_eval (demo_known True)), MResult (demo_eval (demo_known False))]"
      and dv = False and flag = "''flag''" and ctx = None, OF demo_readers])
  show "comparison_method bool_flag (=) demo_GetBool demo_GetString
     (NewComparisonStrategy [demo_known True, demo_known False] None) ''flag'' False None
     [MResult (demo_eval (demo_known True)), MResult (demo_eval (demo_known False))] =
    Some (the (comparison_method bool_flag (=) demo_GetBool demo_GetString
     (NewComparisonStrategy [demo_known True, demo_known False] None) ''flag'' False None
     [MResult (demo_eval (demo_known True)), MResult (demo_eval (demo_known False))]))"
    by (simp add: comparison_method_def evaluateComparison_def NewComparisonStrategy_def)
qed (simp_all add: NewComparisonStrategy_def)

section \<open>Order of arrival\<close>

lemma agreement_foldl:
  "distinct (map rw_name rs) \<Longrightarrow>
     foldl (\<lambda>m r. m(rw_name r \<mapsto> VMetadata (FlagMetadata (rw_detail r)))) m0 rs =
     m0 ++ map_of (map (\<lambda>r. (rw_name r, VMetadata (FlagMetadata (rw_detail r)))) rs)"
proof (induction rs arbitrary: m0)
  case (Cons r rs)
  then have "map_of (map (\<lambda>r. (rw_name r, VMetadata (FlagMetadata (rw_detail r)))) rs) (rw_name r) = None"
    by (auto simp: map_of_eq_None_iff image_iff)
  with Cons show ?case by (auto simp: fun_eq_iff map_add_def split: option.split)
qed simp

lemma sort_permute: "mset xs = mset ys \<Longrightarrow> sort xs = sort (ys :: string list)"
  by (metis sorted_list_of_multiset_mset)

lemma agreement_metadata_permute:
  assumes "mset rs = mset rs'" "distinct (map rw_name rs)"
  shows "agreement_metadata rs = agreement_metadata rs'"
proof -
  let ?kv = "\<lambda>r. (rw_name r, VMetadata (FlagMetadata (rw_detail r)))"
  have names: "mset (map rw_name rs) = mset (map rw_name rs')"
    using arg_cong [OF assms(1), of "image_mset rw_name"] by simp
  then have d': "distinct (map rw_name rs')" using assms(2) by (metis mset_eq_imp_distinct_iff)
  have "map_of (map ?kv rs) = map_of (map ?kv rs')"
    by (rule map_of_inject_set [THEN iffD2])
      (use assms d' mset_eq_setD [OF assms(1)] in \<open>simp_all add: comp_def\<close>)
  with agreement_foldl [OF assms(2)] agreement_foldl [OF d'] sort_permute [OF names] show ?thesis
    by (simp add: agreement_metadata_def Let_def)
qed

text \<open>The part of a result that the order of arrival must not touch.\<close>

definition reported :: "'v resolution_detail \<Rightarrow> resolution_error \<times> string \<times> go_map" where
  "reported r = (ResolutionError (Detail r), Reason (Detail r), FlagMetadata (Detail r))"

lemma comparison_result_reported:
  "map_result reported (comparison_result gb gs (w # ws, m)) =
     Return (comparisonResolutionError gb gs m, comparisonResolutionReason gb m, m)"
  by (simp add: comparison_result_def reported_def)

lemma map_result_bind: "map_result f (bind_outcome r g) = bind_outcome r (\<lambda>x. map_result f (g x))"
  by (cases r) auto

lemma continueComparison_permute:
  assumes "symp eq" "transp eq" "mset rs = mset rs'" "distinct (map rw_name rs)"
  shows "map_result reported (bind_outcome (continueComparison ft eq e fb dv rs) (comparison_result gb gs)) =
    map_result reported (bind_outcome (continueComparison ft eq e fb dv rs') (comparison_result gb gs))"
proof -
  have vals: "mset (map (\<lambda>r. Value (rw_result r)) rs) = mset (map (\<lambda>r. Value (rw_result r)) rs')"
    using arg_cong [OF assms(3), of "image_mset (\<lambda>r. Value (rw_result r))"] by simp
  note comp = compFunc_permute [OF assms(1,2) vals]
  note meta = agreement_metadata_permute [OF assms(3,4)]
  show ?thesis
  proof (cases rs)
    case Nil
    with assms(3) show ?thesis by simp
  next
    case (Cons w ws)
    with assms(3) obtain w' ws' where rs': "rs' = w' # ws'" by (cases rs') auto
    show ?thesis
    proof (cases "compFunc eq (map (\<lambda>r. Value (rw_result r)) rs)")
      case (Return b)
      with comp have "compFunc eq (map (\<lambda>r. Value (rw_result r)) rs') = Return b" by simp
      with Return meta show ?thesis unfolding Cons rs'
        by (cases b) (simp_all add: continueComparison_def comparison_result_reported)
    qed (use comp in \<open>simp add: continueComparison_def\<close>)
  qed
qed

text \<open>
  C11: Order independence: when every provider's message arrives and the context stays alive, the
  error, the reason and the metadata of the result, and whether the evaluation panics, do not
  depend on the order in which the messages arrive (with distinct provider names and a comparator
  that is symmetric and transitive, as Go's equality is).
\<close>

theorem comparison_order_independent:
  assumes "symp eq" "transp eq" "mset ms = mset ms'" "complete (length (cs_providers c)) ms"
    and "distinct (map rw_name (answers ms))"
  shows "map_option (map_result reported) (comparison_method ft eq gb gs c flag dv ctx ms) =
    map_option (map_result reported) (comparison_method ft eq gb gs c flag dv ctx ms')"
proof (cases "length (cs_providers c) = 1 \<or> ms = []")
  case True
  then show ?thesis
  proof
    assume "length (cs_providers c) = 1"
    then obtain p where "cs_providers c = [p]" by (auto simp: length_Suc_conv)
    then show ?thesis by (simp add: comparison_method_def evaluateComparison_def)
  qed (use assms(3) in simp)
next
  case False
  let ?n = "length (cs_providers c)" and ?e = "eval_with ft flag dv ctx"
  have all: "list_all (\<lambda>m. is_answer m \<and> untimed m = m) ms" "length ms = ?n"
    using assms(4) by (simp_all add: complete_def)
  then have all': "list_all (\<lambda>m. is_answer m \<and> untimed m = m) ms'" "length ms' = ?n"
    using mset_eq_setD [OF assms(3)] mset_eq_length [OF assms(3)] by (simp_all add: list_all_iff)
  have ne: "ms \<noteq> []" "ms' \<noteq> []" "0 < ?n" using False assms(3) all(2) by auto
  have loop: "comparison_method ft eq gb gs c flag dv ctx x = Some (bind_outcome
      (if answers x = [] then default_comparison ft dv None []
       else continueComparison ft eq ?e (cs_fallbackProvider c) dv (answers x)) (comparison_result gb gs))"
    if "list_all (\<lambda>m. is_answer m \<and> untimed m = m) x" "length x = ?n" "x \<noteq> []" for x
    using comparison_loop_complete [OF that(1) _ that(3) ne(3), of "[]"] that(2) False
    by (simp add: comparison_method_def evaluateComparison_many)
  have "mset (answers ms) = mset (answers ms')" using assms(3) by (rule answers_permute)
  moreover from this have "(answers ms = []) = (answers ms' = [])" by (metis mset_zero_iff)
  ultimately show ?thesis
    using continueComparison_permute [OF assms(1,2) _ assms(5), of "answers ms'" ft ?e "cs_fallbackProvider c" dv gb gs]
    by (simp add: loop [OF all ne(1)] loop [OF all' ne(2)])
qed

theorem comparison_order_independent_witness:
  "map_option (map_result reported) (comparison_method bool_flag (=) demo_GetBool demo_GetString demo_comparison
      ''flag'' False None demo_messages) =
    map_option (map_result reported) (comparison_method bool_flag (=) demo_GetBool demo_GetString demo_comparison
      ''flag'' False None (rev demo_messages))"
  by (rule comparison_order_independent)
    (simp_all add: go_equalities complete_def demo_messages_def demo_comparison_def NewComparisonStrategy_def
      demo_known_def)

end
