(* ===== verification/MP_Provider.thy ===== *)
theory MP_Provider
  imports MP_FirstMatch MP_FirstSuccess MP_Comparison_Correct
begin

text \<open>
  The multi-provider itself, \<^verbatim>\<open>providers/multi-provider/pkg/providers.go\<close> and \<^verbatim>\<open>options.go\<close>: the
  construction from a map of providers, the choice of the strategy, the evaluation methods,
  initialisation and shutdown.  An evaluation of a strategy is a relation between its arguments
  and what it may return, since two of the strategies run concurrently.
\<close>

section \<open>Strategies behind the interface\<close>

type_synonym 'v strategy_evaluation = "string \<Rightarrow> 'v \<Rightarrow> go_map \<Rightarrow> 'v resolution_detail outcome \<Rightarrow> bool"

record Strategy =
  st_Name :: string
  st_Boolean :: "bool strategy_evaluation"
  st_String :: "string strategy_evaluation"
  st_Float :: "float64 strategy_evaluation"
  st_Int :: "int64 strategy_evaluation"
  st_Object :: "go_any strategy_evaluation"

definition firstMatch_Strategy :: "FirstMatchStrategy \<Rightarrow> Strategy" where
  "firstMatch_Strategy f = \<lparr>st_Name = FirstMatch_Name f,
     st_Boolean = (\<lambda>flag d ctx out. out = FirstMatch_BooleanEvaluation f flag d ctx),
     st_String = (\<lambda>flag d ctx out. out = FirstMatch_StringEvaluation f flag d ctx),
     st_Float = (\<lambda>flag d ctx out. out = FirstMatch_FloatEvaluation f flag d ctx),
     st_Int = (\<lambda>flag d ctx out. out = FirstMatch_IntEvaluation f flag d ctx),
     st_Object = (\<lambda>flag d ctx out. out = FirstMatch_ObjectEvaluation f flag d ctx)\<rparr>"

definition firstSuccess_Strategy :: "(AggregateError \<Rightarrow> string list) \<Rightarrow> FirstSuccessStrategy \<Rightarrow> Strategy" where
  "firstSuccess_Strategy order f = \<lparr>st_Name = FirstSuccess_Name f,
     st_Boolean = FirstSuccess_BooleanEvaluation order f,
     st_String = FirstSuccess_StringEvaluation order f,
     st_Float = FirstSuccess_FloatEvaluation order f,
     st_Int = FirstSuccess_IntEvaluation order f,
     st_Object = FirstSuccess_ObjectEvaluation order f\<rparr>"

text \<open>A comparison may receive any sequence of messages its providers and the context allow.\<close>

definition comparison_evaluation ::
  "'v flag_type \<Rightarrow> ('v \<Rightarrow> 'v \<Rightarrow> bool) \<Rightarrow> bool reader \<Rightarrow> string reader \<Rightarrow> string set \<Rightarrow> ComparisonStrategy \<Rightarrow>
   'v strategy_evaluation" where
  "comparison_evaluation ft eq gb gs outer c flag d ctx out \<longleftrightarrow>
     (\<exists>ms. receives outer (eval_with ft flag d ctx) (cs_providers c) ms \<and>
        comparison_method ft eq gb gs c flag d ctx ms = Some out)"

definition comparison_Strategy ::
  "bool reader \<Rightarrow> string reader \<Rightarrow> string set \<Rightarrow> ComparisonStrategy \<Rightarrow> Strategy" where
  "comparison_Strategy gb gs outer c = \<lparr>st_Name = Comparison_Name c,
     st_Boolean = comparison_evaluation bool_flag (=) gb gs outer c,
     st_String = comparison_evaluation string_flag (=) gb gs outer c,
     st_Float = comparison_evaluation float_flag float_eq gb gs outer c,
     st_Int = comparison_evaluation int_flag (=) gb gs outer c,
     st_Object = (\<lambda>flag d ctx out. out = Return (Comparison_ObjectEvaluation c flag d ctx))\<rparr>"

section \<open>Configuration\<close>

type_synonym slog_logger = string

record Configuration =
  c_useFallback :: bool
  c_fallbackProvider :: "feature_provider option"
  c_customStrategy :: "Strategy option"
  c_logger :: "slog_logger option"
  c_publishEvents :: bool
  c_timeout :: int64

type_synonym MPOption = "Configuration \<Rightarrow> Configuration"

definition MP_WithLogger :: "slog_logger option \<Rightarrow> MPOption" where
  "MP_WithLogger l = c_logger_update (\<lambda>_. l)"
definition MP_WithTimeout :: "int64 \<Rightarrow> MPOption" where
  "MP_WithTimeout d = c_timeout_update (\<lambda>_. d)"
definition MP_WithFallbackProvider :: "feature_provider option \<Rightarrow> MPOption" where
  "MP_WithFallbackProvider p = (\<lambda>conf. conf\<lparr>c_fallbackProvider := p, c_useFallback := True\<rparr>)"
definition MP_WithCustomStrategy :: "Strategy option \<Rightarrow> MPOption" where
  "MP_WithCustomStrategy s = c_customStrategy_update (\<lambda>_. s)"
definition MP_WithEventPublishing :: MPOption where
  "MP_WithEventPublishing = c_publishEvents_update (\<lambda>_. True)"
definition MP_WithoutEventPublishing :: MPOption where
  "MP_WithoutEventPublishing = c_publishEvents_update (\<lambda>_. False)"

section \<open>Provider maps\<close>

text \<open>A provider map; its values are not nil once the constructor has checked them.\<close>

type_synonym ProviderMap = "string \<rightharpoonup> feature_provider"

definition AsNamedProviderSlice :: "(ProviderMap \<Rightarrow> string list) \<Rightarrow> ProviderMap \<Rightarrow> NamedProvider list" where
  "AsNamedProviderSlice order m = map (\<lambda>name. \<lparr>np_Name = name, np_Provider = the (m name)\<rparr>) (order m)"

definition ProviderMap_Size :: "(ProviderMap \<Rightarrow> string list) \<Rightarrow> ProviderMap \<Rightarrow> nat" where
  "ProviderMap_Size order m = length (AsNamedProviderSlice order m)"

fun metadata_names :: "ProviderMap \<Rightarrow> string \<Rightarrow> string \<Rightarrow> string list \<Rightarrow> string" where
  "metadata_names m metaName separator [] = metaName"
| "metadata_names m metaName separator (name # names) =
     metadata_names m (metaName @ separator @ name @ '': '' @ p_Name (the (m name)))
       (if separator = [] then '', '' else separator) names"

definition buildMetadata :: "(ProviderMap \<Rightarrow> string list) \<Rightarrow> ProviderMap \<Rightarrow> string" where
  "buildMetadata order m = metadata_names m ''MultiProvider {'' [] (sort (order m)) @ ''}''"

section \<open>Construction\<close>

text \<open>The state of the zero value is the empty string, here \<open>None\<close>; \<open>mp_events\<close>: a channel exists.\<close>

record MultiProvider =
  mp_providers :: ProviderMap
  mp_metadata :: string
  mp_events :: bool
  mp_status :: "of_state option"
  mp_strategy :: Strategy
  mp_logger :: slog_logger

definition MPStrategyComparison :: string where "MPStrategyComparison = ''comparison''"
definition StrategyCustom :: string where "StrategyCustom = ''strategy-custom''"

text \<open>
  What the constructor takes from its surroundings: the iteration orders of its three loops, the
  order in which an aggregate error is printed, the SDK's metadata readers, the errors the
  context of a comparison may end with, and the default logger.
\<close>

record mp_env =
  env_validate :: "(string \<rightharpoonup> feature_provider option) \<Rightarrow> string list"
  env_range :: "ProviderMap \<Rightarrow> string list"
  env_aggregate :: "AggregateError \<Rightarrow> string list"
  env_GetBool :: "bool reader"
  env_GetString :: "string reader"
  env_outer :: "string set"
  env_logger :: slog_logger

fun validate_providers :: "(string \<rightharpoonup> feature_provider option) \<Rightarrow> string list \<Rightarrow> string option" where
  "validate_providers m [] = None"
| "validate_providers m (name # names) =
     (if name = [] then Some ''provider name cannot be the empty string''
      else if m name = Some None then Some (''provider '' @ name @ '' cannot be nil'')
      else validate_providers m names)"

definition non_nil :: "(string \<rightharpoonup> feature_provider option) \<Rightarrow> ProviderMap" where
  "non_nil m = (\<lambda>n. case m n of Some p \<Rightarrow> p | None \<Rightarrow> None)"

definition choose_strategy ::
  "mp_env \<Rightarrow> Configuration \<Rightarrow> NamedProvider list \<Rightarrow> string \<Rightarrow> string + Strategy" where
  "choose_strategy env config ps evaluationStrategy =
     (if evaluationStrategy = StrategyFirstMatch
      then Inr (firstMatch_Strategy (NewFirstMatchStrategy ps))
      else if evaluationStrategy = StrategyFirstSuccess
      then Inr (firstSuccess_Strategy (env_aggregate env) (NewFirstSuccessStrategy ps (c_timeout config)))
      else if evaluationStrategy = MPStrategyComparison
      then Inr (comparison_Strategy (env_GetBool env) (env_GetString env) (env_outer env)
             (NewComparisonStrategy ps (c_fallbackProvider config)))
      else if evaluationStrategy = StrategyCustom
      then (case c_customStrategy config of
              Some s \<Rightarrow> Inr s
            | None \<Rightarrow> Inl ''A custom strategy must be set via an option if StrategyCustom is set'')
      else Inl ''%!s(<nil>) is an unknown evalutation strategy'')"

definition configured :: "mp_env \<Rightarrow> MPOption list \<Rightarrow> Configuration" where
  "configured env options = foldl (\<lambda>c opt. opt c) \<lparr>c_useFallback = False, c_fallbackProvider = None,
     c_customStrategy = None, c_logger = Some (env_logger env), c_publishEvents = False,
     c_timeout = 0\<rparr> options"

definition NewMultiProvider ::
  "mp_env \<Rightarrow> (string \<rightharpoonup> feature_provider option) \<Rightarrow> string \<Rightarrow> MPOption list \<Rightarrow> string + MultiProvider" where
  "NewMultiProvider env providerMap evaluationStrategy options =
     (if dom providerMap = {} then Inl ''providerMap cannot be nil or empty''
      else case validate_providers providerMap (env_validate env providerMap) of
        Some err \<Rightarrow> Inl err
      | None \<Rightarrow>
         (let config = configured env options;
              logger = (case c_logger config of None \<Rightarrow> env_logger env | Some l \<Rightarrow> l);
              ps = non_nil providerMap;
              config = (if c_timeout config = 0 then config\<lparr>c_timeout := 5000000000\<rparr> else config)
          in case choose_strategy env config (AsNamedProviderSlice (env_range env) ps) evaluationStrategy of
               Inl err \<Rightarrow> Inl err
             | Inr strategy \<Rightarrow> Inr \<lparr>mp_providers = ps, mp_metadata = buildMetadata (env_range env) ps,
                 mp_events = c_publishEvents config, mp_status = None, mp_strategy = strategy,
                 mp_logger = logger\<rparr>))"

section \<open>Operations\<close>

definition mp_Providers :: "(ProviderMap \<Rightarrow> string list) \<Rightarrow> MultiProvider \<Rightarrow> NamedProvider list" where
  "mp_Providers order mp = AsNamedProviderSlice order (mp_providers mp)"

definition mp_ProvidersByName :: "MultiProvider \<Rightarrow> ProviderMap" where
  "mp_ProvidersByName mp = mp_providers mp"

definition mp_EvaluationStrategy :: "MultiProvider \<Rightarrow> string" where
  "mp_EvaluationStrategy mp = st_Name (mp_strategy mp)"

definition mp_BooleanEvaluation :: "MultiProvider \<Rightarrow> bool strategy_evaluation" where
  "mp_BooleanEvaluation mp = st_Boolean (mp_strategy mp)"
definition mp_StringEvaluation :: "MultiProvider \<Rightarrow> string strategy_evaluation" where
  "mp_StringEvaluation mp = st_String (mp_strategy mp)"
definition mp_FloatEvaluation :: "MultiProvider \<Rightarrow> float64 strategy_evaluation" where
  "mp_FloatEvaluation mp = st_Float (mp_strategy mp)"
definition mp_IntEvaluation :: "MultiProvider \<Rightarrow> int64 strategy_evaluation" where
  "mp_IntEvaluation mp = st_Int (mp_strategy mp)"
definition mp_ObjectEvaluation :: "MultiProvider \<Rightarrow> go_any strategy_evaluation" where
  "mp_ObjectEvaluation mp = st_Object (mp_strategy mp)"

text \<open>
  One goroutine of \<^verbatim>\<open>Init\<close>; the error group keeps the error of the first goroutine that fails,
  in the order \<open>finish\<close> in which they end.
\<close>

definition init_provider :: "ProviderMap \<Rightarrow> go_map \<Rightarrow> string \<Rightarrow> ProviderError option" where
  "init_provider m evalCtx name = (case m name of
       None \<Rightarrow> None
     | Some p \<Rightarrow> (case p_Init p of
           None \<Rightarrow> None
         | Some init \<Rightarrow> (case init evalCtx of
               None \<Rightarrow> None
             | Some err \<Rightarrow> Some \<lparr>pe_Err = err, pe_ProviderName = name\<rparr>)))"

fun first_error :: "ProviderError option list \<Rightarrow> ProviderError option" where
  "first_error [] = None"
| "first_error (None # rs) = first_error rs"
| "first_error (Some e # rs) = Some e"

definition mp_Init ::
  "(ProviderMap \<Rightarrow> string list) \<Rightarrow> MultiProvider \<Rightarrow> go_map \<Rightarrow> MultiProvider \<times> ProviderError option" where
  "mp_Init finish mp evalCtx =
     (case first_error (map (init_provider (mp_providers mp) evalCtx) (finish (mp_providers mp))) of
        Some err \<Rightarrow> (mp\<lparr>mp_status := Some ErrorState\<rparr>, Some err)
      | None \<Rightarrow> (mp\<lparr>mp_status := Some ReadyState\<rparr>, None))"

definition mp_Status :: "MultiProvider \<Rightarrow> of_state option" where
  "mp_Status mp = mp_status mp"

text \<open>\<^verbatim>\<open>Shutdown\<close> calls the state handlers, in any order, and leaves the state alone; its result here is the calls.\<close>

definition mp_Shutdown :: "(ProviderMap \<Rightarrow> string list) \<Rightarrow> MultiProvider \<Rightarrow> MultiProvider \<times> string list" where
  "mp_Shutdown order mp =
     (mp, filter (\<lambda>name. p_Init (the (mp_providers mp name)) \<noteq> None) (order (mp_providers mp)))"

end
