(* ===== verification/MP_Provider_Correct.thy ===== *)
theory MP_Provider_Correct
  imports MP_Provider
begin

text \<open>
  Properties of the multi-provider that span its strategies: where a value comes from, what the
  constructor accepts, the name it reports, and the state after initialisation.
\<close>

section \<open>Where values come from\<close>

text \<open>
  The contract all strategies share for one flag type: a value that is returned is the caller's
  default or the value one of the sources returned for this very call.
\<close>

locale value_source =
  fixes ft :: "'v flag_type"
    and sources :: "feature_provider set"
    and eval :: "'v strategy_evaluation"
  assumes sourced: "eval flag dv ctx (Return r) \<Longrightarrow>
    Value r = dv \<or> (\<exists>p \<in> sources. Value r = Value (ft_evaluation ft p flag dv ctx))"
begin

lemma invariant_value:
  assumes "eval flag dv ctx (Return r)" "P dv" "\<And>p. p \<in> sources \<Longrightarrow> P (Value (ft_evaluation ft p flag dv ctx))"
  shows "P (Value r)"
  using sourced [OF assms(1)] assms(2,3) by auto

lemma sources_mono: "sources \<subseteq> S \<Longrightarrow> value_source ft S eval"
  using sourced by unfold_locales blast

end

interpretation fm: value_source ft "np_Provider ` set (fm_providers f)"
  "\<lambda>flag dv ctx out. out = firstMatch_method ft f flag dv ctx" for ft f
proof unfold_locales
  fix flag ctx dv r
  assume "Return r = firstMatch_method ft f flag dv ctx"
  then have "first_match_spec ft (fm_providers f) flag dv ctx = Return r"
    by (simp add: firstMatch_method_spec)
  then show "Value r = dv \<or> (\<exists>p \<in> np_Provider ` set (fm_providers f). Value r = Value (ft_evaluation ft p flag dv ctx))"
  proof (cases "knowing ft flag dv ctx (fm_providers f)")
    case (Some p)
    then have "p \<in> set (fm_providers f)" by (auto simp: knowing_def find_Some_iff)
    with Some \<open>first_match_spec ft (fm_providers f) flag dv ctx = Return r\<close> show ?thesis
      by (auto simp: first_match_spec_def mark_result_def Let_def)
  qed (auto simp: first_match_spec_def)
qed

interpretation fs: value_source ft "np_Provider ` set (fs_providers f)" "firstSuccess_method ft order f" for ft order f
proof unfold_locales
  fix flag ctx dv r
  assume a: "firstSuccess_method ft order f flag dv ctx (Return r)"
  let ?c = "firstSuccess_call ft order f flag dv ctx"
  obtain s out where s: "fs_reachable ?c s" "fs_ret s = Some out" "Return r = map_result firstSuccess_result out"
    using a by (auto simp: firstSuccess_method_def)
  then obtain rm where rm: "out = Return rm" "r = firstSuccess_result rm" by (cases out) auto
  from fs_result_reachable [OF s(1,2)]
  have "(\<exists>p \<in> set (fs_providers f). success_return (fc_eval ?c p) = Return rm) \<or>
      (\<exists>err. default_return ?c err = Return rm)"
    unfolding fs_settled_def fs_cancelled_def rm(1) by (simp add: firstSuccess_call_def) metis
  then show "Value r = dv \<or> (\<exists>p \<in> np_Provider ` set (fs_providers f). Value r = Value (ft_evaluation ft p flag dv ctx))"
  proof (elim disjE bexE exE)
    fix p
    assume "p \<in> set (fs_providers f)" "success_return (fc_eval ?c p) = Return rm"
    with firstSuccess_result_success [OF this(2)] rm(2) show ?thesis
      by (auto simp: firstSuccess_call_def)
  next
    fix err
    assume "default_return ?c err = Return rm"
    from firstSuccess_result_default [OF this] rm(2) show ?thesis by (simp add: firstSuccess_call_def)
  qed
qed

definition comparison_sources :: "ComparisonStrategy \<Rightarrow> feature_provider set" where
  "comparison_sources c = np_Provider ` set (cs_providers c) \<union> set_option (cs_fallbackProvider c)"

lemma received_result:
  assumes "receives outer e ps ms" "MResult w \<in> set ms"
  shows "\<exists>p \<in> set ps. w = e p"
proof -
  have "MResult w \<in> set (map untimed (filter is_answer ms))" using assms(2) by force
  then have "MResult w \<in> set (List.map_filter (\<lambda>p. provider_message (e p)) ps)"
    using assms(1) set_mset_mono unfolding receives_def by (metis set_mset_mset subsetD)
  then show ?thesis by (auto simp: map_filter_def provider_message_def split: if_splits)
qed

lemma default_comparison_Return:
  "default_comparison ft dv err extra = Return x \<Longrightarrow> \<exists>m. x = ([default_result StrategyComparison dv err], m)"
  by (auto simp: default_comparison_def)

lemma default_return_value:
  assumes "is_default_return ft dv out" "bind_outcome out (comparison_result gb gs) = Return r"
  shows "Value r = dv"
proof -
  obtain x where x: "out = Return x" "comparison_result gb gs x = Return r" using assms(2) by auto
  with assms(1) obtain err m where "x = ([default_result StrategyComparison dv err], m)"
    unfolding is_default_return_def by (metis default_comparison_Return)
  with x(2) show ?thesis by (auto simp: comparison_result_def)
qed

interpretation cs: value_source ft "comparison_sources c" "comparison_evaluation ft eq gb gs outer c"
  for ft eq gb gs outer c
proof unfold_locales
  fix flag ctx dv r
  let ?e = "eval_with ft flag dv ctx"
  assume "comparison_evaluation ft eq gb gs outer c flag dv ctx (Return r)"
  then obtain ms where ms: "receives outer ?e (cs_providers c) ms"
      "comparison_method ft eq gb gs c flag dv ctx ms = Some (Return r)"
    by (auto simp: comparison_evaluation_def)
  show "Value r = dv \<or> (\<exists>p \<in> comparison_sources c. Value r = Value (ft_evaluation ft p flag dv ctx))"
  proof (cases "length (cs_providers c) = 1")
    case True
    then obtain p where "cs_providers c = [p]" by (auto simp: length_Suc_conv)
    with ms(2) show ?thesis
      by (auto simp: comparison_method_def evaluateComparison_def Let_def setFlagMetadata_view
          comparison_result_def comparison_sources_def)
  next
    case False
    obtain out where out: "comparison_loop ft eq ?e (cs_fallbackProvider c) dv (length (cs_providers c)) [] 0 ms = Some out"
        "bind_outcome out (comparison_result gb gs) = Return r"
      using ms(2) unfolding comparison_method_def evaluateComparison_many [OF False] by auto
    from comparison_loop_start [OF out(1)] show ?thesis
    proof (elim disjE exE conjE)
      assume "is_default_return ft dv out"
      from default_return_value [OF this out(2)] show ?thesis by simp
    next
      fix us vs
      assume us: "ms = us @ vs" "answers us \<noteq> []"
        "out = continueComparison ft eq ?e (cs_fallbackProvider c) dv (answers us)"
      then obtain w ws where w: "answers us = w # ws" by (cases "answers us") auto
      have "MResult w \<in> set ms" using w us(1) answers_set [of w us] by simp
      then obtain p where p: "p \<in> set (cs_providers c)" "w = ?e p" using received_result [OF ms(1)] by blast
      show ?thesis
      proof (cases "\<exists>b. compFunc eq (map (\<lambda>r. Value (rw_result r)) (w # ws)) = Return b \<and> \<not> b")
        case True
        then show ?thesis
        proof (cases "cs_fallbackProvider c")
          case None
          with True us(3) w have "is_default_return ft dv out"
            by (auto simp: continueComparison_def is_default_return_def)
          from default_return_value [OF this out(2)] show ?thesis by simp
        next
          case (Some fb)
          with True us(3) w out(2) show ?thesis
            by (auto simp: continueComparison_def comparison_result_def comparison_sources_def Let_def)
        qed
      next
        case False
        with us(3) w out(2) p show ?thesis
          by (auto simp: continueComparison_def comparison_result_def comparison_sources_def)
      qed
    qed
  qed
qed

section \<open>The multi-provider as a value source\<close>

lemma AsNamedProviderSlice_sources:
  assumes "range_order order" "finite (dom m)"
  shows "np_Provider ` set (AsNamedProviderSlice order m) = ran m"
  using range_orderD [OF assms] by (force simp: AsNamedProviderSlice_def image_comp ran_def dom_def)

definition mp_sources ::
  "mp_env \<Rightarrow> (string \<rightharpoonup> feature_provider option) \<Rightarrow> MPOption list \<Rightarrow> feature_provider set" where
  "mp_sources env pm options = {p. \<exists>name. pm name = Some (Some p)} \<union>
     set_option (c_fallbackProvider (configured env options))"

lemma ran_non_nil: "ran (non_nil pm) = {p. \<exists>name. pm name = Some (Some p)}"
  by (auto simp: ran_def non_nil_def split: option.splits)

lemma finite_dom_non_nil: "finite (dom pm) \<Longrightarrow> finite (dom (non_nil pm))"
  by (rule finite_subset [of _ "dom pm"]) (auto simp: non_nil_def split: option.splits)

lemma NewMultiProvider_Inr:
  assumes "NewMultiProvider env pm st options = Inr mp"
  shows "\<exists>config. choose_strategy env config (AsNamedProviderSlice (env_range env) (non_nil pm)) st = Inr (mp_strategy mp) \<and>
      c_fallbackProvider config = c_fallbackProvider (configured env options) \<and>
      c_customStrategy config = c_customStrategy (configured env options)"
    and "mp_providers mp = non_nil pm" "mp_status mp = None"
    and "mp_metadata mp = buildMetadata (env_range env) (non_nil pm)"
  using assms by (auto simp: NewMultiProvider_def Let_def split: if_splits option.splits sum.splits)

lemmas method_defs = FirstMatch_BooleanEvaluation_def FirstMatch_StringEvaluation_def
  FirstMatch_FloatEvaluation_def FirstMatch_IntEvaluation_def FirstMatch_ObjectEvaluation_def
  FirstSuccess_BooleanEvaluation_def FirstSuccess_StringEvaluation_def
  FirstSuccess_FloatEvaluation_def FirstSuccess_IntEvaluation_def FirstSuccess_ObjectEvaluation_def

lemma choose_strategy_source:
  assumes "choose_strategy env config ps st = Inr s" "st \<noteq> StrategyCustom"
    "np_Provider ` set ps \<union> set_option (c_fallbackProvider config) \<subseteq> S"
  shows "value_source bool_flag S (st_Boolean s) \<and> value_source string_flag S (st_String s) \<and>
    value_source float_flag S (st_Float s) \<and> value_source int_flag S (st_Int s) \<and>
    value_source object_flag S (st_Object s)"
proof -
  consider (match) "s = firstMatch_Strategy (NewFirstMatchStrategy ps)"
    | (success) "s = firstSuccess_Strategy (env_aggregate env) (NewFirstSuccessStrategy ps (c_timeout config))"
    | (compare) "s = comparison_Strategy (env_GetBool env) (env_GetString env) (env_outer env)
         (NewComparisonStrategy ps (c_fallbackProvider config))"
    using assms(1,2) by (auto simp: choose_strategy_def split: if_splits)
  then show ?thesis
  proof cases
    case match
    have "np_Provider ` set (fm_providers (NewFirstMatchStrategy ps)) \<subseteq> S"
      using assms(3) by (simp add: NewFirstMatchStrategy_def)
    then show ?thesis unfolding match firstMatch_Strategy_def method_defs
      by (simp add: fm.sources_mono)
  next
    case success
    have "np_Provider ` set (fs_providers (NewFirstSuccessStrategy ps (c_timeout config))) \<subseteq> S"
      using assms(3) by (simp add: NewFirstSuccessStrategy_def)
    then show ?thesis unfolding success firstSuccess_Strategy_def method_defs
      by (simp add: fs.sources_mono)
  next
    case compare
    have "comparison_sources (NewComparisonStrategy ps (c_fallbackProvider config)) \<subseteq> S"
      using assms(3) by (simp add: NewComparisonStrategy_def comparison_sources_def)
    moreover have "value_source object_flag S
        (\<lambda>flag d ctx out. out = Return (Comparison_ObjectEvaluation (NewComparisonStrategy ps (c_fallbackProvider config)) flag d ctx))"
      by unfold_locales (simp add: Comparison_ObjectEvaluation_def)
    ultimately show ?thesis unfolding compare comparison_Strategy_def
      by (simp add: cs.sources_mono)
  qed
qed

lemma mp_value_source:
  assumes "NewMultiProvider env pm st options = Inr mp" "st \<noteq> StrategyCustom"
    "range_order (env_range env)" "finite (dom pm)"
  shows "value_source bool_flag (mp_sources env pm options) (mp_BooleanEvaluation mp) \<and>
    value_source string_flag (mp_sources env pm options) (mp_StringEvaluation mp) \<and>
    value_source float_flag (mp_sources env pm options) (mp_FloatEvaluation mp) \<and>
    value_source int_flag (mp_sources env pm options) (mp_IntEvaluation mp) \<and>
    value_source object_flag (mp_sources env pm options) (mp_ObjectEvaluation mp)"
proof -
  obtain config where config: "choose_strategy env config (AsNamedProviderSlice (env_range env) (non_nil pm)) st = Inr (mp_strategy mp)"
      "c_fallbackProvider config = c_fallbackProvider (configured env options)"
    using NewMultiProvider_Inr(1) [OF assms(1)] by blast
  have "np_Provider ` set (AsNamedProviderSlice (env_range env) (non_nil pm)) \<union> set_option (c_fallbackProvider config)
      \<subseteq> mp_sources env pm options"
    unfolding AsNamedProviderSlice_sources [OF assms(3) finite_dom_non_nil [OF assms(4)]] ran_non_nil
      config(2) mp_sources_def by simp
  from choose_strategy_source [OF config(1) assms(2) this] show ?thesis
    by (simp add: mp_BooleanEvaluation_def mp_StringEvaluation_def mp_FloatEvaluation_def
        mp_IntEvaluation_def mp_ObjectEvaluation_def)
qed

text \<open>The value \<open>v\<close> is the default or what one of the sources returned.\<close>

definition value_from :: "(feature_provider \<Rightarrow> 'v evaluation) \<Rightarrow> feature_provider set \<Rightarrow> string \<Rightarrow> 'v \<Rightarrow> go_map \<Rightarrow> 'v \<Rightarrow> bool" where
  "value_from sel S flag dv ctx v \<longleftrightarrow> v = dv \<or> (\<exists>p \<in> S. v = Value (sel p flag dv ctx))"

text \<open>
  C4: No invented values: whatever built-in strategy a multi-provider was constructed with, and
  whatever the schedule, the value of each of its five evaluations is the caller's default or
  the value that one of the configured providers, or the fallback provider, gave for this call.
\<close>

theorem mp_values_have_a_source:
  assumes "NewMultiProvider env pm st options = Inr mp" "st \<noteq> StrategyCustom"
    and "range_order (env_range env)" "finite (dom pm)"
    and "mp_BooleanEvaluation mp flag b ctx (Return rb)" "mp_StringEvaluation mp flag s ctx (Return rs)"
    and "mp_FloatEvaluation mp flag f ctx (Return rf)" "mp_IntEvaluation mp flag i ctx (Return ri)"
    and "mp_ObjectEvaluation mp flag v ctx (Return rv)"
  shows "value_from p_Boolean (mp_sources env pm options) flag b ctx (Value rb) \<and>
    value_from p_String (mp_sources env pm options) flag s ctx (Value rs) \<and>
    value_from p_Float (mp_sources env pm options) flag f ctx (Value rf) \<and>
    value_from p_Int (mp_sources env pm options) flag i ctx (Value ri) \<and>
    value_from p_Object (mp_sources env pm options) flag v ctx (Value rv)"
proof -
  from mp_value_source [OF assms(1-4)]
  have src: "value_source bool_flag (mp_sources env pm options) (mp_BooleanEvaluation mp)"
    "value_source string_flag (mp_sources env pm options) (mp_StringEvaluation mp)"
    "value_source float_flag (mp_sources env pm options) (mp_FloatEvaluation mp)"
    "value_source int_flag (mp_sources env pm options) (mp_IntEvaluation mp)"
    "value_source object_flag (mp_sources env pm options) (mp_ObjectEvaluation mp)" by blast+
  show ?thesis
    using value_source.sourced [OF src(1) assms(5)] value_source.sourced [OF src(2) assms(6)]
      value_source.sourced [OF src(3) assms(7)] value_source.sourced [OF src(4) assms(8)]
      value_source.sourced [OF src(5) assms(9)]
    by (simp add: value_from_def)
qed

definition demo_env :: mp_env where
  "demo_env = \<lparr>env_validate = (\<lambda>m. sorted_list_of_set (dom m)), env_range = (\<lambda>m. sorted_list_of_set (dom m)),
     env_aggregate = (\<lambda>m. sorted_list_of_set (dom m)), env_GetBool = demo_GetBool,
     env_GetString = demo_GetString, env_outer = {}, env_logger = ''default''\<rparr>"

lemma range_order_sorted: "range_order (\<lambda>m. sorted_list_of_set (dom m))"
  by (simp add: range_order_def)

definition demo_fixed :: feature_provider where
  "demo_fixed = (answering \<lparr>Value = True, Detail = empty_detail\<rparr>)\<lparr>p_Name := ''fixed''\<rparr>"

definition demo_mp :: MultiProvider where
  "demo_mp = \<lparr>mp_providers = [''b'' \<mapsto> demo_fixed], mp_metadata = ''MultiProvider {b: fixed}'',
     mp_events = False, mp_status = None,
     mp_strategy = firstMatch_Strategy (NewFirstMatchStrategy [\<lparr>np_Name = ''b'', np_Provider = demo_fixed\<rparr>]),
     mp_logger = ''default''\<rparr>"

lemma demo_mp_built: "NewMultiProvider demo_env [''b'' \<mapsto> Some demo_fixed] StrategyFirstMatch [] = Inr demo_mp"
proof -
  have "non_nil [''b'' \<mapsto> Some demo_fixed] = [''b'' \<mapsto> demo_fixed]"
    by (simp add: non_nil_def fun_eq_iff)
  then show ?thesis
    by (simp add: NewMultiProvider_def configured_def demo_env_def choose_strategy_def AsNamedProviderSlice_def
        demo_mp_def buildMetadata_def demo_fixed_def)
qed

theorem mp_values_have_a_source_witness:
  "value_from p_Boolean (mp_sources demo_env [''b'' \<mapsto> Some demo_fixed] []) ''flag'' False None True"
proof -
  have evals:
    "mp_BooleanEvaluation demo_mp ''flag'' False None (FirstMatch_BooleanEvaluation (NewFirstMatchStrategy [\<lparr>np_Name = ''b'', np_Provider = demo_fixed\<rparr>]) ''flag'' False None)"
    "mp_StringEvaluation demo_mp ''flag'' [] None (FirstMatch_StringEvaluation (NewFirstMatchStrategy [\<lparr>np_Name = ''b'', np_Provider = demo_fixed\<rparr>]) ''flag'' [] None)"
    "mp_FloatEvaluation demo_mp ''flag'' (Float64 0) None (FirstMatch_FloatEvaluation (NewFirstMatchStrategy [\<lparr>np_Name = ''b'', np_Provider = demo_fixed\<rparr>]) ''flag'' (Float64 0) None)"
    "mp_IntEvaluation demo_mp ''flag'' 0 None (FirstMatch_IntEvaluation (NewFirstMatchStrategy [\<lparr>np_Name = ''b'', np_Provider = demo_fixed\<rparr>]) ''flag'' 0 None)"
    "mp_ObjectEvaluation demo_mp ''flag'' VNil None (FirstMatch_ObjectEvaluation (NewFirstMatchStrategy [\<lparr>np_Name = ''b'', np_Provider = demo_fixed\<rparr>]) ''flag'' VNil None)"
    by (simp_all add: mp_BooleanEvaluation_def mp_StringEvaluation_def mp_FloatEvaluation_def
        mp_IntEvaluation_def mp_ObjectEvaluation_def demo_mp_def firstMatch_Strategy_def)
  let ?f = "NewFirstMatchStrategy [\<lparr>np_Name = ''b'', np_Provider = demo_fixed\<rparr>]"
  obtain rb rs rf ri rv where r:
    "FirstMatch_BooleanEvaluation ?f ''flag'' False None = Return rb" "Value rb = True"
    "FirstMatch_StringEvaluation ?f ''flag'' [] None = Return rs"
    "FirstMatch_FloatEvaluation ?f ''flag'' (Float64 0) None = Return rf"
    "FirstMatch_IntEvaluation ?f ''flag'' 0 None = Return ri"
    "FirstMatch_ObjectEvaluation ?f ''flag'' VNil None = Return rv"
  proof -
    have "\<exists>rb. FirstMatch_BooleanEvaluation ?f ''flag'' False None = Return rb \<and> Value rb = True"
      by (simp add: first_match_typed_returns FirstMatch_BooleanEvaluation_def firstMatch_method_def
          NewFirstMatchStrategy_def demo_fixed_def answering_def Let_def)
    moreover have "returns (FirstMatch_ObjectEvaluation ?f ''flag'' VNil None)"
      by (simp add: first_match_object_returns)
    ultimately show ?thesis
      using that first_match_typed_returns(2-4) [of ?f "''flag''"] unfolding returns_def by metis
  qed
  from evals r have "mp_BooleanEvaluation demo_mp ''flag'' False None (Return rb)"
    "mp_StringEvaluation demo_mp ''flag'' [] None (Return rs)" "mp_FloatEvaluation demo_mp ''flag'' (Float64 0) None (Return rf)"
    "mp_IntEvaluation demo_mp ''flag'' 0 None (Return ri)" "mp_ObjectEvaluation demo_mp ''flag'' VNil None (Return rv)"
    by simp_all
  note evaluations = this
  have "StrategyFirstMatch \<noteq> StrategyCustom" "range_order (env_range demo_env)"
    "finite (dom [''b'' \<mapsto> Some demo_fixed])"
    using range_order_sorted by (simp_all add: demo_env_def StrategyFirstMatch_def StrategyCustom_def)
  from mp_values_have_a_source [OF demo_mp_built this evaluations]
  have "value_from p_Boolean (mp_sources demo_env [''b'' \<mapsto> Some demo_fixed] []) ''flag'' False None (Value rb)"
    by blast
  then show ?thesis by (simp only: r(2))
qed

section \<open>Construction\<close>

lemma validate_providers_None:
  "validate_providers m names = None \<longleftrightarrow> list_all (\<lambda>n. n \<noteq> [] \<and> m n \<noteq> Some None) names"
  by (induction names) auto

lemma choose_strategy_ok:
  "(\<exists>s. choose_strategy env config ps st = Inr s) \<longleftrightarrow>
     st \<in> {StrategyFirstMatch, StrategyFirstSuccess, MPStrategyComparison} \<or>
     (st = StrategyCustom \<and> c_customStrategy config \<noteq> None)"
  by (auto simp: choose_strategy_def split: option.splits)

text \<open>
  What the constructor accepts: a map that is not empty, without an empty name or a nil
  provider, and one of the three built-in strategies, or the custom one with a strategy set by
  an option; nothing else.
\<close>

theorem new_multi_provider_accepts:
  assumes "set (env_validate env pm) = dom pm"
  shows "(\<exists>mp. NewMultiProvider env pm st options = Inr mp) \<longleftrightarrow>
    (dom pm \<noteq> {} \<and> pm [] = None \<and> Some None \<notin> range pm \<and>
     (st \<in> {StrategyFirstMatch, StrategyFirstSuccess, MPStrategyComparison} \<or>
      (st = StrategyCustom \<and> c_customStrategy (configured env options) \<noteq> None)))"
proof -
  have valid: "validate_providers pm (env_validate env pm) = None \<longleftrightarrow> pm [] = None \<and> Some None \<notin> range pm"
  proof -
    have "Some None \<in> range pm" if "pm n = Some None" for n using that by (metis rangeI)
    then show ?thesis unfolding validate_providers_None list_all_iff assms by (auto simp: dom_def) metis
  qed
  let ?c = "configured env options"
  let ?c' = "if c_timeout ?c = 0 then ?c\<lparr>c_timeout := 5000000000\<rparr> else ?c"
  have custom: "c_customStrategy ?c' = c_customStrategy ?c" by simp
  note chosen = choose_strategy_ok [of env ?c' "AsNamedProviderSlice (env_range env) (non_nil pm)" st,
      unfolded custom]
  show ?thesis
  proof (cases "dom pm \<noteq> {} \<and> validate_providers pm (env_validate env pm) = None")
    case True
    then have "(\<exists>mp. NewMultiProvider env pm st options = Inr mp) \<longleftrightarrow>
        (\<exists>s. choose_strategy env ?c' (AsNamedProviderSlice (env_range env) (non_nil pm)) st = Inr s)"
      unfolding NewMultiProvider_def Let_def
      by (cases "choose_strategy env ?c' (AsNamedProviderSlice (env_range env) (non_nil pm)) st") simp_all
    then show ?thesis unfolding chosen using True valid by blast
  next
    case False
    then have "\<not> (\<exists>mp. NewMultiProvider env pm st options = Inr mp)"
      by (cases "validate_providers pm (env_validate env pm)") (auto simp: NewMultiProvider_def)
    with False valid show ?thesis by blast
  qed
qed

theorem new_multi_provider_accepts_witness:
  "(\<exists>mp. NewMultiProvider demo_env [[] \<mapsto> Some demo_fixed] StrategyFirstMatch [] = Inr mp) = False"
  by (subst new_multi_provider_accepts) (simp_all add: demo_env_def)

text \<open>The name of the comparison strategy differs between the two packages.\<close>

lemma comparison_name_mismatch:
  assumes "NewMultiProvider env pm MPStrategyComparison options = Inr mp"
  shows "mp_EvaluationStrategy mp = ''strategy-comparison'' \<and> mp_EvaluationStrategy mp \<noteq> MPStrategyComparison"
proof -
  obtain config where "choose_strategy env config (AsNamedProviderSlice (env_range env) (non_nil pm)) MPStrategyComparison
      = Inr (mp_strategy mp)"
    using NewMultiProvider_Inr(1) [OF assms] by blast
  then have "mp_strategy mp = comparison_Strategy (env_GetBool env) (env_GetString env) (env_outer env)
      (NewComparisonStrategy (AsNamedProviderSlice (env_range env) (non_nil pm)) (c_fallbackProvider config))"
    by (simp add: choose_strategy_def strategy_names MPStrategyComparison_def)
  then have "mp_EvaluationStrategy mp = ''strategy-comparison''"
    by (simp add: mp_EvaluationStrategy_def comparison_Strategy_def Comparison_Name_def StrategyComparison_def)
  then show ?thesis by (simp add: MPStrategyComparison_def)
qed

lemma metadata_names_join:
  "metadata_names m acc '', '' names =
     acc @ concat (map (\<lambda>n. '', '' @ n @ '': '' @ p_Name (the (m n))) names)"
  by (induction names arbitrary: acc) auto

lemma join_with_Cons: "join_with sep (x # xs) = x @ concat (map (\<lambda>y. sep @ y) xs)"
  by (induction xs arbitrary: x) auto

text \<open>
  The reported name lists the providers as ''name: metadata name'' in the order of their
  names, separated by commas, whatever order the map is iterated in.
\<close>

theorem metadata_lists_sorted_names:
  assumes "range_order order" "finite (dom m)"
  shows "buildMetadata order m = ''MultiProvider {'' @
    join_with '', '' (map (\<lambda>n. n @ '': '' @ p_Name (the (m n))) (sorted_list_of_set (dom m))) @ ''}''"
proof -
  note o = range_orderD [OF assms]
  then have "sort (order m) = sorted_list_of_set (dom m)"
    by (metis distinct_remdups_id sorted_list_of_set_sort_remdups)
  then show ?thesis
    by (cases "sorted_list_of_set (dom m)")
      (simp_all add: buildMetadata_def join_with_Cons metadata_names_join comp_def)
qed

theorem metadata_lists_sorted_names_witness:
  "buildMetadata (\<lambda>m. sorted_list_of_set (dom m)) [''b'' \<mapsto> demo_fixed] = ''MultiProvider {'' @
    join_with '', '' (map (\<lambda>n. n @ '': '' @ p_Name (the ([''b'' \<mapsto> demo_fixed] n)))
      (sorted_list_of_set (dom [''b'' \<mapsto> demo_fixed]))) @ ''}''"
  by (rule metadata_lists_sorted_names) (simp_all add: range_order_sorted)

section \<open>Initialisation\<close>

definition failing :: "MultiProvider \<Rightarrow> go_map \<Rightarrow> string set" where
  "failing mp evalCtx = {name. init_provider (mp_providers mp) evalCtx name \<noteq> None}"

lemma first_error_None: "first_error rs = None \<longleftrightarrow> list_all (\<lambda>r. r = None) rs"
  by (induction rs rule: first_error.induct) auto

lemma first_error_Some: "first_error rs = Some e \<Longrightarrow> Some e \<in> set rs"
  by (induction rs rule: first_error.induct) auto

lemma init_provider_dom: "init_provider m ctx name \<noteq> None \<Longrightarrow> name \<in> dom m"
  by (auto simp: init_provider_def split: option.splits)

text \<open>
  Initialisation: the multi-provider is ready exactly when no provider's initialisation fails,
  whatever order the providers finish in; otherwise it is in the error state and returns the error
  of a provider that failed, under that provider's name.  Providers and strategy are untouched,
  and shutting down later does not leave the ready state.
\<close>

theorem mp_init_status:
  assumes "range_order finish" "finite (dom (mp_providers mp))"
  shows "(mp_Status (fst (mp_Init finish mp ctx)) = Some ReadyState) = (failing mp ctx = {}) \<and>
    (mp_Status (fst (mp_Init finish mp ctx)) = Some ErrorState) = (failing mp ctx \<noteq> {}) \<and>
    (case snd (mp_Init finish mp ctx) of
       None \<Rightarrow> failing mp ctx = {}
     | Some err \<Rightarrow> pe_ProviderName err \<in> failing mp ctx \<and>
         init_provider (mp_providers mp) ctx (pe_ProviderName err) = Some err) \<and>
    mp_providers (fst (mp_Init finish mp ctx)) = mp_providers mp \<and>
    mp_strategy (fst (mp_Init finish mp ctx)) = mp_strategy mp \<and>
    mp_Status (fst (mp_Shutdown order (fst (mp_Init finish mp ctx)))) = mp_Status (fst (mp_Init finish mp ctx))"
proof -
  let ?run = "map (init_provider (mp_providers mp) ctx) (finish (mp_providers mp))"
  have set: "set (finish (mp_providers mp)) = dom (mp_providers mp)" using range_orderD [OF assms] by simp
  have none: "first_error ?run = None \<longleftrightarrow> failing mp ctx = {}"
  proof -
    have "init_provider (mp_providers mp) ctx n = None" if "n \<notin> dom (mp_providers mp)" for n
      using that init_provider_dom [of "mp_providers mp" ctx n] by blast
    then show ?thesis unfolding first_error_None failing_def using set by (auto simp: list_all_iff)
  qed
  have some: "pe_ProviderName e \<in> failing mp ctx \<and> init_provider (mp_providers mp) ctx (pe_ProviderName e) = Some e"
    if "first_error ?run = Some e" for e
  proof -
    from first_error_Some [OF that] obtain name where "init_provider (mp_providers mp) ctx name = Some e" by auto
    moreover from this have "pe_ProviderName e = name" by (auto simp: init_provider_def split: option.splits)
    ultimately show ?thesis by (simp add: failing_def)
  qed
  show ?thesis
  proof (cases "first_error ?run")
    case None
    with none show ?thesis by (simp add: mp_Init_def mp_Status_def mp_Shutdown_def)
  next
    case (Some e)
    with none have "failing mp ctx \<noteq> {}" by simp
    with Some some [OF Some] show ?thesis by (simp add: mp_Init_def mp_Status_def mp_Shutdown_def)
  qed
qed

theorem mp_init_status_witness:
  "(mp_Status (fst (mp_Init (\<lambda>m. sorted_list_of_set (dom m)) demo_mp None)) = Some ReadyState) = (failing demo_mp None = {})"
  using mp_init_status [OF range_order_sorted, of demo_mp None] by (simp add: demo_mp_def)

end
