(* ===== verification/Provider_Contract.thy ===== *)
theory Provider_Contract
  imports OpenFeature
begin

text \<open>
  The contract every provider owes its caller, as a locale: an evaluation that reports an error comes
  with the caller's default value.  The clients of providers (the multi-provider) rely on it, the
  providers of this repository are interpretations of it.  Here also is what the adapters to vendor
  libraries share: the loop over a context, conversion to strings and the gate on the provider's
  status.
\<close>

section \<open>The contract\<close>

definition default_on_error :: "'v evaluation \<Rightarrow> bool" where
  "default_on_error ev \<longleftrightarrow> (\<forall>flag d ctx. has_error (Detail (ev flag d ctx)) \<longrightarrow> Value (ev flag d ctx) = d)"

locale honest_provider =
  fixes p :: feature_provider
  assumes boolean: "default_on_error (p_Boolean p)"
    and string: "default_on_error (p_String p)"
    and float: "default_on_error (p_Float p)"
    and int: "default_on_error (p_Int p)"
    and object: "default_on_error (p_Object p)"

lemma default_on_errorI [intro]:
  "(\<And>flag d ctx. has_error (Detail (ev flag d ctx)) \<Longrightarrow> Value (ev flag d ctx) = d) \<Longrightarrow> default_on_error ev"
  by (simp add: default_on_error_def)

lemma default_on_errorD: "default_on_error ev \<Longrightarrow> has_error (Detail (ev flag d ctx)) \<Longrightarrow> Value (ev flag d ctx) = d"
  by (simp add: default_on_error_def)

text \<open>A result that reports an error, and one that does not.\<close>

abbreviation error_result :: "'v \<Rightarrow> resolution_error \<Rightarrow> 'v resolution_detail" where
  "error_result d err \<equiv> \<lparr>Value = d, Detail = empty_detail\<lparr>ResolutionError := err, Reason := ErrorReason\<rparr>\<rparr>"

lemma has_error_fields [simp]:
  "has_error (d\<lparr>Reason := r\<rparr>) = has_error d" "has_error (d\<lparr>Variant := v\<rparr>) = has_error d"
  "has_error (d\<lparr>ResolutionError := e\<rparr>) \<longleftrightarrow> e \<noteq> NoResolutionError"
  by (simp_all add: has_error_def)

section \<open>Loops over a context\<close>

text \<open>A \<^verbatim>\<open>range\<close> loop over a map, in the order \<open>ks\<close> of its keys, that may return early with an error.\<close>

fun range_fold :: "(string \<Rightarrow> 'v \<Rightarrow> 'a \<Rightarrow> 'e + 'a) \<Rightarrow> (string \<rightharpoonup> 'v) \<Rightarrow> string list \<Rightarrow> 'a \<Rightarrow> 'e + 'a" where
  "range_fold f m [] a = Inr a"
| "range_fold f m (k # ks) a = (case f k (the (m k)) a of Inl e \<Rightarrow> Inl e | Inr a \<Rightarrow> range_fold f m ks a)"

lemma range_fold_total:
  "(\<And>k a. k \<in> set ks \<Longrightarrow> \<exists>a'. f k (the (m k)) a = Inr a') \<Longrightarrow> \<exists>a'. range_fold f m ks a = Inr a'"
proof (induction ks arbitrary: a)
  case (Cons k ks)
  obtain a1 where "f k (the (m k)) a = Inr a1" using Cons.prems [of k a] by auto
  with Cons.IH [of a1] Cons.prems show ?case by auto
qed simp

lemma range_fold_fails:
  "k \<in> set ks \<Longrightarrow> (\<And>a. \<exists>e. f k (the (m k)) a = Inl e) \<Longrightarrow> \<exists>e. range_fold f m ks a = Inl e"
proof (induction ks arbitrary: a)
  case (Cons k' ks)
  show ?case
  proof (cases "f k' (the (m k')) a")
    case (Inr a1)
    with Cons.prems(2) [of a] have "k' \<noteq> k" by auto
    with Cons Inr show ?thesis by simp
  qed simp
qed simp

lemma range_fold_Inl: "range_fold f m ks a = Inl e \<Longrightarrow> \<exists>k \<in> set ks. \<exists>a. f k (the (m k)) a = Inl e"
  by (induction ks arbitrary: a) (auto split: sum.splits)

text \<open>The value of a property of the accumulator that only one key determines.\<close>

lemma range_fold_frame:
  "range_fold f m ks a = Inr a' \<Longrightarrow> (\<And>k a a'. k \<in> set ks \<Longrightarrow> f k (the (m k)) a = Inr a' \<Longrightarrow> g a' = g a) \<Longrightarrow> g a' = g a"
proof (induction ks arbitrary: a)
  case (Cons k ks)
  obtain a1 where 1: "f k (the (m k)) a = Inr a1" "range_fold f m ks a1 = Inr a'"
    using Cons.prems(1) by (auto split: sum.splits)
  have "g a' = g a1" by (rule Cons.IH [OF 1(2)]) (rule Cons.prems(2), simp_all)
  with Cons.prems(2) [OF _ 1(1)] show ?case by simp
qed simp

lemma range_fold_split: "range_fold f m (ks @ ks') a = (case range_fold f m ks a of Inl e \<Rightarrow> Inl e | Inr a \<Rightarrow> range_fold f m ks' a)"
  by (induction ks arbitrary: a) (auto split: sum.split)

lemma range_fold_one_key:
  assumes "range_fold f m ks a = Inr a'" "k \<in> set ks" "distinct ks"
    and set_it: "\<And>a a'. f k (the (m k)) a = Inr a' \<Longrightarrow> g a' = v"
    and frame: "\<And>j a a'. j \<in> set ks \<Longrightarrow> j \<noteq> k \<Longrightarrow> f j (the (m j)) a = Inr a' \<Longrightarrow> g a' = g a"
  shows "g a' = v"
proof -
  obtain us vs where ks: "ks = us @ k # vs" using assms(2) by (metis split_list)
  obtain a1 a2 where a: "range_fold f m us a = Inr a1" "f k (the (m k)) a1 = Inr a2" "range_fold f m vs a2 = Inr a'"
    using assms(1) by (auto simp: ks range_fold_split split: sum.splits)
  have "g a' = g a2"
    using assms(3) by (intro range_fold_frame [OF a(3)]) (auto simp: ks intro: frame)
  with set_it [OF a(2)] show ?thesis by simp
qed

text \<open>The runtime may start a loop at any key of the map.\<close>

definition starting_at :: "string \<Rightarrow> ((string \<rightharpoonup> 'v) \<Rightarrow> string list) \<Rightarrow> (string \<rightharpoonup> 'v) \<Rightarrow> string list" where
  "starting_at k order m = (if k \<in> set (order m) then k # remove1 k (order m) else order m)"

lemma range_order_starting_at: "range_order order \<Longrightarrow> range_order (starting_at k order)"
  by (auto simp: range_order_def starting_at_def)

lemma distinct_singleton_list: "distinct xs \<Longrightarrow> set xs = {b} \<Longrightarrow> xs = [b]"
  by (cases xs rule: list.exhaust; cases "tl xs") auto

lemma starting_at_two:
  assumes "range_order order" "a \<noteq> b" "dom m = {a, b}"
  shows "starting_at a order m = [a, b]"
proof -
  from range_orderD [OF assms(1), of m] assms(3) have o: "set (order m) = {a, b}" "distinct (order m)" by simp_all
  then have "distinct (remove1 a (order m))" "set (remove1 a (order m)) = {b}" using assms(2) by auto
  then have "remove1 a (order m) = [b]" by (rule distinct_singleton_list)
  with o show ?thesis by (simp add: starting_at_def)
qed

section \<open>Strings\<close>

text \<open>
  \<^verbatim>\<open>toStr\<close>, which three adapters have in common: \<^verbatim>\<open>%d\<close> of an integer, \<^verbatim>\<open>%.6f\<close> of a float, printed by \<open>f6\<close>,
  and \<^verbatim>\<open>%t\<close> of a truth value.
\<close>

definition toStr :: "(go_any \<Rightarrow> string) \<Rightarrow> go_any \<Rightarrow> string option" where
  "toStr f6 val = (case val of
       VString v \<Rightarrow> Some v
     | VInt v \<Rightarrow> Some (int_to_string (sint v))
     | VInt64 v \<Rightarrow> Some (int_to_string (sint v))
     | VFloat32 v \<Rightarrow> Some (f6 val)
     | VFloat64 v \<Rightarrow> Some (f6 val)
     | VBool v \<Rightarrow> Some (if v then ''true'' else ''false'')
     | _ \<Rightarrow> None)"

text \<open>\<^verbatim>\<open>fmt.Sprint\<close> of a value; \<open>print\<close> gives the form of the values other than strings, integers and truth values.\<close>

definition go_sprint :: "(go_any \<Rightarrow> string) \<Rightarrow> go_any \<Rightarrow> string" where
  "go_sprint print val = (case val of
       VString s \<Rightarrow> s
     | VInt v \<Rightarrow> int_to_string (sint v)
     | VInt64 v \<Rightarrow> int_to_string (sint v)
     | VBool v \<Rightarrow> if v then ''true'' else ''false''
     | VNil \<Rightarrow> ''<nil>''
     | _ \<Rightarrow> print val)"

lemma go_sprint_string [simp]: "go_sprint print (VString s) = s"
  by (simp add: go_sprint_def)

definition targetingKey :: string where "targetingKey = ''targetingKey''"

section \<open>The gate on the status\<close>

definition providerNotReady :: string where "providerNotReady = ''Provider not ready''"
definition generalError :: string where "generalError = ''general error''"

text \<open>The result of an evaluation of a provider that is not ready; \<open>None\<close>: it is ready.\<close>

definition verify_state :: "of_state \<Rightarrow> 'v \<Rightarrow> 'v resolution_detail option" where
  "verify_state status defaultValue =
     (if status \<noteq> ReadyState then
        (if status = NotReadyState
         then Some (error_result defaultValue (NewProviderNotReadyResolutionError providerNotReady))
         else Some (error_result defaultValue (NewGeneralResolutionError generalError)))
      else None)"

lemma verify_state_honest: "verify_state status d = Some r \<Longrightarrow> Value r = d \<and> has_error (Detail r)"
  by (auto simp: verify_state_def split: if_splits)

end
