(* ===== verification/RocketFlag.thy ===== *)
theory RocketFlag
  imports Provider_Contract
begin

text \<open>
  The RocketFlag provider, \<^verbatim>\<open>providers/rocketflag/provider.go\<close>.  The client is an interface of this provider: its
  implementation is a parameter, from a flag and a user context to an error or the flag's status.
\<close>

type_synonym rocketflag_client = "string \<Rightarrow> (string \<rightharpoonup> go_any) \<Rightarrow> string + bool"

type_synonym rocketflag_option = "rocketflag_client \<Rightarrow> rocketflag_client"

definition rocketflag_NewProvider :: "rocketflag_client \<Rightarrow> rocketflag_option list \<Rightarrow> rocketflag_client" where
  "rocketflag_NewProvider client opts = foldl (\<lambda>p opt. opt p) client opts"

definition rocketflag_user :: "go_map \<Rightarrow> (string \<rightharpoonup> go_any)" where
  "rocketflag_user flatCtx = (case map_get flatCtx targetingKey of Some (VString key) \<Rightarrow> [''cohort'' \<mapsto> VString key] | _ \<Rightarrow> Map.empty)"

definition rocketflag_BooleanEvaluation :: "rocketflag_client \<Rightarrow> bool evaluation" where
  "rocketflag_BooleanEvaluation client flag defaultValue flatCtx =
     (let user = rocketflag_user flatCtx
      in case client flag user of
           Inl err \<Rightarrow> error_result defaultValue (NewGeneralResolutionError err)
         | Inr enabled \<Rightarrow>
             \<lparr>Value = enabled, Detail = empty_detail\<lparr>Reason :=
                (case user ''cohort'' of Some cohort \<Rightarrow> if cohort \<noteq> VNil then TargetingMatchReason else DefaultReason
                 | None \<Rightarrow> DefaultReason)\<rparr>\<rparr>)"

text \<open>The other types are refused.\<close>

definition rocketflag_StringEvaluation :: "string evaluation" where
  "rocketflag_StringEvaluation flag defaultValue evalCtx =
     error_result defaultValue (NewTypeMismatchResolutionError ''RocketFlag: String flags are not yet supported.'')"
definition rocketflag_FloatEvaluation :: "float64 evaluation" where
  "rocketflag_FloatEvaluation flag defaultValue evalCtx =
     error_result defaultValue (NewTypeMismatchResolutionError ''RocketFlag: Float flags are not yet supported.'')"
definition rocketflag_IntEvaluation :: "int64 evaluation" where
  "rocketflag_IntEvaluation flag defaultValue evalCtx =
     error_result defaultValue (NewTypeMismatchResolutionError ''RocketFlag: Int flags are not yet supported.'')"
definition rocketflag_ObjectEvaluation :: "go_any evaluation" where
  "rocketflag_ObjectEvaluation flag defaultValue evalCtx =
     error_result defaultValue (NewTypeMismatchResolutionError ''RocketFlag: Object flags are not yet supported.'')"

lemmas rocketflag_defs = rocketflag_BooleanEvaluation_def rocketflag_StringEvaluation_def rocketflag_FloatEvaluation_def
  rocketflag_IntEvaluation_def rocketflag_ObjectEvaluation_def

definition rocketflag_feature_provider :: "rocketflag_client \<Rightarrow> feature_provider" where
  "rocketflag_feature_provider client =
     \<lparr>p_Name = ''RocketFlag'', p_Boolean = rocketflag_BooleanEvaluation client, p_String = rocketflag_StringEvaluation,
      p_Float = rocketflag_FloatEvaluation, p_Int = rocketflag_IntEvaluation, p_Object = rocketflag_ObjectEvaluation, p_Init = None\<rparr>"

interpretation rocketflag: honest_provider "rocketflag_feature_provider client" for client
  by unfold_locales
    (auto simp: rocketflag_feature_provider_def rocketflag_defs default_on_error_def Let_def split: sum.splits)

text \<open>A truth value of the client is passed on as it is, and called a match exactly when the context names its target.\<close>

lemma rocketflag_reason:
  assumes "client flag (rocketflag_user ctx) = Inr b"
  shows "Value (rocketflag_BooleanEvaluation client flag d ctx) = b"
    "Reason (Detail (rocketflag_BooleanEvaluation client flag d ctx)) = TargetingMatchReason \<longleftrightarrow> (\<exists>s. map_get ctx targetingKey = Some (VString s))"
  using assms
  by (auto simp: rocketflag_BooleanEvaluation_def Let_def rocketflag_user_def reason_defs split: option.splits go_any.splits)

end
