(* ===== verification/MP_Honest.thy ===== *)
theory MP_Honest
  imports MP_Provider_Correct Provider_Contract RocketFlag
begin

text \<open>
  Composition: a multi-provider built over providers that keep their contract (an error comes with the
  caller's default, locale \<open>honest_provider\<close>) keeps it itself, with every built-in strategy and under
  every schedule.
\<close>

section \<open>Errors of a strategy\<close>

definition honest_evaluation :: "'v strategy_evaluation \<Rightarrow> bool" where
  "honest_evaluation eval \<longleftrightarrow>
     (\<forall>flag dv ctx r. eval flag dv ctx (Return r) \<longrightarrow> has_error (Detail r) \<longrightarrow> Value r = dv)"

text \<open>
  The contract all strategies share for one flag type: a result with an error has the caller's default
  or the value that a source returned with an error.
\<close>

locale error_source =
  fixes ft :: "'v flag_type"
    and sources :: "feature_provider set"
    and eval :: "'v strategy_evaluation"
  assumes blamed: "eval flag dv ctx (Return r) \<Longrightarrow> has_error (Detail r) \<Longrightarrow>
    Value r = dv \<or> (\<exists>p \<in> sources. has_error (Detail (ft_evaluation ft p flag dv ctx)) \<and>
      Value r = Value (ft_evaluation ft p flag dv ctx))"
begin

lemma honest: "(\<And>p. p \<in> sources \<Longrightarrow> default_on_error (ft_evaluation ft p)) \<Longrightarrow> honest_evaluation eval"
  unfolding honest_evaluation_def by (metis blamed default_on_errorD)

lemma blamed_mono: "sources \<subseteq> S \<Longrightarrow> error_source ft S eval"
  using blamed by unfold_locales blast

end

interpretation fm_error: error_source ft "np_Provider ` set (fm_providers f)"
  "\<lambda>flag dv ctx out. out = firstMatch_method ft f flag dv ctx" for ft f
proof unfold_locales
  fix flag ctx dv r
  assume "Return r = firstMatch_method ft f flag dv ctx" and err: "has_error (Detail r)"
  then have r: "first_match_spec ft (fm_providers f) flag dv ctx = Return r"
    by (simp add: firstMatch_method_spec)
  then show "Value r = dv \<or> (\<exists>p \<in> np_Provider ` set (fm_providers f).
      has_error (Detail (ft_evaluation ft p flag dv ctx)) \<and> Value r = Value (ft_evaluation ft p flag dv ctx))"
  proof (cases "knowing ft flag dv ctx (fm_providers f)")
    case (Some p)
    then have "p \<in> set (fm_providers f)" by (auto simp: knowing_def find_Some_iff)
    moreover have "r = mark_result (np_Name p) (ft_evaluation ft (np_Provider p) flag dv ctx)"
      using Some r by (simp add: first_match_spec_def)
    ultimately show ?thesis using err by (auto simp: mark_result_def Let_def has_error_def)
  qed (auto simp: first_match_spec_def)
qed

interpretation fs_error: error_source ft "np_Provider ` set (fs_providers f)" "firstSuccess_method ft order f" for ft order f
proof unfold_locales
  fix flag ctx dv r
  assume a: "firstSuccess_method ft order f flag dv ctx (Return r)" and err: "has_error (Detail r)"
  let ?c = "firstSuccess_call ft order f flag dv ctx"
  obtain s out where s: "fs_reachable ?c s" "fs_ret s = Some out" "Return r = map_result firstSuccess_result out"
    using a by (auto simp: firstSuccess_method_def)
  then obtain rm where rm: "out = Return rm" "r = firstSuccess_result rm" by (cases out) auto
  from fs_result_reachable [OF s(1,2)]
  have "(\<exists>p \<in> set (fs_providers f). success_return (fc_eval ?c p) = Return rm) \<or>
      (\<exists>err. default_return ?c err = Return rm)"
    unfolding fs_settled_def fs_cancelled_def rm(1) by (simp add: firstSuccess_call_def) metis
  then show "Value r = dv \<or> (\<exists>p \<in> np_Provider ` set (fs_providers f).
      has_error (Detail (ft_evaluation ft p flag dv ctx)) \<and> Value r = Value (ft_evaluation ft p flag dv ctx))"
  proof (elim disjE bexE exE)
    fix p
    assume "p \<in> set (fs_providers f)" "success_return (fc_eval ?c p) = Return rm"
    with firstSuccess_result_success [OF this(2)] rm(2) err show ?thesis
      by (auto simp: firstSuccess_call_def has_error_def)
  next
    fix e
    assume "default_return ?c e = Return rm"
    from firstSuccess_result_default [OF this] rm(2) show ?thesis by (simp add: firstSuccess_call_def)
  qed
qed

section \<open>The comparison strategy\<close>

text \<open>A result of the comparison with an error is its default result.\<close>

lemma comparison_no_error:
  assumes "GetBool_law gb" "GetString_law gs" "map_get m MetadataIsDefault \<noteq> Some (VBool True)"
    and "comparison_result gb gs (rs, m) = Return r"
  shows "\<not> has_error (Detail r)"
  using assms(3,4) comparisonResolutionError_eq [OF assms(1,2), of m]
  by (auto simp: comparison_result_def has_error_def split: list.splits)

lemma continueComparison_error:
  assumes laws: "GetBool_law gb" "GetString_law gs" and "rs \<noteq> []"
    and r: "bind_outcome (continueComparison ft eq e fb dv rs) (comparison_result gb gs) = Return r"
    and err: "has_error (Detail r)"
  shows "Value r = dv"
proof -
  obtain w ws where w: "rs = w # ws" using assms(3) by (cases rs) auto
  then consider (agree) "compFunc eq (map (\<lambda>r. Value (rw_result r)) rs) = Return True"
    | (differ) "compFunc eq (map (\<lambda>r. Value (rw_result r)) rs) = Return False" by fastforce
  then show ?thesis
  proof cases
    case agree
    from agreement_result [OF laws agree [unfolded w]] r have "ResolutionError (Detail r) = NoResolutionError"
      unfolding w by (metis outcome.inject(1) provider_detail.select_convs(1) resolution_detail.select_convs(2))
    with err show ?thesis by (simp add: has_error_def)
  next
    case differ
    show ?thesis
    proof (cases fb)
      case None
      then have "is_default_return ft dv (continueComparison ft eq e fb dv rs)"
        using differ by (auto simp: continueComparison_def is_default_return_def)
      from default_return_value [OF this r] show ?thesis .
    next
      case (Some p)
      show ?thesis
      proof (cases "FlagMetadata (rw_detail (e \<lparr>np_Name = ''fallback'', np_Provider = p\<rparr>))")
        case None
        from fallback_panics [where e = e and fb = p, OF None differ] r Some show ?thesis by simp
      next
        case (Some f)
        from fallback_result [where e = e and fb = p and ft = ft and dv = dv, OF laws Some differ] r \<open>fb = Some p\<close> err show ?thesis
          by (auto simp: has_error_def)
      qed
    qed
  qed
qed

lemma comparison_honest:
  assumes laws: "GetBool_law gb" "GetString_law gs"
  shows "honest_evaluation (comparison_evaluation ft eq gb gs outer c)"
  unfolding honest_evaluation_def comparison_evaluation_def
proof (intro allI impI, elim exE conjE)
  fix flag dv ctx r ms
  let ?e = "eval_with ft flag dv ctx"
  assume m: "comparison_method ft eq gb gs c flag dv ctx ms = Some (Return r)" and err: "has_error (Detail r)"
  show "Value r = dv"
  proof (cases "length (cs_providers c) = 1")
    case True
    then obtain p where p: "cs_providers c = [p]" by (auto simp: length_Suc_conv)
    let ?m = "Some ((map_view make_map)(MetadataSuccessfulProviderName \<mapsto> VString (np_Name p),
        MetadataStrategyUsed \<mapsto> VString StrategyComparison, MetadataFallbackUsed \<mapsto> VBool False))"
    have "comparison_result gb gs ([?e p], ?m) = Return r"
      using m p by (simp add: comparison_method_def evaluateComparison_def Let_def setFlagMetadata_view split: if_splits)
    moreover have "map_get ?m MetadataIsDefault \<noteq> Some (VBool True)" by (simp add: comparison_keys)
    ultimately show ?thesis using comparison_no_error [OF laws] err by blast
  next
    case False
    obtain out where out: "comparison_loop ft eq ?e (cs_fallbackProvider c) dv (length (cs_providers c)) [] 0 ms = Some out"
        "bind_outcome out (comparison_result gb gs) = Return r"
      using m unfolding comparison_method_def evaluateComparison_many [OF False] by auto
    from comparison_loop_outcomes [OF out(1)] show ?thesis
      using default_return_value [OF _ out(2)] continueComparison_error [OF laws _ _ err] out(2) by blast
  qed
qed

lemma comparison_error_source:
  "GetBool_law gb \<Longrightarrow> GetString_law gs \<Longrightarrow> error_source ft S (comparison_evaluation ft eq gb gs outer c)"
  using comparison_honest [of gb gs ft eq outer c] by unfold_locales (simp add: honest_evaluation_def)

section \<open>The multi-provider\<close>

lemma choose_strategy_errors:
  assumes "choose_strategy env config ps st = Inr s" "st \<noteq> StrategyCustom" "np_Provider ` set ps \<subseteq> S"
    and laws: "GetBool_law (env_GetBool env)" "GetString_law (env_GetString env)"
  shows "error_source bool_flag S (st_Boolean s) \<and> error_source string_flag S (st_String s) \<and>
    error_source float_flag S (st_Float s) \<and> error_source int_flag S (st_Int s) \<and>
    error_source object_flag S (st_Object s)"
proof -
  consider (match) "s = firstMatch_Strategy (NewFirstMatchStrategy ps)"
    | (success) "s = firstSuccess_Strategy (env_aggregate env) (NewFirstSuccessStrategy ps (c_timeout config))"
    | (compare) "s = comparison_Strategy (env_GetBool env) (env_GetString env) (env_outer env)
         (NewComparisonStrategy ps (c_fallbackProvider config))"
    using assms(1,2) by (auto simp: choose_strategy_def split: if_splits)
  then show ?thesis
  proof cases
    case match
    have "np_Provider ` set (fm_providers (NewFirstMatchStrategy ps)) \<subseteq> S"
      using assms(3) by (simp add: NewFirstMatchStrategy_def)
    then show ?thesis unfolding match firstMatch_Strategy_def method_defs
      by (simp add: fm_error.blamed_mono)
  next
    case success
    have "np_Provider ` set (fs_providers (NewFirstSuccessStrategy ps (c_timeout config))) \<subseteq> S"
      using assms(3) by (simp add: NewFirstSuccessStrategy_def)
    then show ?thesis unfolding success firstSuccess_Strategy_def method_defs
      by (simp add: fs_error.blamed_mono)
  next
    case compare
    have "error_source object_flag S
        (\<lambda>flag d ctx out. out = Return (Comparison_ObjectEvaluation (NewComparisonStrategy ps (c_fallbackProvider config)) flag d ctx))"
      by unfold_locales (simp add: Comparison_ObjectEvaluation_def)
    then show ?thesis unfolding compare comparison_Strategy_def
      by (simp add: comparison_error_source [OF laws])
  qed
qed

text \<open>
  C5: Composition: a multi-provider over providers that return the caller's default whenever they report
  an error does so itself, for its five evaluations, with every built-in strategy, every fallback
  provider, every order of the maps and every schedule of its goroutines.
\<close>

theorem multi_provider_honest:
  assumes "NewMultiProvider env pm st options = Inr mp" "st \<noteq> StrategyCustom"
    and "range_order (env_range env)" "finite (dom pm)"
    and "GetBool_law (env_GetBool env)" "GetString_law (env_GetString env)"
    and "\<And>name p. pm name = Some (Some p) \<Longrightarrow> honest_provider p"
  shows "honest_evaluation (mp_BooleanEvaluation mp) \<and> honest_evaluation (mp_StringEvaluation mp) \<and>
    honest_evaluation (mp_FloatEvaluation mp) \<and> honest_evaluation (mp_IntEvaluation mp) \<and>
    honest_evaluation (mp_ObjectEvaluation mp)"
proof -
  let ?ps = "AsNamedProviderSlice (env_range env) (non_nil pm)" and ?S = "{p. \<exists>name. pm name = Some (Some p)}"
  obtain config where config: "choose_strategy env config ?ps st = Inr (mp_strategy mp)"
    using NewMultiProvider_Inr(1) [OF assms(1)] by blast
  have "np_Provider ` set ?ps \<subseteq> ?S"
    unfolding AsNamedProviderSlice_sources [OF assms(3) finite_dom_non_nil [OF assms(4)]] ran_non_nil by simp
  note src = choose_strategy_errors [OF config assms(2) this assms(5,6)]
  have "honest_provider p" if "p \<in> ?S" for p using that assms(7) by blast
  then have honest: "p \<in> ?S \<Longrightarrow> default_on_error (ft_evaluation bool_flag p)"
    "p \<in> ?S \<Longrightarrow> default_on_error (ft_evaluation string_flag p)"
    "p \<in> ?S \<Longrightarrow> default_on_error (ft_evaluation float_flag p)"
    "p \<in> ?S \<Longrightarrow> default_on_error (ft_evaluation int_flag p)"
    "p \<in> ?S \<Longrightarrow> default_on_error (ft_evaluation object_flag p)" for p
    unfolding flag_type_simps honest_provider_def by blast+
  from src have
    "error_source bool_flag ?S (st_Boolean (mp_strategy mp))" "error_source string_flag ?S (st_String (mp_strategy mp))"
    "error_source float_flag ?S (st_Float (mp_strategy mp))" "error_source int_flag ?S (st_Int (mp_strategy mp))"
    "error_source object_flag ?S (st_Object (mp_strategy mp))" by blast+
  from error_source.honest [OF this(1) honest(1)] error_source.honest [OF this(2) honest(2)]
    error_source.honest [OF this(3) honest(3)] error_source.honest [OF this(4) honest(4)]
    error_source.honest [OF this(5) honest(5)] show ?thesis
    unfolding mp_BooleanEvaluation_def mp_StringEvaluation_def mp_FloatEvaluation_def
      mp_IntEvaluation_def mp_ObjectEvaluation_def by blast
qed

text \<open>A multi-provider over a Rocketflag provider whose client is down.\<close>

definition down_provider :: feature_provider where
  "down_provider = rocketflag_feature_provider (\<lambda>flag user. Inl ''down'')"

theorem multi_provider_honest_witness:
  "\<exists>mp r. NewMultiProvider demo_env [''r'' \<mapsto> Some down_provider] StrategyFirstMatch [] = Inr mp \<and>
     mp_BooleanEvaluation mp ''flag'' True None (Return r) \<and> has_error (Detail r) \<and> Value r"
proof -
  let ?pm = "[''r'' \<mapsto> Some down_provider]"
  obtain mp where mp: "NewMultiProvider demo_env ?pm StrategyFirstMatch [] = Inr mp"
      "mp_strategy mp = firstMatch_Strategy (NewFirstMatchStrategy [\<lparr>np_Name = ''r'', np_Provider = down_provider\<rparr>])"
  proof -
    have "non_nil ?pm = [''r'' \<mapsto> down_provider]" by (simp add: non_nil_def fun_eq_iff)
    then show thesis
      using that by (simp add: NewMultiProvider_def configured_def demo_env_def choose_strategy_def
          AsNamedProviderSlice_def Let_def)
  qed
  have honest: "honest_provider p" if "?pm name = Some (Some p)" for name p
    using that rocketflag.honest_provider_axioms by (auto simp: down_provider_def split: if_splits)
  have order: "range_order (env_range demo_env)" "finite (dom ?pm)" by (simp_all add: demo_env_def range_order_sorted)
  have laws: "GetBool_law (env_GetBool demo_env)" "GetString_law (env_GetString demo_env)" by (simp_all add: demo_env_def)
  obtain r where r: "mp_BooleanEvaluation mp ''flag'' True None (Return r)" "has_error (Detail r)"
    by (force simp: mp_BooleanEvaluation_def mp(2) firstMatch_Strategy_def FirstMatch_BooleanEvaluation_def
        firstMatch_method_spec first_match_spec_def knowing_def NewFirstMatchStrategy_def mark_result_def Let_def
        down_provider_def rocketflag_feature_provider_def rocketflag_BooleanEvaluation_def is_not_found_def has_error_def)
  have st_ne: "StrategyFirstMatch \<noteq> StrategyCustom" by (simp add: strategy_names StrategyCustom_def)
  have "honest_evaluation (mp_BooleanEvaluation mp)"
    by (rule multi_provider_honest [OF mp(1) st_ne order laws, THEN conjunct1]) (rule honest)
  with r have "Value r" unfolding honest_evaluation_def by metis
  with r mp(1) show ?thesis by blast
qed

end
