(* ===== verification/Go_Numbers.thy ===== *)
theory Go_Numbers
  imports OpenFeature
begin

text \<open>
  Go's conversions between \<^verbatim>\<open>int64\<close>, \<^verbatim>\<open>float32\<close> and \<^verbatim>\<open>float64\<close>, on the bits of the IEEE formats:
  conversion from an integer rounds to nearest, ties to even; conversion to an integer drops the
  fraction, and its result is left to the platform when the value does not fit.
\<close>

section \<open>Number of bits\<close>

fun bit_len :: "nat \<Rightarrow> nat" where
  "bit_len n = (if n = 0 then 0 else Suc (bit_len (n div 2)))"

declare bit_len.simps [simp del]

lemma bit_len_0 [simp]: "bit_len 0 = 0"
  by (simp add: bit_len.simps)

lemma bit_len_pos: "0 < n \<Longrightarrow> bit_len n = Suc (bit_len (n div 2))"
  by (subst bit_len.simps) simp

lemma bit_len_upper: "n < 2 ^ bit_len n"
proof (induction n rule: bit_len.induct)
  case (1 n)
  show ?case
  proof (cases "n = 0")
    case False
    with 1 have "n div 2 < 2 ^ bit_len (n div 2)" by simp
    then show ?thesis using False by (simp add: bit_len_pos)
  qed simp
qed

lemma bit_len_lower: "0 < n \<Longrightarrow> 2 ^ (bit_len n - 1) \<le> n"
proof (induction n rule: bit_len.induct)
  case (1 n)
  show ?case
  proof (cases "n div 2 = 0")
    case True
    with 1 show ?thesis by (simp add: bit_len_pos)
  next
    case False
    then have "0 < bit_len (n div 2)" by (simp add: bit_len_pos)
    with 1 False have "2 * 2 ^ (bit_len (n div 2) - 1) \<le> n" by auto
    with \<open>0 < bit_len (n div 2)\<close> 1 show ?thesis by (simp add: bit_len_pos flip: power_Suc)
  qed
qed

lemma bit_len_le: "n < 2 ^ k \<Longrightarrow> bit_len n \<le> k"
proof (rule ccontr)
  assume n: "n < 2 ^ k" "\<not> bit_len n \<le> k"
  then have "0 < n" by (cases n) auto
  then have "2 ^ (bit_len n - 1) \<le> n" by (rule bit_len_lower)
  moreover have "(2::nat) ^ k \<le> 2 ^ (bit_len n - 1)" using n(2) by (intro power_increasing) auto
  ultimately show False using n(1) by linarith
qed

section \<open>Reading a \<^verbatim>\<open>float64\<close>\<close>

definition float_negative :: "float64 \<Rightarrow> bool" where
  "float_negative x \<longleftrightarrow> 2 ^ 63 \<le> unat (float_bits x)"

definition float_mantissa :: "float64 \<Rightarrow> nat" where
  "float_mantissa x = (if float_exponent x = 0 then float_fraction x else 2 ^ 52 + float_fraction x)"

text \<open>The magnitude is \<open>float_mantissa x * 2 ^ (e - 1075)\<close> for \<open>e = max 1 (float_exponent x)\<close>.\<close>

definition float_magnitude :: "float64 \<Rightarrow> nat" where
  "float_magnitude x = (let e = max 1 (float_exponent x)
     in if 1075 \<le> e then float_mantissa x * 2 ^ (e - 1075) else float_mantissa x div 2 ^ (1075 - e))"

definition float_trunc :: "float64 \<Rightarrow> int" where
  "float_trunc x = (if float_negative x then - int (float_magnitude x) else int (float_magnitude x))"

definition float_finite :: "float64 \<Rightarrow> bool" where
  "float_finite x \<longleftrightarrow> float_exponent x \<noteq> 2047"

definition float_integral :: "float64 \<Rightarrow> bool" where
  "float_integral x \<longleftrightarrow> float_finite x \<and>
     (let e = max 1 (float_exponent x) in 1075 \<le> e \<or> 2 ^ (1075 - e) dvd float_mantissa x)"

text \<open>The conversion \<^verbatim>\<open>int64(x)\<close>; \<open>platform\<close> gives its result when the value does not fit.\<close>

definition int64_of_float :: "(float64 \<Rightarrow> int64) \<Rightarrow> float64 \<Rightarrow> int64" where
  "int64_of_float platform x =
     (if float_finite x \<and> in_int64 (float_trunc x) then word_of_int (float_trunc x) else platform x)"

section \<open>Writing a \<^verbatim>\<open>float64\<close>\<close>

definition make_float :: "bool \<Rightarrow> nat \<Rightarrow> nat \<Rightarrow> float64" where
  "make_float neg e frac = Float64 (word_of_nat ((if neg then 2 ^ 63 else 0) + e * 2 ^ 52 + frac))"

definition round_shift :: "nat \<Rightarrow> nat \<Rightarrow> nat" where
  "round_shift n s = (let q = n div 2 ^ s; r = n mod 2 ^ s
     in if 2 ^ s < 2 * r \<or> (2 ^ s = 2 * r \<and> odd q) then q + 1 else q)"

text \<open>A carry out of the rounded fraction runs into the exponent, as it should.\<close>

definition float_of_int :: "int \<Rightarrow> float64" where
  "float_of_int v = (let n = nat \<bar>v\<bar>; l = bit_len n
     in if n = 0 then Float64 0
        else if l \<le> 53 then make_float (v < 0) (1022 + l) (n * 2 ^ (53 - l) - 2 ^ 52)
        else make_float (v < 0) (1022 + l) (round_shift n (l - 53) - 2 ^ 52))"

definition float_of_int64 :: "int64 \<Rightarrow> float64" where
  "float_of_int64 w = float_of_int (sint w)"

text \<open>The widening \<^verbatim>\<open>float64(x)\<close> of a \<^verbatim>\<open>float32\<close>, exact on numbers.\<close>

definition float64_of_float32 :: "float32 \<Rightarrow> float64" where
  "float64_of_float32 x = (let b = float32_bits x; neg = bit b 31;
       e = unat (take_bit 8 (drop_bit 23 b)); frac = unat (take_bit 23 b); l = bit_len frac
     in if e = 255 then make_float neg 2047 (frac * 2 ^ 29)
        else if e = 0 \<and> frac = 0 then make_float neg 0 0
        else if e = 0 then make_float neg (873 + l) (frac * 2 ^ (53 - l) - 2 ^ 52)
        else make_float neg (896 + e) (frac * 2 ^ 29))"

section \<open>Round trip\<close>

lemma make_float_fields:
  assumes "e < 2048" "frac < 2 ^ 52"
  shows "float_exponent (make_float neg e frac) = e" "float_fraction (make_float neg e frac) = frac"
    "float_negative (make_float neg e frac) = neg"
proof -
  let ?s = "if neg then 2 ^ 63 else 0 :: nat"
  let ?b = "?s + e * 2 ^ 52 + frac"
  have lt: "?b < 2 ^ 64"
  proof -
    have "e * 2 ^ 52 + frac < 2 ^ 63" using assms by simp
    then show ?thesis by auto
  qed
  have u: "unat (word_of_nat ?b :: 64 word) = ?b"
    unfolding unat_of_nat by (rule mod_less) (use lt in simp)
  have "float_exponent (make_float neg e frac) = ?b div 2 ^ 52 mod 2 ^ 11"
    unfolding float_exponent_def make_float_def float64.sel unsigned_take_bit_eq unat_drop_bit_eq u
    by (simp add: take_bit_eq_mod drop_bit_eq_div)
  also have "?b = frac + ((if neg then 2048 else 0) + e) * 2 ^ 52" by simp
  also have "(frac + ((if neg then 2048 else 0) + e) * 2 ^ 52) div 2 ^ 52 = (if neg then 2048 else 0) + e"
    using assms(2) by (subst div_mult_self1) simp_all
  finally show "float_exponent (make_float neg e frac) = e" using assms(1) by simp
  have "float_fraction (make_float neg e frac) = ?b mod 2 ^ 52"
    unfolding float_fraction_def make_float_def float64.sel unsigned_take_bit_eq u
    by (simp add: take_bit_eq_mod)
  also have "?b = frac + ((if neg then 2048 else 0) + e) * 2 ^ 52" by simp
  also have "(frac + ((if neg then 2048 else 0) + e) * 2 ^ 52) mod 2 ^ 52 = frac"
    using assms(2) by (subst mod_mult_self1) simp
  finally show "float_fraction (make_float neg e frac) = frac" .
  show "float_negative (make_float neg e frac) = neg"
    unfolding float_negative_def make_float_def float64.sel u using assms by auto
qed

lemma zero_fields: "float_exponent (Float64 0) = 0" "float_fraction (Float64 0) = 0" "\<not> float_negative (Float64 0)"
  by (simp_all add: float_exponent_def float_fraction_def float_negative_def)

lemma normalised:
  assumes "0 < n" "bit_len n \<le> 53"
  shows "2 ^ 52 \<le> n * 2 ^ (53 - bit_len n)" "n * 2 ^ (53 - bit_len n) < 2 ^ 53"
proof -
  have pos: "0 < bit_len n" using assms(1) by (simp add: bit_len_pos)
  have "(2::nat) ^ 52 = 2 ^ (bit_len n - 1) * 2 ^ (53 - bit_len n)"
    using pos assms(2) by (simp flip: power_add)
  also have "\<dots> \<le> n * 2 ^ (53 - bit_len n)" using bit_len_lower [OF assms(1)] by simp
  finally show "2 ^ 52 \<le> n * 2 ^ (53 - bit_len n)" .
  have "n * 2 ^ (53 - bit_len n) < 2 ^ bit_len n * 2 ^ (53 - bit_len n)" using bit_len_upper [of n] by simp
  also have "\<dots> = 2 ^ 53" using assms(2) by (simp flip: power_add)
  finally show "n * 2 ^ (53 - bit_len n) < 2 ^ 53" .
qed

text \<open>An integer of at most 53 bits converts to a \<^verbatim>\<open>float64\<close> exactly.\<close>

lemma float_of_int_exact:
  assumes "nat \<bar>v\<bar> < 2 ^ 53"
  shows "float_trunc (float_of_int v) = v" "float_integral (float_of_int v)" "float_finite (float_of_int v)"
proof -
  let ?n = "nat \<bar>v\<bar>" and ?l = "bit_len (nat \<bar>v\<bar>)"
  have "float_trunc (float_of_int v) = v \<and> float_integral (float_of_int v) \<and> float_finite (float_of_int v)"
  proof (cases "v = 0")
    case True
    then show ?thesis
      by (simp add: float_of_int_def float_trunc_def float_magnitude_def float_mantissa_def
          float_integral_def float_finite_def zero_fields)
  next
    case False
    then have n: "0 < ?n" by simp
    have l: "?l \<le> 53" "0 < ?l" using bit_len_le [OF assms] n by (simp_all add: bit_len_pos)
    note norm = normalised [OF n l(1)]
    let ?m = "?n * 2 ^ (53 - ?l)"
    have f: "float_of_int v = make_float (v < 0) (1022 + ?l) (?m - 2 ^ 52)"
      using n l(1) by (simp add: float_of_int_def Let_def)
    have "?m - 2 ^ 52 < 2 ^ 52" using norm by (simp add: less_diff_conv2)
    moreover have "1022 + ?l < 2048" using l by simp
    ultimately have "1022 + ?l < 2048" "?m - 2 ^ 52 < 2 ^ 52" by blast+
    note fields = make_float_fields [OF this, of "v < 0", folded f]
    have mant: "float_mantissa (float_of_int v) = ?m"
      using norm(1) l(2) by (simp add: float_mantissa_def fields)
    have e: "max 1 (1022 + ?l) = 1022 + ?l" "1075 - (1022 + ?l) = 53 - ?l" by simp_all
    have "float_magnitude (float_of_int v) = ?n"
    proof (cases "?l = 53")
      case True
      then show ?thesis by (simp add: float_magnitude_def fields mant Let_def)
    next
      case False
      then have "\<not> 1075 \<le> 1022 + ?l" using l by simp
      then show ?thesis by (simp add: float_magnitude_def fields mant Let_def e)
    qed
    then show ?thesis
      using l by (auto simp: float_trunc_def fields float_integral_def float_finite_def mant Let_def e)
  qed
  then show "float_trunc (float_of_int v) = v" "float_integral (float_of_int v)" "float_finite (float_of_int v)"
    by simp_all
qed

lemma int64_of_float_exact:
  assumes "nat \<bar>v\<bar> < 2 ^ 53"
  shows "int64_of_float platform (float_of_int v) = word_of_int v"
proof -
  have "in_int64 v" using assms by (auto simp: in_int64_def nat_less_iff)
  with float_of_int_exact [OF assms] show ?thesis by (simp add: int64_of_float_def)
qed

lemma bit_len_eq: "2 ^ k \<le> n \<Longrightarrow> n < 2 ^ Suc k \<Longrightarrow> bit_len n = Suc k"
proof -
  assume a: "2 ^ k \<le> n" "n < 2 ^ Suc k"
  have "\<not> bit_len n \<le> k"
  proof
    assume "bit_len n \<le> k"
    then have "n < 2 ^ k" using bit_len_upper [of n] by (meson one_le_numeral order_less_le_trans power_increasing)
    with a(1) show False by simp
  qed
  with bit_len_le [OF a(2)] show ?thesis by simp
qed

text \<open>The first positive integer that is no \<^verbatim>\<open>float64\<close>, \<open>2 ^ 53 + 1\<close>, loses its last bit.\<close>

lemma float_of_int_rounded: "int64_of_float platform (float_of_int64 9007199254740993) = 9007199254740992"
proof -
  have l: "bit_len 9007199254740993 = 54" using bit_len_eq [of 53 9007199254740993] by simp
  have "float_of_int64 9007199254740993 = make_float False 1076 0"
    by (simp add: float_of_int64_def float_of_int_def l Let_def round_shift_def)
  moreover have "int64_of_float platform (make_float False 1076 0) = 9007199254740992"
    using make_float_fields [of 1076 0 False]
    by (simp add: int64_of_float_def float_finite_def float_trunc_def float_magnitude_def float_mantissa_def in_int64_def Let_def)
  ultimately show ?thesis by simp
qed
section \<open>Integral floats\<close>

lemma round_shift_bounds:
  assumes "0 < n" "53 < bit_len n"
  shows "2 ^ 52 \<le> round_shift n (bit_len n - 53)" "round_shift n (bit_len n - 53) \<le> 2 ^ 53"
proof -
  let ?s = "bit_len n - 53"
  have q: "round_shift n ?s = n div 2 ^ ?s \<or> round_shift n ?s = n div 2 ^ ?s + 1"
    by (auto simp: round_shift_def Let_def)
  have "(2::nat) ^ 52 * 2 ^ ?s = 2 ^ (52 + ?s)" by (simp only: power_add)
  also have "52 + ?s = bit_len n - 1" using assms(2) by simp
  finally have "(2::nat) ^ 52 * 2 ^ ?s = 2 ^ (bit_len n - 1)" .
  then have "2 ^ 52 * 2 ^ ?s \<le> n" using bit_len_lower [OF assms(1)] by simp
  then have "2 ^ 52 \<le> n div 2 ^ ?s" by (simp add: less_eq_div_iff_mult_less_eq)
  with q show "2 ^ 52 \<le> round_shift n ?s" by auto
  have "(2::nat) ^ 53 * 2 ^ ?s = 2 ^ (53 + ?s)" by (simp only: power_add)
  also have "53 + ?s = bit_len n" using assms(2) by simp
  finally have "(2::nat) ^ 53 * 2 ^ ?s = 2 ^ bit_len n" .
  then have "n < 2 ^ 53 * 2 ^ ?s" using bit_len_upper [of n] by simp
  then have "n div 2 ^ ?s < 2 ^ 53" by (simp add: less_mult_imp_div_less)
  with q show "round_shift n ?s \<le> 2 ^ 53" by auto
qed

lemma make_float_carry: "make_float neg e (2 ^ 52) = make_float neg (e + 1) 0"
  by (simp add: make_float_def add.commute)

text \<open>Converting an integer never gives a number with a fraction.\<close>

lemma float_of_int_integral:
  assumes "in_int64 v"
  shows "float_integral (float_of_int v)"
proof (cases "bit_len (nat \<bar>v\<bar>) \<le> 53")
  case True
  then have "nat \<bar>v\<bar> < 2 ^ 53" using bit_len_upper [of "nat \<bar>v\<bar>"]
    by (meson one_le_numeral order_less_le_trans power_increasing)
  then show ?thesis by (rule float_of_int_exact)
next
  case False
  let ?n = "nat \<bar>v\<bar>" and ?l = "bit_len (nat \<bar>v\<bar>)"
  have n: "0 < ?n" using False by (cases "?n") auto
  have "?n < 2 ^ 64" using assms by (auto simp: in_int64_def nat_less_iff)
  then have l: "?l \<le> 64" by (rule bit_len_le)
  let ?q = "round_shift ?n (?l - 53)"
  have f: "float_of_int v = make_float (v < 0) (1022 + ?l) (?q - 2 ^ 52)"
    using n False by (simp add: float_of_int_def Let_def)
  note b = round_shift_bounds [OF n]
  have "float_exponent (float_of_int v) \<in> {1022 + ?l, 1023 + ?l}"
  proof (cases "?q = 2 ^ 53")
    case True
    then have "?q - 2 ^ 52 = 2 ^ 52" by simp
    then have "float_of_int v = make_float (v < 0) (1022 + ?l + 1) 0"
      unfolding f by (simp only: make_float_carry)
    then show ?thesis using make_float_fields(1) [of "1022 + ?l + 1" 0] l by simp
  next
    case q: False
    have "?q \<le> 2 ^ 53" "2 ^ 52 \<le> ?q" using b False by simp_all
    then have "?q - 2 ^ 52 < 2 ^ 52" using q by (simp add: less_diff_conv2)
    moreover have "1022 + ?l < 2048" using l by simp
    ultimately have "float_exponent (float_of_int v) = 1022 + ?l"
      unfolding f by (rule make_float_fields(1) [rotated])
    then show ?thesis by simp
  qed
  moreover have "1075 < 1022 + ?l" "1023 + ?l < 2047" using False l by simp_all
  ultimately show ?thesis by (auto simp: float_integral_def float_finite_def Let_def simp del: One_nat_def)
qed

text \<open>So a float equal to a converted integer is integral.\<close>

lemma float_is_zero_integral: "float_is_zero x \<Longrightarrow> float_integral x"
proof -
  assume "float_is_zero x"
  then have z: "take_bit 63 (float_bits x) = 0" by (simp add: float_is_zero_def)
  have "take_bit 11 (drop_bit 52 (float_bits x)) = drop_bit 52 (take_bit 63 (float_bits x))"
    by (simp add: take_bit_drop_bit)
  moreover have "take_bit 52 (float_bits x) = take_bit 52 (take_bit 63 (float_bits x))" by simp
  ultimately show ?thesis using z
    by (simp add: float_integral_def float_finite_def float_exponent_def float_mantissa_def float_fraction_def)
qed

lemma float_eq_integral: "float_eq x y \<Longrightarrow> float_integral x \<Longrightarrow> float_integral y"
  by (cases x; cases y) (auto simp: float_eq_def intro: float_is_zero_integral)

end
