(* ===== verification/OFREP.thy ===== *)
theory OFREP
  imports Go_Numbers
begin

text \<open>
  The OFREP provider, \<^verbatim>\<open>providers/ofrep\<close>: the HTTP client (\<^verbatim>\<open>internal/outbound/http.go\<close>), the
  resolver that maps responses to results and errors (\<^verbatim>\<open>internal/evaluate/resolver.go\<close>), the typed
  evaluations (\<^verbatim>\<open>internal/evaluate/flags.go\<close>) and the provider with its options
  (\<^verbatim>\<open>provider.go\<close>).  Go's HTTP, URL, JSON, date and formatting libraries are parameters.
\<close>

section \<open>Outbound requests\<close>

type_synonym bytes = string

definition ofrepV1 :: string where "ofrepV1 = ''/ofrep/v1/evaluate/flags/''"

text \<open>A header callback returns the name and the value of a header.\<close>

type_synonym HeaderCallback = "string \<times> string"

text \<open>\<open>'c\<close> is an HTTP client of the library; \<open>None\<close> is the nil client.\<close>

record 'c OutboundConfiguration =
  oc_BaseURI :: string
  oc_Callbacks :: "HeaderCallback list"
  oc_Client :: "'c option"
  oc_Timeout :: int64

text \<open>\<open>res_Headers\<close> is \<^verbatim>\<open>http.Header.Get\<close> of the response: the empty string for a missing header.\<close>

record Resolution =
  res_Data :: bytes
  res_Status :: int
  res_Headers :: "string \<Rightarrow> string"

record 'c Outbound =
  ob_baseURI :: string
  ob_client :: 'c
  ob_headerProvider :: "HeaderCallback list"

definition NewHttp :: "(int64 \<Rightarrow> 'c) \<Rightarrow> 'c OutboundConfiguration \<Rightarrow> 'c Outbound" where
  "NewHttp new_client cfg =
     \<lparr>ob_baseURI = oc_BaseURI cfg,
      ob_client = (case oc_Client cfg of None \<Rightarrow> new_client (oc_Timeout cfg) | Some c \<Rightarrow> c),
      ob_headerProvider = oc_Callbacks cfg\<rparr>"

record http_request =
  rq_path :: string
  rq_payload :: bytes
  rq_headers :: "string \<rightharpoonup> string"

text \<open>
  The library: joining of the path, validation of the request (an error text or none),
  canonical header names, and the exchange, which gives the response or an error.
\<close>

record 'c http_library =
  lib_JoinPath :: "string \<Rightarrow> string \<Rightarrow> string \<Rightarrow> string + string"
  lib_NewRequest :: "string \<Rightarrow> string option"
  lib_canonical :: "string \<Rightarrow> string"
  lib_Do :: "'c \<Rightarrow> http_request \<Rightarrow> string + Resolution"

definition header_set :: "(string \<Rightarrow> string) \<Rightarrow> (string \<rightharpoonup> string) \<Rightarrow> string \<times> string \<Rightarrow> (string \<rightharpoonup> string)" where
  "header_set canonical h = (\<lambda>(name, value). h(canonical name \<mapsto> value))"

definition request_headers :: "(string \<Rightarrow> string) \<Rightarrow> HeaderCallback list \<Rightarrow> (string \<rightharpoonup> string)" where
  "request_headers canonical callbacks =
     foldl (header_set canonical) (header_set canonical Map.empty (''Content-Type'', ''application/json'')) callbacks"

definition outbound_Single ::
  "'c http_library \<Rightarrow> 'c Outbound \<Rightarrow> string \<Rightarrow> bytes \<Rightarrow> string + Resolution" where
  "outbound_Single lib h key payload =
     (case lib_JoinPath lib (ob_baseURI h) ofrepV1 key of
        Inl err \<Rightarrow> Inl (''error building request path: '' @ err)
      | Inr path \<Rightarrow>
          (case lib_NewRequest lib path of
             Some err \<Rightarrow> Inl (resolution_error_text
                 (NewGeneralResolutionError (''request building error: '' @ err)))
           | None \<Rightarrow> lib_Do lib (ob_client h)
               \<lparr>rq_path = path, rq_payload = payload,
                rq_headers = request_headers (lib_canonical lib) (ob_headerProvider h)\<rparr>))"

section \<open>Resolving one flag\<close>

record successDto =
  dto_Value :: go_any
  dto_Reason :: string
  dto_Variant :: string
  dto_Metadata :: go_map

record evaluationSuccess =
  es_Value :: go_any
  es_Key :: string
  es_Reason :: string
  es_Variant :: string
  es_Metadata :: go_any

record evaluationError =
  ee_Key :: string
  ee_ErrorCode :: string
  ee_ErrorDetails :: string

record errorResponse =
  er_ErrorDetails :: string

text \<open>
  The libraries the resolver calls: the JSON codec at the four types it is used at, the date
  parser and the clock (\<open>rl_Until\<close> is the time left until a date), and the formatting of a number
  of seconds and of a value.
\<close>

record resolver_library =
  rl_Marshal :: "go_map \<Rightarrow> string + bytes"
  rl_Success :: "bytes \<Rightarrow> string + evaluationSuccess"
  rl_Error :: "bytes \<Rightarrow> string + evaluationError"
  rl_Response :: "bytes \<Rightarrow> string + errorResponse"
  rl_Until :: "string \<Rightarrow> int64 option"
  rl_seconds :: "int64 \<Rightarrow> string"
  rl_format :: "go_any \<Rightarrow> string"

definition toSuccessDto :: "evaluationSuccess \<Rightarrow> resolution_error + successDto" where
  "toSuccessDto e =
     (let dto = \<lparr>dto_Value = es_Value e, dto_Reason = es_Reason e, dto_Variant = es_Variant e, dto_Metadata = None\<rparr>
      in case es_Metadata e of
           VNil \<Rightarrow> Inr dto
         | VMap m \<Rightarrow> Inr (dto\<lparr>dto_Metadata := Some m\<rparr>)
         | _ \<Rightarrow> Inl (NewParseErrorResolutionError
               ''metadata must be a map of string keys and arbitrary values''))"

definition parseError400 :: "resolver_library \<Rightarrow> bytes \<Rightarrow> resolution_error" where
  "parseError400 lib data =
     (case rl_Error lib data of
        Inl err \<Rightarrow> NewGeneralResolutionError (''error parsing error payload: '' @ err)
      | Inr e \<Rightarrow>
         (if ee_ErrorCode e = code_string ParseErrorCode then NewParseErrorResolutionError (ee_ErrorDetails e)
          else if ee_ErrorCode e = code_string TargetingKeyMissingCode
          then NewTargetingKeyMissingResolutionError (ee_ErrorDetails e)
          else if ee_ErrorCode e = code_string InvalidContextCode
          then NewInvalidContextResolutionError (ee_ErrorDetails e)
          else if ee_ErrorCode e = code_string GeneralCode
          then NewGeneralResolutionError (ee_ErrorDetails e)
          else NewGeneralResolutionError (ee_ErrorDetails e)))"

definition parse429 :: "resolver_library \<Rightarrow> Resolution \<Rightarrow> int64" where
  "parse429 lib rsp =
     (let retryHeader = res_Headers rsp ''Retry-After''
      in if retryHeader = [] then 0
         else case atoi retryHeader of
           Some i \<Rightarrow> word_of_int i * 1000000000
         | None \<Rightarrow> (case rl_Until lib retryHeader of None \<Rightarrow> 0 | Some d \<Rightarrow> d))"

definition parseError500 :: "resolver_library \<Rightarrow> bytes \<Rightarrow> resolution_error" where
  "parseError500 lib data =
     (case rl_Response lib data of
        Inl err \<Rightarrow> NewGeneralResolutionError (''error parsing error payload: '' @ err)
      | Inr e \<Rightarrow> NewGeneralResolutionError (er_ErrorDetails e))"

text \<open>The client behind the resolver, by its method \<^verbatim>\<open>Single\<close>.\<close>

type_synonym single = "string \<Rightarrow> bytes \<Rightarrow> string + Resolution"

definition handle_response :: "resolver_library \<Rightarrow> string \<Rightarrow> Resolution \<Rightarrow> resolution_error + successDto" where
  "handle_response lib key rsp =
     (if res_Status rsp = 200 then
        (case rl_Success lib (res_Data rsp) of
           Inl err \<Rightarrow> Inl (NewParseErrorResolutionError (''error parsing the response: '' @ err))
         | Inr success \<Rightarrow> toSuccessDto success)
      else if res_Status rsp = 400 then Inl (parseError400 lib (res_Data rsp))
      else if res_Status rsp = 401 \<or> res_Status rsp = 403
      then Inl (NewGeneralResolutionError ''authentication/authorization error'')
      else if res_Status rsp = 404
      then Inl (NewFlagNotFoundResolutionError (''flag for key '' @ [CHR 0x27] @ key @ [CHR 0x27] @ '' does not exist''))
      else if res_Status rsp = 429 then
        (let after = parse429 lib rsp
         in if after = 0 then Inl (NewGeneralResolutionError ''rate limit exceeded'')
            else Inl (NewGeneralResolutionError
              (''rate limit exceeded, try again after '' @ rl_seconds lib after @ '' seconds'')))
      else if res_Status rsp = 500 then Inl (parseError500 lib (res_Data rsp))
      else Inl (NewGeneralResolutionError ''invalid response''))"

definition resolveSingle ::
  "resolver_library \<Rightarrow> single \<Rightarrow> string \<Rightarrow> go_map \<Rightarrow> resolution_error + successDto" where
  "resolveSingle lib Single key evalCtx =
     (case rl_Marshal lib evalCtx of
        Inl err \<Rightarrow> Inl (NewGeneralResolutionError (''context marshelling error: '' @ err))
      | Inr b \<Rightarrow>
          (case Single key b of
             Inl err \<Rightarrow> Inl (NewGeneralResolutionError (''ofrep request error: '' @ err))
           | Inr rsp \<Rightarrow> handle_response lib key rsp))"

section \<open>Typed evaluations\<close>

text \<open>What a resolver answers for a key and a context.\<close>

type_synonym resolve = "string \<Rightarrow> go_map \<Rightarrow> resolution_error + successDto"

text \<open>
  The shape all five evaluations share: an error and a disabled flag give the default; otherwise
  \<open>convert\<close> reads the value, and \<open>expected\<close> names the type in the mismatch message.
\<close>

definition evaluate_as ::
  "(go_any \<Rightarrow> string) \<Rightarrow> (go_any \<Rightarrow> 'v option) \<Rightarrow> string \<Rightarrow> resolve \<Rightarrow> string \<Rightarrow> 'v \<Rightarrow> go_map \<Rightarrow> 'v resolution_detail" where
  "evaluate_as fmt convert expected resolve key defaultValue evalCtx =
     (case resolve key evalCtx of
        Inl resolutionError \<Rightarrow> \<lparr>Value = defaultValue,
          Detail = empty_detail\<lparr>ResolutionError := resolutionError, Reason := ErrorReason\<rparr>\<rparr>
      | Inr evalSuccess \<Rightarrow>
          (if dto_Reason evalSuccess = DisabledReason then \<lparr>Value = defaultValue,
             Detail = empty_detail\<lparr>Reason := DisabledReason, Variant := dto_Variant evalSuccess,
               FlagMetadata := dto_Metadata evalSuccess\<rparr>\<rparr>
           else case convert (dto_Value evalSuccess) of
             None \<Rightarrow> \<lparr>Value = defaultValue,
               Detail = empty_detail\<lparr>ResolutionError := NewTypeMismatchResolutionError
                  (''resolved value '' @ fmt (dto_Value evalSuccess) @ '' is not of '' @ expected @ '' type''),
                  Reason := ErrorReason\<rparr>\<rparr>
           | Some v \<Rightarrow> \<lparr>Value = v,
               Detail = empty_detail\<lparr>Reason := dto_Reason evalSuccess, Variant := dto_Variant evalSuccess,
                 FlagMetadata := dto_Metadata evalSuccess\<rparr>\<rparr>))"

fun to_bool :: "go_any \<Rightarrow> bool option" where
  "to_bool (VBool b) = Some b" | "to_bool _ = None"

fun to_string :: "go_any \<Rightarrow> string option" where
  "to_string (VString s) = Some s" | "to_string _ = None"

fun to_float :: "go_any \<Rightarrow> float64 option" where
  "to_float (VFloat32 f) = Some (float64_of_float32 f)"
| "to_float (VFloat64 f) = Some f"
| "to_float _ = None"

fun to_int :: "(float64 \<Rightarrow> int64) \<Rightarrow> go_any \<Rightarrow> int64 option" where
  "to_int platform (VInt i) = Some i"
| "to_int platform (VInt64 i) = Some i"
| "to_int platform (VFloat64 f) =
     (let value = int64_of_float platform f in if float_eq (float_of_int64 value) f then Some value else None)"
| "to_int platform _ = None"

definition ofrep_ResolveBoolean where
  "ofrep_ResolveBoolean fmt = evaluate_as fmt to_bool ''boolean''"
definition ofrep_ResolveString where
  "ofrep_ResolveString fmt = evaluate_as fmt to_string ''string''"
definition ofrep_ResolveFloat where
  "ofrep_ResolveFloat fmt = evaluate_as fmt to_float ''float''"
definition ofrep_ResolveInt where
  "ofrep_ResolveInt platform fmt = evaluate_as fmt (to_int platform) ''integer''"
definition ofrep_ResolveObject :: "resolve \<Rightarrow> string \<Rightarrow> go_any \<Rightarrow> go_map \<Rightarrow> go_any resolution_detail" where
  "ofrep_ResolveObject = evaluate_as (\<lambda>v. []) Some []"

section \<open>The provider\<close>

type_synonym 'c OFREPOption = "'c OutboundConfiguration \<Rightarrow> 'c OutboundConfiguration"

definition add_callback :: "HeaderCallback \<Rightarrow> 'c OFREPOption" where
  "add_callback cb c = c\<lparr>oc_Callbacks := oc_Callbacks c @ [cb]\<rparr>"

definition OFREP_WithHeaderProvider :: "HeaderCallback \<Rightarrow> 'c OFREPOption" where
  "OFREP_WithHeaderProvider callback = add_callback callback"
definition OFREP_WithBearerToken :: "string \<Rightarrow> 'c OFREPOption" where
  "OFREP_WithBearerToken token = add_callback (''Authorization'', ''Bearer '' @ token)"
definition OFREP_WithApiKeyAuth :: "string \<Rightarrow> 'c OFREPOption" where
  "OFREP_WithApiKeyAuth token = add_callback (''X-API-Key'', token)"
definition OFREP_WithClient :: "'c option \<Rightarrow> 'c OFREPOption" where
  "OFREP_WithClient client = oc_Client_update (\<lambda>_. client)"
definition OFREP_WithHeader :: "string \<Rightarrow> string \<Rightarrow> 'c OFREPOption" where
  "OFREP_WithHeader key v = add_callback (key, v)"
definition OFREP_WithBaseURI :: "string \<Rightarrow> 'c OFREPOption" where
  "OFREP_WithBaseURI baseURI = oc_BaseURI_update (\<lambda>_. baseURI)"
definition OFREP_WithTimeout :: "int64 \<Rightarrow> 'c OFREPOption" where
  "OFREP_WithTimeout timeout = oc_Timeout_update (\<lambda>_. timeout)"

lemmas ofrep_option_defs = add_callback_def OFREP_WithHeaderProvider_def OFREP_WithBearerToken_def
  OFREP_WithApiKeyAuth_def OFREP_WithClient_def OFREP_WithHeader_def OFREP_WithBaseURI_def
  OFREP_WithTimeout_def

definition ofrep_configuration :: "string \<Rightarrow> 'c OFREPOption list \<Rightarrow> 'c OutboundConfiguration" where
  "ofrep_configuration baseUri options = foldl (\<lambda>cfg opt. opt cfg)
     \<lparr>oc_BaseURI = baseUri, oc_Callbacks = [], oc_Client = None, oc_Timeout = 10000000000\<rparr> options"

text \<open>The provider is its evaluator: the resolver over the HTTP client of the configuration.\<close>

definition NewFlagsEvaluator ::
  "(int64 \<Rightarrow> 'c) \<Rightarrow> 'c http_library \<Rightarrow> resolver_library \<Rightarrow> 'c OutboundConfiguration \<Rightarrow> resolve" where
  "NewFlagsEvaluator new_client http lib cfg =
     resolveSingle lib (outbound_Single http (NewHttp new_client cfg))"

definition ofrep_NewProvider ::
  "(int64 \<Rightarrow> 'c) \<Rightarrow> 'c http_library \<Rightarrow> resolver_library \<Rightarrow> string \<Rightarrow> 'c OFREPOption list \<Rightarrow> resolve" where
  "ofrep_NewProvider new_client http lib baseUri options =
     NewFlagsEvaluator new_client http lib (ofrep_configuration baseUri options)"

definition ofrep_provider :: "(float64 \<Rightarrow> int64) \<Rightarrow> (go_any \<Rightarrow> string) \<Rightarrow> resolve \<Rightarrow> feature_provider" where
  "ofrep_provider platform fmt resolve =
     \<lparr>p_Name = ''OpenFeature Remote Evaluation Protocol Provider'',
      p_Boolean = ofrep_ResolveBoolean fmt resolve, p_String = ofrep_ResolveString fmt resolve,
      p_Float = ofrep_ResolveFloat fmt resolve, p_Int = ofrep_ResolveInt platform fmt resolve,
      p_Object = ofrep_ResolveObject resolve, p_Init = None\<rparr>"

end
