(* ===== verification/OFREP_Correct.thy ===== *)
theory OFREP_Correct
  imports OFREP Provider_Contract
begin

text \<open>
  Properties of the OFREP provider: which response gives which error, soundness of the typed
  evaluations, integers that survive the JSON number format, the pause of a rate limit, and the
  headers of a request.
\<close>

section \<open>Responses\<close>

definition metadata_ok :: "go_any \<Rightarrow> bool" where
  "metadata_ok m \<longleftrightarrow> (case m of VNil \<Rightarrow> True | VMap f \<Rightarrow> True | _ \<Rightarrow> False)"

lemma toSuccessDto_cases:
  "toSuccessDto e = (if metadata_ok (es_Metadata e)
     then Inr \<lparr>dto_Value = es_Value e, dto_Reason = es_Reason e, dto_Variant = es_Variant e,
        dto_Metadata = (case es_Metadata e of VMap m \<Rightarrow> Some m | _ \<Rightarrow> None)\<rparr>
     else Inl (NewParseErrorResolutionError ''metadata must be a map of string keys and arbitrary values''))"
  by (cases "es_Metadata e") (simp_all add: toSuccessDto_def metadata_ok_def Let_def)

definition usable :: "resolver_library \<Rightarrow> bytes \<Rightarrow> bool" where
  "usable lib data \<longleftrightarrow> (case rl_Success lib data of Inl err \<Rightarrow> False | Inr s \<Rightarrow> metadata_ok (es_Metadata s))"

text \<open>The error code a payload of status 400 stands for; every unknown code counts as general.\<close>

definition code_400 :: "resolver_library \<Rightarrow> bytes \<Rightarrow> error_code" where
  "code_400 lib data = (case rl_Error lib data of
     Inl err \<Rightarrow> GeneralCode
   | Inr e \<Rightarrow> (case List.find (\<lambda>c. code_string c = ee_ErrorCode e)
         [ParseErrorCode, TargetingKeyMissingCode, InvalidContextCode] of
       Some c \<Rightarrow> c | None \<Rightarrow> GeneralCode))"

definition code_of_response :: "resolver_library \<Rightarrow> Resolution \<Rightarrow> error_code option" where
  "code_of_response lib rsp =
     (if res_Status rsp = 200 then if usable lib (res_Data rsp) then None else Some ParseErrorCode
      else if res_Status rsp = 400 then Some (code_400 lib (res_Data rsp))
      else if res_Status rsp = 404 then Some FlagNotFoundCode
      else Some GeneralCode)"

lemma parseError400_code: "has_code (parseError400 lib data) c \<longleftrightarrow> c = code_400 lib data"
  by (cases "rl_Error lib data") (auto simp: parseError400_def code_400_def)

lemma parseError500_code: "has_code (parseError500 lib data) c \<longleftrightarrow> c = GeneralCode"
  by (cases "rl_Response lib data") (auto simp: parseError500_def)

lemma response_codes:
  "(case handle_response lib key rsp of
      Inr dto \<Rightarrow> code_of_response lib rsp = None
    | Inl err \<Rightarrow> (case code_of_response lib rsp of None \<Rightarrow> False | Some c \<Rightarrow> has_code err c))"
proof (cases "res_Status rsp = 200")
  case True
  then show ?thesis
    by (cases "rl_Success lib (res_Data rsp)")
      (simp_all add: handle_response_def code_of_response_def usable_def toSuccessDto_cases)
next
  case False
  then show ?thesis
    by (simp add: handle_response_def code_of_response_def parseError400_code parseError500_code Let_def)
qed

text \<open>
  C39: Error table of the resolver: a response resolves to a value exactly when it has status 200
  and a payload that decodes with metadata that is a map or absent; otherwise the error has the
  code of the table: PARSE_ERROR for an unusable 200, the reported code for 400, FLAG_NOT_FOUND for
  404, and GENERAL for every other status.
\<close>

theorem ofrep_response_codes:
  "(case handle_response lib key rsp of
      Inr dto \<Rightarrow> code_of_response lib rsp = None
    | Inl err \<Rightarrow> (case code_of_response lib rsp of None \<Rightarrow> False | Some c \<Rightarrow> has_code err c))"
  by (rule response_codes)

section \<open>Typed evaluations\<close>

text \<open>
  What every evaluation promises: with an error the value is the caller's default, the reason is
  ERROR and nothing else is set; without one the value is the server's, converted to the type of
  the call, or the default of a disabled flag, with the server's variant and metadata.
\<close>

definition sound_result :: "(go_any \<Rightarrow> 'v option) \<Rightarrow> resolution_error + successDto \<Rightarrow> 'v \<Rightarrow> 'v resolution_detail \<Rightarrow> bool" where
  "sound_result convert answer dv r \<longleftrightarrow>
     (has_error (Detail r) \<and> Value r = dv \<and> Reason (Detail r) = ErrorReason \<and>
        Variant (Detail r) = [] \<and> FlagMetadata (Detail r) = None) \<or>
     (\<not> has_error (Detail r) \<and> (\<exists>dto. answer = Inr dto \<and>
        Reason (Detail r) = dto_Reason dto \<and> Variant (Detail r) = dto_Variant dto \<and>
        FlagMetadata (Detail r) = dto_Metadata dto \<and>
        (if dto_Reason dto = DisabledReason then Value r = dv else convert (dto_Value dto) = Some (Value r))))"

lemma sound_result_error: "sound_result convert answer dv r \<Longrightarrow> has_error (Detail r) \<Longrightarrow> Value r = dv"
  by (auto simp: sound_result_def)

lemma evaluate_as_sound:
  assumes "\<And>err. resolve key ctx = Inl err \<Longrightarrow> err \<noteq> NoResolutionError"
  shows "sound_result convert (resolve key ctx) dv (evaluate_as fmt convert expected resolve key dv ctx)"
proof (cases "resolve key ctx")
  case (Inl err)
  with assms show ?thesis
    by (simp add: evaluate_as_def sound_result_def has_error_def empty_detail_def)
next
  case (Inr dto)
  then show ?thesis
    by (cases "convert (dto_Value dto)")
      (simp_all add: evaluate_as_def sound_result_def has_error_def empty_detail_def)
qed

lemma handle_response_error: "handle_response lib key rsp = Inl err \<Longrightarrow> err \<noteq> NoResolutionError"
  using response_codes [where lib = lib and key = key and rsp = rsp] by (auto split: option.splits)

lemma resolveSingle_error: "resolveSingle lib Single key ctx = Inl err \<Longrightarrow> err \<noteq> NoResolutionError"
  by (auto simp: resolveSingle_def dest: handle_response_error split: sum.splits)

text \<open>
  C38: Soundness of the provider's five evaluations, whatever the service, the network and the
  codec answer: an error comes with the caller's default and the reason ERROR, a result without
  one carries the server's value at the type of the call (or the default, for a disabled flag)
  together with the server's reason, variant and metadata.
\<close>

theorem ofrep_evaluations_sound:
  "let answer = ofrep_NewProvider new_client http lib baseUri options;
       p = ofrep_provider platform fmt answer
   in sound_result to_bool (answer key ctx) b (p_Boolean p key b ctx) \<and>
      sound_result to_string (answer key ctx) s (p_String p key s ctx) \<and>
      sound_result to_float (answer key ctx) f (p_Float p key f ctx) \<and>
      sound_result (to_int platform) (answer key ctx) i (p_Int p key i ctx) \<and>
      sound_result Some (answer key ctx) v (p_Object p key v ctx)"
proof -
  let ?answer = "ofrep_NewProvider new_client http lib baseUri options"
  have err: "err \<noteq> NoResolutionError" if "?answer key ctx = Inl err" for err
    using that resolveSingle_error by (auto simp: ofrep_NewProvider_def NewFlagsEvaluator_def)
  show ?thesis
    unfolding Let_def ofrep_provider_def feature_provider.simps ofrep_ResolveBoolean_def ofrep_ResolveString_def
      ofrep_ResolveFloat_def ofrep_ResolveInt_def ofrep_ResolveObject_def
    by (intro conjI evaluate_as_sound err)
qed

text \<open>The provider keeps the contract of a provider, whatever options it was made with.\<close>

lemma evaluate_as_honest:
  assumes "\<And>key ctx err. resolve key ctx = Inl err \<Longrightarrow> err \<noteq> NoResolutionError"
  shows "default_on_error (evaluate_as fmt convert expected resolve)"
  by (rule default_on_errorI, rule sound_result_error [OF evaluate_as_sound]) (rule assms)

interpretation ofrep: honest_provider "ofrep_provider platform fmt (ofrep_NewProvider new_client http lib baseUri options)"
  for platform fmt new_client http lib baseUri options
proof -
  have err: "ofrep_NewProvider new_client http lib baseUri options key ctx = Inl err \<Longrightarrow> err \<noteq> NoResolutionError" for key ctx err
    using resolveSingle_error by (auto simp: ofrep_NewProvider_def NewFlagsEvaluator_def)
  show "honest_provider (ofrep_provider platform fmt (ofrep_NewProvider new_client http lib baseUri options))"
    by unfold_locales
      (simp_all add: ofrep_provider_def ofrep_ResolveBoolean_def ofrep_ResolveString_def ofrep_ResolveFloat_def
        ofrep_ResolveInt_def ofrep_ResolveObject_def evaluate_as_honest err)
qed

section \<open>Integers\<close>

lemma resolve_int_exact:
  assumes "nat \<bar>v\<bar> < 2 ^ 53" "dto_Reason dto \<noteq> DisabledReason"
    and "dto_Value dto = VFloat64 (float_of_int v)" "resolve key ctx = Inr dto"
  shows "Value (ofrep_ResolveInt platform fmt resolve key dv ctx) = word_of_int v \<and>
    sint (Value (ofrep_ResolveInt platform fmt resolve key dv ctx)) = v \<and>
    \<not> has_error (Detail (ofrep_ResolveInt platform fmt resolve key dv ctx))"
proof -
  have range: "in_int64 v" using assms(1) by (auto simp: in_int64_def nat_less_iff)
  have "float_eq (float_of_int v) (float_of_int v)"
    using float_of_int_exact(3) [OF assms(1)] by (simp add: float_eq_refl float_is_nan_def float_finite_def)
  then have "to_int platform (VFloat64 (float_of_int v)) = Some (word_of_int v)"
    using int64_of_float_exact [OF assms(1)] sint_int64_of_int [OF range]
    by (simp add: float_of_int64_def Let_def)
  with assms(2-4) sint_int64_of_int [OF range] show ?thesis
    by (simp add: ofrep_ResolveInt_def evaluate_as_def has_error_def empty_detail_def)
qed

text \<open>
  An integer flag of at most 53 bits survives JSON, which only knows \<^verbatim>\<open>float64\<close> numbers: the
  evaluation returns exactly that integer, whatever the platform does with values out of range.
\<close>

theorem ofrep_int_roundtrip:
  assumes "nat \<bar>v\<bar> < 2 ^ 53" "dto_Reason dto \<noteq> DisabledReason"
    and "dto_Value dto = VFloat64 (float_of_int v)" "resolve key ctx = Inr dto"
  shows "Value (ofrep_ResolveInt platform fmt resolve key dv ctx) = word_of_int v \<and>
    sint (Value (ofrep_ResolveInt platform fmt resolve key dv ctx)) = v \<and>
    \<not> has_error (Detail (ofrep_ResolveInt platform fmt resolve key dv ctx))"
  using assms by (rule resolve_int_exact)

definition demo_dto :: "int \<Rightarrow> successDto" where
  "demo_dto v = \<lparr>dto_Value = VFloat64 (float_of_int v), dto_Reason = StaticReason, dto_Variant = ''on'', dto_Metadata = None\<rparr>"

theorem ofrep_int_roundtrip_witness:
  "sint (Value (ofrep_ResolveInt (\<lambda>f. 0) (\<lambda>v. []) (\<lambda>key ctx. Inr (demo_dto (- 42))) ''flag'' 7 None)) = - 42"
  using ofrep_int_roundtrip [of "- 42" "demo_dto (- 42)" "\<lambda>key ctx. Inr (demo_dto (- 42))"
      "''flag''" None "\<lambda>f. 0" "\<lambda>v. []" 7]
  by (simp add: demo_dto_def StaticReason_def DisabledReason_def)

text \<open>
  A number with a fraction is never truncated into an integer flag: when the evaluation of a
  \<^verbatim>\<open>float64\<close> answer has no error, that number is finite and integral.
\<close>

theorem ofrep_int_integral:
  assumes "resolve key ctx = Inr dto" "dto_Reason dto \<noteq> DisabledReason" "dto_Value dto = VFloat64 f"
    and "\<not> has_error (Detail (ofrep_ResolveInt platform fmt resolve key dv ctx))"
  shows "float_integral f"
proof -
  let ?v = "int64_of_float platform f"
  have "float_eq (float_of_int64 ?v) f"
    using assms by (auto simp: ofrep_ResolveInt_def evaluate_as_def has_error_def empty_detail_def Let_def
        split: if_splits)
  moreover have "float_integral (float_of_int64 ?v)"
    unfolding float_of_int64_def
    by (rule float_of_int_integral) (rule in_int64_sint)
  ultimately show ?thesis by (rule float_eq_integral)
qed

theorem ofrep_int_integral_witness: "float_integral (float_of_int (- 42))"
  by (rule ofrep_int_integral [of "\<lambda>key ctx. Inr (demo_dto (- 42))" "''flag''" None "demo_dto (- 42)" _ "\<lambda>f. 0" "\<lambda>v. []" 7])
    (use resolve_int_exact [of "- 42" "demo_dto (- 42)" "\<lambda>key ctx. Inr (demo_dto (- 42))"
      "''flag''" None "\<lambda>f. 0" "\<lambda>v. []" 7] in
      \<open>simp_all add: demo_dto_def StaticReason_def DisabledReason_def\<close>)

section \<open>Rate limits\<close>

lemma int_to_string_nonempty: "int_to_string v \<noteq> []"
  by (simp add: int_to_string_def)

lemma parse429_integer:
  assumes "in_int64 i" "res_Headers rsp ''Retry-After'' = int_to_string i"
  shows "parse429 lib rsp = word_of_int (i * 1000000000)"
  using assms atoi_int_to_string [OF assms(1)] int_to_string_nonempty [of i]
  by (simp add: parse429_def Let_def)

text \<open>
  A Retry-After header with a number of seconds is read exactly up to 9223372036 seconds
  either way; one second more overflows the 64-bit duration and reads as a time in the past.
\<close>

theorem retry_after_seconds:
  assumes "\<bar>i\<bar> \<le> 9223372036" "res_Headers rsp ''Retry-After'' = int_to_string i"
    and "res_Headers rsp' ''Retry-After'' = int_to_string 9223372037"
  shows "sint (parse429 lib rsp) = i * 1000000000 \<and> sint (parse429 lib rsp') < 0"
proof -
  have "in_int64 i" "in_int64 (i * 1000000000)" "in_int64 9223372037"
    using assms(1) by (auto simp: in_int64_def)
  then have "sint (parse429 lib rsp) = i * 1000000000"
    using parse429_integer [OF _ assms(2), of lib] sint_int64_of_int by metis
  moreover have "sint (parse429 lib rsp') < 0"
    using parse429_integer [OF \<open>in_int64 9223372037\<close> assms(3), of lib] by simp
  ultimately show ?thesis by simp
qed

definition demo_limited :: "int \<Rightarrow> Resolution" where
  "demo_limited i = \<lparr>res_Data = [], res_Status = 429, res_Headers = (\<lambda>h. int_to_string i)\<rparr>"

theorem retry_after_seconds_witness:
  "sint (parse429 undefined (demo_limited 30)) = 30 * 1000000000 \<and>
   sint (parse429 undefined (demo_limited 9223372037)) < 0"
  by (rule retry_after_seconds) (simp_all add: demo_limited_def)

section \<open>Headers\<close>

lemma request_headers_snoc:
  "request_headers canonical (cbs @ [cb]) = header_set canonical (request_headers canonical cbs) cb"
  by (simp add: request_headers_def)

lemma request_headers_lookup:
  "request_headers canonical cbs k =
     map_option snd (List.find (\<lambda>cb. canonical (fst cb) = k) (rev ((''Content-Type'', ''application/json'') # cbs)))"
proof (induction cbs rule: rev_induct)
  case Nil
  then show ?case by (simp add: request_headers_def header_set_def)
next
  case (snoc cb cbs)
  then show ?case by (simp add: request_headers_snoc header_set_def case_prod_beta)
qed

text \<open>
  Headers of a request: each header has the value of the last callback for its canonical
  name, and the JSON content type when no callback names it; so the credentials of the last
  option given are the ones that are sent.
\<close>

theorem ofrep_request_headers:
  "(let headers = \<lambda>opts. request_headers canonical (ob_headerProvider (NewHttp new_client (ofrep_configuration uri opts)))
    in headers options k = map_option snd (List.find (\<lambda>cb. canonical (fst cb) = k)
         (rev ((''Content-Type'', ''application/json'') # oc_Callbacks (ofrep_configuration uri options)))) \<and>
       headers (options @ [OFREP_WithBearerToken token]) (canonical ''Authorization'') = Some (''Bearer '' @ token) \<and>
       headers (options @ [OFREP_WithApiKeyAuth token]) (canonical ''X-API-Key'') = Some token \<and>
       headers (options @ [OFREP_WithHeader name v]) (canonical name) = Some v)"
  by (simp add: Let_def NewHttp_def request_headers_lookup ofrep_configuration_def ofrep_option_defs)

end
