(* ===== verification/FromEnv.thy ===== *)
theory FromEnv
  imports Go_Numbers
begin

text \<open>
  The environment-variable provider, \<^verbatim>\<open>providers/from-env/pkg\<close>: flags stored as JSON in
  environment variables (\<^verbatim>\<open>env.go\<close>), their variants and targeting criteria (\<^verbatim>\<open>eval.go\<close>), and the
  typed evaluations (\<^verbatim>\<open>provider.go\<close>).  The environment, the JSON decoder and
  \<^verbatim>\<open>reflect.DeepEqual\<close> are parameters.
\<close>

section \<open>Comparing values\<close>

definition float32_eq :: "float32 \<Rightarrow> float32 \<Rightarrow> bool" where
  "float32_eq x y \<longleftrightarrow> float_eq (float64_of_float32 x) (float64_of_float32 y)"

text \<open>
  \<^verbatim>\<open>valuesEqual\<close>: the type switch on the left value, then the same dynamic type, then \<^verbatim>\<open>==\<close> for a
  comparable type and \<open>deep\<close> for the types that are left,
  which Go's \<^verbatim>\<open>==\<close> or \<^verbatim>\<open>reflect.DeepEqual\<close> compares.
\<close>

primrec valuesEqual :: "(go_any \<Rightarrow> go_any \<Rightarrow> bool) \<Rightarrow> go_any \<Rightarrow> go_any \<Rightarrow> bool" where
  "valuesEqual deep VNil right = (right = VNil)"
| "valuesEqual deep (VString l) right = (case right of VString r \<Rightarrow> l = r | _ \<Rightarrow> False)"
| "valuesEqual deep (VFloat64 l) right = (case right of VFloat64 r \<Rightarrow> float_eq l r | _ \<Rightarrow> False)"
| "valuesEqual deep (VBool l) right = (case right of VBool r \<Rightarrow> l = r | _ \<Rightarrow> False)"
| "valuesEqual deep (VList l) right = (case right of
      VList r \<Rightarrow> length l = length r \<and> list_all2 (\<lambda>eq y. eq y) (map (valuesEqual deep) l) r
    | _ \<Rightarrow> False)"
| "valuesEqual deep (VMap l) right = (case right of
      VMap r \<Rightarrow> card (dom l) = card (dom r) \<and>
        (\<forall>k \<in> dom l. case (map_option (valuesEqual deep) \<circ> l) k of
            None \<Rightarrow> True
          | Some eq \<Rightarrow> (case r k of None \<Rightarrow> False | Some v2 \<Rightarrow> eq v2))
    | _ \<Rightarrow> False)"
| "valuesEqual deep (VInt l) right = (case right of VInt r \<Rightarrow> l = r | _ \<Rightarrow> False)"
| "valuesEqual deep (VInt64 l) right = (case right of VInt64 r \<Rightarrow> l = r | _ \<Rightarrow> False)"
| "valuesEqual deep (VFloat32 l) right = (case right of VFloat32 r \<Rightarrow> float32_eq l r | _ \<Rightarrow> False)"
| "valuesEqual deep (VMetadata l) right = (case right of VMetadata r \<Rightarrow> deep (VMetadata l) right | _ \<Rightarrow> False)"
| "valuesEqual deep (VStrings l) right = (case right of VStrings r \<Rightarrow> deep (VStrings l) right | _ \<Rightarrow> False)"
| "valuesEqual deep (VStringMap l) right = (case right of VStringMap r \<Rightarrow> deep (VStringMap l) right | _ \<Rightarrow> False)"
| "valuesEqual deep (VStruct t l) right = (case right of VStruct u r \<Rightarrow> t = u \<and> deep (VStruct t l) right | _ \<Rightarrow> False)"

lemma valuesEqual_list [simp]:
  "valuesEqual deep (VList l) (VList r) \<longleftrightarrow> list_all2 (valuesEqual deep) l r"
  by (auto simp: list_all2_map1 dest: list_all2_lengthD)

lemma valuesEqual_map [simp]:
  "valuesEqual deep (VMap l) (VMap r) \<longleftrightarrow> card (dom l) = card (dom r) \<and>
     (\<forall>k v1. l k = Some v1 \<longrightarrow> (\<exists>v2. r k = Some v2 \<and> valuesEqual deep v1 v2))"
proof -
  have "(case (map_option (valuesEqual deep) \<circ> l) k of None \<Rightarrow> True
      | Some eq \<Rightarrow> (case r k of None \<Rightarrow> False | Some v2 \<Rightarrow> eq v2)) \<longleftrightarrow>
    (\<forall>v1. l k = Some v1 \<longrightarrow> (\<exists>v2. r k = Some v2 \<and> valuesEqual deep v1 v2))" for k
    by (cases "l k"; cases "r k") auto
  then show ?thesis by (auto simp: dom_def)
qed

declare valuesEqual.simps(5,6) [simp del]

lemma valuesEqual_list_iff: "valuesEqual deep (VList l) right \<longleftrightarrow>
    (\<exists>r. right = VList r \<and> list_all2 (valuesEqual deep) l r)"
proof (cases right)
  case (VList r)
  then show ?thesis by (simp only: valuesEqual_list) simp
qed (simp_all add: valuesEqual.simps(5))

lemma valuesEqual_map_right: "valuesEqual deep (VMap l) right \<Longrightarrow> \<exists>r. right = VMap r"
  by (cases right) (simp_all add: valuesEqual.simps(6))

section \<open>Stored flags\<close>

record Criteria =
  cr_Key :: string
  cr_Value :: go_any

record env_variant =
  va_Criteria :: "Criteria list"
  va_TargetingKey :: string
  va_Value :: go_any
  va_Name :: string

record StoredFlag =
  sf_DefaultVariant :: string
  sf_Variants :: "env_variant list"

text \<open>Reading the context: \<^verbatim>\<open>evalCtx[key]\<close> with and without the presence flag.\<close>

definition ctx_value :: "go_map \<Rightarrow> string \<Rightarrow> go_any" where
  "ctx_value ctx k = (case map_get ctx k of None \<Rightarrow> VNil | Some v \<Rightarrow> v)"

fun criteria_match :: "(go_any \<Rightarrow> go_any \<Rightarrow> bool) \<Rightarrow> go_map \<Rightarrow> Criteria list \<Rightarrow> bool" where
  "criteria_match deep ctx [] = True"
| "criteria_match deep ctx (c # cs) =
     (case map_get ctx (cr_Key c) of
        None \<Rightarrow> False
      | Some v \<Rightarrow> if \<not> valuesEqual deep v (cr_Value c) then False else criteria_match deep ctx cs)"

text \<open>The result of an evaluation: name, reason, value and error.\<close>

type_synonym evaluated = "string \<times> string \<times> go_any \<times> resolution_error"

fun evaluate_variants ::
  "(go_any \<Rightarrow> go_any \<Rightarrow> bool) \<Rightarrow> string \<Rightarrow> go_map \<Rightarrow> env_variant option \<Rightarrow> env_variant list \<Rightarrow> evaluated" where
  "evaluate_variants deep defaultName ctx defaultVariant [] =
     (case defaultVariant of
        None \<Rightarrow> ([], ErrorReason, VNil, NewParseErrorResolutionError [])
      | Some v \<Rightarrow> (va_Name v, DefaultReason, va_Value v, NoResolutionError))"
| "evaluate_variants deep defaultName ctx defaultVariant (v # vs) =
     (let defaultVariant = (if va_Name v = defaultName then Some v else defaultVariant)
      in if va_TargetingKey v \<noteq> [] \<and> ctx_value ctx ''targetingKey'' \<noteq> VString (va_TargetingKey v)
         then evaluate_variants deep defaultName ctx defaultVariant vs
         else if criteria_match deep ctx (va_Criteria v)
         then (va_Name v, TargetingMatchReason, va_Value v, NoResolutionError)
         else evaluate_variants deep defaultName ctx defaultVariant vs)"

definition stored_evaluate :: "(go_any \<Rightarrow> go_any \<Rightarrow> bool) \<Rightarrow> StoredFlag \<Rightarrow> go_map \<Rightarrow> evaluated" where
  "stored_evaluate deep f evalCtx =
     evaluate_variants deep (sf_DefaultVariant f) evalCtx None (sf_Variants f)"

section \<open>The environment\<close>

type_synonym FlagToEnvMapper = "string \<Rightarrow> string"

record envFetch =
  ef_mapper :: "FlagToEnvMapper option"

definition fetchStoredFlag ::
  "(string \<Rightarrow> string) \<Rightarrow> (string \<Rightarrow> string + StoredFlag) \<Rightarrow> envFetch \<Rightarrow> string \<Rightarrow> resolution_error + StoredFlag" where
  "fetchStoredFlag getenv unmarshal ef key =
     (let mappedKey = (case ef_mapper ef of Some mapper \<Rightarrow> mapper key | None \<Rightarrow> key);
          val = getenv mappedKey
      in if val \<noteq> [] then
           (case unmarshal val of
              Inl err \<Rightarrow> Inl (NewParseErrorResolutionError err)
            | Inr v \<Rightarrow> Inr v)
         else Inl (NewFlagNotFoundResolutionError
                (''key '' @ mappedKey @ '' not found in environment variables'')))"

section \<open>The provider\<close>

record FromEnvProvider =
  fe_envFetch :: envFetch

type_synonym FromEnvOption = "FromEnvProvider \<Rightarrow> FromEnvProvider"

definition WithFlagToEnvMapper :: "FlagToEnvMapper option \<Rightarrow> FromEnvOption" where
  "WithFlagToEnvMapper mapper p = p\<lparr>fe_envFetch := (fe_envFetch p)\<lparr>ef_mapper := mapper\<rparr>\<rparr>"

definition fromenv_NewProvider :: "FromEnvOption list \<Rightarrow> FromEnvProvider" where
  "fromenv_NewProvider opts = foldl (\<lambda>p opt. opt p) \<lparr>fe_envFetch = \<lparr>ef_mapper = None\<rparr>\<rparr> opts"

text \<open>What the provider takes from its surroundings.\<close>

record fromenv_library =
  fl_getenv :: "string \<Rightarrow> string"
  fl_unmarshal :: "string \<Rightarrow> string + StoredFlag"
  fl_deep :: "go_any \<Rightarrow> go_any \<Rightarrow> bool"
  fl_platform :: "float64 \<Rightarrow> int64"

text \<open>
  \<^verbatim>\<open>resolveFlag\<close>: both errors it can meet are resolution errors already, so \<^verbatim>\<open>errors.As\<close> finds them.
\<close>

definition resolveFlag ::
  "fromenv_library \<Rightarrow> FromEnvProvider \<Rightarrow> string \<Rightarrow> go_any \<Rightarrow> go_map \<Rightarrow> go_any resolution_detail" where
  "resolveFlag lib p flagKey defaultValue evalCtx =
     (case fetchStoredFlag (fl_getenv lib) (fl_unmarshal lib) (fe_envFetch p) flagKey of
        Inl e \<Rightarrow> \<lparr>Value = defaultValue, Detail = empty_detail\<lparr>ResolutionError := e, Reason := ErrorReason\<rparr>\<rparr>
      | Inr res \<Rightarrow>
          (case stored_evaluate (fl_deep lib) res evalCtx of (variant, reason, v, e) \<Rightarrow>
             if e \<noteq> NoResolutionError
             then \<lparr>Value = defaultValue, Detail = empty_detail\<lparr>ResolutionError := e, Reason := ErrorReason\<rparr>\<rparr>
             else \<lparr>Value = v, Detail = empty_detail\<lparr>Variant := variant, Reason := reason\<rparr>\<rparr>))"

text \<open>
  The four typed evaluations: resolve with the default boxed as a dynamic value, then assert the
  type of the result, whether or not the resolution failed.
\<close>

definition typed_evaluation ::
  "('v \<Rightarrow> go_any) \<Rightarrow> (go_any \<Rightarrow> 'v option) \<Rightarrow> fromenv_library \<Rightarrow> FromEnvProvider \<Rightarrow> 'v evaluation" where
  "typed_evaluation box unbox lib p flagKey defaultValue evalCtx =
     (let res = resolveFlag lib p flagKey (box defaultValue) evalCtx
      in case unbox (Value res) of
           None \<Rightarrow> \<lparr>Value = defaultValue, Detail = empty_detail\<lparr>
              ResolutionError := NewTypeMismatchResolutionError [], Reason := ErrorReason\<rparr>\<rparr>
         | Some v \<Rightarrow> \<lparr>Value = v, Detail = Detail res\<rparr>)"

fun any_bool :: "go_any \<Rightarrow> bool option" where
  "any_bool (VBool b) = Some b" | "any_bool _ = None"
fun any_string :: "go_any \<Rightarrow> string option" where
  "any_string (VString s) = Some s" | "any_string _ = None"
fun any_float :: "go_any \<Rightarrow> float64 option" where
  "any_float (VFloat64 f) = Some f" | "any_float _ = None"

definition fromenv_BooleanEvaluation :: "fromenv_library \<Rightarrow> FromEnvProvider \<Rightarrow> bool evaluation" where
  "fromenv_BooleanEvaluation = typed_evaluation VBool any_bool"
definition fromenv_StringEvaluation :: "fromenv_library \<Rightarrow> FromEnvProvider \<Rightarrow> string evaluation" where
  "fromenv_StringEvaluation = typed_evaluation VString any_string"
definition fromenv_FloatEvaluation :: "fromenv_library \<Rightarrow> FromEnvProvider \<Rightarrow> float64 evaluation" where
  "fromenv_FloatEvaluation = typed_evaluation VFloat64 any_float"
definition fromenv_IntEvaluation :: "fromenv_library \<Rightarrow> FromEnvProvider \<Rightarrow> int64 evaluation" where
  "fromenv_IntEvaluation lib = typed_evaluation VInt64
     (\<lambda>v. map_option (int64_of_float (fl_platform lib)) (any_float v)) lib"
definition fromenv_ObjectEvaluation :: "fromenv_library \<Rightarrow> FromEnvProvider \<Rightarrow> go_any evaluation" where
  "fromenv_ObjectEvaluation = resolveFlag"

definition fromenv_provider :: "fromenv_library \<Rightarrow> FromEnvProvider \<Rightarrow> feature_provider" where
  "fromenv_provider lib p = \<lparr>p_Name = ''from-env-flag-evaluator'',
     p_Boolean = fromenv_BooleanEvaluation lib p, p_String = fromenv_StringEvaluation lib p,
     p_Float = fromenv_FloatEvaluation lib p, p_Int = fromenv_IntEvaluation lib p,
     p_Object = fromenv_ObjectEvaluation lib p, p_Init = None\<rparr>"

section \<open>Evaluation of a stored flag\<close>

text \<open>A variant applies when its targeting key and all its criteria fit the context.\<close>

definition applies :: "(go_any \<Rightarrow> go_any \<Rightarrow> bool) \<Rightarrow> go_map \<Rightarrow> env_variant \<Rightarrow> bool" where
  "applies deep ctx v \<longleftrightarrow>
     (va_TargetingKey v = [] \<or> ctx_value ctx ''targetingKey'' = VString (va_TargetingKey v)) \<and>
     list_all (\<lambda>c. case map_get ctx (cr_Key c) of None \<Rightarrow> False | Some x \<Rightarrow> valuesEqual deep x (cr_Value c))
       (va_Criteria v)"

lemma criteria_match_all:
  "criteria_match deep ctx cs = list_all (\<lambda>c. case map_get ctx (cr_Key c) of
     None \<Rightarrow> False | Some x \<Rightarrow> valuesEqual deep x (cr_Value c)) cs"
  by (induction cs) (auto split: option.splits)

lemma evaluate_variants_spec:
  "evaluate_variants deep name ctx d vs =
     (case List.find (applies deep ctx) vs of
        Some v \<Rightarrow> (va_Name v, TargetingMatchReason, va_Value v, NoResolutionError)
      | None \<Rightarrow> (case List.find (\<lambda>v. va_Name v = name) (rev vs) of
          Some v \<Rightarrow> (va_Name v, DefaultReason, va_Value v, NoResolutionError)
        | None \<Rightarrow> evaluate_variants deep name ctx d []))"
proof (induction vs arbitrary: d)
  case (Cons v vs)
  have "applies deep ctx v \<longleftrightarrow> \<not> (va_TargetingKey v \<noteq> [] \<and> ctx_value ctx ''targetingKey'' \<noteq> VString (va_TargetingKey v)) \<and>
      criteria_match deep ctx (va_Criteria v)"
    by (auto simp: applies_def criteria_match_all)
  with Cons show ?case
    by (auto simp: Let_def find_append split: option.splits)
qed simp

text \<open>
  Evaluating a stored flag: the first variant that applies to the context wins with its value
  and the reason TARGETING_MATCH; when none applies, the last variant with the default's name
  gives its value with the reason DEFAULT; when there is none either, it is a parse error.
\<close>

theorem stored_flag_evaluation:
  "stored_evaluate deep f ctx =
     (case List.find (applies deep ctx) (sf_Variants f) of
        Some v \<Rightarrow> (va_Name v, TargetingMatchReason, va_Value v, NoResolutionError)
      | None \<Rightarrow> (case List.find (\<lambda>v. va_Name v = sf_DefaultVariant f) (rev (sf_Variants f)) of
          Some v \<Rightarrow> (va_Name v, DefaultReason, va_Value v, NoResolutionError)
        | None \<Rightarrow> ([], ErrorReason, VNil, NewParseErrorResolutionError [])))"
  unfolding stored_evaluate_def by (subst evaluate_variants_spec) (simp split: option.split)

end
