(* ===== verification/FromEnv_Correct.thy ===== *)
theory FromEnv_Correct
  imports FromEnv Provider_Contract
begin

text \<open>
  Properties of the environment-variable provider: the comparison of decoded JSON values is an
  equivalence, and how the typed evaluations report a failed lookup.
\<close>

section \<open>Decoded JSON values\<close>

text \<open>What \<^verbatim>\<open>json.Unmarshal\<close> puts into an \<^verbatim>\<open>any\<close>: JSON has no NaN, and a decoded map is finite.\<close>

primrec json_value :: "go_any \<Rightarrow> bool" where
  "json_value VNil = True"
| "json_value (VBool b) = True"
| "json_value (VString s) = True"
| "json_value (VFloat64 f) = (\<not> float_is_nan f)"
| "json_value (VList vs) = list_all (\<lambda>b. b) (map json_value vs)"
| "json_value (VMap m) = (finite (dom m) \<and>
     (\<forall>k. case (map_option json_value \<circ> m) k of None \<Rightarrow> True | Some b \<Rightarrow> b))"
| "json_value (VInt i) = False"
| "json_value (VInt64 i) = False"
| "json_value (VFloat32 f) = False"
| "json_value (VMetadata m) = False"
| "json_value (VStrings ss) = False"
| "json_value (VStringMap m) = False"
| "json_value (VStruct t fs) = False"

lemma json_value_list [simp]: "json_value (VList vs) \<longleftrightarrow> (\<forall>v \<in> set vs. json_value v)"
  by (simp add: list_all_iff)

lemma json_value_map [simp]:
  "json_value (VMap m) \<longleftrightarrow> finite (dom m) \<and> (\<forall>k v. m k = Some v \<longrightarrow> json_value v)"
proof -
  have "(case (map_option json_value \<circ> m) k of None \<Rightarrow> True | Some b \<Rightarrow> b) \<longleftrightarrow>
      (\<forall>v. m k = Some v \<longrightarrow> json_value v)" for k by (cases "m k") auto
  then show ?thesis by simp
qed

declare json_value.simps(5,6) [simp del]

lemma valuesEqual_refl: "json_value v \<Longrightarrow> valuesEqual deep v v"
proof (induction v)
  case (VList vs)
  then show ?case by (auto simp: list_all2_same)
next
  case (VMap m)
  have "valuesEqual deep v v" if "m k = Some v" for k v
    using VMap.IH [of "Some v" v] VMap.prems that by (auto intro: rangeI [of m k, simplified that])
  then show ?case by simp
qed (simp_all add: float_eq_refl)

lemma valuesEqual_map_dom:
  assumes "valuesEqual deep (VMap l) (VMap r)" "finite (dom r)"
  shows "dom l = dom r"
proof -
  have "dom l \<subseteq> dom r" using assms(1) by auto
  moreover have "card (dom l) = card (dom r)" using assms(1) by simp
  ultimately show ?thesis using assms(2) by (simp add: card_subset_eq)
qed

lemma valuesEqual_sym:
  "json_value r \<Longrightarrow> valuesEqual deep l r \<Longrightarrow> json_value l \<Longrightarrow> valuesEqual deep r l"
proof (induction l arbitrary: r)
  case (VList vs)
  then obtain ws where r: "r = VList ws" "list_all2 (valuesEqual deep) vs ws"
    by (auto simp: valuesEqual_list_iff)
  then have "list_all2 (\<lambda>w v. valuesEqual deep w v) ws vs"
    using VList by (auto simp: list_all2_conv_all_nth)
  then show ?case using r by simp
next
  case (VMap m)
  then obtain n where r: "r = VMap n" using valuesEqual_map_right by blast
  have "finite (dom n)" using VMap.prems(1) r by simp
  then have dom: "dom m = dom n" by (rule valuesEqual_map_dom [OF VMap.prems(2) [unfolded r]])
  have "\<exists>v. m k = Some v \<and> valuesEqual deep w v" if w: "n k = Some w" for k w
  proof -
    obtain v where v: "m k = Some v" using dom w by (metis domD domI)
    have "\<exists>w'. n k = Some w' \<and> valuesEqual deep v w'" using VMap.prems(2) r v by simp
    then have "valuesEqual deep v w" using w by auto
    moreover have "json_value w" "json_value v" using VMap.prems r v w by auto
    ultimately have "valuesEqual deep w v"
      using VMap.IH [of "Some v" v w] v rangeI [of m k] by simp
    with v show ?thesis by blast
  qed
  with dom show ?case unfolding r by simp
qed (auto simp: float_eq_sym split: go_any.splits)

lemma valuesEqual_trans:
  "valuesEqual deep a b \<Longrightarrow> valuesEqual deep b c \<Longrightarrow> json_value a \<Longrightarrow> json_value b \<Longrightarrow> json_value c \<Longrightarrow>
     valuesEqual deep a c"
proof (induction a arbitrary: b c)
  case (VList us)
  then obtain vs where b: "b = VList vs" "list_all2 (valuesEqual deep) us vs"
    by (auto simp: valuesEqual_list_iff)
  with VList obtain ws where c: "c = VList ws" "list_all2 (valuesEqual deep) vs ws"
    by (auto simp: valuesEqual_list_iff)
  have "valuesEqual deep (us ! i) (ws ! i)" if "i < length us" for i
  proof (rule VList.IH [of _ "vs ! i"])
    show "us ! i \<in> set us" using that by simp
    show "valuesEqual deep (us ! i) (vs ! i)" using b(2) that by (simp add: list_all2_conv_all_nth)
    show "valuesEqual deep (vs ! i) (ws ! i)" using b(2) c(2) that by (simp add: list_all2_conv_all_nth)
  qed (use VList.prems b c that in \<open>auto simp: list_all2_conv_all_nth\<close>)
  then show ?case using b(2) c by (simp add: list_all2_conv_all_nth)
next
  case (VMap m)
  then obtain n where b: "b = VMap n" using valuesEqual_map_right by blast
  with VMap obtain q where c: "c = VMap q" using valuesEqual_map_right by blast
  have "\<exists>w. q k = Some w \<and> valuesEqual deep u w" if u: "m k = Some u" for k u
  proof -
    obtain v where v: "n k = Some v" "valuesEqual deep u v" using VMap.prems(1) b u by auto
    then obtain w where w: "q k = Some w" "valuesEqual deep v w" using VMap.prems(2) b c by auto
    have "json_value u" "json_value v" "json_value w" using VMap.prems b c u v w by auto
    with v w u rangeI [of m k] have "valuesEqual deep u w" by (auto intro: VMap.IH [of "Some u" u v w])
    with w show ?thesis by blast
  qed
  moreover have "card (dom m) = card (dom q)" using VMap.prems b c by simp
  ultimately show ?case unfolding c by simp
next
  case (VFloat64 x)
  then show ?case by (auto simp: float_eq_def float_is_zero_def split: go_any.splits)
qed (auto split: go_any.splits)

text \<open>
  On the values JSON decoding produces, the comparison of a criterion with the context is an
  equivalence relation, at every nesting depth, whatever the order of map entries and whatever
  \<^verbatim>\<open>reflect.DeepEqual\<close> does.
\<close>

theorem criteria_comparison_equivalence:
  assumes "json_value a" "json_value b" "json_value c"
  shows "valuesEqual deep a a \<and> (valuesEqual deep a b = valuesEqual deep b a) \<and>
    (valuesEqual deep a b \<and> valuesEqual deep b c \<longrightarrow> valuesEqual deep a c)"
  using assms valuesEqual_refl valuesEqual_sym valuesEqual_trans by metis

definition demo_json :: go_any where
  "demo_json = VList [VMap [''roles'' \<mapsto> VList [VString ''admin'', VBool True]], VNil]"

theorem criteria_comparison_equivalence_witness:
  "valuesEqual (\<lambda>l r. False) demo_json demo_json \<and>
   (valuesEqual (\<lambda>l r. False) demo_json VNil = valuesEqual (\<lambda>l r. False) VNil demo_json)"
  using criteria_comparison_equivalence [of demo_json VNil VNil "\<lambda>l r. False"]
  by (simp add: demo_json_def split: if_splits)

section \<open>Failed lookups\<close>

lemma resolveFlag_error:
  "fetchStoredFlag (fl_getenv lib) (fl_unmarshal lib) (fe_envFetch p) key = Inl e \<Longrightarrow>
   resolveFlag lib p key dv ctx =
     \<lparr>Value = dv, Detail = empty_detail\<lparr>ResolutionError := e, Reason := ErrorReason\<rparr>\<rparr>"
  by (simp add: resolveFlag_def)

text \<open>
  A flag that is not in the environment: boolean, string, float and object evaluations report
  FLAG_NOT_FOUND, but an integer evaluation reports TYPE_MISMATCH, because its boxed default is
  no \<^verbatim>\<open>float64\<close>; the value is the default in all five.
\<close>

theorem missing_flag_errors:
  assumes "fl_getenv lib (case ef_mapper (fe_envFetch p) of Some mapper \<Rightarrow> mapper key | None \<Rightarrow> key) = []"
  shows "is_not_found (Detail (fromenv_BooleanEvaluation lib p key b ctx)) \<and>
    is_not_found (Detail (fromenv_StringEvaluation lib p key s ctx)) \<and>
    is_not_found (Detail (fromenv_FloatEvaluation lib p key f ctx)) \<and>
    is_not_found (Detail (fromenv_ObjectEvaluation lib p key v ctx)) \<and>
    has_code (ResolutionError (Detail (fromenv_IntEvaluation lib p key i ctx))) TypeMismatchCode \<and>
    Value (fromenv_BooleanEvaluation lib p key b ctx) = b \<and>
    Value (fromenv_StringEvaluation lib p key s ctx) = s \<and>
    Value (fromenv_FloatEvaluation lib p key f ctx) = f \<and>
    Value (fromenv_ObjectEvaluation lib p key v ctx) = v \<and>
    Value (fromenv_IntEvaluation lib p key i ctx) = i"
proof -
  obtain m where "fetchStoredFlag (fl_getenv lib) (fl_unmarshal lib) (fe_envFetch p) key =
      Inl (NewFlagNotFoundResolutionError m)"
    using assms by (simp add: fetchStoredFlag_def Let_def)
  note r = resolveFlag_error [OF this]
  show ?thesis
    by (simp add: fromenv_BooleanEvaluation_def fromenv_StringEvaluation_def fromenv_FloatEvaluation_def
        fromenv_ObjectEvaluation_def fromenv_IntEvaluation_def typed_evaluation_def r is_not_found_def)
qed

definition empty_environment :: fromenv_library where
  "empty_environment = \<lparr>fl_getenv = (\<lambda>x. []), fl_unmarshal = (\<lambda>s. Inl s), fl_deep = (\<lambda>l r. False),
     fl_platform = (\<lambda>f. 0)\<rparr>"

theorem missing_flag_errors_witness:
  "has_code (ResolutionError (Detail (fromenv_IntEvaluation empty_environment (fromenv_NewProvider []) ''flag'' 7 None)))
     TypeMismatchCode"
  using missing_flag_errors [where lib = empty_environment and p = "fromenv_NewProvider []" and key = "''flag''"]
  by (simp add: empty_environment_def fromenv_NewProvider_def)

text \<open>A number with a fraction is cut to an integer without an error.\<close>

lemma int_evaluation_truncates:
  assumes "resolveFlag lib p key (VInt64 i) ctx = \<lparr>Value = VFloat64 f, Detail = d\<rparr>"
  shows "fromenv_IntEvaluation lib p key i ctx = \<lparr>Value = int64_of_float (fl_platform lib) f, Detail = d\<rparr>"
  using assms by (simp add: fromenv_IntEvaluation_def typed_evaluation_def)

section \<open>The contract of a provider\<close>

text \<open>A failed lookup gives the boxed default, which its own type gives back; the integers, whose box it does not, report a type error.\<close>

lemma resolveFlag_honest: "default_on_error (resolveFlag lib p)"
proof (rule default_on_errorI)
  fix key d ctx
  assume err: "has_error (Detail (resolveFlag lib p key d ctx))"
  show "Value (resolveFlag lib p key d ctx) = d"
  proof (cases "fetchStoredFlag (fl_getenv lib) (fl_unmarshal lib) (fe_envFetch p) key")
    case (Inr res)
    obtain variant reason v e where "stored_evaluate (fl_deep lib) res ctx = (variant, reason, v, e)"
      by (cases "stored_evaluate (fl_deep lib) res ctx") auto
    with Inr err show ?thesis by (cases "e = NoResolutionError") (simp_all add: resolveFlag_def has_error_def empty_detail_def)
  qed (simp add: resolveFlag_def)
qed

lemma typed_evaluation_honest:
  "(\<And>d. unbox (box d) = Some d \<or> unbox (box d) = None) \<Longrightarrow> default_on_error (typed_evaluation box unbox lib p)"
proof (rule default_on_errorI)
  fix flag d ctx
  assume box: "\<And>d. unbox (box d) = Some d \<or> unbox (box d) = None"
    and err: "has_error (Detail (typed_evaluation box unbox lib p flag d ctx))"
  let ?r = "resolveFlag lib p flag (box d) ctx"
  show "Value (typed_evaluation box unbox lib p flag d ctx) = d"
  proof (cases "unbox (Value ?r)")
    case (Some v)
    with err have "Value ?r = box d"
      using default_on_errorD [OF resolveFlag_honest] by (simp add: typed_evaluation_def)
    with Some box [of d] show ?thesis by (auto simp: typed_evaluation_def)
  qed (simp add: typed_evaluation_def)
qed

interpretation fromenv: honest_provider "fromenv_provider lib p" for lib p
  by unfold_locales
    (auto simp: fromenv_provider_def fromenv_BooleanEvaluation_def fromenv_StringEvaluation_def fromenv_FloatEvaluation_def
      fromenv_IntEvaluation_def fromenv_ObjectEvaluation_def intro!: typed_evaluation_honest resolveFlag_honest)

end
