(* ===== verification/GOFF_Collector.thy ===== *)
theory GOFF_Collector
  imports OFREP
begin

text \<open>
  The GO Feature Flag provider, first part: the HTTP client of the relay proxy
  (\<^verbatim>\<open>providers/go-feature-flag/pkg/api\<close>), the events of the data collector (\<^verbatim>\<open>pkg/model\<close>), its
  queue (\<^verbatim>\<open>pkg/manager/data_collector_manager.go\<close>) and the hooks that feed it (\<^verbatim>\<open>pkg/hook\<close>).  URL, JSON,
  HTTP and time libraries are parameters.
\<close>

section \<open>The relay proxy's API\<close>

record 'c GoFeatureFlagAPI =
  ga_endpoint :: string
  ga_httpClient :: "'c option"
  ga_apiKey :: string
  ga_headers :: "(string \<times> string) list"
  ga_exporterMetadata :: "string \<rightharpoonup> go_any"
  ga_dataCollectorBaseURL :: string

text \<open>\<open>ga_headers\<close> is the map of extra headers in the order the runtime visits it.\<close>

record api_response =
  ar_StatusCode :: int
  ar_Status :: string
  ar_Body :: "string + string"
  ar_Header :: "string \<Rightarrow> string"

record 'f FlagConfigResponse =
  cr_Flags :: "string \<rightharpoonup> 'f"
  cr_Enrichment :: go_map
  cr_Etag :: string
  cr_LastUpdated :: "int option"

text \<open>
  The libraries: parsing an endpoint and joining a path to it, encoding a request, validating it,
  the exchange, decoding a configuration, and parsing a date.
\<close>

record ('c, 'e, 'f) api_library =
  al_Url :: "string \<Rightarrow> string list \<Rightarrow> string + string"
  al_MarshalFlags :: "string list \<Rightarrow> string + string"
  al_MarshalEvents :: "'e list \<Rightarrow> (string \<rightharpoonup> go_any) \<Rightarrow> string + string"
  al_NewRequest :: "string \<Rightarrow> string option"
  al_canonical :: "string \<Rightarrow> string"
  al_default_client :: 'c
  al_Do :: "'c \<Rightarrow> http_request \<Rightarrow> string + api_response"
  al_Unmarshal :: "string \<Rightarrow> string + 'f FlagConfigResponse"
  al_ParseTime :: "string \<Rightarrow> int option"

definition setHeaders :: "(string \<Rightarrow> string) \<Rightarrow> 'c GoFeatureFlagAPI \<Rightarrow> string \<Rightarrow> (string \<rightharpoonup> string)" where
  "setHeaders canonical a etag =
     (let h = header_set canonical Map.empty (''Content-Type'', ''application/json'');
          h = (if ga_apiKey a \<noteq> [] then header_set canonical h (''X-API-Key'', ga_apiKey a) else h);
          h = (if etag \<noteq> [] then header_set canonical h (''If-None-Match'', etag) else h)
      in foldl (header_set canonical) h (ga_headers a))"

definition getHttpClient :: "('c, 'e, 'f) api_library \<Rightarrow> 'c GoFeatureFlagAPI \<Rightarrow> 'c" where
  "getHttpClient lib a = (case ga_httpClient a of None \<Rightarrow> al_default_client lib | Some c \<Rightarrow> c)"

datatype api_error = ErrNotModified | ApiError string

definition parseConfigurationSuccessResponse ::
  "('c, 'e, 'f) api_library \<Rightarrow> api_response \<Rightarrow> api_error + 'f FlagConfigResponse" where
  "parseConfigurationSuccessResponse lib resp =
     (case ar_Body resp of
        Inl err \<Rightarrow> Inl (ApiError (''GetConfiguration: read response body: '' @ err))
      | Inr rawBody \<Rightarrow>
          (case al_Unmarshal lib rawBody of
             Inl err \<Rightarrow> Inl (ApiError (''GetConfiguration: unmarshal response: '' @ err))
           | Inr result \<Rightarrow>
               (let result = result\<lparr>cr_Etag := ar_Header resp ''ETag''\<rparr>;
                    lastUpdatedHeader = ar_Header resp ''Last-Updated''
                in Inr (if lastUpdatedHeader \<noteq> [] then
                          (case al_ParseTime lib lastUpdatedHeader of
                             Some t \<Rightarrow> result\<lparr>cr_LastUpdated := Some t\<rparr> | None \<Rightarrow> result)
                        else result))))"

definition GetConfiguration ::
  "('c, 'e, 'f) api_library \<Rightarrow> 'c GoFeatureFlagAPI \<Rightarrow> string list \<Rightarrow> string \<Rightarrow> api_error + 'f FlagConfigResponse" where
  "GetConfiguration lib a flags etag =
     (case al_Url lib (ga_endpoint a) [''v1'', ''flag'', ''configuration''] of
        Inl err \<Rightarrow> Inl (ApiError (''GetConfiguration: invalid endpoint: '' @ err))
      | Inr u \<Rightarrow>
     (case al_MarshalFlags lib flags of
        Inl err \<Rightarrow> Inl (ApiError (''GetConfiguration: marshal request: '' @ err))
      | Inr body \<Rightarrow>
     (case al_NewRequest lib u of
        Some err \<Rightarrow> Inl (ApiError (''GetConfiguration: create request: '' @ err))
      | None \<Rightarrow>
     (case al_Do lib (getHttpClient lib a)
             \<lparr>rq_path = u, rq_payload = body, rq_headers = setHeaders (al_canonical lib) a etag\<rparr> of
        Inl err \<Rightarrow> Inl (ApiError (''GetConfiguration: HTTP request failed: '' @ err))
      | Inr resp \<Rightarrow>
          if ar_StatusCode resp = 200 then parseConfigurationSuccessResponse lib resp
          else if ar_StatusCode resp = 304 then Inl ErrNotModified
          else (case ar_Body resp of
                  Inl err \<Rightarrow> Inl (ApiError (''GetConfiguration: request failed with status '' @ ar_Status resp @
                     '', and could not read body: '' @ err))
                | Inr rawBody \<Rightarrow> Inl (ApiError (''GetConfiguration: request failed with status '' @ ar_Status resp @
                     '': '' @ rawBody)))))))"

definition CollectData :: "('c, 'e, 'f) api_library \<Rightarrow> 'c GoFeatureFlagAPI \<Rightarrow> 'e list \<Rightarrow> string option" where
  "CollectData lib a events =
     (let effectiveEndpoint = (if ga_dataCollectorBaseURL a \<noteq> [] then ga_dataCollectorBaseURL a else ga_endpoint a)
      in case al_Url lib effectiveEndpoint [''v1'', ''data'', ''collector''] of
           Inl err \<Rightarrow> Some (''CollectData: invalid endpoint: '' @ err)
         | Inr u \<Rightarrow>
        (case al_MarshalEvents lib events (ga_exporterMetadata a) of
           Inl err \<Rightarrow> Some (''CollectData: marshal request: '' @ err)
         | Inr jsonData \<Rightarrow>
        (case al_NewRequest lib u of
           Some err \<Rightarrow> Some (''CollectData: create request: '' @ err)
         | None \<Rightarrow>
        (case al_Do lib (getHttpClient lib a)
                \<lparr>rq_path = u, rq_payload = jsonData, rq_headers = setHeaders (al_canonical lib) a []\<rparr> of
           Inl err \<Rightarrow> Some (''CollectData: request failed: '' @ err)
         | Inr resp \<Rightarrow> if ar_StatusCode resp \<noteq> 200 then Some (''request failed with status: '' @ ar_Status resp)
                       else None))))"

section \<open>Events\<close>

text \<open>An evaluation context of the SDK: a targeting key and attributes.\<close>

record EvaluationContext =
  ec_TargetingKey :: string
  ec_Attributes :: "string \<rightharpoonup> go_any"

record FeatureEvent =
  fe_Kind :: string
  fe_ContextKind :: string
  fe_UserKey :: string
  fe_CreationDate :: int64
  fe_Key :: string
  fe_Variation :: string
  fe_Value :: go_any
  fe_Default :: bool
  fe_Version :: string
  fe_Source :: string

record TrackingEvent =
  te_Kind :: string
  te_ContextKind :: string
  te_UserKey :: string
  te_CreationDate :: int64
  te_Key :: string
  te_EvaluationContext :: "string \<rightharpoonup> go_any"
  te_TrackingDetails :: "string \<rightharpoonup> go_any"

datatype CollectableEvent = Feature FeatureEvent | Tracking TrackingEvent

definition context_kind :: "EvaluationContext \<Rightarrow> string" where
  "context_kind evalCtx =
     (if ec_Attributes evalCtx ''anonymous'' = Some (VBool True) then ''anonymousUser'' else ''user'')"

definition NewFeatureEvent ::
  "int64 \<Rightarrow> EvaluationContext \<Rightarrow> string \<Rightarrow> go_any \<Rightarrow> string \<Rightarrow> bool \<Rightarrow> string \<Rightarrow> string \<Rightarrow> FeatureEvent" where
  "NewFeatureEvent now evalCtx flagKey val variation failed version source =
     \<lparr>fe_Kind = ''feature'', fe_ContextKind = context_kind evalCtx, fe_UserKey = ec_TargetingKey evalCtx,
      fe_CreationDate = now, fe_Key = flagKey, fe_Variation = variation, fe_Value = val, fe_Default = failed,
      fe_Version = version, fe_Source = source\<rparr>"

definition NewTrackingEvent ::
  "int64 \<Rightarrow> string \<Rightarrow> EvaluationContext \<Rightarrow> (string \<rightharpoonup> go_any) \<Rightarrow> TrackingEvent" where
  "NewTrackingEvent now trackingEventName evalCtx details =
     \<lparr>te_Kind = ''tracking'', te_ContextKind = context_kind evalCtx,
      te_UserKey = (if ec_TargetingKey evalCtx = [] then ''undefined'' else ec_TargetingKey evalCtx),
      te_CreationDate = now, te_Key = trackingEventName, te_EvaluationContext = ec_Attributes evalCtx,
      te_TrackingDetails = details\<rparr>"

section \<open>The data collector\<close>

text \<open>
  The queue with its goroutines: \<open>dc_token\<close> is the one-place channel \<^verbatim>\<open>collectChannel\<close>, \<open>dc_goroutine\<close>
  the goroutine of the last \<^verbatim>\<open>Start\<close>, \<open>dc_older\<close> the number of those of earlier ones that still loop; \<open>dc_sent\<close>
  logs the batches that the relay proxy accepted.  Each call of \<^verbatim>\<open>CollectData\<close> is given by its result
  \<open>err\<close>.
\<close>

datatype collect_loop = NotStarted | Looping | Exited

record 'e DataCollectorManager =
  dc_events :: "'e list"
  dc_max :: int64
  dc_interval :: int64
  dc_token :: bool
  dc_goroutine :: collect_loop
  dc_older :: nat
  dc_sent :: "'e list list"

definition dataCollectorMaxEventStoredDefault :: int64 where "dataCollectorMaxEventStoredDefault = 100000"
definition collectIntervalDefault :: int64 where "collectIntervalDefault = 120 * 1000000000"

definition NewDataCollectorManager :: "int64 \<Rightarrow> int64 \<Rightarrow> 'e DataCollectorManager" where
  "NewDataCollectorManager maxEvents collectInterval =
     \<lparr>dc_events = [],
      dc_max = (if maxEvents <=s 0 then dataCollectorMaxEventStoredDefault else maxEvents),
      dc_interval = (if collectInterval <=s 0 then collectIntervalDefault else collectInterval),
      dc_token = False, dc_goroutine = NotStarted, dc_older = 0, dc_sent = []\<rparr>"

definition sendDataLocked ::
  "string option \<Rightarrow> 'e DataCollectorManager \<Rightarrow> 'e DataCollectorManager \<times> string option" where
  "sendDataLocked err d =
     (if dc_events d = [] then (d, None)
      else case err of
             Some e \<Rightarrow> (d, Some e)
           | None \<Rightarrow> (d\<lparr>dc_events := [], dc_sent := dc_sent d @ [dc_events d]\<rparr>, None))"

definition SendData :: "string option \<Rightarrow> 'e DataCollectorManager \<Rightarrow> 'e DataCollectorManager \<times> string option" where
  "SendData err d = sendDataLocked err d"

definition AddEvent ::
  "string option \<Rightarrow> 'e \<Rightarrow> 'e DataCollectorManager \<Rightarrow> 'e DataCollectorManager \<times> string option" where
  "AddEvent err event d =
     (if sint (dc_max d) \<le> int (length (dc_events d)) then
        (case sendDataLocked err d of
           (d, Some e) \<Rightarrow> (d, Some e)
         | (d, None) \<Rightarrow> (d\<lparr>dc_events := dc_events d @ [event]\<rparr>, None))
      else (d\<lparr>dc_events := dc_events d @ [event]\<rparr>, None))"

definition collector_Start :: "'e DataCollectorManager \<Rightarrow> 'e DataCollectorManager" where
  "collector_Start d =
     d\<lparr>dc_goroutine := Looping, dc_older := (if dc_goroutine d = Looping then Suc (dc_older d) else dc_older d)\<rparr>"

text \<open>
  The two arms of the loop's select: a tick of one of the running goroutines, and the token, taken by the goroutine
  of the last Start or by an older one.
\<close>

definition collector_tick :: "string option \<Rightarrow> 'e DataCollectorManager \<Rightarrow> 'e DataCollectorManager" where
  "collector_tick err d = (if dc_goroutine d = Looping \<or> 0 < dc_older d then fst (SendData err d) else d)"

definition collector_take :: "bool \<Rightarrow> 'e DataCollectorManager \<Rightarrow> 'e DataCollectorManager" where
  "collector_take older d =
     (if \<not> dc_token d then d
      else if older then (if 0 < dc_older d then d\<lparr>dc_token := False, dc_older := dc_older d - 1\<rparr> else d)
      else if dc_goroutine d = Looping then d\<lparr>dc_token := False, dc_goroutine := Exited\<rparr> else d)"

text \<open>
  \<^verbatim>\<open>Stop\<close> puts the token, unless one is there; it waits until the goroutine of the last Start, if there was one, has
  ended; and then it flushes the queue.  \<open>collector_Stop\<close> is the call whose token that goroutine takes, with nothing
  in between.
\<close>

definition collector_put :: "'e DataCollectorManager \<Rightarrow> 'e DataCollectorManager" where
  "collector_put d = d\<lparr>dc_token := True\<rparr>"

definition collector_wait :: "string option \<Rightarrow> 'e DataCollectorManager \<Rightarrow> 'e DataCollectorManager" where
  "collector_wait err d = (if dc_goroutine d = Looping then d else fst (SendData err d))"

definition collector_Stop :: "string option \<Rightarrow> 'e DataCollectorManager \<Rightarrow> 'e DataCollectorManager" where
  "collector_Stop err d = collector_wait err (collector_take False (collector_put d))"

section \<open>Hooks\<close>

definition evaluationTypeRemote :: string where "evaluationTypeRemote = ''REMOTE''"

definition CachedReason :: string where "CachedReason = ''CACHED''"

definition getSource :: "string \<Rightarrow> string" where
  "getSource evaluationType = (if evaluationType = evaluationTypeRemote then ''PROVIDER_CACHE'' else ''INPROCESS'')"

definition collector_After ::
  "int64 \<Rightarrow> string option \<Rightarrow> string \<Rightarrow> EvaluationContext \<Rightarrow> string \<Rightarrow> go_any resolution_detail \<Rightarrow>
   CollectableEvent DataCollectorManager \<Rightarrow> CollectableEvent DataCollectorManager" where
  "collector_After now err evaluationType evalCtx flagKey details d =
     (if evaluationType = evaluationTypeRemote \<and> Reason (Detail details) \<noteq> CachedReason then d
      else fst (AddEvent err (Feature (NewFeatureEvent now evalCtx flagKey (Value details) (Variant (Detail details))
             False [] (getSource evaluationType))) d))"

definition collector_Error ::
  "int64 \<Rightarrow> string option \<Rightarrow> string \<Rightarrow> EvaluationContext \<Rightarrow> string \<Rightarrow> go_any \<Rightarrow>
   CollectableEvent DataCollectorManager \<Rightarrow> CollectableEvent DataCollectorManager" where
  "collector_Error now err evaluationType evalCtx flagKey defaultValue d =
     fst (AddEvent err (Feature (NewFeatureEvent now evalCtx flagKey defaultValue ''SdkDefault'' True []
            (getSource evaluationType))) d)"

text \<open>The enrichment hook's new context; \<^verbatim>\<open>Attributes()\<close> is the SDK's copy of the attributes.\<close>

definition enrichment_Before :: "(string \<rightharpoonup> go_any) \<Rightarrow> EvaluationContext \<Rightarrow> EvaluationContext" where
  "enrichment_Before exporterMetadata evalCtx =
     (let attributes = ec_Attributes evalCtx;
          fresh = VMap [''exporterMetadata'' \<mapsto> VMap exporterMetadata];
          attributes =
            (case attributes ''gofeatureflag'' of
               Some (VMap typed) \<Rightarrow> attributes(''gofeatureflag'' \<mapsto> VMap (typed(''exporterMetadata'' \<mapsto> VMap exporterMetadata)))
             | _ \<Rightarrow> attributes(''gofeatureflag'' \<mapsto> fresh))
      in \<lparr>ec_TargetingKey = ec_TargetingKey evalCtx, ec_Attributes = attributes\<rparr>)"

definition goff_Track ::
  "int64 \<Rightarrow> string option \<Rightarrow> bool \<Rightarrow> string \<Rightarrow> EvaluationContext \<Rightarrow> (string \<rightharpoonup> go_any) \<Rightarrow>
   CollectableEvent DataCollectorManager \<Rightarrow> CollectableEvent DataCollectorManager" where
  "goff_Track now err dataCollectorDisabled trackingEventName evalCtx details d =
     (if dataCollectorDisabled then d
      else fst (AddEvent err (Tracking (NewTrackingEvent now trackingEventName evalCtx details)) d))"

section \<open>The queue loses nothing\<close>

text \<open>
  The inputs of a run, in any order: an event, a flush by hand, a Start, a tick, a goroutine that takes the token,
  and the two halves of a Stop.
\<close>

datatype 'e collector_input =
    AddIt 'e "string option"
  | FlushIt "string option"
  | StartIt
  | TickIt "string option"
  | TakeIt bool
  | PutIt
  | WaitIt "string option"

definition collector_input ::
  "'e collector_input \<Rightarrow> 'e DataCollectorManager \<Rightarrow> 'e DataCollectorManager \<times> 'e list" where
  "collector_input i d = (case i of
       AddIt e err \<Rightarrow> (case AddEvent err e d of (d, r) \<Rightarrow> (d, if r = None then [e] else []))
     | FlushIt err \<Rightarrow> (fst (SendData err d), [])
     | StartIt \<Rightarrow> (collector_Start d, [])
     | TickIt err \<Rightarrow> (collector_tick err d, [])
     | TakeIt older \<Rightarrow> (collector_take older d, [])
     | PutIt \<Rightarrow> (collector_put d, [])
     | WaitIt err \<Rightarrow> (collector_wait err d, []))"

fun collector_run :: "'e collector_input list \<Rightarrow> 'e DataCollectorManager \<Rightarrow> 'e DataCollectorManager \<times> 'e list" where
  "collector_run [] d = (d, [])"
| "collector_run (i # is) d =
     (case collector_input i d of (d, acc) \<Rightarrow> (case collector_run is d of (d, accs) \<Rightarrow> (d, acc @ accs)))"

definition stored :: "'e DataCollectorManager \<Rightarrow> 'e list" where
  "stored d = concat (dc_sent d) @ dc_events d"

lemma sendDataLocked_stored [simp]: "stored (fst (sendDataLocked err d)) = stored d"
  by (simp add: sendDataLocked_def stored_def split: option.split)

lemma sendDataLocked_max [simp]: "dc_max (fst (sendDataLocked err d)) = dc_max d"
  by (simp add: sendDataLocked_def split: option.split)

lemma sendDataLocked_shorter: "length (dc_events (fst (sendDataLocked err d))) \<le> length (dc_events d)"
  by (simp add: sendDataLocked_def split: option.split)

lemma sendDataLocked_done: "snd (sendDataLocked err d) = None \<Longrightarrow> dc_events (fst (sendDataLocked err d)) = []"
  by (auto simp: sendDataLocked_def split: option.splits if_splits)

definition bounded_queue :: "'e DataCollectorManager \<Rightarrow> bool" where
  "bounded_queue d \<longleftrightarrow> 1 \<le> sint (dc_max d) \<and> int (length (dc_events d)) \<le> sint (dc_max d)"

lemma bounded_queue_send: "bounded_queue d \<Longrightarrow> bounded_queue (fst (sendDataLocked err d))"
  using sendDataLocked_shorter [of err d] by (simp add: bounded_queue_def)

lemma AddEvent_step:
  "AddEvent err e d = (d', r) \<Longrightarrow> stored d' = stored d @ (if r = None then [e] else []) \<and>
    dc_max d' = dc_max d \<and> (bounded_queue d \<longrightarrow> bounded_queue d')"
  using sendDataLocked_stored [of err d] sendDataLocked_done [of err d] sendDataLocked_max [of err d] bounded_queue_send [of d err]
  by (cases "sendDataLocked err d") (auto simp: AddEvent_def stored_def bounded_queue_def split: if_splits option.splits)

text \<open>The queue is only changed by additions and flushes; everything else moves the goroutines.\<close>

lemma goroutine_steps [simp]:
  "dc_events (collector_Start d) = dc_events d" "dc_sent (collector_Start d) = dc_sent d" "dc_max (collector_Start d) = dc_max d"
  "dc_events (collector_take older d) = dc_events d" "dc_sent (collector_take older d) = dc_sent d"
  "dc_max (collector_take older d) = dc_max d"
  "dc_events (collector_put d) = dc_events d" "dc_sent (collector_put d) = dc_sent d" "dc_max (collector_put d) = dc_max d"
  by (simp_all add: collector_Start_def collector_take_def collector_put_def)

lemma flush_steps:
  "collector_tick err d = d \<or> collector_tick err d = fst (sendDataLocked err d)"
  "collector_wait err d = d \<or> collector_wait err d = fst (sendDataLocked err d)"
  by (simp_all add: collector_tick_def collector_wait_def SendData_def)

lemma same_queue:
  "dc_events d' = dc_events d \<Longrightarrow> dc_sent d' = dc_sent d \<Longrightarrow> dc_max d' = dc_max d \<Longrightarrow>
    stored d' = stored d \<and> dc_max d' = dc_max d \<and> (bounded_queue d \<longrightarrow> bounded_queue d')"
  by (simp add: stored_def bounded_queue_def)

lemma flush_queue:
  "d' = d \<or> d' = fst (sendDataLocked err d) \<Longrightarrow>
    stored d' = stored d \<and> dc_max d' = dc_max d \<and> (bounded_queue d \<longrightarrow> bounded_queue d')"
  using bounded_queue_send [of d err] by auto

lemma collector_input_step:
  assumes "collector_input i d = (d', a)"
  shows "stored d' = stored d @ a \<and> dc_max d' = dc_max d \<and> (bounded_queue d \<longrightarrow> bounded_queue d')"
proof (cases i)
  case (AddIt e err)
  with assms AddEvent_step [of err e d d'] show ?thesis by (auto simp: collector_input_def split: prod.splits)
next
  case (FlushIt err)
  with assms flush_queue [of d' d err] show ?thesis by (simp add: collector_input_def SendData_def)
next
  case (TickIt err)
  with assms flush_queue [OF flush_steps(1)] show ?thesis by (auto simp: collector_input_def)
next
  case (WaitIt err)
  with assms flush_queue [OF flush_steps(2)] show ?thesis by (auto simp: collector_input_def)
qed (use assms same_queue [of d' d] in \<open>auto simp: collector_input_def\<close>)

lemma collector_run_step:
  "collector_run is d = (d', accs) \<Longrightarrow>
    stored d' = stored d @ accs \<and> dc_max d' = dc_max d \<and> (bounded_queue d \<longrightarrow> bounded_queue d')"
proof (induction "is" arbitrary: d accs)
  case (Cons i "is")
  obtain d1 a1 where 1: "collector_input i d = (d1, a1)" by (cases "collector_input i d")
  obtain accs1 where 2: "collector_run is d1 = (d', accs1)" "accs = a1 @ accs1"
    using Cons.prems 1 by (auto split: prod.splits)
  with Cons.IH [OF 2(1)] collector_input_step [OF 1] show ?case by simp
qed simp

lemmas collector_run_stored = collector_run_step [THEN conjunct1]

lemma flush_empties: "dc_events (fst (sendDataLocked None d)) = []"
  by (simp add: sendDataLocked_def)

lemma NewDataCollectorManager_bounded: "bounded_queue (NewDataCollectorManager m i)"
  by (auto simp: bounded_queue_def NewDataCollectorManager_def dataCollectorMaxEventStoredDefault_def word_sle_eq)

text \<open>
  C16: The data collector neither loses nor repeats nor reorders an event: after any sequence of additions, flushes,
  Starts, ticks of the running loops and Stops, interleaved in any way and whatever the relay proxy answers,
  the accepted batches followed by the queue are exactly the events whose addition was reported as
  successful, in their order; the queue never grows beyond its configured size; and the next tick of a
  running loop, or the end of a Stop, that the relay proxy accepts leaves nothing in the queue.
\<close>

theorem collector_keeps_events:
  assumes "collector_run is (NewDataCollectorManager maxEvents interval) = (d, accepted)"
  shows "concat (dc_sent d) @ dc_events d = accepted \<and>
    int (length (dc_events d)) \<le> (if maxEvents <=s 0 then 100000 else sint maxEvents) \<and>
    (\<forall>d'. (dc_goroutine d = Looping \<or> 0 < dc_older d) \<and> d' = collector_tick None d \<or>
        dc_goroutine d \<noteq> Looping \<and> d' = collector_wait None d \<longrightarrow>
      dc_events d' = [] \<and> concat (dc_sent d') = accepted)"
proof -
  have run: "stored d = accepted" "dc_max d = dc_max (NewDataCollectorManager maxEvents interval :: 'a DataCollectorManager)" "bounded_queue d"
    using collector_run_step [OF assms] NewDataCollectorManager_bounded [of maxEvents interval]
    by (auto simp: stored_def NewDataCollectorManager_def)
  have "dc_events d' = [] \<and> concat (dc_sent d') = accepted" if "d' = fst (sendDataLocked None d)" for d'
    using that run(1) flush_empties [of d] sendDataLocked_stored [of None d] by (simp add: stored_def)
  then show ?thesis
    using run by (auto simp: stored_def bounded_queue_def NewDataCollectorManager_def dataCollectorMaxEventStoredDefault_def
        collector_tick_def collector_wait_def SendData_def split: if_splits)
qed

text \<open>A collector that is started, ticks, is stopped and ticks no more, with an event after the Stop.\<close>

abbreviation collector_inputs :: "string collector_input list" where
  "collector_inputs \<equiv> [StartIt, AddIt ''a'' None, AddIt ''b'' None, AddIt ''c'' (Some ''down''), TickIt (Some ''down''), TickIt None,
     AddIt ''d'' None, PutIt, TakeIt False, WaitIt None, AddIt ''e'' None, TickIt None]"

theorem collector_keeps_events_witness:
  "let (d, accepted) = collector_run collector_inputs (NewDataCollectorManager 2 0)
   in accepted = [''a'', ''b'', ''d'', ''e''] \<and> dc_sent d = [[''a'', ''b''], [''d'']] \<and>
     concat (dc_sent d) @ dc_events d = accepted \<and> length (dc_events d) \<le> 2"
proof -
  let ?d = "NewDataCollectorManager 2 0"
  obtain d acc where run: "collector_run collector_inputs ?d = (d, acc)" by fastforce
  then have "acc = [''a'', ''b'', ''d'', ''e'']" "dc_sent d = [[''a'', ''b''], [''d'']]"
    by (auto simp: collector_input_def AddEvent_def SendData_def sendDataLocked_def NewDataCollectorManager_def collector_Start_def
        collector_tick_def collector_take_def collector_put_def collector_wait_def word_sle_eq)
  with collector_keeps_events [OF run] run show ?thesis by (simp add: word_sle_eq)
qed

lemma ticks_without_loop: "dc_goroutine d \<noteq> Looping \<Longrightarrow> dc_older d = 0 \<Longrightarrow> fold collector_tick errs d = d"
  by (induction errs) (simp_all add: collector_tick_def)

text \<open>
  A Stop without a running goroutine disables the next Start: the token it leaves behind ends the new
  goroutine before its first flush, so that events are sent by hand or not at all until the queue is
  full.
\<close>

theorem stop_disables_next_start:
  assumes "dc_goroutine d \<noteq> Looping" "dc_older d = 0" "d' = collector_take False (collector_Start (collector_Stop err d))"
  shows "dc_goroutine d' = Exited \<and> fold collector_tick errs d' = d' \<and> dc_sent d' = dc_sent (collector_Stop err d)"
proof -
  have "dc_token (collector_Stop err d)" "dc_older (collector_Stop err d) = 0" "dc_goroutine (collector_Stop err d) \<noteq> Looping"
    using assms(1,2)
    by (auto simp: collector_Stop_def collector_wait_def collector_take_def collector_put_def SendData_def sendDataLocked_def split: option.split)
  then have "dc_goroutine d' = Exited" "dc_older d' = 0"
    by (simp_all add: assms(3) collector_Start_def collector_take_def)
  with ticks_without_loop [of d' errs] show ?thesis by (simp add: assms(3))
qed

theorem stop_disables_next_start_witness:
  "dc_sent (fold collector_tick [None, None] (collector_take False (collector_Start (collector_Stop (Some ''down'')
     (fst (AddEvent None ''a'' (NewDataCollectorManager 0 0))))))) = []"
proof -
  let ?d = "fst (AddEvent None ''a'' (NewDataCollectorManager 0 0))"
  have d: "dc_goroutine ?d \<noteq> Looping" "dc_older ?d = 0" "dc_sent (collector_Stop (Some ''down'') ?d) = []"
    by (simp_all add: AddEvent_def NewDataCollectorManager_def dataCollectorMaxEventStoredDefault_def
        collector_Stop_def collector_wait_def collector_take_def collector_put_def SendData_def sendDataLocked_def)
  show ?thesis using stop_disables_next_start [OF d(1,2) refl, of "Some ''down''" "[None, None]"] d(3) by simp
qed

end
