(* ===== verification/GOFF_Remote.thy ===== *)
theory GOFF_Remote
  imports GOFF_Collector Flagd_Cache OFREP_Correct
begin

text \<open>
  The GO Feature Flag provider's remote evaluation: the evaluation cache
  (\<^verbatim>\<open>pkg/manager/cache.go\<close>) in front of an OFREP provider and the polling that purges it
  (\<^verbatim>\<open>pkg/evaluator/remote.go\<close>).  The LRU cache library is a parameter that keeps the contract
  \<open>lossy_cache\<close>; Go's formatting of a map as a cache key is written out.
\<close>

section \<open>Cache keys\<close>

text \<open>
  \<^verbatim>\<open>fmt.Sprintf("%+v", m)\<close> of a map: the entries in the order of their keys, each \<^verbatim>\<open>key:value\<close>, between
  \<^verbatim>\<open>map[\<close> and \<^verbatim>\<open>]\<close>; a string is printed as it is.  \<open>other\<close> prints the values of the other types.
\<close>

fun fmt_value :: "(go_any \<Rightarrow> string) \<Rightarrow> go_any \<Rightarrow> string" where
  "fmt_value other (VString s) = s"
| "fmt_value other (VBool b) = (if b then ''true'' else ''false'')"
| "fmt_value other (VInt i) = int_to_string (sint i)"
| "fmt_value other (VInt64 i) = int_to_string (sint i)"
| "fmt_value other v = other v"

definition fmt_map :: "(go_any \<Rightarrow> string) \<Rightarrow> go_map \<Rightarrow> string" where
  "fmt_map other m = (let f = map_view m in
     ''map['' @ join_with '' '' (map (\<lambda>k. k @ '':'' @ fmt_value other (the (f k))) (sorted_list_of_set (dom f))) @ '']'')"

definition buildCacheKey :: "(go_any \<Rightarrow> string) \<Rightarrow> string \<Rightarrow> go_map \<Rightarrow> string" where
  "buildCacheKey other flag evalCtx = flag @ ''-'' @ fmt_map other evalCtx"

section \<open>The cache\<close>

text \<open>A resolution detail as it is stored, tagged with its type, and the time it may live.\<close>

datatype typed_answer =
    ABool "bool resolution_detail"
  | AString "string resolution_detail"
  | AFloat "float64 resolution_detail"
  | AInt "int64 resolution_detail"
  | AInterface "go_any resolution_detail"

type_synonym entry = "typed_answer \<times> int64 option"

record 'c goff_cache =
  gc_internal :: "'c option"
  gc_ttl :: int64
  gc_disabled :: bool

definition defaultCacheSize :: int where "defaultCacheSize = 10000"
definition defaultCacheTTL :: int64 where "defaultCacheTTL = 60 * 1000000000"

definition NewCache :: "(int \<Rightarrow> 'c) \<Rightarrow> int \<Rightarrow> int64 \<Rightarrow> bool \<Rightarrow> 'c goff_cache" where
  "NewCache new_lru cacheSize ttl disabled =
     (let cacheSize = (if cacheSize = 0 then defaultCacheSize else cacheSize);
          ttl = (if ttl = 0 then defaultCacheTTL else ttl)
      in \<lparr>gc_internal = (if cacheSize > 0 \<and> \<not> disabled then Some (new_lru cacheSize) else None),
          gc_ttl = ttl, gc_disabled = disabled\<rparr>)"

definition cache_IsEnabled :: "'c goff_cache \<Rightarrow> bool" where
  "cache_IsEnabled c \<longleftrightarrow> \<not> gc_disabled c \<and> gc_internal c \<noteq> None"

text \<open>The five getters differ in the type \<open>unwrap\<close> accepts and in its name.\<close>

definition cache_get ::
  "(string, entry, 'c) Cache \<Rightarrow> (go_any \<Rightarrow> string) \<Rightarrow> (typed_answer \<Rightarrow> 'v resolution_detail option) \<Rightarrow> string \<Rightarrow>
   'c goff_cache \<Rightarrow> string \<Rightarrow> go_map \<Rightarrow> 'c goff_cache \<times> (string + 'v resolution_detail option)" where
  "cache_get ops other unwrap typ c flag evalCtx =
     (if gc_disabled c then (c, Inr None)
      else case gc_internal c of
        None \<Rightarrow> (c, Inr None)
      | Some i \<Rightarrow>
          (case Get ops (buildCacheKey other flag evalCtx) i of
             (i, None) \<Rightarrow> (c\<lparr>gc_internal := Some i\<rparr>, Inl ''Key not found.'')
           | (i, Some (v, ttl)) \<Rightarrow>
               (c\<lparr>gc_internal := Some i\<rparr>,
                case unwrap v of Some d \<Rightarrow> Inr (Some d)
                | None \<Rightarrow> Inl (''unexpected type in cache (expecting '' @ typ @ '')''))))"

definition cache_Set ::
  "(string, entry, 'c) Cache \<Rightarrow> (go_any \<Rightarrow> string) \<Rightarrow> 'c goff_cache \<Rightarrow> string \<Rightarrow> go_map \<Rightarrow> typed_answer \<Rightarrow> 'c goff_cache" where
  "cache_Set ops other c flag evalCtx v =
     (if gc_disabled c then c
      else case gc_internal c of
        None \<Rightarrow> c
      | Some i \<Rightarrow> c\<lparr>gc_internal := Some (fst (Add ops (buildCacheKey other flag evalCtx)
           (v, if 0 <=s gc_ttl c then Some (gc_ttl c) else None) i))\<rparr>)"

definition cache_Purge :: "(string, entry, 'c) Cache \<Rightarrow> 'c goff_cache \<Rightarrow> 'c goff_cache" where
  "cache_Purge ops c = c\<lparr>gc_internal := map_option (Purge ops) (gc_internal c)\<rparr>"

fun answer_bool :: "typed_answer \<Rightarrow> bool resolution_detail option" where
  "answer_bool (ABool d) = Some d" | "answer_bool _ = None"
fun answer_string :: "typed_answer \<Rightarrow> string resolution_detail option" where
  "answer_string (AString d) = Some d" | "answer_string _ = None"
fun answer_float :: "typed_answer \<Rightarrow> float64 resolution_detail option" where
  "answer_float (AFloat d) = Some d" | "answer_float _ = None"
fun answer_int :: "typed_answer \<Rightarrow> int64 resolution_detail option" where
  "answer_int (AInt d) = Some d" | "answer_int _ = None"
fun answer_interface :: "typed_answer \<Rightarrow> go_any resolution_detail option" where
  "answer_interface (AInterface d) = Some d" | "answer_interface _ = None"

definition goff_GetBool where "goff_GetBool ops other = cache_get ops other answer_bool ''bool''"
definition goff_GetString where "goff_GetString ops other = cache_get ops other answer_string ''string''"
definition goff_GetFloat where "goff_GetFloat ops other = cache_get ops other answer_float ''float''"
definition goff_GetInt where "goff_GetInt ops other = cache_get ops other answer_int ''int''"
definition goff_GetInterface where "goff_GetInterface ops other = cache_get ops other answer_interface ''interface''"

section \<open>Evaluation\<close>

text \<open>
  What a remote evaluation calls: the cache library, the formatting of other values, the SDK's
  \<^verbatim>\<open>FlagMetadata.GetBool\<close>, and the OFREP provider.
\<close>

record 'c remote_env =
  re_ops :: "(string, entry, 'c) Cache"
  re_other :: "go_any \<Rightarrow> string"
  re_GetBool :: "go_map \<Rightarrow> string \<Rightarrow> bool \<times> string option"

definition cacheableMetadataKey :: string where "cacheableMetadataKey = ''gofeatureflag_cacheable''"

definition cacheable :: "'c remote_env \<Rightarrow> 'v resolution_detail \<Rightarrow> bool" where
  "cacheable env d =
     (case re_GetBool env (FlagMetadata (Detail d)) cacheableMetadataKey of (cachable, err) \<Rightarrow> err = None \<and> cachable)"

definition remote_evaluate ::
  "'c remote_env \<Rightarrow> ('c goff_cache \<Rightarrow> string \<Rightarrow> go_map \<Rightarrow> 'c goff_cache \<times> (string + 'v resolution_detail option)) \<Rightarrow>
   ('v resolution_detail \<Rightarrow> typed_answer) \<Rightarrow> 'v evaluation \<Rightarrow> 'c goff_cache \<Rightarrow> string \<Rightarrow> 'v \<Rightarrow> go_map \<Rightarrow>
   'c goff_cache \<times> 'v resolution_detail" where
  "remote_evaluate env getter wrap evaluation c flag defaultValue flatCtx =
     (case getter c flag flatCtx of
        (c, Inr (Some cacheValue)) \<Rightarrow> (c, cacheValue\<lparr>Detail := (Detail cacheValue)\<lparr>Reason := CachedReason\<rparr>\<rparr>)
      | (c, _) \<Rightarrow>
          (let evalResp = evaluation flag defaultValue flatCtx
           in (if cacheable env evalResp then cache_Set (re_ops env) (re_other env) c flag flatCtx (wrap evalResp) else c,
               evalResp)))"

definition remote_BooleanEvaluation where
  "remote_BooleanEvaluation env p = remote_evaluate env (goff_GetBool (re_ops env) (re_other env)) ABool (p_Boolean p)"
definition remote_StringEvaluation where
  "remote_StringEvaluation env p = remote_evaluate env (goff_GetString (re_ops env) (re_other env)) AString (p_String p)"
definition remote_FloatEvaluation where
  "remote_FloatEvaluation env p = remote_evaluate env (goff_GetFloat (re_ops env) (re_other env)) AFloat (p_Float p)"
definition remote_IntEvaluation where
  "remote_IntEvaluation env p = remote_evaluate env (goff_GetInt (re_ops env) (re_other env)) AInt (p_Int p)"
definition remote_ObjectEvaluation where
  "remote_ObjectEvaluation env p = remote_evaluate env (goff_GetInterface (re_ops env) (re_other env)) AInterface (p_Object p)"

section \<open>Polling\<close>

text \<open>
  The evaluator: \<open>rm_polling\<close> counts the running polling goroutines, \<open>rm_current\<close> tells whether
  the channels of the struct belong to a running one, \<open>rm_once\<close> whether \<^verbatim>\<open>shutdownOnce\<close> was used.
\<close>

record 'c Remote =
  rm_cache :: "'c goff_cache"
  rm_api :: bool
  rm_etag :: string
  rm_interval :: int64
  rm_polling :: nat
  rm_current :: bool
  rm_once :: bool

definition pollingIntervalDefault :: int64 where "pollingIntervalDefault = 120 * 1000000000"

definition remote_options ::
  "'c option \<Rightarrow> string \<Rightarrow> (string \<times> string) list \<Rightarrow> 'c OFREPOption list" where
  "remote_options httpClient apiKey headers =
     (case httpClient of None \<Rightarrow> [] | Some c \<Rightarrow> [OFREP_WithClient (Some c)]) @
     (if apiKey \<noteq> [] then [OFREP_WithApiKeyAuth apiKey] else []) @
     map (\<lambda>(k, v). OFREP_WithHeader k v) headers"

definition remote_provider where
  "remote_provider new_client http lib platform fmt baseUri httpClient apiKey headers =
     ofrep_provider platform fmt (ofrep_NewProvider new_client http lib baseUri (remote_options httpClient apiKey headers))"

definition NewRemoteEvaluator :: "(int \<Rightarrow> 'c) \<Rightarrow> int \<Rightarrow> int64 \<Rightarrow> bool \<Rightarrow> int64 \<Rightarrow> bool \<Rightarrow> 'c Remote" where
  "NewRemoteEvaluator new_lru flagCacheSize flagCacheTTL disableCache pollingInterval hasApi =
     \<lparr>rm_cache = NewCache new_lru flagCacheSize flagCacheTTL disableCache, rm_api = hasApi, rm_etag = [],
      rm_interval = pollingInterval, rm_polling = 0, rm_current = False, rm_once = False\<rparr>"

definition remote_startPolling :: "'c Remote \<Rightarrow> 'c Remote \<times> int64" where
  "remote_startPolling r = (r\<lparr>rm_polling := Suc (rm_polling r), rm_current := True\<rparr>,
     if rm_interval r <=s 0 then pollingIntervalDefault else rm_interval r)"

text \<open>\<open>getConf\<close> is the answer of \<^verbatim>\<open>GetConfiguration\<close>, a response by its ETag.\<close>

definition remote_Init :: "api_error + string \<Rightarrow> 'c Remote \<Rightarrow> 'c Remote" where
  "remote_Init getConf r =
     (if \<not> cache_IsEnabled (rm_cache r) \<or> \<not> rm_api r then r
      else let r = (case getConf of Inr etag \<Rightarrow> r\<lparr>rm_etag := etag\<rparr> | Inl e \<Rightarrow> r)
           in fst (remote_startPolling r))"

definition remote_poll :: "(string, entry, 'c) Cache \<Rightarrow> (string \<Rightarrow> api_error + string) \<Rightarrow> 'c Remote \<Rightarrow> 'c Remote" where
  "remote_poll ops getConf r =
     (case getConf (rm_etag r) of
        Inl e \<Rightarrow> r
      | Inr etag \<Rightarrow> r\<lparr>rm_cache := cache_Purge ops (rm_cache r), rm_etag := etag\<rparr>)"

text \<open>\<^verbatim>\<open>Shutdown\<close> closes the current stop channel once and waits for the current goroutine; \<open>None\<close>: for ever.\<close>

definition remote_Shutdown :: "'c Remote \<Rightarrow> 'c Remote option" where
  "remote_Shutdown r =
     (if \<not> rm_once r
      then Some (r\<lparr>rm_once := True, rm_current := False,
             rm_polling := (if rm_current r then rm_polling r - 1 else rm_polling r)\<rparr>)
      else if rm_current r then None else Some r)"


lemmas remote_eval_defs = remote_BooleanEvaluation_def remote_StringEvaluation_def remote_FloatEvaluation_def
  remote_IntEvaluation_def remote_ObjectEvaluation_def goff_GetBool_def goff_GetString_def goff_GetFloat_def
  goff_GetInt_def goff_GetInterface_def

end
