(* ===== verification/GOFF_Remote_Correct.thy ===== *)
theory GOFF_Remote_Correct
  imports GOFF_Remote
begin

text \<open>
  Correctness of the GO Feature Flag provider's remote evaluation: evaluations that overlap, polls and
  expiring entries as a machine, where a cached answer comes from, and what the printed cache key and
  an answer in flight across a purge do.
\<close>

section \<open>Evaluations as a machine\<close>

text \<open>A request of one of the five types, by its default value, and what the server answers to it.\<close>

datatype request = QBool bool | QString string | QFloat float64 | QInt int64 | QInterface go_any

fun ask :: "feature_provider \<Rightarrow> string \<Rightarrow> request \<Rightarrow> go_map \<Rightarrow> typed_answer" where
  "ask p flag (QBool d) ctx = ABool (p_Boolean p flag d ctx)"
| "ask p flag (QString d) ctx = AString (p_String p flag d ctx)"
| "ask p flag (QFloat d) ctx = AFloat (p_Float p flag d ctx)"
| "ask p flag (QInt d) ctx = AInt (p_Int p flag d ctx)"
| "ask p flag (QInterface d) ctx = AInterface (p_Object p flag d ctx)"

fun remote_request ::
  "'c remote_env \<Rightarrow> feature_provider \<Rightarrow> 'c goff_cache \<Rightarrow> string \<Rightarrow> request \<Rightarrow> go_map \<Rightarrow> 'c goff_cache \<times> typed_answer" where
  "remote_request env p c flag (QBool d) ctx = map_prod id ABool (remote_BooleanEvaluation env p c flag d ctx)"
| "remote_request env p c flag (QString d) ctx = map_prod id AString (remote_StringEvaluation env p c flag d ctx)"
| "remote_request env p c flag (QFloat d) ctx = map_prod id AFloat (remote_FloatEvaluation env p c flag d ctx)"
| "remote_request env p c flag (QInt d) ctx = map_prod id AInt (remote_IntEvaluation env p c flag d ctx)"
| "remote_request env p c flag (QInterface d) ctx = map_prod id AInterface (remote_ObjectEvaluation env p c flag d ctx)"

text \<open>The five types of answer as one: what a request accepts from the cache, and the detail of an answer.\<close>

fun same_type :: "request \<Rightarrow> typed_answer \<Rightarrow> bool" where
  "same_type (QBool d) (ABool a) = True"
| "same_type (QString d) (AString a) = True"
| "same_type (QFloat d) (AFloat a) = True"
| "same_type (QInt d) (AInt a) = True"
| "same_type (QInterface d) (AInterface a) = True"
| "same_type _ _ = False"

abbreviation with_reason :: "string \<Rightarrow> 'v resolution_detail \<Rightarrow> 'v resolution_detail" where
  "with_reason r d \<equiv> d\<lparr>Detail := (Detail d)\<lparr>Reason := r\<rparr>\<rparr>"

fun mark_cached :: "typed_answer \<Rightarrow> typed_answer" where
  "mark_cached (ABool d) = ABool (with_reason CachedReason d)"
| "mark_cached (AString d) = AString (with_reason CachedReason d)"
| "mark_cached (AFloat d) = AFloat (with_reason CachedReason d)"
| "mark_cached (AInt d) = AInt (with_reason CachedReason d)"
| "mark_cached (AInterface d) = AInterface (with_reason CachedReason d)"

fun answer_cacheable :: "'c remote_env \<Rightarrow> typed_answer \<Rightarrow> bool" where
  "answer_cacheable env (ABool d) = cacheable env d"
| "answer_cacheable env (AString d) = cacheable env d"
| "answer_cacheable env (AFloat d) = cacheable env d"
| "answer_cacheable env (AInt d) = cacheable env d"
| "answer_cacheable env (AInterface d) = cacheable env d"

text \<open>An evaluation in two halves: the look-up, and the storing of an answer that was not cached.\<close>

definition lookup_half :: "'c remote_env \<Rightarrow> 'c goff_cache \<Rightarrow> string \<Rightarrow> request \<Rightarrow> go_map \<Rightarrow> 'c goff_cache \<times> typed_answer option" where
  "lookup_half env c flag q ctx =
     (if gc_disabled c then (c, None)
      else case gc_internal c of
        None \<Rightarrow> (c, None)
      | Some i \<Rightarrow> (case Get (re_ops env) (buildCacheKey (re_other env) flag ctx) i of (i, r) \<Rightarrow>
          (c\<lparr>gc_internal := Some i\<rparr>,
           case r of None \<Rightarrow> None
           | Some (a, ttl) \<Rightarrow> if same_type q a then Some (mark_cached a) else None)))"

definition store_half :: "'c remote_env \<Rightarrow> 'c goff_cache \<Rightarrow> string \<Rightarrow> go_map \<Rightarrow> typed_answer \<Rightarrow> 'c goff_cache" where
  "store_half env c flag ctx a =
     (if answer_cacheable env a then cache_Set (re_ops env) (re_other env) c flag ctx a else c)"

lemma remote_evaluate_halves:
  assumes "\<And>a. same_type q a \<longleftrightarrow> unwrap a \<noteq> None"
    "\<And>a d. unwrap a = Some d \<Longrightarrow> mark_cached a = wrap (with_reason CachedReason d)"
    "\<And>d. answer_cacheable env (wrap d) = cacheable env d"
  shows "map_prod id wrap (remote_evaluate env (cache_get (re_ops env) (re_other env) unwrap n) wrap ev c flag d ctx) =
    (case lookup_half env c flag q ctx of
       (c, Some a) \<Rightarrow> (c, a)
     | (c, None) \<Rightarrow> (store_half env c flag ctx (wrap (ev flag d ctx)), wrap (ev flag d ctx)))"
  by (auto simp: remote_evaluate_def cache_get_def lookup_half_def store_half_def assms Let_def split: option.split prod.splits)

lemma same_type_unwrap:
  "same_type (QBool b) a \<longleftrightarrow> answer_bool a \<noteq> None" "same_type (QString s) a \<longleftrightarrow> answer_string a \<noteq> None"
  "same_type (QFloat f) a \<longleftrightarrow> answer_float a \<noteq> None" "same_type (QInt i) a \<longleftrightarrow> answer_int a \<noteq> None"
  "same_type (QInterface v) a \<longleftrightarrow> answer_interface a \<noteq> None"
  by (cases a; simp)+

lemma mark_unwrap:
  "answer_bool a = Some b \<Longrightarrow> mark_cached a = ABool (with_reason CachedReason b)"
  "answer_string a = Some s \<Longrightarrow> mark_cached a = AString (with_reason CachedReason s)"
  "answer_float a = Some f \<Longrightarrow> mark_cached a = AFloat (with_reason CachedReason f)"
  "answer_int a = Some i \<Longrightarrow> mark_cached a = AInt (with_reason CachedReason i)"
  "answer_interface a = Some v \<Longrightarrow> mark_cached a = AInterface (with_reason CachedReason v)"
  by (cases a; simp)+

text \<open>The code's evaluation is its two halves, one after the other.\<close>

lemma remote_request_halves:
  "remote_request env p c flag q ctx =
    (case lookup_half env c flag q ctx of
       (c, Some a) \<Rightarrow> (c, a)
     | (c, None) \<Rightarrow> (store_half env c flag ctx (ask p flag q ctx), ask p flag q ctx))"
  by (cases q; simp only: remote_request.simps ask.simps remote_eval_defs;
      rule remote_evaluate_halves; simp add: same_type_unwrap mark_unwrap)

section \<open>Runs\<close>

text \<open>
  The steps: a call starts, with the server it reaches (a hit ends it, a miss leaves its answer in
  flight); an answer in flight is stored; a poll; an entry expires.  \<open>MPoll\<close> is a result of
  \<^verbatim>\<open>GetConfiguration\<close>.
\<close>

datatype remote_input =
    MStart feature_provider string request go_map
  | MFinish nat
  | MPoll "api_error + string"
  | MExpire string

type_synonym 'c remote_machine = "'c Remote \<times> (string \<times> go_map \<times> typed_answer) list"

fun remote_step :: "'c remote_env \<Rightarrow> remote_input \<Rightarrow> 'c remote_machine \<Rightarrow> 'c remote_machine" where
  "remote_step env (MStart p flag q ctx) (r, pending) =
     (case lookup_half env (rm_cache r) flag q ctx of
        (c, Some a) \<Rightarrow> (r\<lparr>rm_cache := c\<rparr>, pending)
      | (c, None) \<Rightarrow> (r\<lparr>rm_cache := c\<rparr>, pending @ [(flag, ctx, ask p flag q ctx)]))"
| "remote_step env (MFinish i) (r, pending) =
     (if i < length pending
      then (case pending ! i of (flag, ctx, a) \<Rightarrow> (r\<lparr>rm_cache := store_half env (rm_cache r) flag ctx a\<rparr>,
             take i pending @ drop (Suc i) pending))
      else (r, pending))"
| "remote_step env (MPoll resp) (r, pending) = (remote_poll (re_ops env) (\<lambda>_. resp) r, pending)"
| "remote_step env (MExpire k) (r, pending) =
     (r\<lparr>rm_cache := (rm_cache r)\<lparr>gc_internal := map_option (\<lambda>i. fst (Remove (re_ops env) k i)) (gc_internal (rm_cache r))\<rparr>\<rparr>,
      pending)"

definition remote_run :: "'c remote_env \<Rightarrow> remote_input list \<Rightarrow> 'c remote_machine \<Rightarrow> 'c remote_machine" where
  "remote_run env = fold (remote_step env)"


lemma remote_run_simps [simp]:
  "remote_run env [] m = m" "remote_run env (i # is) m = remote_run env is (remote_step env i m)"
  "remote_run env (is @ js) m = remote_run env js (remote_run env is m)"
  by (simp_all add: remote_run_def)

text \<open>A call is a start and, unless it was a hit, the storing of its answer.\<close>

lemma remote_request_steps:
  "remote_request env p (rm_cache r) flag q ctx = (c, a) \<Longrightarrow>
    remote_run env (MStart p flag q ctx # (if snd (lookup_half env (rm_cache r) flag q ctx) = None then [MFinish 0] else [])) (r, []) =
      (r\<lparr>rm_cache := c\<rparr>, [])"
  by (auto simp: remote_request_halves split: prod.splits option.splits)

section \<open>Where an answer comes from\<close>

definition asked :: "'c remote_env \<Rightarrow> remote_input list \<Rightarrow> string \<Rightarrow> typed_answer \<Rightarrow> bool" where
  "asked env ins k a \<longleftrightarrow> (\<exists>p flag q ctx. MStart p flag q ctx \<in> set ins \<and>
     k = buildCacheKey (re_other env) flag ctx \<and> a = ask p flag q ctx)"

lemma asked_mono: "asked env ins k a \<Longrightarrow> set ins \<subseteq> set ins' \<Longrightarrow> asked env ins' k a"
  unfolding asked_def by blast

lemma asked_start: "asked env (ins @ [MStart p flag q ctx]) (buildCacheKey (re_other env) flag ctx) (ask p flag q ctx)"
  by (auto simp: asked_def)

definition pending_asked :: "'c remote_env \<Rightarrow> remote_input list \<Rightarrow> (string \<times> go_map \<times> typed_answer) list \<Rightarrow> bool" where
  "pending_asked env ins pending \<longleftrightarrow>
     list_all (\<lambda>(flag, ctx, a). asked env ins (buildCacheKey (re_other env) flag ctx) a) pending"

lemma pending_asked_mono: "pending_asked env ins pending \<Longrightarrow> set ins \<subseteq> set ins' \<Longrightarrow> pending_asked env ins' pending"
  by (fastforce simp: pending_asked_def list_all_iff intro: asked_mono)

lemma pending_asked_nth: "pending_asked env ins pending \<Longrightarrow> i < length pending \<Longrightarrow> pending ! i = (flag, ctx, a) \<Longrightarrow>
    asked env ins (buildCacheKey (re_other env) flag ctx) a"
  by (fastforce simp: pending_asked_def list_all_length)

lemma pending_asked_drop: "pending_asked env ins pending \<Longrightarrow> pending_asked env ins (take i pending @ drop (Suc i) pending)"
  unfolding pending_asked_def by (auto simp: list_all_iff dest: in_set_takeD in_set_dropD)

text \<open>What a reader of the cache can find, given a view of the library's state.\<close>

definition goff_view :: "('c \<Rightarrow> string \<Rightarrow> entry option) \<Rightarrow> 'c goff_cache \<Rightarrow> string \<Rightarrow> entry option" where
  "goff_view view c = (case gc_internal c of None \<Rightarrow> Map.empty | Some i \<Rightarrow> view i)"

lemma goff_view_Some [simp]: "gc_internal c = Some i \<Longrightarrow> goff_view view c = view i"
  by (simp add: goff_view_def)

locale remote_cache = lossy_cache "re_ops env" view
  for env :: "'c remote_env" and view :: "'c \<Rightarrow> string \<Rightarrow> entry option"
begin

lemma lookup_view: "lookup_half env c flag q ctx = (c', r) \<Longrightarrow> goff_view view c' = goff_view view c"
  by (auto simp: lookup_half_def goff_view_def dest: get_eq split: if_splits option.splits prod.splits)

lemma lookup_hit:
  "lookup_half env c flag q ctx = (c', Some a) \<Longrightarrow>
    \<exists>a' ttl. goff_view view c (buildCacheKey (re_other env) flag ctx) = Some (a', ttl) \<and> same_type q a' \<and> a = mark_cached a'"
  by (auto simp: lookup_half_def dest!: get_eq [THEN conjunct1, symmetric] split: if_splits option.splits prod.splits)

lemma store_view:
  "goff_view view (store_half env c flag ctx a) k = Some (a', ttl) \<Longrightarrow>
    goff_view view c k = Some (a', ttl) \<or> (k = buildCacheKey (re_other env) flag ctx \<and> a' = a \<and> answer_cacheable env a)"
  by (auto simp: store_half_def cache_Set_def goff_view_def dest: add_entry split: if_splits option.splits)

lemma purge_goff_view: "goff_view view (cache_Purge (re_ops env) c) = Map.empty"
  by (simp add: goff_view_def cache_Purge_def purge_view split: option.split)

lemma expire_view:
  "goff_view view (c\<lparr>gc_internal := map_option (\<lambda>i. fst (Remove (re_ops env) k i)) (gc_internal c)\<rparr>) \<subseteq>\<^sub>m goff_view view c"
  by (auto simp: goff_view_def remove_view map_le_def split: option.split)

definition entries_asked :: "remote_input list \<Rightarrow> 'c goff_cache \<Rightarrow> bool" where
  "entries_asked ins c \<longleftrightarrow>
     (\<forall>k a ttl. goff_view view c k = Some (a, ttl) \<longrightarrow> asked env ins k a \<and> answer_cacheable env a)"

lemma entries_asked_mono: "entries_asked ins c \<Longrightarrow> set ins \<subseteq> set ins' \<Longrightarrow> entries_asked ins' c"
  unfolding entries_asked_def by (blast intro: asked_mono)

lemma entries_asked_le: "entries_asked ins c \<Longrightarrow> goff_view view c' \<subseteq>\<^sub>m goff_view view c \<Longrightarrow> entries_asked ins c'"
  by (fastforce simp: entries_asked_def map_le_def dom_def)

lemma entries_asked_empty: "goff_view view c = Map.empty \<Longrightarrow> entries_asked ins c"
  by (simp add: entries_asked_def)

lemma store_entries:
  "entries_asked ins c \<Longrightarrow> asked env ins (buildCacheKey (re_other env) flag ctx) a \<Longrightarrow>
    entries_asked ins (store_half env c flag ctx a)"
  unfolding entries_asked_def by (blast dest: store_view)

lemma step_entries:
  assumes "entries_asked ins (rm_cache r)" "pending_asked env ins pending" "remote_step env i (r, pending) = (r', pending')"
  shows "entries_asked (ins @ [i]) (rm_cache r') \<and> pending_asked env (ins @ [i]) pending'"
proof -
  have mono: "entries_asked (ins @ [i]) (rm_cache r)" "pending_asked env (ins @ [i]) pending"
    by (rule entries_asked_mono [OF assms(1)], simp add: subset_insertI)
      (rule pending_asked_mono [OF assms(2)], simp add: subset_insertI)
  show ?thesis
  proof (cases i)
    case (MStart p flag q ctx)
    obtain c a where l: "lookup_half env (rm_cache r) flag q ctx = (c, a)" by (cases "lookup_half env (rm_cache r) flag q ctx")
    have "entries_asked (ins @ [i]) c"
      using mono(1) lookup_view [OF l] by (simp add: entries_asked_def)
    then show ?thesis
      using assms(3) mono(2) l asked_start [of env ins p flag q ctx]
      by (cases a) (auto simp: MStart pending_asked_def)
  next
    case (MFinish n)
    show ?thesis
    proof (cases "n < length pending")
      case True
      obtain flag ctx a where n: "pending ! n = (flag, ctx, a)" by (cases "pending ! n")
      then show ?thesis
        using assms(3) mono True store_entries [OF mono(1) pending_asked_nth [OF mono(2) True n]]
          pending_asked_drop [OF mono(2)] by (auto simp: MFinish)
    qed (use assms(3) mono in \<open>simp add: MFinish\<close>)
  next
    case (MPoll resp)
    then show ?thesis
      using assms(3) mono entries_asked_empty [OF purge_goff_view] by (cases resp) (auto simp: remote_poll_def)
  next
    case (MExpire k)
    then show ?thesis
      using assms(3) mono(2) entries_asked_le [OF mono(1) expire_view] by auto
  qed
qed

lemma run_entries:
  "entries_asked ins (rm_cache r) \<Longrightarrow> pending_asked env ins pending \<Longrightarrow> remote_run env js (r, pending) = (r', pending') \<Longrightarrow>
    entries_asked (ins @ js) (rm_cache r') \<and> pending_asked env (ins @ js) pending'"
proof (induction js arbitrary: ins r pending)
  case (Cons j js)
  obtain r1 p1 where 1: "remote_step env j (r, pending) = (r1, p1)" by (cases "remote_step env j (r, pending)")
  have "entries_asked (ins @ [j]) (rm_cache r1)" "pending_asked env (ins @ [j]) p1"
    using step_entries [OF Cons.prems(1,2) 1] by auto
  from Cons.IH [OF this] Cons.prems(3) 1 show ?case by simp
qed simp

lemma answers_sound:
  assumes "goff_view view (rm_cache r0) = Map.empty" "remote_run env ins (r0, []) = (r, pending)"
    "remote_request env p (rm_cache r) flag q ctx = (c, a)"
  shows "a = ask p flag q ctx \<or>
    (\<exists>a'. asked env ins (buildCacheKey (re_other env) flag ctx) a' \<and> answer_cacheable env a' \<and> same_type q a' \<and> a = mark_cached a')"
proof -
  have "entries_asked ins (rm_cache r)"
    using run_entries [OF entries_asked_empty [OF assms(1), of "[]"] _ assms(2)] by (simp add: pending_asked_def)
  with assms(3) lookup_hit show ?thesis
    by (fastforce simp: remote_request_halves entries_asked_def split: prod.splits option.splits)
qed

end

text \<open>The in-memory cache keeps the contract, so that every fact of the locale holds of it.\<close>

abbreviation mem_env :: "(go_any \<Rightarrow> string) \<Rightarrow> (go_map \<Rightarrow> string \<Rightarrow> bool \<times> string option) \<Rightarrow>
    (string, entry) InMemory remote_env" where
  "mem_env other gb \<equiv> \<lparr>re_ops = mem_ops, re_other = other, re_GetBool = gb\<rparr>"

interpretation mem_remote: remote_cache "mem_env other gb" mem_values for other gb
  using mem.lossy_cache_axioms by (simp add: remote_cache_def)

lemma mem_lossless: "lossless_cache (re_ops (mem_env other gb)) mem_values"
  using mem.lossless_cache_axioms by simp

text \<open>
  C8: Every answer of the remote evaluator is the server's answer to this very call, or the answer, marked as
  cached, to an earlier call of the same type that the server declared cacheable and whose printed key
  was the same; and that call was started after the cache was last empty, if no answer was in flight at
  that time.
\<close>

theorem remote_answers_sound:
  assumes "remote_cache env view" "goff_view view (rm_cache r0) = Map.empty"
    "remote_run env ins (r0, []) = (r, pending)" "remote_request env p (rm_cache r) flag q ctx = (c, a)"
  shows "a = ask p flag q ctx \<or>
    (\<exists>p' flag' q' ctx'. MStart p' flag' q' ctx' \<in> set ins \<and>
       buildCacheKey (re_other env) flag' ctx' = buildCacheKey (re_other env) flag ctx \<and>
       answer_cacheable env (ask p' flag' q' ctx') \<and> same_type q (ask p' flag' q' ctx') \<and>
       a = mark_cached (ask p' flag' q' ctx'))"
proof -
  from remote_cache.answers_sound [OF assms(1-4)] show ?thesis
  proof
    assume "\<exists>a'. asked env ins (buildCacheKey (re_other env) flag ctx) a' \<and> answer_cacheable env a' \<and>
      same_type q a' \<and> a = mark_cached a'"
    then show ?thesis unfolding asked_def by metis
  qed simp
qed

definition true_provider :: feature_provider where
  "true_provider = \<lparr>p_Name = ''p'', p_Boolean = (\<lambda>flag d ctx. \<lparr>Value = True, Detail = empty_detail\<rparr>),
     p_String = (\<lambda>flag d ctx. \<lparr>Value = d, Detail = empty_detail\<rparr>), p_Float = (\<lambda>flag d ctx. \<lparr>Value = d, Detail = empty_detail\<rparr>),
     p_Int = (\<lambda>flag d ctx. \<lparr>Value = d, Detail = empty_detail\<rparr>), p_Object = (\<lambda>flag d ctx. \<lparr>Value = d, Detail = empty_detail\<rparr>),
     p_Init = None\<rparr>"

abbreviation true_env where "true_env \<equiv> mem_env (\<lambda>_. []) (\<lambda>m k. (True, None))"

abbreviation fresh_remote :: "(string, entry) InMemory Remote" where
  "fresh_remote \<equiv> NewRemoteEvaluator (\<lambda>n. NewInMemory) 0 0 False 0 True"

lemma fresh_remote_view: "goff_view mem_values (rm_cache fresh_remote) = Map.empty"
  by (simp add: goff_view_def NewRemoteEvaluator_def NewCache_def mem_defs)

theorem remote_answers_sound_witness:
  "\<exists>r pending c a. remote_run true_env [MStart true_provider ''f'' (QBool False) None, MFinish 0] (fresh_remote, []) = (r, pending) \<and>
     remote_request true_env true_provider (rm_cache r) ''f'' (QBool False) None = (c, a) \<and>
     (a = ask true_provider ''f'' (QBool False) None \<or>
    (\<exists>p' flag' q' ctx'. MStart p' flag' q' ctx' \<in> set [MStart true_provider ''f'' (QBool False) None, MFinish 0] \<and>
       buildCacheKey (\<lambda>_. []) flag' ctx' = buildCacheKey (\<lambda>_. []) ''f'' None \<and>
       answer_cacheable true_env (ask p' flag' q' ctx') \<and> same_type (QBool False) (ask p' flag' q' ctx') \<and>
       a = mark_cached (ask p' flag' q' ctx')))"
proof -
  obtain r pending where run: "remote_run true_env [MStart true_provider ''f'' (QBool False) None, MFinish 0] (fresh_remote, []) = (r, pending)"
    by fastforce
  obtain c a where req: "remote_request true_env true_provider (rm_cache r) ''f'' (QBool False) None = (c, a)" by fastforce
  show ?thesis
    using remote_answers_sound [OF mem_remote.remote_cache_axioms fresh_remote_view run req] run req by (simp only: remote_env.simps) blast
qed

section \<open>What the cache confuses\<close>

lemma same_type_ask [simp]: "same_type q (ask p flag q ctx)"
  by (cases q) simp_all

lemma stored_answer_is_served:
  assumes "lossless_cache (re_ops env) view" "cache_IsEnabled c" "answer_cacheable env a" "same_type q a"
    "buildCacheKey (re_other env) flag' ctx' = buildCacheKey (re_other env) flag ctx"
  shows "snd (remote_request env p (store_half env c flag ctx a) flag' q ctx') = mark_cached a"
proof -
  let ?k = "buildCacheKey (re_other env) flag ctx"
  obtain i where i: "gc_internal c = Some i" "\<not> gc_disabled c" using assms(2) by (auto simp: cache_IsEnabled_def)
  define i' where "i' = fst (Add (re_ops env) ?k (a, if 0 <=s gc_ttl c then Some (gc_ttl c) else None) i)"
  have "store_half env c flag ctx a = c\<lparr>gc_internal := Some i'\<rparr>"
    using i assms(3) by (simp add: store_half_def cache_Set_def i'_def)
  moreover obtain i2 ttl where "Get (re_ops env) ?k i' = (i2, Some (a, ttl))"
    using lossless_cache.get_after_add [OF assms(1)] unfolding i'_def by (metis prod.collapse)
  ultimately show ?thesis
    using i(2) assms(4,5) by (simp add: remote_request_halves lookup_half_def)
qed

text \<open>
  The printed key of a context does not determine the context: a value may hold the separators of the
  format.
\<close>

lemma fmt_map_two:
  assumes "k1 < k2"
  shows "fmt_map other (Some [k1 \<mapsto> VString v1, k2 \<mapsto> VString v2]) = ''map['' @ k1 @ '':'' @ v1 @ '' '' @ k2 @ '':'' @ v2 @ '']''"
proof -
  have "sorted_list_of_set {k1, k2} = [k1, k2]" using assms by (simp add: less_imp_le)
  moreover have "dom [k1 \<mapsto> VString v1, k2 \<mapsto> VString v2] = {k1, k2}" by auto
  ultimately show ?thesis using assms by (auto simp: fmt_map_def)
qed

lemma fmt_map_one: "fmt_map other (Some [k \<mapsto> VString v]) = ''map['' @ k @ '':'' @ v @ '']''"
  by (simp add: fmt_map_def)

text \<open>
  The cache serves one user's answer to another: after a cacheable answer for a context whose only
  attribute \<open>k1\<close> is the string \<open>v1 k2:v2\<close>, the context with the two attributes \<open>k1 = v1\<close> and \<open>k2 = v2\<close> gets
  that answer, whatever the server would say to it.
\<close>

theorem cache_confuses_contexts:
  assumes "lossless_cache (re_ops env) view" "cache_IsEnabled (rm_cache r)" "goff_view view (rm_cache r) = Map.empty"
    "k1 < k2" "ctx = Some [k1 \<mapsto> VString (v1 @ '' '' @ k2 @ '':'' @ v2)]"
    "answer_cacheable env (ask p flag q ctx)" "remote_request env p (rm_cache r) flag q ctx = (c, a)"
  shows "snd (remote_request env p' c flag q (Some [k1 \<mapsto> VString v1, k2 \<mapsto> VString v2])) =
    mark_cached (ask p flag q ctx)"
proof -
  have rc: "remote_cache env view" using assms(1) by (simp add: remote_cache_def lossless_cache_def)
  obtain c1 h where l: "lookup_half env (rm_cache r) flag q ctx = (c1, h)" by (cases "lookup_half env (rm_cache r) flag q ctx")
  have "h = None" using remote_cache.lookup_hit [OF rc] l assms(3) by (cases h) fastforce+
  moreover have "cache_IsEnabled c1"
    using l assms(2) by (auto simp: lookup_half_def cache_IsEnabled_def split: if_splits option.splits prod.splits)
  moreover have "c = store_half env c1 flag ctx (ask p flag q ctx)"
    using assms(7) l \<open>h = None\<close> by (auto simp: remote_request_halves)
  moreover have "buildCacheKey (re_other env) flag (Some [k1 \<mapsto> VString v1, k2 \<mapsto> VString v2]) = buildCacheKey (re_other env) flag ctx"
    by (simp add: buildCacheKey_def assms(5) fmt_map_one fmt_map_two [OF assms(4)])
  ultimately show ?thesis
    using stored_answer_is_served [OF assms(1) _ assms(6) same_type_ask] by blast
qed

theorem cache_confuses_contexts_witness:
  "snd (remote_request true_env (true_provider\<lparr>p_Boolean := \<lambda>f d ctx. \<lparr>Value = False, Detail = empty_detail\<rparr>\<rparr>)
      (fst (remote_request true_env true_provider (rm_cache fresh_remote) ''f'' (QBool False) (Some [''email'' \<mapsto> VString ''a role:admin''])))
      ''f'' (QBool False) (Some [''email'' \<mapsto> VString ''a'', ''role'' \<mapsto> VString ''admin''])) =
    ABool \<lparr>Value = True, Detail = empty_detail\<lparr>Reason := CachedReason\<rparr>\<rparr>"
proof -
  have 1: "''email'' < ''role''" by code_simp
  have 2: "cache_IsEnabled (rm_cache fresh_remote)"
    by (simp add: cache_IsEnabled_def NewRemoteEvaluator_def NewCache_def defaultCacheSize_def)
  have 3: "answer_cacheable true_env (ask true_provider ''f'' (QBool False) (Some [''email'' \<mapsto> VString (''a'' @ '' '' @ ''role'' @ '':'' @ ''admin'')]))"
    by (simp add: cacheable_def)
  show ?thesis
    using cache_confuses_contexts [OF mem_lossless 2 fresh_remote_view 1 refl 3 prod.collapse [symmetric],
        of "true_provider\<lparr>p_Boolean := \<lambda>f d ctx. \<lparr>Value = False, Detail = empty_detail\<rparr>\<rparr>"]
    by (simp add: true_provider_def)
qed

text \<open>
  An answer that is in flight while a poll purges the cache is stored afterwards: the next call gets the
  answer of the old configuration, marked as cached, although the poll has seen the new one.
\<close>

theorem stale_answer_survives_purge:
  assumes "lossless_cache (re_ops env) view" "cache_IsEnabled (rm_cache r0)" "goff_view view (rm_cache r0) = Map.empty"
    "answer_cacheable env (ask p flag q ctx)"
    "remote_run env [MStart p flag q ctx, MPoll (Inr etag), MFinish 0] (r0, []) = (r, pending)"
  shows "rm_etag r = etag \<and> snd (remote_request env p' (rm_cache r) flag q ctx) = mark_cached (ask p flag q ctx)"
proof -
  have rc: "remote_cache env view" using assms(1) by (simp add: remote_cache_def lossless_cache_def)
  obtain c1 h where l: "lookup_half env (rm_cache r0) flag q ctx = (c1, h)" by (cases "lookup_half env (rm_cache r0) flag q ctx")
  have "h = None" using remote_cache.lookup_hit [OF rc] l assms(3) by (cases h) fastforce+
  moreover have "cache_IsEnabled (cache_Purge (re_ops env) c1)"
    using l assms(2) by (auto simp: lookup_half_def cache_IsEnabled_def cache_Purge_def split: if_splits option.splits prod.splits)
  ultimately show ?thesis
    using assms(5) l stored_answer_is_served [OF assms(1) _ assms(4) same_type_ask refl, of "cache_Purge (re_ops env) c1" p']
    by (auto simp: remote_poll_def)
qed

theorem stale_answer_survives_purge_witness:
  "\<exists>r pending. remote_run true_env [MStart true_provider ''f'' (QBool False) None, MPoll (Inr ''v2''), MFinish 0] (fresh_remote, []) = (r, pending) \<and>
     rm_etag r = ''v2'' \<and>
     snd (remote_request true_env (true_provider\<lparr>p_Boolean := \<lambda>f d ctx. \<lparr>Value = False, Detail = empty_detail\<rparr>\<rparr>)
        (rm_cache r) ''f'' (QBool False) None) = ABool \<lparr>Value = True, Detail = empty_detail\<lparr>Reason := CachedReason\<rparr>\<rparr>"
proof -
  have 1: "cache_IsEnabled (rm_cache fresh_remote)"
    by (simp add: cache_IsEnabled_def NewRemoteEvaluator_def NewCache_def defaultCacheSize_def)
  have 2: "answer_cacheable true_env (ask true_provider ''f'' (QBool False) None)" by (simp add: cacheable_def)
  obtain r pending where run: "remote_run true_env [MStart true_provider ''f'' (QBool False) None, MPoll (Inr ''v2''), MFinish 0]
    (fresh_remote, []) = (r, pending)" by fastforce
  from stale_answer_survives_purge [OF mem_lossless 1 fresh_remote_view 2 run,
      of "true_provider\<lparr>p_Boolean := \<lambda>f d ctx. \<lparr>Value = False, Detail = empty_detail\<rparr>\<rparr>"] run
  show ?thesis by (simp only: ask.simps mark_cached.simps) (simp add: true_provider_def)
qed

section \<open>Polling\<close>

text \<open>
  A remote evaluator that was shut down cannot be shut down a second time after it was started again:
  \<^verbatim>\<open>Shutdown\<close> no longer closes the stop channel and waits for the polling goroutine for ever.
\<close>

theorem remote_restart_hangs:
  assumes "cache_IsEnabled (rm_cache r)" "rm_api r" "remote_Shutdown r = Some r1"
  shows "remote_Shutdown (remote_Init conf r1) = None"
proof -
  have "cache_IsEnabled (rm_cache r1)" "rm_api r1" "rm_once r1"
    using assms by (auto simp: remote_Shutdown_def split: if_splits)
  then show ?thesis
    by (simp add: remote_Init_def remote_startPolling_def remote_Shutdown_def Let_def split: sum.split)
qed

theorem remote_restart_hangs_witness:
  "\<exists>r1. remote_Shutdown (remote_Init (Inr ''v1'') fresh_remote) = Some r1 \<and> remote_Shutdown (remote_Init (Inr ''v1'') r1) = None"
proof -
  let ?r = "remote_Init (Inr ''v1'') fresh_remote"
  have e: "cache_IsEnabled (rm_cache fresh_remote)" "rm_api fresh_remote" "\<not> rm_once fresh_remote"
    by (simp_all add: cache_IsEnabled_def NewRemoteEvaluator_def NewCache_def defaultCacheSize_def)
  then have "cache_IsEnabled (rm_cache ?r)" "rm_api ?r" "\<not> rm_once ?r"
    by (simp_all add: remote_Init_def remote_startPolling_def)
  then obtain r1 where "remote_Shutdown ?r = Some r1" by (simp add: remote_Shutdown_def)
  from remote_restart_hangs [OF \<open>cache_IsEnabled (rm_cache ?r)\<close> \<open>rm_api ?r\<close> this] this show ?thesis by blast
qed

end
