(* ===== verification/GOFF_InProcess.thy ===== *)
theory GOFF_InProcess
  imports GOFF_Remote
begin

text \<open>
  The GO Feature Flag provider's in-process evaluation (\<^verbatim>\<open>pkg/evaluator/inprocess.go\<close>): the flag
  configuration polled from the relay proxy, the events about its health, and the evaluation by the
  GO Feature Flag engine, which is a parameter.
\<close>

section \<open>Evaluation\<close>

text \<open>
  The engine's error codes: one constructor per constant that the code names, \<open>FFCode\<close> any other code,
  the empty one included.
\<close>

datatype ff_code =
    FFProviderNotReady | FFFlagNotFound | FFParseError | FFTypeMismatch | FFTargetingKeyMissing
  | FFInvalidContext | FFGeneral | FFCode string

record 'v var_result =
  vr_Value :: 'v
  vr_Failed :: bool
  vr_ErrorCode :: ff_code
  vr_ErrorDetails :: string
  vr_Reason :: string
  vr_VariationType :: string
  vr_Metadata :: go_map

record ff_context =
  ff_key :: string
  ff_custom :: "string \<rightharpoonup> go_any"

text \<open>
  \<^verbatim>\<open>evaluation.Evaluate\<close>: the flag and its name, the context, the context enrichment, the name of the type
  and the default value; a result and an error.
\<close>

type_synonym ('f, 'v) engine_call =
  "'f \<Rightarrow> string \<Rightarrow> ff_context \<Rightarrow> go_map \<Rightarrow> string \<Rightarrow> 'v \<Rightarrow> 'v var_result \<times> string option"

record 'f engine =
  en_bool :: "('f, bool) engine_call"
  en_string :: "('f, string) engine_call"
  en_float :: "('f, float64) engine_call"
  en_int :: "('f, int64) engine_call"
  en_object :: "('f, go_any) engine_call"

definition inProcessProviderName :: string where "inProcessProviderName = ''go-feature-flag''"

record 'f GoffInProcess =
  gi_flagConfig :: "string \<rightharpoonup> 'f"
  gi_enrichment :: go_map
  gi_interval :: int64
  gi_etag :: string
  gi_stale :: bool
  gi_eventStream :: "of_event list"
  gi_polling :: bool
  gi_stopped :: bool

text \<open>
  \<open>gi_polling\<close>: the goroutine of the current channels runs; \<open>gi_stopped\<close>: \<^verbatim>\<open>shutdownOnce\<close> was used since
  the last \<^verbatim>\<open>Init\<close>.
\<close>

definition NewInprocessEvaluator :: "int64 \<Rightarrow> of_event list \<Rightarrow> 'f GoffInProcess" where
  "NewInprocessEvaluator flagChangePollingInterval eventStream =
     \<lparr>gi_flagConfig = Map.empty, gi_enrichment = None, gi_interval = flagChangePollingInterval, gi_etag = [],
      gi_stale = False, gi_eventStream = eventStream, gi_polling = False, gi_stopped = False\<rparr>"

definition checkFlagExists :: "'f GoffInProcess \<Rightarrow> string \<Rightarrow> provider_detail + 'f" where
  "checkFlagExists i flagName =
     (case gi_flagConfig i flagName of
        None \<Rightarrow> Inl (empty_detail\<lparr>ResolutionError := NewFlagNotFoundResolutionError flagName\<rparr>)
      | Some flagCfg \<Rightarrow> Inr flagCfg)"

definition toFFContext :: "go_map \<Rightarrow> ff_context" where
  "toFFContext flatCtx =
     \<lparr>ff_key = (case map_get flatCtx ''targetingKey'' of Some (VString s) \<Rightarrow> s | _ \<Rightarrow> []),
      ff_custom = (map_view flatCtx)(''targetingKey'' := None)\<rparr>"

fun toResolutionError :: "ff_code \<Rightarrow> string \<Rightarrow> resolution_error" where
  "toResolutionError FFProviderNotReady msg = NewProviderNotReadyResolutionError msg"
| "toResolutionError FFFlagNotFound msg = NewFlagNotFoundResolutionError msg"
| "toResolutionError FFParseError msg = NewParseErrorResolutionError msg"
| "toResolutionError FFTypeMismatch msg = NewTypeMismatchResolutionError msg"
| "toResolutionError FFTargetingKeyMissing msg = NewTargetingKeyMissingResolutionError msg"
| "toResolutionError FFInvalidContext msg = NewInvalidContextResolutionError msg"
| "toResolutionError _ msg = NewGeneralResolutionError msg"

definition goff_evaluate ::
  "('f, 'v) engine_call \<Rightarrow> string \<Rightarrow> 'f GoffInProcess \<Rightarrow> string \<Rightarrow> 'v \<Rightarrow> go_map \<Rightarrow> 'v resolution_detail" where
  "goff_evaluate Evaluate typeStr i flagName defaultValue flatCtx =
     (case checkFlagExists i flagName of
        Inl errFExists \<Rightarrow> \<lparr>Value = defaultValue, Detail = errFExists\<rparr>
      | Inr f \<Rightarrow>
          (case Evaluate f flagName (toFFContext flatCtx) (gi_enrichment i) typeStr defaultValue of
             (varResult, err) \<Rightarrow>
               if err \<noteq> None \<or> vr_Failed varResult then
                 (let errCode = (if err \<noteq> None \<and> vr_ErrorCode varResult = FFCode [] then FFGeneral else vr_ErrorCode varResult);
                      msg = (case err of Some e \<Rightarrow> e | None \<Rightarrow> vr_ErrorDetails varResult)
                  in \<lparr>Value = defaultValue, Detail = empty_detail\<lparr>ResolutionError := toResolutionError errCode msg, Reason := ErrorReason\<rparr>\<rparr>)
               else \<lparr>Value = vr_Value varResult, Detail = empty_detail\<lparr>Reason := vr_Reason varResult,
                       Variant := vr_VariationType varResult, FlagMetadata := vr_Metadata varResult\<rparr>\<rparr>))"

definition goff_BooleanEvaluation where
  "goff_BooleanEvaluation en = goff_evaluate (en_bool en) ''bool''"
definition goff_StringEvaluation where
  "goff_StringEvaluation en = goff_evaluate (en_string en) ''string''"
definition goff_FloatEvaluation where
  "goff_FloatEvaluation en = goff_evaluate (en_float en) ''float''"
definition goff_IntEvaluation where
  "goff_IntEvaluation en = goff_evaluate (en_int en) ''int''"
definition goff_ObjectEvaluation where
  "goff_ObjectEvaluation en = goff_evaluate (en_object en) ''object''"

section \<open>The configuration and its health\<close>

datatype configurationRefreshStatus = RefreshNotModified | RefreshChanged

text \<open>\<open>getConf\<close> is \<^verbatim>\<open>GetConfiguration\<close> as a function of the ETag.\<close>

definition loadConfiguration ::
  "(string \<Rightarrow> api_error + 'f FlagConfigResponse) \<Rightarrow> 'f GoffInProcess \<Rightarrow>
   'f GoffInProcess \<times> configurationRefreshStatus \<times> string option" where
  "loadConfiguration getConf i =
     (case getConf (gi_etag i) of
        Inl ErrNotModified \<Rightarrow> (i, RefreshNotModified, None)
      | Inl (ApiError err) \<Rightarrow> (i, RefreshNotModified, Some err)
      | Inr resp \<Rightarrow> (i\<lparr>gi_flagConfig := cr_Flags resp, gi_enrichment := cr_Enrichment resp, gi_etag := cr_Etag resp\<rparr>,
                    RefreshChanged, None))"

definition goff_eventBuffer :: nat where "goff_eventBuffer = 5"

definition emitEvent :: "event_type \<Rightarrow> string \<Rightarrow> 'f GoffInProcess \<Rightarrow> 'f GoffInProcess" where
  "emitEvent eventType message i =
     (if length (gi_eventStream i) < goff_eventBuffer
      then i\<lparr>gi_eventStream := gi_eventStream i @ [\<lparr>EventType = eventType, EventMessage = message, FlagChanges = []\<rparr>]\<rparr>
      else i)"

definition markStale :: "'f GoffInProcess \<Rightarrow> 'f GoffInProcess \<times> bool" where
  "markStale i = (if gi_stale i then (i, False) else (i\<lparr>gi_stale := True\<rparr>, True))"

definition clearStale :: "'f GoffInProcess \<Rightarrow> 'f GoffInProcess \<times> bool" where
  "clearStale i = (i\<lparr>gi_stale := False\<rparr>, gi_stale i)"

definition handleRefreshResult ::
  "configurationRefreshStatus \<Rightarrow> string option \<Rightarrow> 'f GoffInProcess \<Rightarrow> 'f GoffInProcess" where
  "handleRefreshResult status err i =
     (case err of
        Some e \<Rightarrow>
          (case markStale i of
             (i, True) \<Rightarrow> emitEvent EvStale (''Configuration refresh failed: '' @ e) i
           | (i, False) \<Rightarrow> i)
      | None \<Rightarrow>
          (case clearStale i of (i, wasStale) \<Rightarrow>
             (case status of
                RefreshChanged \<Rightarrow> emitEvent EvConfigChange ''Configuration has changed'' i
              | RefreshNotModified \<Rightarrow>
                  if wasStale then emitEvent EvReady ''Configuration refresh recovered'' i else i)))"

definition goff_Init ::
  "(string \<Rightarrow> api_error + 'f FlagConfigResponse) \<Rightarrow> 'f GoffInProcess \<Rightarrow> 'f GoffInProcess \<times> string option" where
  "goff_Init getConf i =
     (case loadConfiguration getConf i of
        (i, status, Some err) \<Rightarrow> (i, Some err)
      | (i, status, None) \<Rightarrow> ((handleRefreshResult status None i)\<lparr>gi_polling := True, gi_stopped := False\<rparr>, None))"

definition goff_interval :: "'f GoffInProcess \<Rightarrow> int64" where
  "goff_interval i = (if gi_interval i <=s 0 then pollingIntervalDefault else gi_interval i)"

text \<open>A tick of the polling goroutine, while it runs.\<close>

definition goff_tick :: "(string \<Rightarrow> api_error + 'f FlagConfigResponse) \<Rightarrow> 'f GoffInProcess \<Rightarrow> 'f GoffInProcess" where
  "goff_tick getConf i =
     (if gi_polling i
      then (case loadConfiguration getConf i of (i, status, err) \<Rightarrow> handleRefreshResult status err i)
      else i)"

text \<open>\<^verbatim>\<open>Shutdown\<close> closes the stop channel once and waits for the goroutine; \<open>None\<close>: for ever.\<close>

definition goff_Shutdown :: "'f GoffInProcess \<Rightarrow> 'f GoffInProcess option" where
  "goff_Shutdown i =
     (if \<not> gi_stopped i then Some (i\<lparr>gi_stopped := True, gi_polling := False\<rparr>)
      else if gi_polling i then None else Some i)"

end
