(* ===== verification/GOFF_InProcess_Correct.thy ===== *)
theory GOFF_InProcess_Correct
  imports GOFF_InProcess
begin

text \<open>
  Correctness of the GO Feature Flag provider's in-process evaluator: which configuration an evaluation
  uses, what the events tell the application about the health of the polling, and that shutdown returns.
\<close>

section \<open>Polling and reading\<close>

text \<open>A poll with its response, or the application reads one event.\<close>

datatype 'f goff_input = PollWith "api_error + 'f FlagConfigResponse" | ReadEvent

text \<open>The event that the result of a refresh calls for, whether or not there is room for it.\<close>

definition refresh_event :: "configurationRefreshStatus \<Rightarrow> string option \<Rightarrow> bool \<Rightarrow> event_type option" where
  "refresh_event status err stale =
     (if err \<noteq> None then (if stale then None else Some EvStale)
      else if status = RefreshChanged then Some EvConfigChange
      else if stale then Some EvReady else None)"

fun poll_event :: "api_error + 'f FlagConfigResponse \<Rightarrow> bool \<Rightarrow> event_type option" where
  "poll_event (Inl ErrNotModified) stale = refresh_event RefreshNotModified None stale"
| "poll_event (Inl (ApiError e)) stale = refresh_event RefreshNotModified (Some e) stale"
| "poll_event (Inr r) stale = refresh_event RefreshChanged None stale"

text \<open>
  The evaluator, the types of the events that the application has read, and the types of all the events
  that the results of the polls called for.
\<close>

type_synonym 'f goff_world = "'f GoffInProcess \<times> event_type list \<times> event_type list"

fun goff_step :: "'f goff_input \<Rightarrow> 'f goff_world \<Rightarrow> 'f goff_world" where
  "goff_step (PollWith r) (i, heard, due) =
     (goff_tick (\<lambda>_. r) i, heard, due @ (case poll_event r (gi_stale i) of None \<Rightarrow> [] | Some e \<Rightarrow> [e]))"
| "goff_step ReadEvent (i, heard, due) =
     (case gi_eventStream i of
        [] \<Rightarrow> (i, heard, due)
      | e # es \<Rightarrow> (i\<lparr>gi_eventStream := es\<rparr>, heard @ [EventType e], due))"

definition goff_run :: "'f goff_input list \<Rightarrow> 'f goff_world \<Rightarrow> 'f goff_world" where
  "goff_run = fold goff_step"

lemma goff_run_simps [simp]:
  "goff_run [] w = w" "goff_run (x # xs) w = goff_run xs (goff_step x w)"
  by (simp_all add: goff_run_def)

abbreviation stream_types :: "'f GoffInProcess \<Rightarrow> event_type list" where
  "stream_types i \<equiv> map EventType (gi_eventStream i)"

lemma emitEvent_fields [simp]:
  "gi_flagConfig (emitEvent t m i) = gi_flagConfig i" "gi_enrichment (emitEvent t m i) = gi_enrichment i"
  "gi_etag (emitEvent t m i) = gi_etag i" "gi_stale (emitEvent t m i) = gi_stale i"
  "gi_polling (emitEvent t m i) = gi_polling i" "gi_stopped (emitEvent t m i) = gi_stopped i"
  by (simp_all add: emitEvent_def)

lemma emitEvent_types:
  "stream_types (emitEvent t m i) = (if length (gi_eventStream i) < goff_eventBuffer then stream_types i @ [t] else stream_types i)"
  by (simp add: emitEvent_def)

lemma handleRefreshResult_fields [simp]:
  "gi_flagConfig (handleRefreshResult st err i) = gi_flagConfig i" "gi_enrichment (handleRefreshResult st err i) = gi_enrichment i"
  "gi_polling (handleRefreshResult st err i) = gi_polling i" "gi_stopped (handleRefreshResult st err i) = gi_stopped i"
  "gi_etag (handleRefreshResult st err i) = gi_etag i"
  "gi_stale (handleRefreshResult st err i) \<longleftrightarrow> err \<noteq> None"
  by (auto simp: handleRefreshResult_def markStale_def clearStale_def split: option.split configurationRefreshStatus.split)

lemma handleRefreshResult_types:
  "stream_types (handleRefreshResult st err i) =
    (case refresh_event st err (gi_stale i) of
       None \<Rightarrow> stream_types i
     | Some e \<Rightarrow> if length (gi_eventStream i) < goff_eventBuffer then stream_types i @ [e] else stream_types i)"
  by (auto simp: handleRefreshResult_def markStale_def clearStale_def refresh_event_def emitEvent_types
      split: option.split configurationRefreshStatus.split)

lemma goff_tick_types:
  "gi_polling i \<Longrightarrow> stream_types (goff_tick (\<lambda>_. r) i) =
    (case poll_event r (gi_stale i) of
       None \<Rightarrow> stream_types i
     | Some e \<Rightarrow> if length (gi_eventStream i) < goff_eventBuffer then stream_types i @ [e] else stream_types i)"
  by (induction r "gi_stale i" rule: poll_event.induct)
    (simp_all add: goff_tick_def loadConfiguration_def handleRefreshResult_types split: option.split)

definition poll_failed :: "api_error + 'f FlagConfigResponse \<Rightarrow> bool" where
  "poll_failed r \<longleftrightarrow> (case r of Inl (ApiError e) \<Rightarrow> True | _ \<Rightarrow> False)"

lemma goff_tick_fields:
  "gi_polling i \<Longrightarrow> gi_stale (goff_tick (\<lambda>_. r) i) = poll_failed r"
  "gi_polling (goff_tick (\<lambda>_. r) i) = gi_polling i"
  "gi_polling i \<Longrightarrow> gi_flagConfig (goff_tick (\<lambda>_. r) i) = (case r of Inr c \<Rightarrow> cr_Flags c | Inl e \<Rightarrow> gi_flagConfig i)"
  "gi_polling i \<Longrightarrow> gi_enrichment (goff_tick (\<lambda>_. r) i) = (case r of Inr c \<Rightarrow> cr_Enrichment c | Inl e \<Rightarrow> gi_enrichment i)"
  by (auto simp: goff_tick_def loadConfiguration_def poll_failed_def split: sum.split api_error.split)

section \<open>What the application hears\<close>

text \<open>
  A sequence of events is coherent when a stale event does not follow a stale event and a ready event
  follows only a stale one.
\<close>

definition coherent :: "event_type list \<Rightarrow> bool" where
  "coherent es \<longleftrightarrow> successively (\<lambda>a b. (b = EvStale \<longrightarrow> a \<noteq> EvStale) \<and> (b = EvReady \<longrightarrow> a = EvStale)) es"

lemma goff_Init_ok:
  assumes "goff_Init getConf i = (i0, None)"
  shows "gi_polling i0 \<and> \<not> gi_stopped i0 \<and> \<not> gi_stale i0"
  using assms by (auto simp: goff_Init_def split: prod.splits option.splits)

lemma goff_Init_fresh:
  assumes "goff_Init getConf (NewInprocessEvaluator iv []) = (i0, None)" "getConf [] = Inr r0"
  shows "gi_flagConfig i0 = cr_Flags r0 \<and> gi_enrichment i0 = cr_Enrichment r0"
  using assms by (auto simp: goff_Init_def loadConfiguration_def NewInprocessEvaluator_def handleRefreshResult_def clearStale_def
      emitEvent_def)

text \<open>
  The same from the responses alone.  A poll calls for an event by its outcome and by whether the poll before it
  failed; the event is sent when the channel, with \<open>n\<close> events in it, has room.
\<close>

fun called_for :: "bool \<Rightarrow> api_error + 'f FlagConfigResponse \<Rightarrow> event_type list" where
  "called_for failed (Inr r) = [EvConfigChange]"
| "called_for failed (Inl ErrNotModified) = (if failed then [EvReady] else [])"
| "called_for failed (Inl (ApiError e)) = (if failed then [] else [EvStale])"

fun called :: "bool \<Rightarrow> 'f goff_input list \<Rightarrow> event_type list" where
  "called failed [] = []"
| "called failed (ReadEvent # xs) = called failed xs"
| "called failed (PollWith r # xs) = called_for failed r @ called (poll_failed r) xs"

fun emitted :: "bool \<Rightarrow> nat \<Rightarrow> 'f goff_input list \<Rightarrow> event_type list" where
  "emitted failed n [] = []"
| "emitted failed n (ReadEvent # xs) = emitted failed (n - 1) xs"
| "emitted failed n (PollWith r # xs) =
     (let es = if n < 5 then called_for failed r else []
      in es @ emitted (poll_failed r) (n + length es) xs)"

fun keeps_up :: "bool \<Rightarrow> nat \<Rightarrow> 'f goff_input list \<Rightarrow> bool" where
  "keeps_up failed n [] = True"
| "keeps_up failed n (ReadEvent # xs) = keeps_up failed (n - 1) xs"
| "keeps_up failed n (PollWith r # xs) = ((called_for failed r = [] \<or> n < 5) \<and> keeps_up (poll_failed r) (n + length (called_for failed r)) xs)"

fun last_failed :: "bool \<Rightarrow> 'f goff_input list \<Rightarrow> bool" where
  "last_failed failed [] = failed"
| "last_failed failed (ReadEvent # xs) = last_failed failed xs"
| "last_failed failed (PollWith r # xs) = last_failed (poll_failed r) xs"

lemma poll_event_called: "called_for stale r = (case poll_event r stale of None \<Rightarrow> [] | Some e \<Rightarrow> [e])"
  by (induction r stale rule: poll_event.induct) (simp_all add: refresh_event_def)

lemma tick_called:
  "gi_polling i \<Longrightarrow> stream_types (goff_tick (\<lambda>_. r) i) =
    stream_types i @ (if length (gi_eventStream i) < 5 then called_for (gi_stale i) r else [])"
  by (simp add: goff_tick_types poll_event_called goff_eventBuffer_def split: option.split)

lemma emitted_run:
  "goff_run xs (i, heard, due) = (i', heard', due') \<Longrightarrow> gi_polling i \<Longrightarrow> length (gi_eventStream i) \<le> 5 \<Longrightarrow>
    gi_stale i' = last_failed (gi_stale i) xs \<and> length (gi_eventStream i') \<le> 5 \<and>
    heard' @ stream_types i' = heard @ stream_types i @ emitted (gi_stale i) (length (gi_eventStream i)) xs"
proof (induction xs arbitrary: i heard due)
  case (Cons x xs)
  obtain i1 h1 d1 where 1: "goff_step x (i, heard, due) = (i1, h1, d1)" by (cases "goff_step x (i, heard, due)")
  with Cons.prems(1) have run: "goff_run xs (i1, h1, d1) = (i', heard', due')" by simp
  show ?case
  proof (cases x)
    case (PollWith r)
    let ?es = "if length (gi_eventStream i) < 5 then called_for (gi_stale i) r else []"
    have i1: "i1 = goff_tick (\<lambda>_. r) i" "h1 = heard" using 1 PollWith by simp_all
    have types: "stream_types i1 = stream_types i @ ?es" using tick_called [OF Cons.prems(2)] i1 by simp
    then have len: "length (gi_eventStream i1) = length (gi_eventStream i) + length ?es"
      by (metis length_append length_map)
    have "length ?es \<le> 1" by (cases "(gi_stale i, r)" rule: called_for.cases) auto
    with Cons.prems(3) len have "length (gi_eventStream i1) \<le> 5" by (simp split: if_splits)
    with Cons.IH [OF run] types len i1 Cons.prems(2) show ?thesis by (simp add: PollWith goff_tick_fields Let_def)
  next
    case ReadEvent
    with 1 Cons.IH [OF run] Cons.prems(2,3) show ?thesis by (auto split: list.splits)
  qed
qed simp

lemma emitted_called: "keeps_up failed n xs \<Longrightarrow> emitted failed n xs = called failed xs"
proof (induction xs arbitrary: failed n)
  case (Cons x xs)
  then show ?case by (cases x) auto
qed simp

lemma coherent_called:
  "coherent es \<Longrightarrow> (failed \<longleftrightarrow> es \<noteq> [] \<and> last es = EvStale) \<Longrightarrow>
    coherent (es @ called failed xs) \<and>
    (last_failed failed xs \<longleftrightarrow> es @ called failed xs \<noteq> [] \<and> last (es @ called failed xs) = EvStale)"
proof (induction xs arbitrary: failed es)
  case (Cons x xs)
  show ?case
  proof (cases x)
    case (PollWith r)
    have "coherent (es @ called_for failed r) \<and>
        (poll_failed r \<longleftrightarrow> es @ called_for failed r \<noteq> [] \<and> last (es @ called_for failed r) = EvStale)"
      using Cons.prems by (cases "(failed, r)" rule: called_for.cases)
        (auto simp: coherent_def poll_failed_def successively_append_iff)
    then show ?thesis using Cons.IH [of "es @ called_for failed r" "poll_failed r"] by (simp add: PollWith)
  qed (use Cons in simp)
qed simp

text \<open>
  C17: What the application hears about the health of the polling, exactly, after a successful Init and any sequence of polls
  and reads.  The stale flag says whether the last poll failed.  What the application has read and can
  still read is the event of Init followed by the events that the polls called for and that found room in the channel of five:
  a configuration change when a configuration came; a stale event when a poll failed and the one
  before had not; a recovery when the relay proxy answered that nothing had changed and the poll before
  had failed.  An event that finds no room is not sent later.  As long as the application reads in
  time, so that every event finds room, all of them are heard; the sequence never repeats a stale
  event and has a recovery only after one; and the flags are stale exactly when its last event is the stale event.
\<close>

theorem goff_health:
  assumes "goff_Init getConf (NewInprocessEvaluator iv []) = (i0, None)"
    "first = (case getConf [] of Inr r0 \<Rightarrow> [EvConfigChange] | Inl e \<Rightarrow> [])"
    "goff_run xs (i0, [], []) = (i, heard, due)" "events = heard @ map EventType (gi_eventStream i)"
  shows "gi_stale i = last_failed False xs \<and> length (gi_eventStream i) \<le> 5 \<and>
    events = first @ emitted False (length first) xs \<and>
    (keeps_up False (length first) xs \<longrightarrow>
      events = first @ called False xs \<and>
      successively (\<lambda>a b. (b = EvStale \<longrightarrow> a \<noteq> EvStale) \<and> (b = EvReady \<longrightarrow> a = EvStale)) events \<and>
      (gi_stale i \<longleftrightarrow> events \<noteq> [] \<and> last events = EvStale))"
proof -
  have i0: "stream_types i0 = first" "gi_polling i0" "\<not> gi_stale i0"
    using assms(1,2) goff_Init_ok [OF assms(1)]
    by (auto simp: goff_Init_def loadConfiguration_def NewInprocessEvaluator_def handleRefreshResult_def clearStale_def
        emitEvent_def goff_eventBuffer_def split: sum.splits api_error.splits)
  then have len: "length (gi_eventStream i0) = length first" by (metis length_map)
  moreover have first: "length first \<le> 1" "coherent first" "EvStale \<notin> set first"
    by (auto simp: assms(2) coherent_def split: sum.split)
  ultimately have run: "gi_stale i = last_failed False xs" "length (gi_eventStream i) \<le> 5" "events = first @ emitted False (length first) xs"
    using emitted_run [OF assms(3)] i0 assms(4) by auto
  have "False \<longleftrightarrow> first \<noteq> [] \<and> last first = EvStale" using first(3) last_in_set by metis
  from run coherent_called [OF first(2) this, of xs] emitted_called [of False "length first" xs] show ?thesis
    by (auto simp: coherent_def)
qed

abbreviation conf_of :: "(string \<rightharpoonup> 'f) \<Rightarrow> 'f FlagConfigResponse" where
  "conf_of flags \<equiv> \<lparr>cr_Flags = flags, cr_Enrichment = None, cr_Etag = ''e'', cr_LastUpdated = None\<rparr>"

abbreviation started :: "'f GoffInProcess" where
  "started \<equiv> fst (goff_Init (\<lambda>_. Inr (conf_of Map.empty)) (NewInprocessEvaluator 0 []))"

lemma started_Init: "goff_Init (\<lambda>_. Inr (conf_of Map.empty)) (NewInprocessEvaluator 0 []) = (started, None)"
  by (simp add: goff_Init_def loadConfiguration_def)

lemma started_ok [simp]: "gi_polling started" "\<not> gi_stale started"
  using goff_Init_ok [OF started_Init] by blast+

text \<open>Two failures, then nothing new, then a new configuration, with one read.\<close>

abbreviation health_inputs :: "nat goff_input list" where
  "health_inputs \<equiv> [PollWith (Inl (ApiError ''down'')), ReadEvent, PollWith (Inl (ApiError ''down'')), PollWith (Inl ErrNotModified),
     PollWith (Inr (conf_of [''f'' \<mapsto> 7]))]"

theorem goff_health_witness:
  "\<exists>i heard due. goff_run health_inputs (started, [], []) = (i, heard, due) \<and> \<not> gi_stale i \<and>
     heard @ map EventType (gi_eventStream i) = [EvConfigChange, EvStale, EvReady, EvConfigChange]"
proof -
  obtain i heard due where run: "goff_run health_inputs (started, [], []) = (i, heard, due)"
    by (metis prod.collapse)
  from goff_health [OF started_Init refl run refl] run show ?thesis by (simp add: poll_failed_def)
qed

section \<open>Which configuration is used\<close>

fun last_configuration :: "'f goff_input list \<Rightarrow> 'f FlagConfigResponse \<Rightarrow> 'f FlagConfigResponse" where
  "last_configuration [] r = r"
| "last_configuration (PollWith (Inr r') # xs) r = last_configuration xs r'"
| "last_configuration (_ # xs) r = last_configuration xs r"

lemma run_configuration:
  "goff_run xs (i0, heard0, due0) = (i, heard, due) \<Longrightarrow> gi_polling i0 \<Longrightarrow> gi_flagConfig i0 = cr_Flags r0 \<Longrightarrow>
    gi_enrichment i0 = cr_Enrichment r0 \<Longrightarrow>
    gi_flagConfig i = cr_Flags (last_configuration xs r0) \<and> gi_enrichment i = cr_Enrichment (last_configuration xs r0)"
proof (induction xs arbitrary: i0 heard0 due0 r0)
  case (Cons x xs)
  obtain i1 h1 d1 where 1: "goff_step x (i0, heard0, due0) = (i1, h1, d1)" by (cases "goff_step x (i0, heard0, due0)")
  show ?case
  proof (cases x)
    case (PollWith r)
    then have "i1 = goff_tick (\<lambda>_. r) i0" using 1 by simp
    then show ?thesis
      using Cons.IH [of i1 h1 d1] Cons.prems 1 PollWith by (cases r) (simp_all add: goff_tick_fields)
  next
    case ReadEvent
    then show ?thesis using Cons.IH [of i1 h1 d1 r0] Cons.prems 1 by (auto split: list.splits)
  qed
qed simp

text \<open>
  C18: After any sequence of polls, an evaluation uses the last configuration the relay proxy delivered, and no
  failed or unmodified poll changes it: a flag it does not hold is not found; otherwise the engine
  decides from the flag, the context and the enrichment of that configuration, its failures come with the
  default value and an error, and its successes with its value, variant and metadata and no error.
\<close>

theorem goff_evaluates_last_configuration:
  assumes "goff_Init getConf (NewInprocessEvaluator iv []) = (i0, None)" "getConf [] = Inr r0"
    "goff_run xs (i0, [], stream_types i0) = (i, heard, due)" "r = last_configuration xs r0"
  shows "case cr_Flags r flag of
      None \<Rightarrow> goff_evaluate Evaluate t i flag d ctx = \<lparr>Value = d, Detail = empty_detail\<lparr>ResolutionError := NewFlagNotFoundResolutionError flag\<rparr>\<rparr>
    | Some f \<Rightarrow> (case Evaluate f flag (toFFContext ctx) (cr_Enrichment r) t d of (res, err) \<Rightarrow>
        if err = None \<and> \<not> vr_Failed res
        then Value (goff_evaluate Evaluate t i flag d ctx) = vr_Value res \<and> \<not> has_error (Detail (goff_evaluate Evaluate t i flag d ctx)) \<and>
          Variant (Detail (goff_evaluate Evaluate t i flag d ctx)) = vr_VariationType res \<and>
          FlagMetadata (Detail (goff_evaluate Evaluate t i flag d ctx)) = vr_Metadata res
        else Value (goff_evaluate Evaluate t i flag d ctx) = d \<and> has_error (Detail (goff_evaluate Evaluate t i flag d ctx)) \<and>
          Reason (Detail (goff_evaluate Evaluate t i flag d ctx)) = ErrorReason)"
proof -
  note init = goff_Init_fresh [OF assms(1,2)] goff_Init_ok [OF assms(1)]
  have conf: "gi_flagConfig i = cr_Flags r" "gi_enrichment i = cr_Enrichment r"
    using run_configuration [OF assms(3)] init unfolding assms(4) by auto
  have err: "toResolutionError c m \<noteq> NoResolutionError" for c m by (cases c) simp_all
  show ?thesis
    by (auto simp: goff_evaluate_def checkFlagExists_def conf has_error_def empty_detail_def err Let_def
        split: option.split prod.split)
qed

theorem goff_evaluates_last_configuration_witness:
  "\<exists>i heard due. goff_run [PollWith (Inr (conf_of [''f'' \<mapsto> 7])), PollWith (Inl (ApiError ''down''))]
       (started :: nat GoffInProcess, [], stream_types (started :: nat GoffInProcess)) = (i, heard, due) \<and>
     Value (goff_evaluate (\<lambda>f n c e t d. (\<lparr>vr_Value = f, vr_Failed = False, vr_ErrorCode = FFCode [], vr_ErrorDetails = [],
        vr_Reason = [], vr_VariationType = [], vr_Metadata = None\<rparr>, None)) ''nat'' i ''f'' (0::nat) None) = 7"
proof -
  obtain i heard due where run: "goff_run [PollWith (Inr (conf_of [''f'' \<mapsto> 7])), PollWith (Inl (ApiError ''down''))]
       (started :: nat GoffInProcess, [], stream_types (started :: nat GoffInProcess)) = (i, heard, due)"
    by (metis prod.collapse)
  from goff_evaluates_last_configuration [OF started_Init refl run refl, where flag = "''f''" and t = "''nat''" and d = "0::nat"
      and ctx = None and Evaluate = "\<lambda>f n c e t d. (\<lparr>vr_Value = f, vr_Failed = False, vr_ErrorCode = FFCode [], vr_ErrorDetails = [],
        vr_Reason = [], vr_VariationType = [], vr_Metadata = None\<rparr>, None)"] run
  show ?thesis by simp
qed

section \<open>Lost events\<close>

lemma no_more_events:
  "\<forall>x\<in>set xs. x = ReadEvent \<or> (\<exists>e. x = PollWith (Inl (ApiError e))) \<Longrightarrow> gi_polling i \<Longrightarrow> gi_stale i \<Longrightarrow>
    goff_run xs (i, heard, due) = (i', heard', due') \<Longrightarrow> gi_stale i' \<and> heard' @ stream_types i' = heard @ stream_types i"
proof (induction xs arbitrary: i heard due)
  case (Cons x xs)
  obtain i1 h1 d1 where 1: "goff_step x (i, heard, due) = (i1, h1, d1)" by (cases "goff_step x (i, heard, due)")
  have "gi_polling i1 \<and> gi_stale i1 \<and> h1 @ stream_types i1 = heard @ stream_types i"
    using Cons.prems(1-3) 1
    by (auto simp: goff_tick_fields goff_tick_types poll_failed_def refresh_event_def split: list.splits)
  with Cons.IH [of i1 h1 d1] Cons.prems 1 show ?case by auto
qed simp

text \<open>
  A stale event that finds the channel full is lost for good: while the polls keep failing, the
  application may read as much as it likes, it never hears that the flags are stale.
\<close>

theorem stale_event_is_lost:
  assumes "gi_polling i" "\<not> gi_stale i" "length (gi_eventStream i) = 5"
    "\<forall>x\<in>set xs. x = ReadEvent \<or> (\<exists>e. x = PollWith (Inl (ApiError e)))"
    "goff_run (PollWith (Inl (ApiError err)) # xs) (i, [], []) = (i', heard, due)"
  shows "gi_stale i' \<and> heard @ map EventType (gi_eventStream i') = map EventType (gi_eventStream i)"
proof -
  have "gi_polling (goff_tick (\<lambda>_. Inl (ApiError err)) i)" "gi_stale (goff_tick (\<lambda>_. Inl (ApiError err)) i)"
    "stream_types (goff_tick (\<lambda>_. Inl (ApiError err)) i) = stream_types i"
    using assms(1-3) by (simp_all add: goff_tick_fields goff_tick_types poll_failed_def goff_eventBuffer_def split: option.split)
  with no_more_events [OF assms(4), of "goff_tick (\<lambda>_. Inl (ApiError err)) i" "[]"] assms(5) show ?thesis by simp
qed

theorem stale_event_is_lost_witness:
  "\<exists>(i :: nat GoffInProcess) i' heard due. gi_eventStream i =
       replicate 5 \<lparr>EventType = EvConfigChange, EventMessage = ''Configuration has changed'', FlagChanges = []\<rparr> \<and>
     goff_run [PollWith (Inl (ApiError ''down'')), ReadEvent, PollWith (Inl (ApiError ''down''))] (i, [], []) = (i', heard, due) \<and>
     gi_stale i' \<and> heard @ map EventType (gi_eventStream i') = replicate 5 EvConfigChange"
proof -
  define i :: "nat GoffInProcess" where
    "i = started\<lparr>gi_eventStream := replicate 5 \<lparr>EventType = EvConfigChange, EventMessage = ''Configuration has changed'', FlagChanges = []\<rparr>\<rparr>"
  have i: "gi_polling i" "\<not> gi_stale i" "length (gi_eventStream i) = 5"
    by (simp_all add: i_def)
  obtain i' heard due where run: "goff_run [PollWith (Inl (ApiError ''down'')), ReadEvent, PollWith (Inl (ApiError ''down''))] (i, [], []) = (i', heard, due)"
    by (metis prod.collapse)
  have xs: "\<forall>x\<in>set [ReadEvent, PollWith (Inl (ApiError ''down''))]. x = ReadEvent \<or> (\<exists>e. x = PollWith (Inl (ApiError e)))" by simp
  have "map EventType (gi_eventStream i) = replicate 5 EvConfigChange" "gi_eventStream i =
       replicate 5 \<lparr>EventType = EvConfigChange, EventMessage = ''Configuration has changed'', FlagChanges = []\<rparr>"
    by (simp_all add: i_def)
  with stale_event_is_lost [OF i xs run] run show ?thesis by metis
qed

section \<open>Shutdown\<close>

datatype 'f goff_call = CallInit "string \<Rightarrow> api_error + 'f FlagConfigResponse" | CallShutdown | Tick "string \<Rightarrow> api_error + 'f FlagConfigResponse"

fun goff_calls :: "'f goff_call list \<Rightarrow> 'f GoffInProcess \<Rightarrow> 'f GoffInProcess option" where
  "goff_calls [] i = Some i"
| "goff_calls (CallInit getConf # cs) i = goff_calls cs (fst (goff_Init getConf i))"
| "goff_calls (Tick getConf # cs) i = goff_calls cs (goff_tick getConf i)"
| "goff_calls (CallShutdown # cs) i = (case goff_Shutdown i of None \<Rightarrow> None | Some i \<Rightarrow> goff_calls cs i)"

lemma loadConfiguration_fields:
  "loadConfiguration getConf i = (i', st, err) \<Longrightarrow> gi_polling i' = gi_polling i \<and> gi_stopped i' = gi_stopped i"
  by (auto simp: loadConfiguration_def split: sum.splits api_error.splits)

lemma goff_calls_return: "(gi_stopped i \<longrightarrow> \<not> gi_polling i) \<Longrightarrow> \<exists>i'. goff_calls cs i = Some i'"
proof (induction cs i rule: goff_calls.induct)
  case (2 getConf cs i)
  obtain i1 st err where "loadConfiguration getConf i = (i1, st, err)" by (cases "loadConfiguration getConf i")
  with loadConfiguration_fields [OF this] 2 show ?case by (cases err) (auto simp: goff_Init_def)
next
  case (3 getConf cs i)
  obtain i1 st err where "loadConfiguration getConf i = (i1, st, err)" by (cases "loadConfiguration getConf i")
  with loadConfiguration_fields [OF this] 3 show ?case by (cases err) (auto simp: goff_tick_def)
qed (auto simp: goff_Shutdown_def)

text \<open>
  In any sequence of starts, polls and shutdowns every shutdown of an in-process evaluator returns, since
  a start that succeeds renews what \<^verbatim>\<open>Shutdown\<close> closes.
\<close>

theorem goff_shutdown_returns: "\<exists>i. goff_calls cs (NewInprocessEvaluator iv stream) = Some i"
  by (rule goff_calls_return) (simp add: NewInprocessEvaluator_def)

end
