(* ===== verification/GOFF_Provider.thy ===== *)
theory GOFF_Provider
  imports GOFF_Remote_Correct GOFF_InProcess_Correct
begin

text \<open>
  The GO Feature Flag provider itself (\<^verbatim>\<open>pkg/provider.go\<close>, \<^verbatim>\<open>pkg/provider_options.go\<close>): construction,
  the choice of the evaluator and of the hooks, start and shutdown, and how evaluation and data
  collection work together.
\<close>

section \<open>Construction\<close>

text \<open>\<open>'h\<close> is an HTTP client, \<open>go_Headers\<close> the map of headers in the order the runtime visits it.\<close>

record 'h goff_options =
  go_Endpoint :: string
  go_HTTPClient :: "'h option"
  go_APIKey :: string
  go_Headers :: "(string \<times> string) list"
  go_ExporterMetadata :: go_map
  go_FlagChangePollingInterval :: int64
  go_EvaluationType :: string
  go_DataCollectorMaxEventStored :: int64
  go_DataCollectorCollectInterval :: int64
  go_DataCollectorDisabled :: bool
  go_DataCollectorBaseURL :: string
  go_DisableCache :: bool
  go_FlagCacheSize :: int
  go_FlagCacheTTL :: int64

definition Validation :: "'h goff_options \<Rightarrow> string option" where
  "Validation o1 = (if go_Endpoint o1 = [] then Some ''invalid option: Endpoint is required'' else None)"

datatype ('c, 'f) goff_evaluator = EvRemote "'c Remote" | EvInProcess "'f GoffInProcess"

datatype goff_hook = EnrichmentHook "string \<rightharpoonup> go_any" | CollectorHook string

text \<open>
  The provider.  Without a data collector the field of the manager holds its zero value, here \<open>None\<close>.
  The event stream is the one of the in-process evaluator; nothing is ever sent on it by a remote one.
\<close>

record ('h, 'c, 'f) goff_provider =
  pv_options :: "'h goff_options"
  pv_api :: "'h GoFeatureFlagAPI"
  pv_dcm :: "CollectableEvent DataCollectorManager option"
  pv_evaluator :: "('c, 'f) goff_evaluator"
  pv_hooks :: "goff_hook list"

definition selectEvaluator :: "(int \<Rightarrow> 'c) \<Rightarrow> 'h goff_options \<Rightarrow> ('c, 'f) goff_evaluator" where
  "selectEvaluator new_lru options =
     (if go_EvaluationType options = evaluationTypeRemote
      then EvRemote (NewRemoteEvaluator new_lru (go_FlagCacheSize options) (go_FlagCacheTTL options) (go_DisableCache options)
             (go_FlagChangePollingInterval options) True)
      else EvInProcess (NewInprocessEvaluator (go_FlagChangePollingInterval options) []))"

definition buildHooks :: "'h goff_options \<Rightarrow> goff_hook list" where
  "buildHooks options =
     EnrichmentHook (map_view (go_ExporterMetadata options)) #
     (if \<not> go_DataCollectorDisabled options \<and> (go_EvaluationType options \<noteq> evaluationTypeRemote \<or> \<not> go_DisableCache options)
      then [CollectorHook (go_EvaluationType options)] else [])"

definition goff_NewProvider :: "(int \<Rightarrow> 'c) \<Rightarrow> 'h goff_options \<Rightarrow> string + ('h, 'c, 'f) goff_provider" where
  "goff_NewProvider new_lru options =
     (case Validation options of
        Some err \<Rightarrow> Inl err
      | None \<Rightarrow>
          (let metadata = (map_view (go_ExporterMetadata options))(''provider'' \<mapsto> VString ''go'', ''openfeature'' \<mapsto> VBool True);
               options = options\<lparr>go_ExporterMetadata := Some metadata\<rparr>
           in Inr \<lparr>pv_options = options,
                pv_api = \<lparr>ga_endpoint = go_Endpoint options, ga_httpClient = go_HTTPClient options, ga_apiKey = go_APIKey options,
                  ga_headers = go_Headers options, ga_exporterMetadata = metadata,
                  ga_dataCollectorBaseURL = go_DataCollectorBaseURL options\<rparr>,
                pv_dcm = (if go_DataCollectorDisabled options then None
                  else Some (NewDataCollectorManager (go_DataCollectorMaxEventStored options) (go_DataCollectorCollectInterval options))),
                pv_evaluator = selectEvaluator new_lru options,
                pv_hooks = buildHooks options\<rparr>))"

section \<open>Start and shutdown\<close>

text \<open>\<open>getConf\<close> is \<^verbatim>\<open>GetConfiguration\<close> as a function of the ETag; a remote evaluator only reads the ETag.\<close>

definition evaluator_Init ::
  "(string \<Rightarrow> api_error + 'f FlagConfigResponse) \<Rightarrow> ('c, 'f) goff_evaluator \<Rightarrow> ('c, 'f) goff_evaluator \<times> string option" where
  "evaluator_Init getConf ev = (case ev of
       EvRemote r \<Rightarrow> (EvRemote (remote_Init (map_sum id cr_Etag (getConf [])) r), None)
     | EvInProcess i \<Rightarrow> map_prod EvInProcess id (goff_Init getConf i))"

definition goff_InitWithContext ::
  "(string \<Rightarrow> api_error + 'f FlagConfigResponse) \<Rightarrow> ('h, 'c, 'f) goff_provider \<Rightarrow> ('h, 'c, 'f) goff_provider \<times> string option" where
  "goff_InitWithContext getConf p =
     (let p = (if \<not> go_DataCollectorDisabled (pv_options p) then p\<lparr>pv_dcm := map_option collector_Start (pv_dcm p)\<rparr> else p)
      in case evaluator_Init getConf (pv_evaluator p) of (ev, err) \<Rightarrow> (p\<lparr>pv_evaluator := ev\<rparr>, err))"

definition evaluator_Shutdown :: "('c, 'f) goff_evaluator \<Rightarrow> ('c, 'f) goff_evaluator option" where
  "evaluator_Shutdown ev = (case ev of
       EvRemote r \<Rightarrow> map_option EvRemote (remote_Shutdown r)
     | EvInProcess i \<Rightarrow> map_option EvInProcess (goff_Shutdown i))"

text \<open>\<open>err\<close> is the result of \<^verbatim>\<open>CollectData\<close> in the last flush.\<close>

definition goff_ShutdownWithContext ::
  "string option \<Rightarrow> ('h, 'c, 'f) goff_provider \<Rightarrow> ('h, 'c, 'f) goff_provider option" where
  "goff_ShutdownWithContext err p =
     (let p = (if \<not> go_DataCollectorDisabled (pv_options p) then p\<lparr>pv_dcm := map_option (collector_Stop err) (pv_dcm p)\<rparr> else p)
      in case evaluator_Shutdown (pv_evaluator p) of None \<Rightarrow> None | Some ev \<Rightarrow> Some (p\<lparr>pv_evaluator := ev\<rparr>))"

section \<open>Evaluation\<close>

text \<open>
  A call of one of the provider's five methods: the evaluator in use, an OFREP server \<open>server\<close> behind a
  remote one and the engine \<open>en\<close> behind an in-process one.
\<close>

fun inprocess_ask :: "'f engine \<Rightarrow> 'f GoffInProcess \<Rightarrow> string \<Rightarrow> request \<Rightarrow> go_map \<Rightarrow> typed_answer" where
  "inprocess_ask en i flag (QBool d) ctx = ABool (goff_BooleanEvaluation en i flag d ctx)"
| "inprocess_ask en i flag (QString d) ctx = AString (goff_StringEvaluation en i flag d ctx)"
| "inprocess_ask en i flag (QFloat d) ctx = AFloat (goff_FloatEvaluation en i flag d ctx)"
| "inprocess_ask en i flag (QInt d) ctx = AInt (goff_IntEvaluation en i flag d ctx)"
| "inprocess_ask en i flag (QInterface d) ctx = AInterface (goff_ObjectEvaluation en i flag d ctx)"

definition goff_request ::
  "'c remote_env \<Rightarrow> feature_provider \<Rightarrow> 'f engine \<Rightarrow> ('h, 'c, 'f) goff_provider \<Rightarrow> string \<Rightarrow> request \<Rightarrow> go_map \<Rightarrow>
   ('h, 'c, 'f) goff_provider \<times> typed_answer" where
  "goff_request env server en p flag q ctx =
     (case pv_evaluator p of
        EvRemote r \<Rightarrow> (case remote_request env server (rm_cache r) flag q ctx of
          (c, a) \<Rightarrow> (p\<lparr>pv_evaluator := EvRemote (r\<lparr>rm_cache := c\<rparr>)\<rparr>, a))
      | EvInProcess i \<Rightarrow> (p, inprocess_ask en i flag q ctx))"

text \<open>The SDK hands the answer to the hooks as the details of an untyped evaluation.\<close>

fun any_detail :: "typed_answer \<Rightarrow> go_any resolution_detail" where
  "any_detail (ABool d) = \<lparr>Value = VBool (Value d), Detail = Detail d\<rparr>"
| "any_detail (AString d) = \<lparr>Value = VString (Value d), Detail = Detail d\<rparr>"
| "any_detail (AFloat d) = \<lparr>Value = VFloat64 (Value d), Detail = Detail d\<rparr>"
| "any_detail (AInt d) = \<lparr>Value = VInt64 (Value d), Detail = Detail d\<rparr>"
| "any_detail (AInterface d) = d"

text \<open>The After stage of the provider's hooks; only the collector hook does something.\<close>

definition hooks_After ::
  "int64 \<Rightarrow> string option \<Rightarrow> EvaluationContext \<Rightarrow> string \<Rightarrow> typed_answer \<Rightarrow> ('h, 'c, 'f) goff_provider \<Rightarrow> ('h, 'c, 'f) goff_provider" where
  "hooks_After now err evalCtx flag a p =
     foldl (\<lambda>p h. case h of
         EnrichmentHook m \<Rightarrow> p
       | CollectorHook t \<Rightarrow> p\<lparr>pv_dcm := map_option (collector_After now err t evalCtx flag (any_detail a)) (pv_dcm p)\<rparr>) p (pv_hooks p)"

section \<open>Counting the use of flags\<close>

text \<open>What the constructor and the operations leave alone.\<close>

lemma goff_NewProvider_hooks:
  "goff_NewProvider new_lru options = Inr p \<Longrightarrow>
    pv_hooks p = EnrichmentHook ((map_view (go_ExporterMetadata options))(''provider'' \<mapsto> VString ''go'', ''openfeature'' \<mapsto> VBool True)) #
      (if \<not> go_DataCollectorDisabled options \<and> (go_EvaluationType options \<noteq> evaluationTypeRemote \<or> \<not> go_DisableCache options)
       then [CollectorHook (go_EvaluationType options)] else [])"
  by (auto simp: goff_NewProvider_def buildHooks_def Let_def split: option.splits)

lemma goff_request_hooks: "goff_request env server en p flag q ctx = (p', a) \<Longrightarrow> pv_hooks p' = pv_hooks p \<and> pv_dcm p' = pv_dcm p"
  by (auto simp: goff_request_def split: goff_evaluator.splits prod.splits)

lemma any_detail_cached: "Reason (Detail (any_detail (mark_cached a))) = CachedReason"
  by (cases a) simp_all

lemma lookup_half_marks: "lookup_half env c flag q ctx = (c', Some a) \<Longrightarrow> \<exists>a'. a = mark_cached a'"
  by (auto simp: lookup_half_def split: if_splits option.splits prod.splits)

text \<open>
  With remote evaluation the collector counts exactly the evaluations that the relay proxy does not see: an
  evaluation adds its event when the cache answered it and none when the server did, provided the
  server itself does not give the reason \<^verbatim>\<open>CACHED\<close>.
\<close>

theorem goff_usage_counted_once:
  assumes "goff_NewProvider new_lru options = Inr p0" "go_EvaluationType options = ''REMOTE''"
    "\<not> go_DataCollectorDisabled options" "\<not> go_DisableCache options"
    "pv_hooks p = pv_hooks p0" "pv_evaluator p = EvRemote r" "pv_dcm p = Some d"
    "goff_request env server en p flag q ctx = (p1, a)"
    "Reason (Detail (any_detail (ask server flag q ctx))) \<noteq> CachedReason"
  shows "pv_dcm (hooks_After now err evalCtx flag a p1) = Some
    (case snd (lookup_half env (rm_cache r) flag q ctx) of
       None \<Rightarrow> d
     | Some cached \<Rightarrow> fst (AddEvent err (Feature (NewFeatureEvent now evalCtx flag (Value (any_detail cached))
         (Variant (Detail (any_detail cached))) False [] ''PROVIDER_CACHE'')) d))"
proof -
  have hooks: "pv_hooks p1 = [EnrichmentHook ((map_view (go_ExporterMetadata options))(''provider'' \<mapsto> VString ''go'', ''openfeature'' \<mapsto> VBool True)),
      CollectorHook ''REMOTE'']" "pv_dcm p1 = Some d"
    using goff_NewProvider_hooks [OF assms(1)] goff_request_hooks [OF assms(8)] assms(2-5,7) by auto
  obtain c h where l: "lookup_half env (rm_cache r) flag q ctx = (c, h)" by (cases "lookup_half env (rm_cache r) flag q ctx")
  have a: "a = (case h of None \<Rightarrow> ask server flag q ctx | Some a \<Rightarrow> a)"
    using assms(6,8) l by (auto simp: goff_request_def remote_request_halves split: prod.splits option.splits)
  show ?thesis
  proof (cases h)
    case None
    with a l hooks assms(9) show ?thesis by (simp add: hooks_After_def collector_After_def evaluationTypeRemote_def)
  next
    case (Some x)
    with lookup_half_marks l obtain a' where "x = mark_cached a'" by blast
    with Some a l hooks any_detail_cached [of a'] show ?thesis
      by (simp add: hooks_After_def collector_After_def evaluationTypeRemote_def getSource_def)
  qed
qed

abbreviation remote_options_ex :: "nat goff_options" where
  "remote_options_ex \<equiv> \<lparr>go_Endpoint = ''http://proxy'', go_HTTPClient = None, go_APIKey = [], go_Headers = [],
     go_ExporterMetadata = None, go_FlagChangePollingInterval = 0, go_EvaluationType = ''REMOTE'',
     go_DataCollectorMaxEventStored = 0, go_DataCollectorCollectInterval = 0, go_DataCollectorDisabled = False,
     go_DataCollectorBaseURL = [], go_DisableCache = False, go_FlagCacheSize = 0, go_FlagCacheTTL = 0\<rparr>"

theorem goff_usage_counted_once_witness:
  "\<exists>(p :: (nat, (string, entry) InMemory, nat) goff_provider) p1 a. goff_NewProvider (\<lambda>n. NewInMemory) remote_options_ex = Inr p \<and>
     goff_request true_env true_provider undefined p ''f'' (QBool False) None = (p1, a) \<and>
     pv_dcm (hooks_After 0 None \<lparr>ec_TargetingKey = ''u'', ec_Attributes = Map.empty\<rparr> ''f'' a p1) = Some (NewDataCollectorManager 0 0)"
proof -
  obtain p :: "(nat, (string, entry) InMemory, nat) goff_provider" where
    p: "goff_NewProvider (\<lambda>n. NewInMemory) remote_options_ex = Inr p" "pv_dcm p = Some (NewDataCollectorManager 0 0)"
      "pv_evaluator p = EvRemote fresh_remote"
    by (simp add: goff_NewProvider_def Validation_def selectEvaluator_def evaluationTypeRemote_def Let_def)
  obtain p1 a where req: "goff_request true_env true_provider undefined p ''f'' (QBool False) None = (p1, a)" by fastforce
  have reason: "Reason (Detail (any_detail (ask true_provider ''f'' (QBool False) None))) \<noteq> CachedReason"
    by (simp add: true_provider_def empty_detail_def CachedReason_def)
  have miss: "snd (lookup_half true_env (rm_cache fresh_remote) ''f'' (QBool False) None) = None"
    by (simp add: lookup_half_def NewRemoteEvaluator_def NewCache_def mem_defs split: option.split)
  have opts: "go_EvaluationType remote_options_ex = ''REMOTE''" "\<not> go_DataCollectorDisabled remote_options_ex"
    "\<not> go_DisableCache remote_options_ex" by simp_all
  from goff_usage_counted_once [OF p(1) opts refl p(3,2) req reason,
      of 0 None "\<lparr>ec_TargetingKey = ''u'', ec_Attributes = Map.empty\<rparr>"] miss p(1) req
  show ?thesis by auto
qed

text \<open>
  A shutdown whose last flush succeeds leaves nothing behind: the batches the relay proxy has accepted are
  exactly the events whose addition was reported as successful, in their order.
\<close>

theorem goff_shutdown_flushes:
  assumes "collector_run is (NewDataCollectorManager m iv) = (d, accepted)" "pv_dcm p = Some d"
    "\<not> go_DataCollectorDisabled (pv_options p)" "goff_ShutdownWithContext None p = Some p'"
  shows "\<exists>d'. pv_dcm p' = Some d' \<and> concat (dc_sent d') = accepted \<and> dc_events d' = [] \<and> dc_goroutine d' \<noteq> Looping"
proof -
  have d: "concat (dc_sent d) @ dc_events d = accepted"
    using collector_run_stored [OF assms(1)] by (simp add: stored_def NewDataCollectorManager_def)
  have "pv_dcm p' = Some (collector_Stop None d)"
    using assms(2-4) by (auto simp: goff_ShutdownWithContext_def Let_def split: option.splits)
  moreover have "concat (dc_sent (collector_Stop None d)) = accepted \<and> dc_events (collector_Stop None d) = [] \<and>
      dc_goroutine (collector_Stop None d) \<noteq> Looping"
    using d by (auto simp: collector_Stop_def collector_wait_def collector_take_def collector_put_def SendData_def sendDataLocked_def Let_def)
  ultimately show ?thesis by blast
qed

theorem goff_shutdown_flushes_witness:
  "\<exists>(p :: (nat, (string, entry) InMemory, nat) goff_provider) p' d'. goff_ShutdownWithContext None p = Some p' \<and>
     pv_dcm p' = Some d' \<and> concat (dc_sent d') = [Tracking (NewTrackingEvent 0 ''e'' \<lparr>ec_TargetingKey = ''u'', ec_Attributes = Map.empty\<rparr> Map.empty)]"
proof -
  let ?e = "Tracking (NewTrackingEvent 0 ''e'' \<lparr>ec_TargetingKey = ''u'', ec_Attributes = Map.empty\<rparr> Map.empty)"
  obtain p :: "(nat, (string, entry) InMemory, nat) goff_provider" where
    p: "goff_NewProvider (\<lambda>n. NewInMemory) remote_options_ex = Inr p" "pv_evaluator p = EvRemote fresh_remote" "pv_options p = remote_options_ex\<lparr>go_ExporterMetadata := Some [''provider'' \<mapsto> VString ''go'', ''openfeature'' \<mapsto> VBool True]\<rparr>"
    by (simp add: goff_NewProvider_def Validation_def selectEvaluator_def evaluationTypeRemote_def Let_def)
  have run: "collector_run [AddIt ?e None] (NewDataCollectorManager 0 0) =
     (NewDataCollectorManager 0 0\<lparr>dc_events := [?e]\<rparr>, [?e])"
    by (simp add: collector_input_def AddEvent_def NewDataCollectorManager_def dataCollectorMaxEventStoredDefault_def)
  let ?p = "p\<lparr>pv_dcm := Some (NewDataCollectorManager 0 0\<lparr>dc_events := [?e]\<rparr>)\<rparr>"
  have en: "\<not> go_DataCollectorDisabled (pv_options ?p)" using p(3) by simp
  obtain ev where "evaluator_Shutdown (pv_evaluator p) = Some ev"
    using p(2) by (simp add: evaluator_Shutdown_def remote_Shutdown_def NewRemoteEvaluator_def)
  then obtain p' where sh: "goff_ShutdownWithContext None ?p = Some p'"
    using en by (simp add: goff_ShutdownWithContext_def)
  have d: "pv_dcm ?p = Some (NewDataCollectorManager 0 0\<lparr>dc_events := [?e]\<rparr>)" by simp
  from goff_shutdown_flushes [OF run d en sh] sh show ?thesis by blast
qed

end
