(* ===== verification/Flagd_HttpConnector.thy ===== *)
theory Flagd_HttpConnector
  imports OFREP
begin

text \<open>
  The HTTP connector, a flag source that polls a URL: \<^verbatim>\<open>tools/flagd-http-connector/pkg\<close>.  Its options
  and their validation (\<^verbatim>\<open>http_connector_options.go\<close>), the conditional requests
  (\<^verbatim>\<open>http_cache_fetcher.go\<close>), the fail-safe cache (\<^verbatim>\<open>fail_safe_cache.go\<close>) and the connector
  (\<^verbatim>\<open>http_connector.go\<close>).  The URL parser, the HTTP library and the payload cache of the application
  are parameters; logging is left out.
\<close>

section \<open>The payload cache\<close>

lemma map_le_Some: "m \<subseteq>\<^sub>m m' \<Longrightarrow> m k = Some v \<Longrightarrow> m' k = Some v"
  by (metis domI map_le_def)

text \<open>\<^verbatim>\<open>Get\<close> returns a payload and an error.\<close>

record 'c payload_ops =
  pc_Get :: "string \<Rightarrow> 'c \<Rightarrow> string \<times> string option"
  pc_Put :: "string \<Rightarrow> string \<Rightarrow> 'c \<Rightarrow> 'c \<times> string option"
  pc_PutWithTTL :: "string \<Rightarrow> string \<Rightarrow> int \<Rightarrow> 'c \<Rightarrow> 'c \<times> string option"

text \<open>The contract: a payload that is found was there or was put under its key; entries may vanish.\<close>

locale payload_cache =
  fixes ops :: "'c payload_ops"
    and view :: "'c \<Rightarrow> string \<Rightarrow> string option"
  assumes get_found: "fst (pc_Get ops k c) \<noteq> [] \<Longrightarrow> view c k = Some (fst (pc_Get ops k c))"
    and put_view: "view (fst (pc_Put ops k p c)) \<subseteq>\<^sub>m (view c)(k \<mapsto> p)"
    and put_ttl_view: "view (fst (pc_PutWithTTL ops k p ttl c)) \<subseteq>\<^sub>m (view c)(k \<mapsto> p)"
begin

lemma put_entry: "view (fst (pc_Put ops k p c)) k' = Some v \<Longrightarrow> v = p \<or> view c k' = Some v"
  using map_le_Some [OF put_view] by (metis fun_upd_apply option.inject)

lemma put_ttl_entry: "view (fst (pc_PutWithTTL ops k p ttl c)) k' = Some v \<Longrightarrow> v = p \<or> view c k' = Some v"
  using map_le_Some [OF put_ttl_view] by (metis fun_upd_apply option.inject)

end

text \<open>The in-memory payload cache that the repository's tests run the connector with.\<close>

definition mock_ops :: "(string \<rightharpoonup> string) payload_ops" where
  "mock_ops = \<lparr>pc_Get = (\<lambda>k m. case m k of None \<Rightarrow> ([], Some ''key not found'') | Some p \<Rightarrow> (p, None)),
     pc_Put = (\<lambda>k p m. (m(k \<mapsto> p), None)), pc_PutWithTTL = (\<lambda>k p ttl m. (m(k \<mapsto> p), None))\<rparr>"

interpretation mock: payload_cache mock_ops id
  by unfold_locales (auto simp: mock_ops_def split: option.splits)

section \<open>Options\<close>

text \<open>
  \<open>ho_Headers\<close> is the map of headers in the order the runtime visits it; \<open>ho_PayloadCacheOptions\<close> the
  update interval behind the pointer, \<open>ho_PayloadCache\<close> whether a cache is set, \<open>'h\<close> an HTTP client.
\<close>

record 'h HttpConnectorOptions =
  ho_Log :: bool
  ho_PollIntervalSeconds :: int
  ho_ConnectTimeoutSeconds :: int
  ho_RequestTimeoutSeconds :: int
  ho_Headers :: "(string \<times> string) list"
  ho_ProxyHost :: string
  ho_ProxyPort :: int
  ho_PayloadCacheOptions :: "int option"
  ho_PayloadCache :: bool
  ho_UseHttpCache :: bool
  ho_UseFailsafeCache :: bool
  ho_UsePollingCache :: bool
  ho_URL :: string
  ho_Client :: "'h option"

text \<open>\<open>parse\<close> is \<^verbatim>\<open>url.ParseRequestURI\<close>: scheme and host, unless it fails.\<close>

definition validateURL :: "(string \<Rightarrow> (string \<times> string) option) \<Rightarrow> string \<Rightarrow> string option" where
  "validateURL parse raw =
     (case parse raw of
        None \<Rightarrow> Some (''invalid URL: '' @ raw)
      | Some (scheme, host) \<Rightarrow> if scheme = [] \<or> host = [] then Some (''invalid URL: '' @ raw) else None)"

definition implementsPutWithTTL :: "bool \<Rightarrow> bool" where
  "implementsPutWithTTL pc \<longleftrightarrow> pc"

definition connector_Validate :: "(string \<Rightarrow> (string \<times> string) option) \<Rightarrow> 'h HttpConnectorOptions \<Rightarrow> string option" where
  "connector_Validate parse o1 =
     (case validateURL parse (ho_URL o1) of
        Some err \<Rightarrow> Some err
      | None \<Rightarrow>
         if ho_RequestTimeoutSeconds o1 < 1 \<or> ho_RequestTimeoutSeconds o1 > 60 then
           Some ''requestTimeoutSeconds must be between 1 and 60''
         else if ho_ConnectTimeoutSeconds o1 < 1 \<or> ho_ConnectTimeoutSeconds o1 > 60 then
           Some ''connectTimeoutSeconds must be between 1 and 60''
         else if ho_PollIntervalSeconds o1 < 1 \<or> ho_PollIntervalSeconds o1 > 600 then
           Some ''pollIntervalSeconds must be between 1 and 600''
         else if ho_ProxyHost o1 \<noteq> [] \<and> ho_ProxyPort o1 = 0 then
           Some ''proxyPort must be set if proxyHost is set''
         else if ho_ProxyHost o1 = [] \<and> ho_ProxyPort o1 \<noteq> 0 then
           Some ''proxyHost must be set if proxyPort is set''
         else if (ho_PayloadCacheOptions o1 \<noteq> None \<and> \<not> ho_PayloadCache o1) \<or>
                 (ho_PayloadCache o1 \<and> ho_PayloadCacheOptions o1 = None) then
           Some ''both payloadCache and payloadCacheOptions must be set together''
         else if (ho_UseFailsafeCache o1 \<or> ho_UsePollingCache o1) \<and> \<not> ho_PayloadCache o1 then
           Some ''payloadCache must be set if useFailsafeCache or usePollingCache is true''
         else if ho_UsePollingCache o1 \<and> \<not> implementsPutWithTTL (ho_PayloadCache o1) then
           Some ''when usePollingCache is set, payloadCache must implement Put(key, payload, ttlSeconds)''
         else if \<not> ho_Log o1 then Some ''log is required for HttpConnector''
         else None)"

section \<open>Conditional requests\<close>

record fetch_response =
  fr_StatusCode :: int
  fr_Header :: "string \<Rightarrow> string"
  fr_Body :: "string + string"

record HttpCacheFetcher =
  cf_ETag :: string
  cf_LastModified :: string

text \<open>\<open>exchange\<close> is the client: an error or a response; \<open>canonical\<close> the canonical form of a header's name.\<close>

definition FetchContent ::
  "(string \<Rightarrow> string) \<Rightarrow> (http_request \<Rightarrow> string + fetch_response) \<Rightarrow> http_request \<Rightarrow> HttpCacheFetcher \<Rightarrow>
   HttpCacheFetcher \<times> (string + fetch_response \<times> string)" where
  "FetchContent canonical exchange req f =
     (let h = rq_headers req;
          h = (if cf_ETag f \<noteq> [] then header_set canonical h (''If-None-Match'', cf_ETag f) else h);
          h = (if cf_LastModified f \<noteq> [] then header_set canonical h (''If-Modified-Since'', cf_LastModified f) else h)
      in case exchange (req\<lparr>rq_headers := h\<rparr>) of
           Inl err \<Rightarrow> (f, Inl err)
         | Inr resp \<Rightarrow>
             if fr_StatusCode resp = 200 then
               (let f = f\<lparr>cf_ETag := fr_Header resp ''ETag'', cf_LastModified := fr_Header resp ''Last-Modified''\<rparr>
                in case fr_Body resp of Inl err \<Rightarrow> (f, Inl err) | Inr b \<Rightarrow> (f, Inr (resp, b)))
             else (f, Inr (resp, [])))"

section \<open>The fail-safe cache\<close>

definition FailSafePayloadCacheKey :: string where "FailSafePayloadCacheKey = ''FailSafeCache.failsafe-payload''"
definition PollingPayloadCacheKey :: string where "PollingPayloadCacheKey = ''HttpConnector.polling-payload''"

text \<open>Times are nanoseconds; \<open>None\<close> is the zero time, from which every interval has passed.\<close>

record FailSafeCache =
  fs_lastUpdateTime :: "int option"
  fs_updateInterval :: int64

text \<open>The argument is the interval behind the options pointer; a nil pointer is written to.\<close>

definition NewFailSafeCache :: "int option \<Rightarrow> FailSafeCache outcome" where
  "NewFailSafeCache opts =
     (case opts of
        None \<Rightarrow> Panic ''invalid memory address or nil pointer dereference''
      | Some n \<Rightarrow> (let n = (if n < 1 then 30 * 60 else n)
          in Return \<lparr>fs_lastUpdateTime = None, fs_updateInterval = word_of_int n * 1000000000\<rparr>))"

definition UpdatePayloadIfNeeded ::
  "'c payload_ops \<Rightarrow> int \<Rightarrow> string \<Rightarrow> FailSafeCache \<Rightarrow> 'c \<Rightarrow> FailSafeCache \<times> 'c" where
  "UpdatePayloadIfNeeded ops now payload f c =
     (if (case fs_lastUpdateTime f of None \<Rightarrow> False | Some t \<Rightarrow> now - t < sint (fs_updateInterval f)) then (f, c)
      else case pc_Put ops FailSafePayloadCacheKey payload c of
             (c, Some err) \<Rightarrow> (f, c)
           | (c, None) \<Rightarrow> (f\<lparr>fs_lastUpdateTime := Some now\<rparr>, c))"

definition FailSafe_Get :: "'c payload_ops \<Rightarrow> 'c \<Rightarrow> string" where
  "FailSafe_Get ops c = (case pc_Get ops FailSafePayloadCacheKey c of (v, Some err) \<Rightarrow> [] | (v, None) \<Rightarrow> v)"

section \<open>The connector\<close>

text \<open>\<^verbatim>\<open>string(rune(x))\<close>: the UTF-8 bytes of a code point, those of U+FFFD for a number that is none.\<close>

definition byte :: "int \<Rightarrow> char" where "byte n = char_of (nat n)"

definition utf8 :: "int \<Rightarrow> string" where
  "utf8 x =
     (if x < 0 \<or> (0xD800 \<le> x \<and> x < 0xE000) \<or> 0x110000 \<le> x then [byte 0xEF, byte 0xBF, byte 0xBD]
      else if x < 0x80 then [byte x]
      else if x < 0x800 then [byte (0xC0 + x div 64), byte (0x80 + x mod 64)]
      else if x < 0x10000 then [byte (0xE0 + x div 4096), byte (0x80 + x div 64 mod 64), byte (0x80 + x mod 64)]
      else [byte (0xF0 + x div 262144), byte (0x80 + x div 4096 mod 64), byte (0x80 + x div 64 mod 64), byte (0x80 + x mod 64)])"

definition rune_string :: "int \<Rightarrow> string" where
  "rune_string x = utf8 (sint (word_of_int x :: 32 word))"

text \<open>\<^verbatim>\<open>net.JoinHostPort\<close>.\<close>

definition JoinHostPort :: "string \<Rightarrow> string \<Rightarrow> string" where
  "JoinHostPort host port =
     (if CHR '':'' \<in> set host then ''['' @ host @ '']:'' @ port else host @ '':'' @ port)"

text \<open>A client of the application, or one that is built with a timeout and perhaps a proxy.\<close>

datatype 'h connector_client = GivenClient 'h | BuiltClient int64 "string option"

text \<open>
  The connector.  \<open>hc_cache\<close> is the state of the payload cache, \<open>hc_updates\<close> the payloads of the started
  goroutines that have not yet updated the caches, \<open>hc_sent\<close> the payloads handed over on the channel.
\<close>

record ('h, 'c) HttpConnector =
  hc_options :: "'h HttpConnectorOptions"
  hc_client :: "'h connector_client option"
  hc_ticker :: bool
  hc_cacheFetcher :: "HttpCacheFetcher option"
  hc_failSafeCache :: "FailSafeCache option"
  hc_pollTtl :: int
  hc_isInitialized :: bool
  hc_isShutdown :: bool
  hc_cache :: 'c
  hc_updates :: "string list"
  hc_sent :: "string list"

definition connector_defaults :: "'h HttpConnectorOptions \<Rightarrow> 'h HttpConnectorOptions" where
  "connector_defaults opts =
     (let opts = (if ho_PollIntervalSeconds opts = 0 then opts\<lparr>ho_PollIntervalSeconds := 60\<rparr> else opts);
          opts = (if ho_ConnectTimeoutSeconds opts = 0 then opts\<lparr>ho_ConnectTimeoutSeconds := 10\<rparr> else opts)
      in if ho_RequestTimeoutSeconds opts = 0 then opts\<lparr>ho_RequestTimeoutSeconds := 10\<rparr> else opts)"

definition proxy_address :: "'h HttpConnectorOptions \<Rightarrow> string option" where
  "proxy_address opts =
     (if ho_ProxyHost opts \<noteq> [] \<and> ho_ProxyPort opts \<noteq> 0
      then Some (JoinHostPort (ho_ProxyHost opts) (rune_string (ho_ProxyPort opts))) else None)"

definition NewHttpConnector ::
  "(string \<Rightarrow> (string \<times> string) option) \<Rightarrow> 'c \<Rightarrow> 'h HttpConnectorOptions \<Rightarrow> (string + ('h, 'c) HttpConnector) outcome" where
  "NewHttpConnector parse cache options =
     (let opts = connector_defaults options
      in case connector_Validate parse opts of
           Some err \<Rightarrow> Return (Inl err)
         | None \<Rightarrow>
            (let h = \<lparr>hc_options = opts,
                   hc_client = Some (case ho_Client opts of
                       None \<Rightarrow> BuiltClient (word_of_int (ho_RequestTimeoutSeconds opts) * 1000000000) (proxy_address opts)
                     | Some c \<Rightarrow> GivenClient c),
                   hc_ticker = False, hc_cacheFetcher = None, hc_failSafeCache = None,
                   hc_pollTtl = ho_PollIntervalSeconds opts, hc_isInitialized = False, hc_isShutdown = False,
                   hc_cache = cache, hc_updates = [], hc_sent = []\<rparr>;
                 h = (if ho_UseHttpCache opts then h\<lparr>hc_cacheFetcher := Some \<lparr>cf_ETag = [], cf_LastModified = []\<rparr>\<rparr> else h)
             in if ho_UseFailsafeCache opts
                then map_result (\<lambda>f. Inr (h\<lparr>hc_failSafeCache := Some f\<rparr>)) (NewFailSafeCache (ho_PayloadCacheOptions opts))
                else Return (Inr h)))"

definition connector_IsReady :: "('h, 'c) HttpConnector \<Rightarrow> bool" where
  "connector_IsReady h \<longleftrightarrow> hc_isInitialized h \<and> \<not> hc_isShutdown h"

text \<open>
  What a poll uses: the payload cache, the canonical form of header names, the check of a request's URL (an error
  text or none), and one exchange with the server.
\<close>

record 'c connector_env =
  cn_ops :: "'c payload_ops"
  cn_canonical :: "string \<Rightarrow> string"
  cn_NewRequest :: "string \<Rightarrow> string option"

text \<open>The data channel of the flag store: nil, open, or closed by its owner; a send on it panics and is recovered.\<close>

datatype data_chan = NilChan | OpenChan | ClosedChan

definition sendDataSync :: "data_chan \<Rightarrow> string \<Rightarrow> ('h, 'c) HttpConnector \<Rightarrow> ('h, 'c) HttpConnector \<times> bool" where
  "sendDataSync dataSync payload h =
     (if hc_isShutdown h then (h, False)
      else if dataSync = ClosedChan then (h, False)
      else (h\<lparr>hc_sent := hc_sent h @ [payload]\<rparr>, True))"

definition deliver :: "data_chan \<Rightarrow> string \<Rightarrow> ('h, 'c) HttpConnector \<Rightarrow> ('h, 'c) HttpConnector \<times> bool" where
  "deliver dataSync payload h =
     (let h = h\<lparr>hc_updates := hc_updates h @ [payload]\<rparr>
      in if dataSync \<noteq> NilChan then sendDataSync dataSync payload h else (h, True))"

text \<open>The request without a cache fetcher: a status other than 200 and 304 is a failure, and so is an unreadable body.\<close>

definition direct_fetch ::
  "(http_request \<Rightarrow> string + fetch_response) \<Rightarrow> http_request \<Rightarrow> data_chan \<Rightarrow> ('h, 'c) HttpConnector \<Rightarrow>
   ('h, 'c) HttpConnector \<times> bool" where
  "direct_fetch exchange req dataSync h =
     (if hc_isShutdown h then (h, False)
      else case exchange req of
        Inl err \<Rightarrow> (h, False)
      | Inr resp \<Rightarrow>
          if fr_StatusCode resp \<noteq> 200 \<and> fr_StatusCode resp \<noteq> 304 then (h, False)
          else if fr_StatusCode resp = 304 then (h, True)
          else (case fr_Body resp of Inl err \<Rightarrow> (h, False) | Inr payload \<Rightarrow> deliver dataSync payload h))"

definition cached_fetch ::
  "(string \<Rightarrow> string) \<Rightarrow> (http_request \<Rightarrow> string + fetch_response) \<Rightarrow> http_request \<Rightarrow> data_chan \<Rightarrow> HttpCacheFetcher \<Rightarrow>
   ('h, 'c) HttpConnector \<Rightarrow> ('h, 'c) HttpConnector \<times> bool" where
  "cached_fetch canonical exchange req dataSync f h =
     (case FetchContent canonical exchange req f of
        (f, Inl err) \<Rightarrow> (h\<lparr>hc_cacheFetcher := Some f\<rparr>, False)
      | (f, Inr (resp, payload)) \<Rightarrow>
          (let h = h\<lparr>hc_cacheFetcher := Some f\<rparr>
           in if fr_StatusCode resp = 304 then (h, True) else deliver dataSync payload h))"

definition fetchAndUpdate ::
  "'c connector_env \<Rightarrow> (http_request \<Rightarrow> string + fetch_response) \<Rightarrow> data_chan \<Rightarrow> ('h, 'c) HttpConnector \<Rightarrow>
   ('h, 'c) HttpConnector \<times> bool" where
  "fetchAndUpdate env exchange dataSync h =
     (if ho_UsePollingCache (hc_options h) \<and> ho_PayloadCache (hc_options h) \<and>
         fst (pc_Get (cn_ops env) PollingPayloadCacheKey (hc_cache h)) \<noteq> [] then (h, True)
      else case cn_NewRequest env (ho_URL (hc_options h)) of
        Some err \<Rightarrow> (h, False)
      | None \<Rightarrow>
          (let req = \<lparr>rq_path = ho_URL (hc_options h), rq_payload = [],
                 rq_headers = foldl (header_set (cn_canonical env)) Map.empty (ho_Headers (hc_options h))\<rparr>
           in case hc_cacheFetcher h of
                Some f \<Rightarrow> cached_fetch (cn_canonical env) exchange req dataSync f h
              | None \<Rightarrow> direct_fetch exchange req dataSync h))"

text \<open>The goroutine that updates the caches with a payload, at the time \<open>now\<close>.\<close>

definition updateCache :: "'c payload_ops \<Rightarrow> int \<Rightarrow> string \<Rightarrow> ('h, 'c) HttpConnector \<Rightarrow> ('h, 'c) HttpConnector" where
  "updateCache ops now payload h =
     (let h = (case hc_failSafeCache h of
            None \<Rightarrow> h
          | Some f \<Rightarrow> (case UpdatePayloadIfNeeded ops now payload f (hc_cache h) of
              (f, c) \<Rightarrow> h\<lparr>hc_failSafeCache := Some f, hc_cache := c\<rparr>))
      in if ho_PayloadCache (hc_options h)
         then h\<lparr>hc_cache := fst (pc_PutWithTTL ops PollingPayloadCacheKey payload (hc_pollTtl h) (hc_cache h))\<rparr>
         else h)"

definition updateFromCache :: "'c payload_ops \<Rightarrow> data_chan \<Rightarrow> ('h, 'c) HttpConnector \<Rightarrow> ('h, 'c) HttpConnector" where
  "updateFromCache ops dataSync h =
     (let flagData = (if ho_PayloadCache (hc_options h) then fst (pc_Get ops PollingPayloadCacheKey (hc_cache h)) else []);
          flagData = (if flagData = [] \<and> hc_failSafeCache h \<noteq> None then FailSafe_Get ops (hc_cache h) else flagData)
      in if dataSync \<noteq> NilChan \<and> flagData \<noteq> [] then fst (sendDataSync dataSync flagData h) else h)"

definition connector_Sync ::
  "'c connector_env \<Rightarrow> (http_request \<Rightarrow> string + fetch_response) \<Rightarrow> data_chan \<Rightarrow> ('h, 'c) HttpConnector \<Rightarrow>
   ('h, 'c) HttpConnector \<times> string option" where
  "connector_Sync env exchange dataSync h =
     (if hc_client h = None then (h, Some ''not initialized'')
      else if hc_isInitialized h then (h, None)
      else (case fetchAndUpdate env exchange dataSync h of
              (h, success) \<Rightarrow>
                (let h = (if \<not> success then updateFromCache (cn_ops env) dataSync h else h)
                 in (h\<lparr>hc_ticker := True, hc_isInitialized := True\<rparr>, None))))"

text \<open>
  A tick of the polling goroutine.  Its select may take a tick that is due even when the shutdown channel
  is already closed, so that a tick is not excluded after a shutdown.
\<close>

definition connector_tick ::
  "'c connector_env \<Rightarrow> (http_request \<Rightarrow> string + fetch_response) \<Rightarrow> data_chan \<Rightarrow> ('h, 'c) HttpConnector \<Rightarrow> ('h, 'c) HttpConnector" where
  "connector_tick env exchange dataSync h =
     (if hc_isInitialized h then fst (fetchAndUpdate env exchange dataSync h) else h)"

definition connector_Shutdown :: "('h, 'c) HttpConnector \<Rightarrow> ('h, 'c) HttpConnector" where
  "connector_Shutdown h =
     (if \<not> hc_isInitialized h then h
      else if hc_isShutdown h then h
      else h\<lparr>hc_ticker := False, hc_isShutdown := True\<rparr>)"

end
