(* ===== verification/Flagd_HttpConnector_Correct.thy ===== *)
theory Flagd_HttpConnector_Correct
  imports Flagd_HttpConnector
begin

text \<open>
  Correctness of the HTTP connector: where the flag data it hands over comes from, what its constructor
  accepts, that a shutdown is final, and what an error status, an unreadable body and a hit in the
  polling cache do.
\<close>

section \<open>Runs\<close>

text \<open>
  The inputs: a call of Sync or a tick with its exchange and channel, a cache update that runs at some time,
  a shutdown, and what others do to the application's cache, which several services may share: they put some
  payloads under some keys, and entries expire.
\<close>

datatype 'c connector_input =
    DoSync "http_request \<Rightarrow> string + fetch_response" data_chan
  | DoTick "http_request \<Rightarrow> string + fetch_response" data_chan
  | DoUpdate nat int
  | DoShutdown
  | DoOthers "(string \<times> string) list" "'c \<Rightarrow> 'c"

fun connector_step :: "'c connector_env \<Rightarrow> 'c connector_input \<Rightarrow> ('h, 'c) HttpConnector \<Rightarrow> ('h, 'c) HttpConnector" where
  "connector_step env (DoSync exchange ch) h = fst (connector_Sync env exchange ch h)"
| "connector_step env (DoTick exchange ch) h = connector_tick env exchange ch h"
| "connector_step env (DoUpdate i now) h =
     (if i < length (hc_updates h)
      then updateCache (cn_ops env) now (hc_updates h ! i)
             (h\<lparr>hc_updates := take i (hc_updates h) @ drop (Suc i) (hc_updates h)\<rparr>)
      else h)"
| "connector_step env DoShutdown h = connector_Shutdown h"
| "connector_step env (DoOthers puts f) h = h\<lparr>hc_cache := f (hc_cache h)\<rparr>"

definition connector_run :: "'c connector_env \<Rightarrow> 'c connector_input list \<Rightarrow> ('h, 'c) HttpConnector \<Rightarrow> ('h, 'c) HttpConnector" where
  "connector_run env = fold (connector_step env)"

lemma connector_run_simps [simp]:
  "connector_run env [] h = h" "connector_run env (i # is) h = connector_run env is (connector_step env i h)"
  by (simp_all add: connector_run_def)

lemma connector_run_append: "connector_run env (is @ js) h = connector_run env js (connector_run env is h)"
  by (simp add: connector_run_def)

section \<open>The requests that are made\<close>

text \<open>
  The one request of a poll: the URL and the headers of the options, and with conditional requests the
  tags of the last 200 response, those that are not empty.
\<close>

definition conditions :: "('h, 'c) HttpConnector \<Rightarrow> (string \<times> string) list" where
  "conditions h =
     (case hc_cacheFetcher h of
        None \<Rightarrow> []
      | Some f \<Rightarrow> filter (\<lambda>c. snd c \<noteq> []) [(''If-None-Match'', cf_ETag f), (''If-Modified-Since'', cf_LastModified f)])"

definition poll_request :: "'c connector_env \<Rightarrow> ('h, 'c) HttpConnector \<Rightarrow> http_request" where
  "poll_request env h =
     \<lparr>rq_path = ho_URL (hc_options h), rq_payload = [],
      rq_headers = foldl (header_set (cn_canonical env)) Map.empty (ho_Headers (hc_options h) @ conditions h)\<rparr>"

text \<open>
  A poll makes its request unless the polling cache has a payload, the URL is refused, or (without
  conditional requests) the connector is shut down.
\<close>

definition requests :: "'c connector_env \<Rightarrow> ('h, 'c) HttpConnector \<Rightarrow> bool" where
  "requests env h \<longleftrightarrow>
     \<not> (ho_UsePollingCache (hc_options h) \<and> ho_PayloadCache (hc_options h) \<and>
        fst (pc_Get (cn_ops env) PollingPayloadCacheKey (hc_cache h)) \<noteq> []) \<and>
     cn_NewRequest env (ho_URL (hc_options h)) = None \<and> (hc_cacheFetcher h = None \<longrightarrow> \<not> hc_isShutdown h)"

text \<open>The response to the request that an input makes: the first Sync and, after it, every tick polls.\<close>

fun poll_response :: "'c connector_env \<Rightarrow> 'c connector_input \<Rightarrow> ('h, 'c) HttpConnector \<Rightarrow> fetch_response option" where
  "poll_response env (DoSync exchange ch) h =
     (if requests env h \<and> hc_client h \<noteq> None \<and> \<not> hc_isInitialized h
      then (case exchange (poll_request env h) of Inl err \<Rightarrow> None | Inr resp \<Rightarrow> Some resp) else None)"
| "poll_response env (DoTick exchange ch) h =
     (if requests env h \<and> hc_isInitialized h
      then (case exchange (poll_request env h) of Inl err \<Rightarrow> None | Inr resp \<Rightarrow> Some resp) else None)"
| "poll_response env _ h = None"

text \<open>
  The payload of a response: the body of a 200; and, with conditional requests, the empty text for every status
  other than 200 and 304.
\<close>

definition fresh :: "bool \<Rightarrow> 'c connector_env \<Rightarrow> 'c connector_input \<Rightarrow> ('h, 'c) HttpConnector \<Rightarrow> string \<Rightarrow> bool" where
  "fresh conditional env i h p \<longleftrightarrow> (\<exists>resp. poll_response env i h = Some resp \<and>
     (fr_StatusCode resp = 200 \<and> fr_Body resp = Inr p \<or>
      conditional \<and> fr_StatusCode resp \<noteq> 200 \<and> fr_StatusCode resp \<noteq> 304 \<and> p = []))"

text \<open>The keys of the cache that the connector uses, and what others put under them.\<close>

definition connector_keys :: "string set" where
  "connector_keys = {FailSafePayloadCacheKey, PollingPayloadCacheKey}"

fun put_by_others :: "'c connector_input \<Rightarrow> string \<Rightarrow> bool" where
  "put_by_others (DoOthers puts f) p = (\<exists>k\<in>connector_keys. (k, p) \<in> set puts)"
| "put_by_others _ p = False"

fun input_ok :: "('c \<Rightarrow> string \<Rightarrow> string option) \<Rightarrow> 'c connector_input \<Rightarrow> bool" where
  "input_ok view (DoOthers puts f) = (\<forall>c k p. view (f c) k = Some p \<longrightarrow> view c k = Some p \<or> (k, p) \<in> set puts)"
| "input_ok view _ = True"

fun open_channel :: "'c connector_input \<Rightarrow> bool" where
  "open_channel (DoSync exchange ch) = (ch = OpenChan)"
| "open_channel (DoTick exchange ch) = (ch = OpenChan)"
| "open_channel _ = False"

section \<open>Where payloads come from\<close>

text \<open>Every payload in the state has the property \<open>P\<close>.\<close>

definition payloads :: "('c \<Rightarrow> string \<Rightarrow> string option) \<Rightarrow> (string \<Rightarrow> bool) \<Rightarrow> ('h, 'c) HttpConnector \<Rightarrow> bool" where
  "payloads view P h \<longleftrightarrow> (\<forall>p\<in>set (hc_sent h) \<union> set (hc_updates h). P p) \<and> (\<forall>k\<in>connector_keys. \<forall>p. view (hc_cache h) k = Some p \<longrightarrow> P p)"

lemma payloads_mono: "payloads view P h \<Longrightarrow> (\<And>p. P p \<Longrightarrow> Q p) \<Longrightarrow> payloads view Q h"
  unfolding payloads_def by blast

text \<open>What stays fixed over a run.\<close>

definition same_setup :: "('h, 'c) HttpConnector \<Rightarrow> ('h, 'c) HttpConnector \<Rightarrow> bool" where
  "same_setup h h' \<longleftrightarrow> hc_options h' = hc_options h \<and> (hc_cacheFetcher h' = None \<longleftrightarrow> hc_cacheFetcher h = None)"

lemma same_setup_simps [simp]: "same_setup h h"
  by (simp add: same_setup_def)

lemma same_setup_trans: "same_setup h h1 \<Longrightarrow> same_setup h1 h2 \<Longrightarrow> same_setup h h2"
  by (simp add: same_setup_def)

lemma deliver_payloads:
  assumes "deliver ch p h = (h', ok)" "payloads view P h" "P p"
  shows "payloads view P h' \<and> same_setup h h'"
  using assms by (auto simp: deliver_def sendDataSync_def payloads_def same_setup_def Let_def split: if_splits)

text \<open>The payload of a response, as a function.\<close>

definition fetched :: "bool \<Rightarrow> fetch_response \<Rightarrow> string option" where
  "fetched conditional resp =
     (if fr_StatusCode resp = 200 then (case fr_Body resp of Inl err \<Rightarrow> None | Inr p \<Rightarrow> Some p)
      else if conditional \<and> fr_StatusCode resp \<noteq> 304 then Some [] else None)"

lemma fetched_Some: "fetched conditional resp = Some p \<longleftrightarrow> fr_StatusCode resp = 200 \<and> fr_Body resp = Inr p \<or>
    conditional \<and> fr_StatusCode resp \<noteq> 200 \<and> fr_StatusCode resp \<noteq> 304 \<and> p = []"
  by (auto simp: fetched_def split: sum.splits)

lemma fresh_iff: "fresh conditional env i h p \<longleftrightarrow> (\<exists>resp. poll_response env i h = Some resp \<and> fetched conditional resp = Some p)"
  by (simp only: fresh_def fetched_Some)

lemma direct_fetch_answer:
  "exchange req = Inl err \<Longrightarrow> direct_fetch exchange req ch h = (h, False)"
  "exchange req = Inr resp \<Longrightarrow> fetched False resp = None \<Longrightarrow> \<exists>ok. direct_fetch exchange req ch h = (h, ok)"
  "exchange req = Inr resp \<Longrightarrow> \<not> hc_isShutdown h \<Longrightarrow> fetched False resp = Some p \<Longrightarrow>
    direct_fetch exchange req ch h = deliver ch p h"
  by (auto simp: direct_fetch_def fetched_def split: sum.splits if_splits)

definition conditional_request :: "(string \<Rightarrow> string) \<Rightarrow> HttpCacheFetcher \<Rightarrow> http_request \<Rightarrow> http_request" where
  "conditional_request canonical f req = req\<lparr>rq_headers := foldl (header_set canonical) (rq_headers req)
     (filter (\<lambda>c. snd c \<noteq> []) [(''If-None-Match'', cf_ETag f), (''If-Modified-Since'', cf_LastModified f)])\<rparr>"

lemma FetchContent_request:
  "FetchContent canonical exchange req f =
     (case exchange (conditional_request canonical f req) of
        Inl err \<Rightarrow> (f, Inl err)
      | Inr resp \<Rightarrow>
          if fr_StatusCode resp = 200 then
            (let f = f\<lparr>cf_ETag := fr_Header resp ''ETag'', cf_LastModified := fr_Header resp ''Last-Modified''\<rparr>
             in case fr_Body resp of Inl err \<Rightarrow> (f, Inl err) | Inr b \<Rightarrow> (f, Inr (resp, b)))
          else (f, Inr (resp, [])))"
  by (simp add: FetchContent_def conditional_request_def Let_def)

lemma FetchContent_answer:
  "exchange (conditional_request canonical f req) = Inl err \<Longrightarrow> FetchContent canonical exchange req f = (f, Inl err)"
  "exchange (conditional_request canonical f req) = Inr resp \<Longrightarrow> fr_StatusCode resp \<noteq> 200 \<Longrightarrow>
    FetchContent canonical exchange req f = (f, Inr (resp, []))"
  "exchange (conditional_request canonical f req) = Inr resp \<Longrightarrow> fr_StatusCode resp = 200 \<Longrightarrow>
    \<exists>f'. FetchContent canonical exchange req f = (f', case fr_Body resp of Inl err \<Rightarrow> Inl err | Inr b \<Rightarrow> Inr (resp, b))"
  by (auto simp: FetchContent_request Let_def split: sum.split)

lemma cached_fetch_error:
  "exchange (conditional_request canonical g req) = Inl err \<Longrightarrow>
    cached_fetch canonical exchange req ch g h = (h\<lparr>hc_cacheFetcher := Some g\<rparr>, False)"
  by (simp add: cached_fetch_def FetchContent_answer(1))

lemma cached_fetch_answer:
  assumes "exchange (conditional_request canonical g req) = Inr resp"
  shows "\<exists>f. (fetched True resp = None \<longrightarrow> (\<exists>ok. cached_fetch canonical exchange req ch g h = (h\<lparr>hc_cacheFetcher := Some f\<rparr>, ok))) \<and>
    (\<forall>p. fetched True resp = Some p \<longrightarrow> cached_fetch canonical exchange req ch g h = deliver ch p (h\<lparr>hc_cacheFetcher := Some f\<rparr>))"
proof (cases "fr_StatusCode resp = 200")
  case True
  obtain f where "FetchContent canonical exchange req g = (f, case fr_Body resp of Inl err \<Rightarrow> Inl err | Inr b \<Rightarrow> Inr (resp, b))"
    using FetchContent_answer(3) [of exchange, OF assms True] by blast
  with True show ?thesis by (intro exI [of _ f]) (auto simp: cached_fetch_def fetched_def split: sum.split)
next
  case False
  with FetchContent_answer(2) [of exchange, OF assms False] show ?thesis
    by (intro exI [of _ g]) (auto simp: cached_fetch_def fetched_def)
qed

text \<open>A fetch makes the request of the poll or none, and hands over the payload of the response or nothing.\<close>

lemma fetchAndUpdate_cases:
  obtains "\<not> requests env h" "\<exists>ok. fetchAndUpdate env exchange ch h = (h, ok)"
  | err where "requests env h" "exchange (poll_request env h) = Inl err" "fetchAndUpdate env exchange ch h = (h, False)"
  | resp f ok where "requests env h" "exchange (poll_request env h) = Inr resp" "fetched (hc_cacheFetcher h \<noteq> None) resp = None"
      "f = None \<longleftrightarrow> hc_cacheFetcher h = None" "fetchAndUpdate env exchange ch h = (h\<lparr>hc_cacheFetcher := f\<rparr>, ok)"
  | resp p f where "requests env h" "exchange (poll_request env h) = Inr resp" "fetched (hc_cacheFetcher h \<noteq> None) resp = Some p"
      "f = None \<longleftrightarrow> hc_cacheFetcher h = None" "fetchAndUpdate env exchange ch h = deliver ch p (h\<lparr>hc_cacheFetcher := f\<rparr>)"
proof (cases "requests env h")
  case False
  then have "\<exists>ok. fetchAndUpdate env exchange ch h = (h, ok)"
    by (auto simp: requests_def fetchAndUpdate_def direct_fetch_def Let_def split: option.split)
  with False that(1) show ?thesis by blast
next
  case True
  let ?req = "\<lparr>rq_path = ho_URL (hc_options h), rq_payload = [],
      rq_headers = foldl (header_set (cn_canonical env)) Map.empty (ho_Headers (hc_options h))\<rparr>"
  have same: "h\<lparr>hc_cacheFetcher := x\<rparr> = h" if "hc_cacheFetcher h = x" for x using that by auto
  show ?thesis
  proof (cases "hc_cacheFetcher h")
    case None
    have r: "poll_request env h = ?req" using None by (simp add: poll_request_def conditions_def)
    from True None have f: "fetchAndUpdate env exchange ch h = direct_fetch exchange ?req ch h" "\<not> hc_isShutdown h"
      by (auto simp: requests_def fetchAndUpdate_def)
    note answer = direct_fetch_answer [where exchange = exchange and req = ?req and ch = ch and h = h, folded f(1) r]
    show ?thesis
    proof (cases "exchange (poll_request env h)")
      case (Inr resp)
      show ?thesis
      proof (cases "fetched False resp")
        case None': None
        with answer(2) [OF Inr] that(3) [OF True Inr, of None] None same [OF None] show ?thesis by auto
      next
        case (Some p)
        then have "fetchAndUpdate env exchange ch h = deliver ch p (h\<lparr>hc_cacheFetcher := None\<rparr>)"
          using answer(3) [OF Inr f(2)] unfolding same [OF None] by blast
        with that(4) [OF True Inr, of p None] None Some show ?thesis by simp
      qed
    qed (use answer(1) that(2) True in blast)
  next
    case (Some g)
    have r: "poll_request env h = conditional_request (cn_canonical env) g ?req"
      by (simp add: poll_request_def conditions_def conditional_request_def Some)
    from True Some have f: "fetchAndUpdate env exchange ch h = cached_fetch (cn_canonical env) exchange ?req ch g h"
      by (auto simp: requests_def fetchAndUpdate_def)
    show ?thesis
    proof (cases "exchange (poll_request env h)")
      case (Inl err)
      with cached_fetch_error [of exchange "cn_canonical env" g ?req err ch h] that(2) True same [OF Some] show ?thesis by (simp add: r f)
    next
      case (Inr resp)
      from cached_fetch_answer [of exchange, OF Inr [unfolded r], of ch h] obtain f' where
        f': "fetched True resp = None \<longrightarrow> (\<exists>ok. fetchAndUpdate env exchange ch h = (h\<lparr>hc_cacheFetcher := Some f'\<rparr>, ok))"
        "\<forall>p. fetched True resp = Some p \<longrightarrow> fetchAndUpdate env exchange ch h = deliver ch p (h\<lparr>hc_cacheFetcher := Some f'\<rparr>)"
        unfolding f by (elim exE conjE)
      show ?thesis
        using f' that(3,4) [OF True Inr, where f = "Some f'"] Some by (cases "fetched True resp") auto
    qed
  qed
qed

lemma poll_fresh:
  assumes "exchange (poll_request env h) = Inr resp" "requests env h" "fetched conditional resp = Some p"
  shows "hc_client h \<noteq> None \<Longrightarrow> \<not> hc_isInitialized h \<Longrightarrow> fresh conditional env (DoSync exchange ch) h p"
    "hc_isInitialized h \<Longrightarrow> fresh conditional env (DoTick exchange ch) h p"
  using assms by (simp_all add: fresh_iff)

lemma fetchAndUpdate_payloads:
  assumes "fetchAndUpdate env exchange ch h = (h', ok)" "payloads view P h"
    "\<And>resp p. exchange (poll_request env h) = Inr resp \<Longrightarrow> requests env h \<Longrightarrow> fetched (hc_cacheFetcher h \<noteq> None) resp = Some p \<Longrightarrow> P p"
  shows "payloads view P h' \<and> same_setup h h'"
proof -
  have keep: "payloads view P (h\<lparr>hc_cacheFetcher := f\<rparr>) \<and> same_setup h (h\<lparr>hc_cacheFetcher := f\<rparr>)"
    if "f = None \<longleftrightarrow> hc_cacheFetcher h = None" for f
    using assms(2) that by (simp add: payloads_def same_setup_def)
  show ?thesis
  proof (cases rule: fetchAndUpdate_cases [of env h exchange ch])
    case (4 resp p f)
    from 4(5) assms(1) have "deliver ch p (h\<lparr>hc_cacheFetcher := f\<rparr>) = (h', ok)" by simp
    from deliver_payloads [OF this] keep [OF 4(4)] assms(3) [OF 4(2,1,3)] show ?thesis using same_setup_trans by blast
  qed (use assms(1,2) keep in auto)
qed

text \<open>A response with a payload is handed over on an open channel.\<close>

lemma fresh_sent:
  assumes "fresh (hc_cacheFetcher h \<noteq> None) env i h p" "open_channel i" "\<not> hc_isShutdown h"
  shows "p \<in> set (hc_sent (connector_step env i h))"
proof -
  have sent: "p \<in> set (hc_sent (fst (fetchAndUpdate env exchange OpenChan h))) \<and> snd (fetchAndUpdate env exchange OpenChan h)"
    if "exchange (poll_request env h) = Inr resp" "requests env h" "fetched (hc_cacheFetcher h \<noteq> None) resp = Some p" for exchange resp
    by (cases rule: fetchAndUpdate_cases [of env h exchange OpenChan])
      (use that assms(3) in \<open>auto simp: deliver_def sendDataSync_def Let_def\<close>)
  show ?thesis
    using assms(1,2)
  proof (cases i)
    case (DoSync exchange ch)
    with assms(1,2) sent [of exchange] show ?thesis
      by (auto simp: fresh_iff connector_Sync_def Let_def split: if_splits sum.splits prod.splits)
  next
    case (DoTick exchange ch)
    with assms(1,2) sent [of exchange] show ?thesis
      by (auto simp: fresh_iff connector_tick_def split: if_splits sum.splits)
  qed auto
qed

text \<open>Nothing that was handed over is taken back.\<close>

lemma fetch_sent_mono: "set (hc_sent h) \<subseteq> set (hc_sent (fst (fetchAndUpdate env exchange ch h)))"
  by (cases rule: fetchAndUpdate_cases [of env h exchange ch]) (auto simp: deliver_def sendDataSync_def Let_def)

lemma step_sent_mono: "set (hc_sent h) \<subseteq> set (hc_sent (connector_step env i h))"
proof (cases i)
  case (DoSync exchange ch)
  have cache: "set (hc_sent h1) \<subseteq> set (hc_sent (updateFromCache ops ch h1))" for ops and h1 :: "('h, 'c) HttpConnector"
    by (auto simp: updateFromCache_def sendDataSync_def Let_def)
  from fetch_sent_mono [of h env exchange ch] cache show ?thesis
    unfolding DoSync connector_step.simps connector_Sync_def Let_def by (fastforce split: prod.split)
next
  case (DoTick exchange ch)
  from fetch_sent_mono [of h env exchange ch] show ?thesis by (simp add: DoTick connector_tick_def)
qed (auto simp: connector_Shutdown_def updateCache_def Let_def split: option.split prod.split)

lemma run_sent_mono: "set (hc_sent h) \<subseteq> set (hc_sent (connector_run env ins h))"
  by (induction ins arbitrary: h) (auto dest: subsetD [OF step_sent_mono])

context payload_cache
begin

lemma updateCache_payloads:
  assumes "payloads view P h" "P p"
  shows "payloads view P (updateCache ops now p h) \<and> same_setup h (updateCache ops now p h)"
proof -
  have put: "\<forall>k\<in>connector_keys. \<forall>q. view (fst (pc_Put ops k' p c)) k = Some q \<longrightarrow> P q"
    if "\<forall>k\<in>connector_keys. \<forall>q. view c k = Some q \<longrightarrow> P q" for c k'
    using that assms(2) put_entry by metis
  have put_ttl: "\<forall>k\<in>connector_keys. \<forall>q. view (fst (pc_PutWithTTL ops k' p ttl c)) k = Some q \<longrightarrow> P q"
    if "\<forall>k\<in>connector_keys. \<forall>q. view c k = Some q \<longrightarrow> P q" for c k' ttl
    using that assms(2) put_ttl_entry by metis
  define h1 where "h1 = (case hc_failSafeCache h of
            None \<Rightarrow> h
          | Some f \<Rightarrow> (case UpdatePayloadIfNeeded ops now p f (hc_cache h) of
              (f, c) \<Rightarrow> h\<lparr>hc_failSafeCache := Some f, hc_cache := c\<rparr>))"
  have "payloads view P h1 \<and> same_setup h h1"
    using assms(1) put [of "hc_cache h" FailSafePayloadCacheKey]
    by (auto simp: h1_def UpdatePayloadIfNeeded_def payloads_def same_setup_def split: option.split prod.splits)
  moreover have "updateCache ops now p h = (if ho_PayloadCache (hc_options h1)
      then h1\<lparr>hc_cache := fst (pc_PutWithTTL ops PollingPayloadCacheKey p (hc_pollTtl h1) (hc_cache h1))\<rparr> else h1)"
    by (simp add: updateCache_def h1_def Let_def)
  ultimately show ?thesis
    using put_ttl [of "hc_cache h1" PollingPayloadCacheKey] by (auto simp: payloads_def same_setup_def)
qed

lemma updateFromCache_payloads:
  assumes "payloads view P h"
  shows "payloads view P (updateFromCache ops ch h) \<and> same_setup h (updateFromCache ops ch h)"
proof -
  have found: "P (fst (pc_Get ops k (hc_cache h)))" if "fst (pc_Get ops k (hc_cache h)) \<noteq> []" "k \<in> connector_keys" for k
    using assms get_found [OF that(1)] that(2) by (auto simp: payloads_def)
  have keys: "FailSafePayloadCacheKey \<in> connector_keys" "PollingPayloadCacheKey \<in> connector_keys" by (simp_all add: connector_keys_def)
  have safe: "P (FailSafe_Get ops (hc_cache h))" if "FailSafe_Get ops (hc_cache h) \<noteq> []"
    using found [OF _ keys(1)] that by (auto simp: FailSafe_Get_def split: prod.splits option.splits)
  have "payloads view P (fst (sendDataSync ch p h)) \<and> same_setup h (fst (sendDataSync ch p h))" if "P p" for p
    using assms that by (auto simp: sendDataSync_def payloads_def same_setup_def)
  with assms found [OF _ keys(2)] safe show ?thesis by (auto simp: updateFromCache_def Let_def)
qed

lemma step_payloads:
  assumes "cn_ops env = ops" "payloads view P h" "input_ok view i" "\<And>p. fresh (hc_cacheFetcher h \<noteq> None) env i h p \<Longrightarrow> P p"
    "\<And>p. put_by_others i p \<Longrightarrow> P p"
  shows "payloads view P (connector_step env i h) \<and> same_setup h (connector_step env i h)"
proof (cases i)
  case (DoSync exchange ch)
  show ?thesis
  proof (cases "hc_client h \<noteq> None \<and> \<not> hc_isInitialized h")
    case True
    obtain h1 ok where f: "fetchAndUpdate env exchange ch h = (h1, ok)" by fastforce
    have "payloads view P h1 \<and> same_setup h h1"
      using fetchAndUpdate_payloads [OF f assms(2)] poll_fresh(1) True assms(4) DoSync by blast
    with updateFromCache_payloads [of P h1 ch] have
      "payloads view P (if \<not> ok then updateFromCache ops ch h1 else h1) \<and> same_setup h (if \<not> ok then updateFromCache ops ch h1 else h1)"
      using same_setup_trans by auto
    with assms(1,2) f show ?thesis by (auto simp: DoSync connector_Sync_def payloads_def same_setup_def Let_def)
  qed (use assms(2) in \<open>auto simp: DoSync connector_Sync_def\<close>)
next
  case (DoTick exchange ch)
  show ?thesis
  proof (cases "hc_isInitialized h")
    case True
    obtain h1 ok where f: "fetchAndUpdate env exchange ch h = (h1, ok)" by fastforce
    have "payloads view P h1 \<and> same_setup h h1"
      using fetchAndUpdate_payloads [OF f assms(2)] poll_fresh(2) True assms(4) DoTick by blast
    with f show ?thesis by (simp add: DoTick connector_tick_def True)
  qed (use assms(2) in \<open>simp add: DoTick connector_tick_def\<close>)
next
  case (DoUpdate n now)
  show ?thesis
  proof (cases "n < length (hc_updates h)")
    case True
    let ?h = "h\<lparr>hc_updates := take n (hc_updates h) @ drop (Suc n) (hc_updates h)\<rparr>"
    have "payloads view P ?h" "P (hc_updates h ! n)" "same_setup h ?h"
      using assms(2) True by (auto simp: payloads_def same_setup_def dest: in_set_takeD in_set_dropD)
    with updateCache_payloads [of P ?h "hc_updates h ! n" now] same_setup_trans [of h ?h]
    show ?thesis using True by (simp add: DoUpdate assms(1))
  qed (use assms(2) in \<open>simp add: DoUpdate\<close>)
next
  case DoShutdown
  with assms(2) show ?thesis by (simp add: connector_Shutdown_def payloads_def same_setup_def)
next
  case (DoOthers puts f)
  have "P p" if "view (f (hc_cache h)) k = Some p" "k \<in> connector_keys" for k p
    using assms(2,3,5) that by (fastforce simp: DoOthers payloads_def)
  with assms(2) show ?thesis by (simp add: DoOthers payloads_def same_setup_def)
qed

lemma run_payloads:
  "cn_ops env = ops \<Longrightarrow> payloads view P h \<Longrightarrow> list_all (input_ok view) ins \<Longrightarrow>
    (\<And>n p. n < length ins \<Longrightarrow> fresh (hc_cacheFetcher h \<noteq> None) env (ins ! n) (connector_run env (take n ins) h) p \<Longrightarrow> P p) \<Longrightarrow>
    (\<And>i p. i \<in> set ins \<Longrightarrow> put_by_others i p \<Longrightarrow> P p) \<Longrightarrow> payloads view P (connector_run env ins h)"
proof (induction ins arbitrary: h)
  case (Cons i ins)
  have step: "payloads view P (connector_step env i h)" "same_setup h (connector_step env i h)"
    using step_payloads [of env P h i] Cons.prems(1-3,5) Cons.prems(4) [of 0] by auto
  then have "hc_cacheFetcher (connector_step env i h) \<noteq> None \<longleftrightarrow> hc_cacheFetcher h \<noteq> None"
    by (simp add: same_setup_def)
  with step(1) Cons.prems(1,3,5) Cons.prems(4) [of "Suc n" for n] show ?case
    unfolding connector_run_simps by (intro Cons.IH) (auto simp del: not_None_eq)
qed simp

lemma run_setup: "cn_ops env = ops \<Longrightarrow> list_all (input_ok view) ins \<Longrightarrow> same_setup h (connector_run env ins h)"
proof (induction ins arbitrary: h)
  case (Cons i ins)
  have "same_setup h (connector_step env i h)"
    using step_payloads [of env "\<lambda>_. True" h i] Cons.prems by (simp add: payloads_def)
  with Cons show ?case using same_setup_trans by fastforce
qed simp

lemma run_fresh_sent:
  assumes "cn_ops env = ops" "list_all (input_ok view) ins" "n < length ins" "open_channel (ins ! n)"
    "fresh (hc_cacheFetcher h \<noteq> None) env (ins ! n) (connector_run env (take n ins) h) p"
    "\<not> hc_isShutdown (connector_run env (take n ins) h)"
  shows "p \<in> set (hc_sent (connector_run env ins h))"
proof -
  let ?h = "connector_run env (take n ins) h"
  have "list_all (input_ok view) (take n ins)" using assms(2) by (auto simp: list_all_iff dest: in_set_takeD)
  then have "hc_cacheFetcher ?h \<noteq> None \<longleftrightarrow> hc_cacheFetcher h \<noteq> None"
    using run_setup [OF assms(1), of "take n ins" h] by (simp add: same_setup_def)
  then have "p \<in> set (hc_sent (connector_step env (ins ! n) ?h))"
    using fresh_sent [of ?h env "ins ! n" p] assms(4-6) by simp
  moreover have "connector_run env (take n ins @ ins ! n # drop (Suc n) ins) h =
      connector_run env (drop (Suc n) ins) (connector_step env (ins ! n) ?h)"
    by (simp only: connector_run_append connector_run_simps)
  then have "connector_run env ins h = connector_run env (drop (Suc n) ins) (connector_step env (ins ! n) ?h)"
    unfolding id_take_nth_drop [OF assms(3), symmetric] .
  ultimately show ?thesis by (simp only: subsetD [OF run_sent_mono])
qed

end

section \<open>The constructor\<close>

lemma connector_Validate_None:
  assumes "connector_Validate parse o1 = None"
  shows "validateURL parse (ho_URL o1) = None" "1 \<le> ho_RequestTimeoutSeconds o1" "ho_RequestTimeoutSeconds o1 \<le> 60"
    "1 \<le> ho_ConnectTimeoutSeconds o1" "ho_ConnectTimeoutSeconds o1 \<le> 60" "1 \<le> ho_PollIntervalSeconds o1" "ho_PollIntervalSeconds o1 \<le> 600"
    "ho_ProxyHost o1 = [] \<longleftrightarrow> ho_ProxyPort o1 = 0" "ho_PayloadCacheOptions o1 = None \<longleftrightarrow> \<not> ho_PayloadCache o1"
    "ho_UseFailsafeCache o1 \<or> ho_UsePollingCache o1 \<Longrightarrow> ho_PayloadCache o1" "ho_Log o1"
  using assms by (auto simp: connector_Validate_def split: option.splits if_splits)

lemma connector_defaults_keep [simp]:
  "ho_Client (connector_defaults opts) = ho_Client opts" "ho_UseFailsafeCache (connector_defaults opts) = ho_UseFailsafeCache opts"
  "ho_UseHttpCache (connector_defaults opts) = ho_UseHttpCache opts" "ho_UsePollingCache (connector_defaults opts) = ho_UsePollingCache opts"
  "ho_PayloadCache (connector_defaults opts) = ho_PayloadCache opts" "ho_ProxyHost (connector_defaults opts) = ho_ProxyHost opts"
  "ho_ProxyPort (connector_defaults opts) = ho_ProxyPort opts" "ho_URL (connector_defaults opts) = ho_URL opts"
  "ho_Headers (connector_defaults opts) = ho_Headers opts"
  by (simp_all add: connector_defaults_def Let_def)

lemma NewHttpConnector_Inr:
  assumes "NewHttpConnector parse c opts = Return (Inr h)"
  shows "connector_Validate parse (connector_defaults opts) = None" "hc_options h = connector_defaults opts"
    "hc_client h \<noteq> None" "hc_cache h = c" "hc_sent h = []" "hc_updates h = []" "\<not> hc_isInitialized h" "\<not> hc_isShutdown h"
    "hc_pollTtl h = ho_PollIntervalSeconds (hc_options h)"
    "hc_cacheFetcher h = (if ho_UseHttpCache opts then Some \<lparr>cf_ETag = [], cf_LastModified = []\<rparr> else None)"
    "hc_failSafeCache h \<noteq> None \<longleftrightarrow> ho_UseFailsafeCache opts"
  using assms
  by (auto simp: NewHttpConnector_def NewFailSafeCache_def Let_def split: option.splits if_splits)

text \<open>
  The constructor never panics; it succeeds exactly when the options, with their defaults filled in, are
  valid; and then the poll interval and the time to live of the polling cache are between 1 and 600
  seconds, a client it builds has a timeout of 1 to 60 seconds in nanoseconds, and the fail-safe cache
  exists exactly when it is asked for.
\<close>

theorem connector_constructor:
  "returns (NewHttpConnector parse c opts) \<and>
   ((\<exists>h. NewHttpConnector parse c opts = Return (Inr h)) \<longleftrightarrow> connector_Validate parse (connector_defaults opts) = None) \<and>
   (case NewHttpConnector parse c opts of
      Return (Inr h) \<Rightarrow> hc_pollTtl h \<in> {1..600} \<and> ho_PollIntervalSeconds (hc_options h) = hc_pollTtl h \<and>
        (case hc_client h of
           Some (BuiltClient timeout proxy) \<Rightarrow> ho_Client opts = None \<and> sint timeout \<in> {1000000000..60000000000}
         | Some (GivenClient client) \<Rightarrow> ho_Client opts = Some client
         | None \<Rightarrow> False) \<and>
        (hc_failSafeCache h \<noteq> None \<longleftrightarrow> ho_UseFailsafeCache opts) \<and> \<not> connector_IsReady h
    | _ \<Rightarrow> True)"
proof -
  let ?o = "connector_defaults opts"
  show ?thesis
  proof (cases "connector_Validate parse ?o")
    case (Some err)
    then show ?thesis by (simp add: NewHttpConnector_def returns_def)
  next
    case None
    note v = connector_Validate_None [OF None]
    have "in_int64 (ho_RequestTimeoutSeconds ?o * 1000000000)" using v(2,3) by (simp add: in_int64_def)
    then have timeout: "sint (word_of_int (ho_RequestTimeoutSeconds ?o) * 1000000000 :: int64) = ho_RequestTimeoutSeconds ?o * 1000000000"
      using sint_int64_of_int [of "ho_RequestTimeoutSeconds ?o * 1000000000"] by simp
    have fs: "ho_UseFailsafeCache opts \<Longrightarrow> \<exists>n. ho_PayloadCacheOptions ?o = Some n" using v(9,10) by auto
    obtain h where h: "NewHttpConnector parse c opts = Return (Inr h)"
      using None fs by (cases "ho_UseFailsafeCache opts") (auto simp: NewHttpConnector_def NewFailSafeCache_def Let_def)
    moreover have "(case hc_client h of
           Some (BuiltClient timeout proxy) \<Rightarrow> ho_Client opts = None \<and> sint timeout \<in> {1000000000..60000000000}
         | Some (GivenClient client) \<Rightarrow> ho_Client opts = Some client
         | None \<Rightarrow> False)"
      using h None timeout v(2,3)
      by (auto simp: NewHttpConnector_def NewFailSafeCache_def Let_def split: option.splits if_splits)
    ultimately show ?thesis
      using None NewHttpConnector_Inr [OF h] v(6,7) by (simp add: connector_IsReady_def)
  qed
qed

section \<open>Safety of a run\<close>


text \<open>A configuration for concrete runs: a cache, polled every minute, perhaps conditional requests.\<close>

abbreviation cache_options :: "bool \<Rightarrow> bool \<Rightarrow> nat HttpConnectorOptions" where
  "cache_options http polling \<equiv> \<lparr>ho_Log = True, ho_PollIntervalSeconds = 0, ho_ConnectTimeoutSeconds = 0, ho_RequestTimeoutSeconds = 0,
     ho_Headers = [], ho_ProxyHost = [], ho_ProxyPort = 0, ho_PayloadCacheOptions = Some 0, ho_PayloadCache = True,
     ho_UseHttpCache = http, ho_UseFailsafeCache = True, ho_UsePollingCache = polling, ho_URL = ''http://flags/f.json'', ho_Client = None\<rparr>"

abbreviation mock_env :: "(string \<rightharpoonup> string) connector_env" where
  "mock_env \<equiv> \<lparr>cn_ops = mock_ops, cn_canonical = id, cn_NewRequest = (\<lambda>_. None)\<rparr>"

abbreviation answer_with :: "int \<Rightarrow> string + string \<Rightarrow> http_request \<Rightarrow> string + fetch_response" where
  "answer_with status body \<equiv> \<lambda>req. Inr \<lparr>fr_StatusCode = status, fr_Header = (\<lambda>_. []), fr_Body = body\<rparr>"

lemma mock_connector:
  "\<exists>h. NewHttpConnector (\<lambda>_. Some (''http'', ''flags'')) c (cache_options http polling) = Return (Inr h)"
  by (simp add: NewHttpConnector_def connector_defaults_def connector_Validate_def validateURL_def NewFailSafeCache_def
      implementsPutWithTTL_def Let_def)

text \<open>
  A run with all three sources: another service puts a payload, the first poll fails and takes that one, the next
  poll is answered with new flags.
\<close>

abbreviation shared_run :: "(string \<rightharpoonup> string) connector_input list" where
  "shared_run \<equiv>
     [DoOthers [(FailSafePayloadCacheKey, ''shared'')] (\<lambda>m. m(FailSafePayloadCacheKey \<mapsto> ''shared'')),
      DoSync (answer_with 500 (Inr ''failure'')) OpenChan, DoTick (answer_with 200 (Inr ''flags'')) OpenChan]"


section \<open>Shutdown\<close>

lemma shutdown_fetch:
  "hc_isShutdown h \<Longrightarrow> fetchAndUpdate env exchange ch h = (h', ok) \<Longrightarrow>
    hc_sent h' = hc_sent h \<and> hc_isShutdown h' \<and> hc_isInitialized h' = hc_isInitialized h"
  by (auto simp: fetchAndUpdate_def direct_fetch_def cached_fetch_def deliver_def sendDataSync_def Let_def
      split: if_splits option.splits sum.splits prod.splits)

lemma shutdown_tick: "hc_isShutdown h \<Longrightarrow>
    hc_sent (connector_tick env exchange ch h) = hc_sent h \<and> hc_isShutdown (connector_tick env exchange ch h) \<and>
    hc_isInitialized (connector_tick env exchange ch h) = hc_isInitialized h"
  using shutdown_fetch [of h env exchange ch "fst (fetchAndUpdate env exchange ch h)" "snd (fetchAndUpdate env exchange ch h)"]
  by (simp add: connector_tick_def)

lemma shutdown_frozen: "hc_isShutdown h \<Longrightarrow> hc_isInitialized h \<Longrightarrow>
    hc_sent (connector_step env i h) = hc_sent h \<and> hc_isShutdown (connector_step env i h) \<and> hc_isInitialized (connector_step env i h)"
  by (cases i) (auto simp: connector_Sync_def shutdown_tick connector_Shutdown_def updateCache_def Let_def split: option.split prod.split)

lemma shutdown_frozen_run: "hc_isShutdown h \<Longrightarrow> hc_isInitialized h \<Longrightarrow>
    hc_sent (connector_run env ins h) = hc_sent h \<and> hc_isShutdown (connector_run env ins h)"
proof (induction ins arbitrary: h)
  case (Cons i ins)
  with shutdown_frozen [of h env i] show ?case by simp
qed simp

text \<open>
  C26: A connector that was started and shut down is never ready again and sends nothing any more, whatever is
  called on it, another Sync included.
\<close>

theorem connector_shutdown_final:
  assumes "hc_isInitialized h" "h' = connector_run env ins (connector_Shutdown h)"
  shows "\<not> connector_IsReady h' \<and> hc_sent h' = hc_sent h"
proof -
  have "hc_isShutdown (connector_Shutdown h)" "hc_isInitialized (connector_Shutdown h)" "hc_sent (connector_Shutdown h) = hc_sent h"
    using assms(1) by (simp_all add: connector_Shutdown_def)
  with shutdown_frozen_run [of "connector_Shutdown h" env ins] show ?thesis by (simp add: assms(2) connector_IsReady_def)
qed

theorem connector_shutdown_final_witness:
  "\<exists>h0 h1. NewHttpConnector (\<lambda>_. Some (''http'', ''flags'')) (Map.empty :: string \<rightharpoonup> string) (cache_options False False) = Return (Inr h0) \<and>
     h1 = connector_run mock_env [DoSync (answer_with 200 (Inr ''flags'')) OpenChan] h0 \<and>
     hc_sent (connector_run mock_env [DoTick (answer_with 200 (Inr ''new'')) OpenChan, DoSync (answer_with 200 (Inr ''new'')) OpenChan]
       (connector_Shutdown h1)) = hc_sent h1"
proof -
  obtain h0 where h0: "NewHttpConnector (\<lambda>_. Some (''http'', ''flags'')) (Map.empty :: string \<rightharpoonup> string) (cache_options False False) = Return (Inr h0)"
    using mock_connector [of "Map.empty :: string \<rightharpoonup> string" False False] by (rule exE)
  let ?h1 = "connector_run mock_env [DoSync (answer_with 200 (Inr ''flags'')) OpenChan] h0"
  have "hc_isInitialized ?h1"
    using NewHttpConnector_Inr(3,7) [OF h0] by (auto simp: connector_Sync_def split: prod.splits)
  from connector_shutdown_final [OF this refl] h0 show ?thesis by metis
qed

section \<open>What goes wrong\<close>

text \<open>
  With conditional requests a response with an error status counts as new flag data: the empty text is sent to
  the flag store, although the fail-safe cache holds the last good flags, and it then replaces them
  there too.
\<close>

theorem error_status_wipes_flags:
  assumes "NewHttpConnector parse [FailSafePayloadCacheKey \<mapsto> good] opts = Return (Inr h0)" "ho_UseHttpCache opts"
    "ho_UseFailsafeCache opts" "cn_ops env = mock_ops" "cn_NewRequest env (ho_URL opts) = None"
    "\<And>req. exchange req = Inr resp" "fr_StatusCode resp \<noteq> 200" "fr_StatusCode resp \<noteq> 304"
    "h = connector_run env [DoSync exchange OpenChan, DoUpdate 0 now] h0"
  shows "hc_sent h = [[]] \<and> connector_IsReady h \<and> hc_cache h FailSafePayloadCacheKey = Some []"
proof -
  note new = NewHttpConnector_Inr [OF assms(1)]
  have pc: "ho_PayloadCache (hc_options h0)"
    using connector_Validate_None(10) [OF new(1)] new(2) assms(3) by simp
  obtain fs where fs: "hc_failSafeCache h0 = Some fs" using new(11) assms(3) by auto
  have last: "fs_lastUpdateTime fs = None"
    using assms(1) fs by (auto simp: NewHttpConnector_def NewFailSafeCache_def Let_def split: option.splits if_splits)
  have keys: "PollingPayloadCacheKey \<noteq> FailSafePayloadCacheKey"
    by (simp add: PollingPayloadCacheKey_def FailSafePayloadCacheKey_def)
  have "fetchAndUpdate env exchange OpenChan h0 =
      (h0\<lparr>hc_cacheFetcher := Some \<lparr>cf_ETag = [], cf_LastModified = []\<rparr>, hc_updates := [[]], hc_sent := [[]]\<rparr>, True)"
    using new assms(2,4-8) keys
    by (simp add: fetchAndUpdate_def mock_ops_def cached_fetch_def FetchContent_def deliver_def sendDataSync_def Let_def)
  then show ?thesis
    using new pc fs last keys assms(4)
    by (simp add: assms(9) connector_Sync_def connector_IsReady_def updateCache_def UpdatePayloadIfNeeded_def mock_ops_def)
qed

theorem error_status_wipes_flags_witness:
  "\<exists>h0. NewHttpConnector (\<lambda>_. Some (''http'', ''flags'')) [FailSafePayloadCacheKey \<mapsto> ''good''] (cache_options True False) = Return (Inr h0) \<and>
     hc_sent (connector_run mock_env [DoSync (answer_with 503 (Inr ''oops'')) OpenChan, DoUpdate 0 0] h0) = [[]]"
proof -
  obtain h0 where h0: "NewHttpConnector (\<lambda>_. Some (''http'', ''flags'')) [FailSafePayloadCacheKey \<mapsto> ''good''] (cache_options True False) = Return (Inr h0)"
    using mock_connector [of "[FailSafePayloadCacheKey \<mapsto> ''good'']" True False] by (rule exE)
  from error_status_wipes_flags [OF h0 _ _ _ _ _ _ _ refl, of mock_env "answer_with 503 (Inr ''oops'')"] h0
  show ?thesis by auto
qed

text \<open>
  A payload in the polling cache keeps the flags from the store: Sync then succeeds without a request and
  without sending anything, and so does every tick while the payload stays there.
\<close>

theorem polling_cache_hit_delivers_nothing:
  assumes "NewHttpConnector parse c opts = Return (Inr h0)" "ho_UsePollingCache opts"
    "fst (pc_Get (cn_ops env) PollingPayloadCacheKey c) \<noteq> []"
    "h = connector_run env (DoSync exchange ch # map (\<lambda>e. DoTick e ch) es) h0"
  shows "hc_sent h = [] \<and> connector_IsReady h"
proof -
  note new = NewHttpConnector_Inr [OF assms(1)]
  have pc: "ho_PayloadCache (hc_options h0)" "ho_UsePollingCache (hc_options h0)"
    using connector_Validate_None(10) [OF new(1)] new(2) assms(2) by simp_all
  obtain client where client: "hc_client h0 = Some client" using new(3) by auto
  let ?h = "h0\<lparr>hc_ticker := True, hc_isInitialized := True\<rparr>"
  have "connector_run env (map (\<lambda>e. DoTick e ch) es) ?h = ?h"
    using pc assms(3) new(4) by (induction es) (simp_all add: connector_tick_def fetchAndUpdate_def)
  then show ?thesis
    using pc assms(3) client new by (simp add: assms(4) connector_Sync_def fetchAndUpdate_def connector_IsReady_def)
qed

theorem polling_cache_hit_delivers_nothing_witness:
  "\<exists>h0. NewHttpConnector (\<lambda>_. Some (''http'', ''flags'')) [PollingPayloadCacheKey \<mapsto> ''cached''] (cache_options False True) = Return (Inr h0) \<and>
     hc_sent (connector_run mock_env [DoSync (answer_with 200 (Inr ''flags'')) OpenChan, DoTick (answer_with 200 (Inr ''flags'')) OpenChan] h0) = []"
proof -
  obtain h0 where h0: "NewHttpConnector (\<lambda>_. Some (''http'', ''flags'')) [PollingPayloadCacheKey \<mapsto> ''cached''] (cache_options False True) = Return (Inr h0)"
    using mock_connector [of "[PollingPayloadCacheKey \<mapsto> ''cached'']" False True] by (rule exE)
  from polling_cache_hit_delivers_nothing [OF h0 _ _ refl, of mock_env "answer_with 200 (Inr ''flags'')" OpenChan
      "[answer_with 200 (Inr ''flags'')]"] h0
  show ?thesis by (auto simp: mock_ops_def)
qed

text \<open>A server that still has the version with the tag \<open>e\<close> answers a conditional request for it with 304.\<close>

definition unchanged :: "(string \<Rightarrow> string) \<Rightarrow> string \<Rightarrow> (http_request \<Rightarrow> string + fetch_response) \<Rightarrow> bool" where
  "unchanged canonical e exchange \<longleftrightarrow> (\<forall>req. rq_headers req (canonical ''If-None-Match'') = Some e \<longrightarrow>
     (\<exists>resp. exchange req = Inr resp \<and> fr_StatusCode resp = 304))"

lemma tick_unchanged:
  assumes "unchanged (cn_canonical env) e exchange" "cn_canonical env ''If-None-Match'' \<noteq> cn_canonical env ''If-Modified-Since''"
    "hc_cacheFetcher h = Some f" "cf_ETag f = e" "e \<noteq> []" "\<not> ho_PayloadCache (hc_options h)"
  shows "connector_tick env exchange ch h = h"
proof -
  have "FetchContent (cn_canonical env) exchange req f = (f, Inr (resp, [])) \<Longrightarrow> fr_StatusCode resp = 304 \<Longrightarrow>
      cached_fetch (cn_canonical env) exchange req ch f h = (h, True)" for req resp
    using assms(3) by (simp add: cached_fetch_def)
  moreover have "\<exists>resp. FetchContent (cn_canonical env) exchange req f = (f, Inr (resp, [])) \<and> fr_StatusCode resp = 304" for req
  proof -
    let ?h = "header_set (cn_canonical env) (rq_headers req) (''If-None-Match'', e)"
    let ?h' = "if cf_LastModified f \<noteq> [] then header_set (cn_canonical env) ?h (''If-Modified-Since'', cf_LastModified f) else ?h"
    have "rq_headers (req\<lparr>rq_headers := ?h'\<rparr>) (cn_canonical env ''If-None-Match'') = Some e"
      using assms(2) by (simp add: header_set_def)
    from assms(1) [unfolded unchanged_def, rule_format, OF this]
    obtain resp where "exchange (req\<lparr>rq_headers := ?h'\<rparr>) = Inr resp" "fr_StatusCode resp = 304" by blast
    then show ?thesis using assms(4,5) by (simp add: FetchContent_def Let_def)
  qed
  ultimately have "cached_fetch (cn_canonical env) exchange req ch f h = (h, True)" for req by metis
  then show ?thesis
    using assms(3,6) by (simp add: connector_tick_def fetchAndUpdate_def Let_def split: option.split)
qed

text \<open>
  A payload whose body cannot be read is never fetched again: its tag is kept nevertheless, so that as long as
  the server has that version every poll is answered with 304 and nothing reaches the flag store.
\<close>

theorem unread_body_never_delivered:
  assumes "NewHttpConnector parse c opts = Return (Inr h0)" "ho_UseHttpCache opts" "\<not> ho_PayloadCache opts"
    "cn_NewRequest env (ho_URL opts) = None" "\<And>req. exchange req = Inr resp" "fr_StatusCode resp = 200" "fr_Body resp = Inl err"
    "fr_Header resp ''ETag'' \<noteq> []" "cn_canonical env ''If-None-Match'' \<noteq> cn_canonical env ''If-Modified-Since''"
    "list_all (unchanged (cn_canonical env) (fr_Header resp ''ETag'')) es"
    "h = connector_run env (DoSync exchange ch # map (\<lambda>e. DoTick e ch) es) h0"
  shows "hc_sent h = [] \<and> connector_IsReady h"
proof -
  note new = NewHttpConnector_Inr [OF assms(1)]
  obtain client where client: "hc_client h0 = Some client" using new(3) by auto
  have fs: "hc_failSafeCache h0 = None"
    using connector_Validate_None(10) [OF new(1)] new(11) assms(3) by auto
  let ?f = "\<lparr>cf_ETag = fr_Header resp ''ETag'', cf_LastModified = fr_Header resp ''Last-Modified''\<rparr>"
  let ?h = "h0\<lparr>hc_cacheFetcher := Some ?f, hc_ticker := True, hc_isInitialized := True\<rparr>"
  have "fst (connector_Sync env exchange ch h0) = ?h"
    using new assms(2-7) client fs
    by (simp add: connector_Sync_def fetchAndUpdate_def cached_fetch_def FetchContent_def updateFromCache_def Let_def)
  moreover have "connector_run env (map (\<lambda>e. DoTick e ch) es) ?h = ?h"
    using assms(10)
  proof (induction es)
    case (Cons e es)
    have "connector_tick env e ch ?h = ?h"
      by (rule tick_unchanged [of env "fr_Header resp ''ETag''" e ?h ?f]) (use Cons.prems assms(3,8,9) new(2) in simp_all)
    with Cons show ?case by simp
  qed simp
  ultimately show ?thesis using new by (simp add: assms(11) connector_IsReady_def)
qed

theorem unread_body_never_delivered_witness:
  "\<exists>h0. NewHttpConnector (\<lambda>_. Some (''http'', ''flags'')) (Map.empty :: string \<rightharpoonup> string)
       ((cache_options True False)\<lparr>ho_PayloadCacheOptions := None, ho_PayloadCache := False, ho_UseFailsafeCache := False\<rparr>) = Return (Inr h0) \<and>
     hc_sent (connector_run mock_env [DoSync (\<lambda>_. Inr \<lparr>fr_StatusCode = 200, fr_Header = (\<lambda>_. ''v1''), fr_Body = Inl ''reset''\<rparr>) OpenChan,
       DoTick (\<lambda>_. Inr \<lparr>fr_StatusCode = 304, fr_Header = (\<lambda>_. ''v1''), fr_Body = Inr []\<rparr>) OpenChan] h0) = []"
proof -
  let ?o = "(cache_options True False)\<lparr>ho_PayloadCacheOptions := None, ho_PayloadCache := False, ho_UseFailsafeCache := False\<rparr>"
  have "\<exists>h. NewHttpConnector (\<lambda>_. Some (''http'', ''flags'')) (Map.empty :: string \<rightharpoonup> string) ?o = Return (Inr h)"
    by (simp add: NewHttpConnector_def connector_defaults_def connector_Validate_def validateURL_def implementsPutWithTTL_def Let_def)
  then obtain h0 where h0: "NewHttpConnector (\<lambda>_. Some (''http'', ''flags'')) (Map.empty :: string \<rightharpoonup> string) ?o = Return (Inr h0)" by (rule exE)
  from unread_body_never_delivered [OF h0 _ _ _ _ _ _ _ _ _ refl, where env = mock_env and ch = OpenChan and err = "''reset''" and
      exchange = "\<lambda>_. Inr \<lparr>fr_StatusCode = 200, fr_Header = (\<lambda>_. ''v1''), fr_Body = Inl ''reset''\<rparr>" and
      es = "[\<lambda>_. Inr \<lparr>fr_StatusCode = 304, fr_Header = (\<lambda>_. ''v1''), fr_Body = Inr []\<rparr>]"] h0
  show ?thesis by (simp add: unchanged_def)
qed

section \<open>The proxy\<close>

lemma digit_char_code: "d < 10 \<Longrightarrow> (of_char (digit_char d) :: nat) = 48 + d"
  by (simp add: of_char_digit_char)

lemma nat_to_string_codes: "c \<in> set (nat_to_string n) \<Longrightarrow> 48 \<le> (of_char c :: nat) \<and> (of_char c :: nat) < 58"
proof (induction n rule: nat_to_string.induct)
  case (1 n)
  then show ?case
    by (cases "n < 10") (auto simp: nat_to_string.simps [of n] digit_char_code)
qed

lemma nat_to_string_single: "nat_to_string n = [c] \<Longrightarrow> n < 10 \<and> c = digit_char n"
  by (simp add: nat_to_string.simps [of n] split: if_splits)

lemma byte_code: "0 \<le> n \<Longrightarrow> n < 256 \<Longrightarrow> (of_char (byte n) :: nat) = nat n"
  by (simp add: byte_def)

text \<open>
  A configured proxy port never reaches the proxy's address: for every port from 1 to 65535 the address that is
  built differs from host and port joined, since the port is converted as a code point and not as a
  number.
\<close>

theorem proxy_port_never_right:
  assumes "0 < ho_ProxyPort opts" "ho_ProxyPort opts \<le> 65535" "proxy_address opts = Some a"
  shows "a \<noteq> JoinHostPort (ho_ProxyHost opts) (int_to_string (ho_ProxyPort opts))"
proof -
  let ?p = "ho_ProxyPort opts"
  have a: "a = JoinHostPort (ho_ProxyHost opts) (rune_string ?p)" using assms(3) by (auto simp: proxy_address_def split: if_splits)
  have rune: "rune_string ?p = utf8 ?p"
    using assms(1,2) by (simp add: rune_string_def sint_sbintrunc' signed_take_bit_int_eq_self)
  have "utf8 ?p \<noteq> nat_to_string (nat ?p)"
  proof
    assume eq: "utf8 ?p = nat_to_string (nat ?p)"
    show False
    proof (cases "?p < 128")
      case True
      then have "nat_to_string (nat ?p) = [byte ?p]" using eq assms(1) by (simp add: utf8_def)
      with nat_to_string_single [OF this] digit_char_code [of "nat ?p"] byte_code [of ?p] assms(1) True show False by simp
    next
      case False
      define b where "b = (if 0xD800 \<le> ?p \<and> ?p < 0xE000 then 0xEF else if ?p < 0x800 then 0xC0 + ?p div 64 else 0xE0 + ?p div 4096)"
      have "byte b \<in> set (utf8 ?p)" using False assms(1,2) by (auto simp: utf8_def b_def)
      moreover have "192 \<le> b" "b < 256" using False assms(1,2) by (auto simp: b_def)
      ultimately show False using nat_to_string_codes [of "byte b" "nat ?p"] byte_code [of b] eq by (simp add: nat_less_iff)
    qed
  qed
  then show ?thesis using assms(1) by (simp add: a rune int_to_string_def JoinHostPort_def)
qed

theorem proxy_port_never_right_witness:
  "proxy_address ((cache_options False False)\<lparr>ho_ProxyHost := ''proxy'', ho_ProxyPort := 8080\<rparr>) \<noteq> Some ''proxy:8080''"
proof
  let ?o = "(cache_options False False)\<lparr>ho_ProxyHost := ''proxy'', ho_ProxyPort := 8080\<rparr>"
  assume a: "proxy_address ?o = Some ''proxy:8080''"
  from proxy_port_never_right [OF _ _ a] show False
    by (simp add: JoinHostPort_def int_to_string_def nat_to_string.simps digit_char_def char_of_def bit_Suc_0_iff)
qed

end
