(* ===== verification/Harness.thy ===== *)
theory Harness
  imports Provider_Contract
begin

text \<open>
  The Harness provider, \<^verbatim>\<open>providers/harness/pkg/provider.go\<close>.  The Harness client is a parameter.
\<close>

record harness_target =
  ht_Identifier :: string
  ht_Name :: string
  ht_Attributes :: "(string \<rightharpoonup> string) option"

text \<open>
  The client's variation calls, on a client pointer that may be nil; \<open>hv_is_json\<close> is the type assertion of
  a default value to the library's JSON map.
\<close>

type_synonym ('c, 'v) harness_variation = "'c option \<Rightarrow> string \<Rightarrow> harness_target \<Rightarrow> 'v \<Rightarrow> 'v \<times> string option"

record 'c harness_library =
  hv_new :: "string + 'c"
  hv_close :: "'c option \<Rightarrow> unit outcome"
  hv_bool :: "('c, bool) harness_variation"
  hv_string :: "('c, string) harness_variation"
  hv_number :: "('c, float64) harness_variation"
  hv_int :: "('c, int64) harness_variation"
  hv_json :: "('c, go_any) harness_variation"
  hv_is_json :: "go_any \<Rightarrow> bool"
  hv_f6 :: "go_any \<Rightarrow> string"

record 'c harness_provider =
  hp_client :: "'c option"
  hp_status :: of_state

definition harness_NewProvider :: "'c harness_provider" where
  "harness_NewProvider = \<lparr>hp_client = None, hp_status = NotReadyState\<rparr>"

definition harness_Init :: "'c harness_library \<Rightarrow> 'c harness_provider \<Rightarrow> 'c harness_provider \<times> string option" where
  "harness_Init lib p =
     (case hv_new lib of
        Inl err \<Rightarrow> (p\<lparr>hp_status := ErrorState\<rparr>, Some err)
      | Inr c \<Rightarrow> (p\<lparr>hp_status := ReadyState, hp_client := Some c\<rparr>, None))"

definition harness_Shutdown :: "'c harness_library \<Rightarrow> 'c harness_provider \<Rightarrow> 'c harness_provider outcome" where
  "harness_Shutdown lib p = map_result (\<lambda>_. p\<lparr>hp_status := NotReadyState\<rparr>) (hv_close lib (hp_client p))"

section \<open>Contexts\<close>

definition harness_attribute ::
  "(go_any \<Rightarrow> string) \<Rightarrow> string \<Rightarrow> go_any \<Rightarrow> harness_target \<times> (string \<rightharpoonup> string) \<Rightarrow>
   string + harness_target \<times> (string \<rightharpoonup> string)" where
  "harness_attribute f6 key origVal = (\<lambda>(t, custom).
     (case toStr f6 origVal of
        None \<Rightarrow> Inl (''key `'' @ key @ ''` can not be converted to string'')
      | Some val \<Rightarrow>
          if key = targetingKey then Inr (t\<lparr>ht_Identifier := val\<rparr>, custom)
          else if key = ''Name'' then Inr (t\<lparr>ht_Name := val\<rparr>, custom)
          else Inr (t, custom(key \<mapsto> val))))"

definition empty_target :: harness_target where
  "empty_target = \<lparr>ht_Identifier = [], ht_Name = [], ht_Attributes = None\<rparr>"

definition toHarnessTarget ::
  "(go_any \<Rightarrow> string) \<Rightarrow> ((string \<rightharpoonup> go_any) \<Rightarrow> string list) \<Rightarrow> go_map \<Rightarrow> string + harness_target" where
  "toHarnessTarget f6 order evalCtx =
     (if map_view evalCtx = Map.empty then Inr empty_target
      else case range_fold (harness_attribute f6) (map_view evalCtx) (order (map_view evalCtx)) (empty_target, Map.empty) of
             Inl err \<Rightarrow> Inl err
           | Inr (t, custom) \<Rightarrow> Inr (t\<lparr>ht_Attributes := Some custom\<rparr>))"

section \<open>Evaluation\<close>

definition harness_verifyStateBoolean :: "'c harness_provider \<Rightarrow> bool \<Rightarrow> bool resolution_detail option" where
  "harness_verifyStateBoolean p = verify_state (hp_status p)"
definition harness_verifyStateString :: "'c harness_provider \<Rightarrow> string \<Rightarrow> string resolution_detail option" where
  "harness_verifyStateString p = verify_state (hp_status p)"
definition harness_verifyStateFloat :: "'c harness_provider \<Rightarrow> float64 \<Rightarrow> float64 resolution_detail option" where
  "harness_verifyStateFloat p = verify_state (hp_status p)"
definition harness_verifyStateInt :: "'c harness_provider \<Rightarrow> int64 \<Rightarrow> int64 resolution_detail option" where
  "harness_verifyStateInt p = verify_state (hp_status p)"
definition harness_verifyStateObject :: "'c harness_provider \<Rightarrow> go_any \<Rightarrow> go_any resolution_detail option" where
  "harness_verifyStateObject p = verify_state (hp_status p)"

text \<open>What the evaluations have in common: the gate, the context, the call, whose error is dropped.\<close>

definition harness_evaluate ::
  "('c harness_provider \<Rightarrow> 'v \<Rightarrow> 'v resolution_detail option) \<Rightarrow> ('c, 'v) harness_variation \<Rightarrow>
   ('v \<Rightarrow> 'v resolution_detail option) \<Rightarrow> (go_any \<Rightarrow> string) \<Rightarrow> ((string \<rightharpoonup> go_any) \<Rightarrow> string list) \<Rightarrow> 'c harness_provider \<Rightarrow> 'v evaluation" where
  "harness_evaluate verify variation check f6 order p flag defaultValue evalCtx =
     (case verify p defaultValue of
        Some returnValue \<Rightarrow> returnValue
      | None \<Rightarrow>
          (case toHarnessTarget f6 order evalCtx of
             Inl err \<Rightarrow> error_result defaultValue (NewInvalidContextResolutionError err)
           | Inr harnessTarget \<Rightarrow>
               (case check defaultValue of
                  Some returnValue \<Rightarrow> returnValue
                | None \<Rightarrow> \<lparr>Value = fst (variation (hp_client p) flag harnessTarget defaultValue), Detail = empty_detail\<rparr>)))"

definition harness_BooleanEvaluation where
  "harness_BooleanEvaluation lib = harness_evaluate harness_verifyStateBoolean (hv_bool lib) (\<lambda>_. None) (hv_f6 lib)"
definition harness_StringEvaluation where
  "harness_StringEvaluation lib = harness_evaluate harness_verifyStateString (hv_string lib) (\<lambda>_. None) (hv_f6 lib)"
definition harness_FloatEvaluation where
  "harness_FloatEvaluation lib = harness_evaluate harness_verifyStateFloat (hv_number lib) (\<lambda>_. None) (hv_f6 lib)"
definition harness_IntEvaluation where
  "harness_IntEvaluation lib = harness_evaluate harness_verifyStateInt (hv_int lib) (\<lambda>_. None) (hv_f6 lib)"
definition harness_ObjectEvaluation where
  "harness_ObjectEvaluation lib = harness_evaluate harness_verifyStateObject (hv_json lib)
     (\<lambda>d. if hv_is_json lib d then None
          else Some (error_result d (NewInvalidContextResolutionError ''Could not get defaultValue as JSON map''))) (hv_f6 lib)"

definition harness_feature_provider ::
  "'c harness_library \<Rightarrow> ((string \<rightharpoonup> go_any) \<Rightarrow> string list) \<Rightarrow> 'c harness_provider \<Rightarrow> feature_provider" where
  "harness_feature_provider lib order p =
     \<lparr>p_Name = ''harness'', p_Boolean = harness_BooleanEvaluation lib order p, p_String = harness_StringEvaluation lib order p,
      p_Float = harness_FloatEvaluation lib order p, p_Int = harness_IntEvaluation lib order p,
      p_Object = harness_ObjectEvaluation lib order p, p_Init = Some (\<lambda>ctx. snd (harness_Init lib p))\<rparr>"

lemmas harness_defs = harness_BooleanEvaluation_def harness_StringEvaluation_def harness_FloatEvaluation_def
  harness_IntEvaluation_def harness_ObjectEvaluation_def harness_verifyStateBoolean_def harness_verifyStateString_def
  harness_verifyStateFloat_def harness_verifyStateInt_def harness_verifyStateObject_def

lemma harness_evaluate_honest:
  assumes "\<And>d r. verify p d = Some r \<Longrightarrow> Value r = d" "\<And>d r. check d = Some r \<Longrightarrow> Value r = d"
  shows "default_on_error (harness_evaluate verify variation check f6 order p)"
  using assms by (auto simp: harness_evaluate_def split: option.splits sum.splits)

interpretation harness: honest_provider "harness_feature_provider lib order p" for lib order p
  by unfold_locales
    (auto simp: harness_feature_provider_def harness_defs dest: verify_state_honest split: if_splits intro!: harness_evaluate_honest)

section \<open>The target\<close>

text \<open>The target a context stands for, without a loop.\<close>

definition harness_spec :: "(go_any \<Rightarrow> string) \<Rightarrow> (string \<rightharpoonup> go_any) \<Rightarrow> harness_target" where
  "harness_spec f6 m =
     \<lparr>ht_Identifier = (case m targetingKey of None \<Rightarrow> [] | Some v \<Rightarrow> the (toStr f6 v)),
      ht_Name = (case m ''Name'' of None \<Rightarrow> [] | Some v \<Rightarrow> the (toStr f6 v)),
      ht_Attributes = (if m = Map.empty then None
         else Some (\<lambda>k. if k = targetingKey \<or> k = ''Name'' then None else map_option (\<lambda>v. the (toStr f6 v)) (m k)))\<rparr>"

lemma harness_attribute_Inr:
  "harness_attribute f6 k v (t, c) = Inr (t', c') \<Longrightarrow> toStr f6 v \<noteq> None \<and>
    ht_Identifier t' = (if k = targetingKey then the (toStr f6 v) else ht_Identifier t) \<and>
    ht_Name t' = (if k \<noteq> targetingKey \<and> k = ''Name'' then the (toStr f6 v) else ht_Name t) \<and>
    ht_Attributes t' = ht_Attributes t \<and>
    c' = (if k = targetingKey \<or> k = ''Name'' then c else c(k \<mapsto> the (toStr f6 v)))"
  by (auto simp: harness_attribute_def split: option.splits if_splits)

lemma harness_loop:
  "range_fold (harness_attribute f6) m ks (t, c) = Inr (t', c') \<Longrightarrow> distinct ks \<Longrightarrow>
    ht_Identifier t' = (if targetingKey \<in> set ks then the (toStr f6 (the (m targetingKey))) else ht_Identifier t) \<and>
    ht_Name t' = (if ''Name'' \<in> set ks then the (toStr f6 (the (m ''Name''))) else ht_Name t) \<and>
    ht_Attributes t' = ht_Attributes t \<and>
    c' = (\<lambda>k. if k \<in> set ks \<and> k \<noteq> targetingKey \<and> k \<noteq> ''Name'' then Some (the (toStr f6 (the (m k)))) else c k)"
proof (induction ks arbitrary: t c)
  case (Cons k ks)
  obtain t1 c1 where 1: "harness_attribute f6 k (the (m k)) (t, c) = Inr (t1, c1)" "range_fold (harness_attribute f6) m ks (t1, c1) = Inr (t', c')"
    using Cons.prems(1) by (auto split: sum.splits)
  have "targetingKey \<noteq> ''Name''" by (simp add: targetingKey_def)
  with Cons.IH [OF 1(2)] Cons.prems(2) harness_attribute_Inr [OF 1(1)] show ?case by (auto simp: fun_eq_iff)
qed (simp add: fun_eq_iff)

text \<open>
  The Harness target of a context does not depend on the order in which the runtime visits the context: it
  exists exactly when every value is a string, a number or a truth value, and then holds each value
  under its own name.
\<close>

theorem harness_target_correct:
  assumes "range_order order" "evalCtx = Some m" "finite (dom m)"
  shows "(case toHarnessTarget f6 order evalCtx of
      Inr t \<Rightarrow> (\<forall>k v. m k = Some v \<longrightarrow> toStr f6 v \<noteq> None) \<and> t = harness_spec f6 m
    | Inl err \<Rightarrow> (\<exists>k v. m k = Some v \<and> toStr f6 v = None))"
proof (cases "m = Map.empty")
  case True
  then show ?thesis by (simp add: toHarnessTarget_def assms(2) harness_spec_def empty_target_def)
next
  case False
  note ord = range_orderD [OF assms(1,3)]
  show ?thesis
  proof (cases "\<exists>k v. m k = Some v \<and> toStr f6 v = None")
    case True
    then obtain k v where k: "m k = Some v" "toStr f6 v = None" by blast
    have "\<exists>e. range_fold (harness_attribute f6) m (order m) (empty_target, Map.empty) = Inl e"
      by (rule range_fold_fails [of k]) (use ord k in \<open>auto simp: harness_attribute_def\<close>)
    with k False assms(2) show ?thesis by (fastforce simp: toHarnessTarget_def)
  next
    case all: False
    have "\<exists>a. range_fold (harness_attribute f6) m (order m) (empty_target, Map.empty) = Inr a"
      by (rule range_fold_total) (use ord all in \<open>auto simp: harness_attribute_def dom_def split: option.splits\<close>)
    then obtain t c where r: "range_fold (harness_attribute f6) m (order m) (empty_target, Map.empty) = Inr (t, c)" by auto
    have "t\<lparr>ht_Attributes := Some c\<rparr> = harness_spec f6 m"
      using harness_loop [OF r] ord False
      by (intro harness_target.equality) (auto simp: harness_spec_def empty_target_def domIff fun_eq_iff split: option.splits)
    with all r False assms(2) show ?thesis by (auto simp: toHarnessTarget_def)
  qed
qed

theorem harness_target_correct_witness:
  "\<exists>t. toHarnessTarget (\<lambda>_. []) some_order (Some [''targetingKey'' \<mapsto> VString ''u'', ''plan'' \<mapsto> VBool True]) = Inr t \<and>
     ht_Identifier t = ''u''"
proof -
  let ?m = "[''targetingKey'' \<mapsto> VString ''u'', ''plan'' \<mapsto> VBool True]"
  have "finite (dom ?m)" by simp
  from harness_target_correct [OF range_order_some_order refl this, of "\<lambda>_. []"] show ?thesis
    by (cases "toHarnessTarget (\<lambda>_. []) some_order (Some ?m)")
      (auto simp: toStr_def harness_spec_def targetingKey_def split: if_splits)
qed

end
