(* ===== verification/Prefab.thy ===== *)
theory Prefab
  imports Provider_Contract
begin

text \<open>
  The Prefab provider, \<^verbatim>\<open>providers/prefab/pkg/provider.go\<close> and \<^verbatim>\<open>internal/util.go\<close>.  The Prefab client
  library is a parameter.
\<close>

section \<open>State\<close>

record prefab_config =
  pc_Configs :: go_map
  pc_APIKey :: string
  pc_APIURLs :: "string list option"
  pc_Sources :: "string list option"

datatype prefab_option = WithAPIKey string | WithAPIURLs "string list" | WithOfflineSources "string list"

text \<open>A context set: named contexts, each a map.\<close>

type_synonym prefab_context = "string \<rightharpoonup> (string \<rightharpoonup> go_any)"

text \<open>
  The library: the client's constructor, adding a named context to a set, and the client's typed
  look-ups, on a pointer that may be nil.
\<close>

type_synonym ('c, 'v) prefab_lookup = "'c option \<Rightarrow> string \<Rightarrow> prefab_context \<Rightarrow> 'v \<Rightarrow> 'v \<times> bool"

record 'c prefab_library =
  pl_new :: "prefab_option \<Rightarrow> string + 'c"
  pl_WithNamedContextValues :: "string \<Rightarrow> (string \<rightharpoonup> go_any) \<Rightarrow> prefab_context \<Rightarrow> prefab_context"
  pl_bool :: "('c, bool) prefab_lookup"
  pl_float :: "('c, float64) prefab_lookup"
  pl_int :: "('c, int64) prefab_lookup"
  pl_string :: "('c, string) prefab_lookup"
  pl_json :: "('c, go_any) prefab_lookup"
  pl_strings :: "('c, string list) prefab_lookup"

text \<open>The documented law of adding a named context.\<close>

definition named_context_law :: "'c prefab_library \<Rightarrow> bool" where
  "named_context_law lib \<longleftrightarrow> (\<forall>key values s. pl_WithNamedContextValues lib key values s = s(key \<mapsto> values))"

record 'c prefab_provider =
  pp_config :: prefab_config
  pp_client :: "'c option"
  pp_status :: of_state

definition prefab_NewProvider :: "prefab_config \<Rightarrow> 'c prefab_provider" where
  "prefab_NewProvider config = \<lparr>pp_config = config, pp_client = None, pp_status = NotReadyState\<rparr>"

definition prefab_Init :: "'c prefab_library \<Rightarrow> 'c prefab_provider \<Rightarrow> 'c prefab_provider \<times> string option" where
  "prefab_Init lib p =
     (let c = pp_config p;
          result = (if pc_APIKey c \<noteq> [] then pl_new lib (WithAPIKey (pc_APIKey c))
            else (case pc_APIURLs c of Some urls \<Rightarrow> pl_new lib (WithAPIURLs urls)
              | None \<Rightarrow> (case pc_Sources c of Some srcs \<Rightarrow> pl_new lib (WithOfflineSources srcs)
                  | None \<Rightarrow> Inl ''provider config missing fields'')))
      in case result of
           Inl err \<Rightarrow> (p\<lparr>pp_status := ErrorState\<rparr>, Some err)
         | Inr client \<Rightarrow> (p\<lparr>pp_status := ReadyState, pp_client := Some client\<rparr>, None))"

definition prefab_Shutdown :: "'c prefab_provider \<Rightarrow> 'c prefab_provider" where
  "prefab_Shutdown p = p\<lparr>pp_status := NotReadyState\<rparr>"

section \<open>Contexts\<close>

text \<open>\<^verbatim>\<open>strings.SplitN(k, ".", 2)\<close>; \<open>None\<close>: there is only one part.\<close>

definition split_dot :: "string \<Rightarrow> (string \<times> string) option" where
  "split_dot k =
     (if CHR ''.'' \<in> set k then Some (takeWhile (\<lambda>c. c \<noteq> CHR ''.'') k, tl (dropWhile (\<lambda>c. c \<noteq> CHR ''.'') k)) else None)"

definition prefab_entry :: "'c prefab_library \<Rightarrow> string \<Rightarrow> go_any \<Rightarrow> prefab_context \<Rightarrow> string + prefab_context" where
  "prefab_entry lib k v s =
     (case split_dot k of
        None \<Rightarrow> Inl (''context key structure should be in the form of x.y: '' @ k)
      | Some (key, subkey) \<Rightarrow>
          (case s key of
             None \<Rightarrow> Inr (pl_WithNamedContextValues lib key [subkey \<mapsto> v] s)
           | Some named \<Rightarrow> Inr (s(key \<mapsto> named(subkey \<mapsto> v)))))"

definition ToPrefabContext ::
  "'c prefab_library \<Rightarrow> ((string \<rightharpoonup> go_any) \<Rightarrow> string list) \<Rightarrow> go_map \<Rightarrow> string + prefab_context" where
  "ToPrefabContext lib order evalCtx =
     (if map_view evalCtx = Map.empty then Inr Map.empty
      else range_fold (prefab_entry lib) (map_view evalCtx) (order (map_view evalCtx)) Map.empty)"

section \<open>Evaluation\<close>

definition prefab_verifyStateBoolean :: "'c prefab_provider \<Rightarrow> bool \<Rightarrow> bool resolution_detail option" where
  "prefab_verifyStateBoolean p = verify_state (pp_status p)"
definition prefab_verifyStateFloat :: "'c prefab_provider \<Rightarrow> float64 \<Rightarrow> float64 resolution_detail option" where
  "prefab_verifyStateFloat p = verify_state (pp_status p)"
definition prefab_verifyStateInt :: "'c prefab_provider \<Rightarrow> int64 \<Rightarrow> int64 resolution_detail option" where
  "prefab_verifyStateInt p = verify_state (pp_status p)"
definition prefab_verifyStateString :: "'c prefab_provider \<Rightarrow> string \<Rightarrow> string resolution_detail option" where
  "prefab_verifyStateString p = verify_state (pp_status p)"
definition prefab_verifyStateObject :: "'c prefab_provider \<Rightarrow> go_any \<Rightarrow> go_any resolution_detail option" where
  "prefab_verifyStateObject p = verify_state (pp_status p)"

text \<open>What the evaluations have in common: the gate, the context and the look-up, whose flag is dropped.\<close>

definition prefab_evaluate ::
  "('c prefab_provider \<Rightarrow> 'v \<Rightarrow> 'v resolution_detail option) \<Rightarrow> ('c, 'v) prefab_lookup \<Rightarrow>
   'c prefab_library \<Rightarrow> ((string \<rightharpoonup> go_any) \<Rightarrow> string list) \<Rightarrow> 'c prefab_provider \<Rightarrow> 'v evaluation" where
  "prefab_evaluate verify look lib order p flag defaultValue evalCtx =
     (case verify p defaultValue of
        Some returnValue \<Rightarrow> returnValue
      | None \<Rightarrow>
          (case ToPrefabContext lib order evalCtx of
             Inl err \<Rightarrow> error_result defaultValue (NewInvalidContextResolutionError err)
           | Inr ctx \<Rightarrow> \<lparr>Value = fst (look (pp_client p) flag ctx defaultValue), Detail = empty_detail\<rparr>))"

definition prefab_BooleanEvaluation where
  "prefab_BooleanEvaluation lib = prefab_evaluate prefab_verifyStateBoolean (pl_bool lib) lib"
definition prefab_FloatEvaluation where
  "prefab_FloatEvaluation lib = prefab_evaluate prefab_verifyStateFloat (pl_float lib) lib"
definition prefab_IntEvaluation where
  "prefab_IntEvaluation lib = prefab_evaluate prefab_verifyStateInt (pl_int lib) lib"
definition prefab_StringEvaluation where
  "prefab_StringEvaluation lib = prefab_evaluate prefab_verifyStateString (pl_string lib) lib"

text \<open>The look-up of an object goes by the default's dynamic type.\<close>

definition prefab_object :: "'c prefab_library \<Rightarrow> ('c, go_any) prefab_lookup" where
  "prefab_object lib client flag ctx defaultValue =
     (case defaultValue of
        VMap m \<Rightarrow> pl_json lib client flag ctx defaultValue
      | VStrings ss \<Rightarrow> map_prod VStrings id (pl_strings lib client flag ctx ss)
      | VString s \<Rightarrow> map_prod VString id (pl_string lib client flag ctx s)
      | _ \<Rightarrow> (defaultValue, False))"

definition prefab_ObjectEvaluation where
  "prefab_ObjectEvaluation lib = prefab_evaluate prefab_verifyStateObject (prefab_object lib) lib"

definition prefab_feature_provider ::
  "'c prefab_library \<Rightarrow> ((string \<rightharpoonup> go_any) \<Rightarrow> string list) \<Rightarrow> 'c prefab_provider \<Rightarrow> feature_provider" where
  "prefab_feature_provider lib order p =
     \<lparr>p_Name = ''prefab'', p_Boolean = prefab_BooleanEvaluation lib order p, p_String = prefab_StringEvaluation lib order p,
      p_Float = prefab_FloatEvaluation lib order p, p_Int = prefab_IntEvaluation lib order p,
      p_Object = prefab_ObjectEvaluation lib order p, p_Init = Some (\<lambda>ctx. snd (prefab_Init lib p))\<rparr>"

lemmas prefab_defs = prefab_BooleanEvaluation_def prefab_StringEvaluation_def prefab_FloatEvaluation_def
  prefab_IntEvaluation_def prefab_ObjectEvaluation_def prefab_verifyStateBoolean_def prefab_verifyStateString_def
  prefab_verifyStateFloat_def prefab_verifyStateInt_def prefab_verifyStateObject_def

lemma prefab_evaluate_honest:
  "(\<And>d r. verify p d = Some r \<Longrightarrow> Value r = d) \<Longrightarrow> default_on_error (prefab_evaluate verify look lib order p)"
  by (auto simp: prefab_evaluate_def split: option.splits sum.splits)

interpretation prefab: honest_provider "prefab_feature_provider lib order p" for lib order p
  by unfold_locales
    (auto simp: prefab_feature_provider_def prefab_defs dest: verify_state_honest intro!: prefab_evaluate_honest)

section \<open>The context set\<close>

lemma split_dot_None: "split_dot k = None \<longleftrightarrow> CHR ''.'' \<notin> set k"
  by (simp add: split_dot_def)

lemma split_first: "c \<notin> set a \<Longrightarrow> takeWhile (\<lambda>x. x \<noteq> c) (a @ c # b) = a \<and> dropWhile (\<lambda>x. x \<noteq> c) (a @ c # b) = c # b"
  by (induction a) auto

lemma split_dot_append: "CHR ''.'' \<notin> set key \<Longrightarrow> split_dot (key @ CHR ''.'' # subkey) = Some (key, subkey)"
  using split_first [of "CHR ''.''" key subkey] by (simp add: split_dot_def)

lemma split_dot_Some: "split_dot k = Some (key, subkey) \<longleftrightarrow> CHR ''.'' \<notin> set key \<and> k = key @ CHR ''.'' # subkey"
proof
  assume r: "split_dot k = Some (key, subkey)"
  then have "CHR ''.'' \<in> set k" by (simp add: split_dot_def split: if_splits)
  then obtain a b where k: "k = a @ CHR ''.'' # b" "CHR ''.'' \<notin> set a" by (blast dest: split_list_first)
  with r split_dot_append [OF k(2), of b] show "CHR ''.'' \<notin> set key \<and> k = key @ CHR ''.'' # subkey" by simp
qed (simp add: split_dot_append)

text \<open>The context set a flat context stands for.\<close>

definition prefab_spec :: "(string \<rightharpoonup> go_any) \<Rightarrow> prefab_context" where
  "prefab_spec m key =
     (if CHR ''.'' \<notin> set key \<and> (\<exists>sub. m (key @ CHR ''.'' # sub) \<noteq> None) then Some (\<lambda>sub. m (key @ CHR ''.'' # sub)) else None)"

definition named_value :: "prefab_context \<Rightarrow> string \<Rightarrow> string \<Rightarrow> go_any option" where
  "named_value s key sub = (case s key of None \<Rightarrow> None | Some named \<Rightarrow> named sub)"

lemma prefab_entry_Inr:
  assumes "named_context_law lib" "prefab_entry lib k v s = Inr s'"
  obtains key sub where "k = key @ CHR ''.'' # sub" "CHR ''.'' \<notin> set key"
    "s' = s(key \<mapsto> (case s key of None \<Rightarrow> Map.empty | Some named \<Rightarrow> named)(sub \<mapsto> v))"
  using assms by (auto simp: prefab_entry_def named_context_law_def split_dot_Some split: option.splits)

lemma dot_split_inj:
  "CHR ''.'' \<notin> set a \<Longrightarrow> CHR ''.'' \<notin> set b \<Longrightarrow> a @ CHR ''.'' # x = b @ CHR ''.'' # y \<longleftrightarrow> a = b \<and> x = y"
  by (metis option.inject prod.inject split_dot_Some)

lemma prefab_loop:
  assumes "named_context_law lib" "range_fold (prefab_entry lib) m ks s = Inr s'" "CHR ''.'' \<notin> set key"
  shows "named_value s' key sub = (if key @ CHR ''.'' # sub \<in> set ks then Some (the (m (key @ CHR ''.'' # sub))) else named_value s key sub)
    \<and> (s' key = None \<longleftrightarrow> s key = None \<and> (\<forall>sub. key @ CHR ''.'' # sub \<notin> set ks))"
  using assms(2)
proof (induction ks arbitrary: s)
  case (Cons k ks)
  obtain s1 where 1: "prefab_entry lib k (the (m k)) s = Inr s1" "range_fold (prefab_entry lib) m ks s1 = Inr s'"
    using Cons.prems by (auto split: sum.splits)
  obtain key1 sub1 where k: "k = key1 @ CHR ''.'' # sub1" "CHR ''.'' \<notin> set key1"
    and s1: "s1 = s(key1 \<mapsto> (case s key1 of None \<Rightarrow> Map.empty | Some named \<Rightarrow> named)(sub1 \<mapsto> the (m k)))"
    using prefab_entry_Inr [OF assms(1) 1(1)] by metis
  from Cons.IH [OF 1(2)] show ?case
    using assms(3) k(2) by (auto simp: s1 named_value_def k(1) dot_split_inj split: option.splits)
qed simp

text \<open>
  C34: The Prefab context of a flat context does not depend on the order in which the runtime visits it: it
  exists exactly when every key has a dot, and then holds each value under the two parts of its key.
\<close>

theorem prefab_context_correct:
  assumes "named_context_law lib" "range_order order" "evalCtx = Some m" "finite (dom m)"
  shows "(case ToPrefabContext lib order evalCtx of
      Inr s \<Rightarrow> (\<forall>k v. m k = Some v \<longrightarrow> CHR ''.'' \<in> set k) \<and> s = prefab_spec m
    | Inl err \<Rightarrow> (\<exists>k v. m k = Some v \<and> CHR ''.'' \<notin> set k))"
proof (cases "\<exists>k v. m k = Some v \<and> CHR ''.'' \<notin> set k")
  case True
  then obtain k v where k: "m k = Some v" "CHR ''.'' \<notin> set k" by blast
  note ord = range_orderD [OF assms(2,4)]
  have "\<exists>e. range_fold (prefab_entry lib) m (order m) Map.empty = Inl e"
    by (rule range_fold_fails [of k]) (use ord k in \<open>auto simp: prefab_entry_def split_dot_None [THEN iffD2]\<close>)
  with k assms(3) show ?thesis by (auto simp: ToPrefabContext_def fun_eq_iff split: sum.splits)
next
  case all: False
  note ord = range_orderD [OF assms(2,4)]
  have "\<exists>a. range_fold (prefab_entry lib) m (order m) Map.empty = Inr a"
    by (rule range_fold_total) (use ord all in \<open>fastforce simp: prefab_entry_def dom_def split_dot_None split: option.splits\<close>)
  then obtain s where r: "range_fold (prefab_entry lib) m (order m) Map.empty = Inr s" by auto
  have "s = prefab_spec m"
  proof
    fix key
    show "s key = prefab_spec m key"
    proof (cases "CHR ''.'' \<in> set key")
      case True
      have "s key = (Map.empty :: prefab_context) key"
        by (rule range_fold_frame [where g = "\<lambda>s. s key", OF r]) (use True in \<open>auto elim!: prefab_entry_Inr [OF assms(1)]\<close>)
      with True show ?thesis by (simp add: prefab_spec_def)
    next
      case False
      from prefab_loop [OF assms(1) r False] ord False show ?thesis
        by (cases "s key") (auto simp: prefab_spec_def named_value_def domIff fun_eq_iff split: if_splits)
    qed
  qed
  with r assms(3) have "ToPrefabContext lib order evalCtx = Inr (prefab_spec m)"
    by (auto simp: ToPrefabContext_def prefab_spec_def)
  moreover have "\<forall>k v. m k = Some v \<longrightarrow> CHR ''.'' \<in> set k" using all by metis
  ultimately show ?thesis by simp
qed

theorem prefab_context_correct_witness:
  "\<exists>lib. named_context_law (lib :: unit prefab_library) \<and>
     (\<exists>s. ToPrefabContext lib some_order (Some [''user.key'' \<mapsto> VString ''u'']) = Inr s \<and> s = prefab_spec [''user.key'' \<mapsto> VString ''u''])"
proof -
  let ?lib = "\<lparr>pl_new = \<lambda>_. Inr (), pl_WithNamedContextValues = \<lambda>key values s. s(key \<mapsto> values),
    pl_bool = \<lambda>c f x d. (d, True), pl_float = \<lambda>c f x d. (d, True), pl_int = \<lambda>c f x d. (d, True), pl_string = \<lambda>c f x d. (d, True),
    pl_json = \<lambda>c f x d. (d, True), pl_strings = \<lambda>c f x d. (d, True)\<rparr> :: unit prefab_library"
  have law: "named_context_law ?lib" by (simp add: named_context_law_def)
  from prefab_context_correct [OF law range_order_some_order refl, of "[''user.key'' \<mapsto> VString ''u'']"]
  show ?thesis by (intro exI [of _ ?lib] conjI law) (auto split: sum.splits if_splits)
qed

text \<open>A context with the SDK's targeting key can therefore not be evaluated: the default is all that is ever returned.\<close>

lemma prefab_rejects_targeting_key:
  assumes "range_order order" "finite (dom m)" "m targetingKey = Some v"
  shows "\<exists>err. Detail (prefab_BooleanEvaluation lib order p flag d (Some m)) = empty_detail\<lparr>ResolutionError := err, Reason := ErrorReason\<rparr>
    \<and> err \<noteq> NoResolutionError \<and> Value (prefab_BooleanEvaluation lib order p flag d (Some m)) = d"
proof -
  note ord = range_orderD [OF assms(1,2)]
  have "\<exists>e. range_fold (prefab_entry lib) m (order m) Map.empty = Inl e"
    by (rule range_fold_fails [of targetingKey])
      (use ord assms(3) in \<open>auto simp: prefab_entry_def targetingKey_def split_dot_None [THEN iffD2]\<close>)
  with assms(3) show ?thesis
    by (auto simp: prefab_defs prefab_evaluate_def ToPrefabContext_def verify_state_def split: option.splits if_splits)
qed

end
