(* ===== verification/Unleash.thy ===== *)
theory Unleash
  imports Provider_Contract Go_Numbers
begin

text \<open>
  The Unleash provider, \<^verbatim>\<open>providers/unleash/pkg/provider.go\<close>.  The Unleash client library, which keeps its
  one client in a global variable, is a parameter.
\<close>

section \<open>State\<close>

record unleash_context =
  uc_UserId :: string
  uc_SessionId :: string
  uc_RemoteAddress :: string
  uc_Environment :: string
  uc_AppName :: string
  uc_CurrentTime :: string
  uc_Properties :: "(string \<rightharpoonup> string) option"

record unleash_variant =
  uv_Name :: string
  uv_Payload_Value :: string
  uv_Enabled :: bool

text \<open>
  The library: initialisation from the options, the two look-ups and the name of the variant that stands
  for none; from the standard library, the printed form of floats and other values and the parser of floats.
\<close>

record 'o unleash_library =
  ul_Initialize :: "'o list \<Rightarrow> string option"
  ul_IsEnabled :: "string \<Rightarrow> bool \<Rightarrow> unleash_context \<Rightarrow> bool"
  ul_GetVariant :: "string \<Rightarrow> unleash_context \<Rightarrow> unleash_variant"
  ul_disabled_name :: string
  ul_f6 :: "go_any \<Rightarrow> string"
  ul_print :: "go_any \<Rightarrow> string"
  ul_ParseFloat :: "string \<Rightarrow> float64 option"

record 'o unleash_provider =
  up_Options :: "'o list"
  up_status :: of_state

definition unleash_NewProvider :: "'o list \<Rightarrow> 'o unleash_provider" where
  "unleash_NewProvider options = \<lparr>up_Options = options, up_status = NotReadyState\<rparr>"

definition unleash_Init :: "'o unleash_library \<Rightarrow> 'o unleash_provider \<Rightarrow> 'o unleash_provider \<times> string option" where
  "unleash_Init lib p =
     (case ul_Initialize lib (up_Options p) of
        Some err \<Rightarrow> (p\<lparr>up_status := ErrorState\<rparr>, Some err)
      | None \<Rightarrow> (p\<lparr>up_status := ReadyState\<rparr>, None))"

definition unleash_Shutdown :: "'o unleash_provider \<Rightarrow> 'o unleash_provider" where
  "unleash_Shutdown p = p\<lparr>up_status := NotReadyState\<rparr>"

section \<open>Contexts\<close>

definition unleash_toStr :: "(go_any \<Rightarrow> string) \<Rightarrow> go_any \<Rightarrow> string option" where
  "unleash_toStr f6 = toStr f6"

definition empty_unleash_context :: unleash_context where
  "empty_unleash_context = \<lparr>uc_UserId = [], uc_SessionId = [], uc_RemoteAddress = [], uc_Environment = [], uc_AppName = [],
     uc_CurrentTime = [], uc_Properties = None\<rparr>"

definition unleash_field ::
  "(go_any \<Rightarrow> string) \<Rightarrow> string \<Rightarrow> go_any \<Rightarrow> unleash_context \<times> (string \<rightharpoonup> string) \<Rightarrow> string + unleash_context \<times> (string \<rightharpoonup> string)" where
  "unleash_field f6 key origVal = (\<lambda>(u, custom).
     (case unleash_toStr f6 origVal of
        None \<Rightarrow> Inl (''key `'' @ key @ ''` can not be converted to string'')
      | Some val \<Rightarrow>
          if key = ''AppName'' then Inr (u\<lparr>uc_AppName := val\<rparr>, custom)
          else if key = ''CurrentTime'' then Inr (u\<lparr>uc_CurrentTime := val\<rparr>, custom)
          else if key = ''Environment'' then Inr (u\<lparr>uc_Environment := val\<rparr>, custom)
          else if key = ''RemoteAddress'' then Inr (u\<lparr>uc_RemoteAddress := val\<rparr>, custom)
          else if key = ''SessionId'' then Inr (u\<lparr>uc_SessionId := val\<rparr>, custom)
          else if key = ''UserId'' then Inr (u\<lparr>uc_UserId := val\<rparr>, custom)
          else Inr (u, custom(key \<mapsto> val))))"

definition toUnleashContext ::
  "(go_any \<Rightarrow> string) \<Rightarrow> ((string \<rightharpoonup> go_any) \<Rightarrow> string list) \<Rightarrow> go_map \<Rightarrow> string + unleash_context" where
  "toUnleashContext f6 order evalCtx =
     (if map_view evalCtx = Map.empty then Inr empty_unleash_context
      else case range_fold (unleash_field f6) (map_view evalCtx) (order (map_view evalCtx)) (empty_unleash_context, Map.empty) of
             Inl err \<Rightarrow> Inl err
           | Inr (u, custom) \<Rightarrow> Inr (u\<lparr>uc_Properties := Some custom\<rparr>))"

section \<open>Evaluation\<close>

definition unleash_BooleanEvaluation ::
  "'o unleash_library \<Rightarrow> ((string \<rightharpoonup> go_any) \<Rightarrow> string list) \<Rightarrow> 'o unleash_provider \<Rightarrow> bool evaluation" where
  "unleash_BooleanEvaluation lib order p flag defaultValue evalCtx =
     (case verify_state (up_status p) defaultValue of
        Some r \<Rightarrow> r
      | None \<Rightarrow>
          (case toUnleashContext (ul_f6 lib) order evalCtx of
             Inl err \<Rightarrow> error_result defaultValue (NewInvalidContextResolutionError err)
           | Inr u \<Rightarrow>
               (let res = ul_IsEnabled lib flag defaultValue u
                in \<lparr>Value = res, Detail = empty_detail\<lparr>FlagMetadata := Some [''enabled'' \<mapsto> VBool res]\<rparr>\<rparr>)))"

definition unleash_ObjectEvaluation ::
  "'o unleash_library \<Rightarrow> ((string \<rightharpoonup> go_any) \<Rightarrow> string list) \<Rightarrow> 'o unleash_provider \<Rightarrow> go_any evaluation" where
  "unleash_ObjectEvaluation lib order p flag defaultValue evalCtx =
     (case verify_state (up_status p) defaultValue of
        Some r \<Rightarrow> r
      | None \<Rightarrow>
          (case toUnleashContext (ul_f6 lib) order evalCtx of
             Inl err \<Rightarrow> error_result defaultValue (NewGeneralResolutionError err)
           | Inr u \<Rightarrow>
               (let variant = ul_GetVariant lib flag u;
                    meta = Some [''enabled'' \<mapsto> VBool (uv_Enabled variant)]
                in if uv_Name variant = ul_disabled_name lib
                   then \<lparr>Value = defaultValue, Detail = empty_detail\<lparr>Variant := [], FlagMetadata := meta\<rparr>\<rparr>
                   else \<lparr>Value = VString (uv_Payload_Value variant),
                         Detail = empty_detail\<lparr>Variant := uv_Name variant, FlagMetadata := meta\<rparr>\<rparr>)))"

definition unleash_FloatEvaluation ::
  "'o unleash_library \<Rightarrow> ((string \<rightharpoonup> go_any) \<Rightarrow> string list) \<Rightarrow> 'o unleash_provider \<Rightarrow> float64 evaluation" where
  "unleash_FloatEvaluation lib order p flag defaultValue evalCtx =
     (let res = unleash_ObjectEvaluation lib order p flag (VFloat64 defaultValue) evalCtx;
          mismatch = error_result defaultValue (NewTypeMismatchResolutionError (''FloatEvaluation type error for '' @ flag))
      in case Value res of
           VFloat64 v \<Rightarrow> \<lparr>Value = v, Detail = Detail res\<rparr>
         | VString s \<Rightarrow> (case ul_ParseFloat lib s of Some v \<Rightarrow> \<lparr>Value = v, Detail = Detail res\<rparr> | None \<Rightarrow> mismatch)
         | _ \<Rightarrow> mismatch)"

definition unleash_IntEvaluation ::
  "'o unleash_library \<Rightarrow> ((string \<rightharpoonup> go_any) \<Rightarrow> string list) \<Rightarrow> 'o unleash_provider \<Rightarrow> int64 evaluation" where
  "unleash_IntEvaluation lib order p flag defaultValue evalCtx =
     (let res = unleash_ObjectEvaluation lib order p flag (VInt64 defaultValue) evalCtx;
          mismatch = error_result defaultValue (NewTypeMismatchResolutionError (''IntEvaluation type error for '' @ flag))
      in case Value res of
           VInt64 v \<Rightarrow> \<lparr>Value = v, Detail = Detail res\<rparr>
         | VString s \<Rightarrow> (case atoi s of Some v \<Rightarrow> \<lparr>Value = word_of_int v, Detail = Detail res\<rparr> | None \<Rightarrow> mismatch)
         | _ \<Rightarrow> mismatch)"

definition unleash_StringEvaluation ::
  "'o unleash_library \<Rightarrow> ((string \<rightharpoonup> go_any) \<Rightarrow> string list) \<Rightarrow> 'o unleash_provider \<Rightarrow> string evaluation" where
  "unleash_StringEvaluation lib order p flag defaultValue evalCtx =
     (let res = unleash_ObjectEvaluation lib order p flag (VString defaultValue) evalCtx
      in \<lparr>Value = go_sprint (ul_print lib) (Value res), Detail = Detail res\<rparr>)"

definition unleash_feature_provider ::
  "'o unleash_library \<Rightarrow> ((string \<rightharpoonup> go_any) \<Rightarrow> string list) \<Rightarrow> 'o unleash_provider \<Rightarrow> feature_provider" where
  "unleash_feature_provider lib order p =
     \<lparr>p_Name = ''Unleash'', p_Boolean = unleash_BooleanEvaluation lib order p, p_String = unleash_StringEvaluation lib order p,
      p_Float = unleash_FloatEvaluation lib order p, p_Int = unleash_IntEvaluation lib order p,
      p_Object = unleash_ObjectEvaluation lib order p, p_Init = Some (\<lambda>ctx. snd (unleash_Init lib p))\<rparr>"

text \<open>An object evaluation returns the default or the payload of a variant, and only the default with an error.\<close>

lemma unleash_object_cases:
  obtains (default) "Value (unleash_ObjectEvaluation lib order p flag d ctx) = d"
  | (payload) u where "up_status p = ReadyState" "toUnleashContext (ul_f6 lib) order ctx = Inr u"
      "Value (unleash_ObjectEvaluation lib order p flag d ctx) = VString (uv_Payload_Value (ul_GetVariant lib flag u))"
      "\<not> has_error (Detail (unleash_ObjectEvaluation lib order p flag d ctx))"
proof (cases "up_status p = ReadyState")
  case True
  show thesis
  proof (cases "toUnleashContext (ul_f6 lib) order ctx")
    case (Inr u)
    with True show thesis
      by (cases "uv_Name (ul_GetVariant lib flag u) = ul_disabled_name lib")
        (rule default payload, simp_all add: unleash_ObjectEvaluation_def verify_state_def Let_def)+
  qed (auto intro!: default simp: unleash_ObjectEvaluation_def verify_state_def True)
qed (auto intro!: default simp: unleash_ObjectEvaluation_def verify_state_def)

interpretation unleash: honest_provider "unleash_feature_provider lib order p" for lib order p
proof
  let ?p = "unleash_feature_provider lib order p"
  show "default_on_error (p_Boolean ?p)"
    by (rule default_on_errorI) (auto simp: unleash_feature_provider_def unleash_BooleanEvaluation_def Let_def dest: verify_state_honest
        split: option.splits sum.splits)
  show "default_on_error (p_Object ?p)"
  proof
    fix flag d ctx
    assume "has_error (Detail (p_Object ?p flag d ctx))"
    then show "Value (p_Object ?p flag d ctx) = d"
      by (cases rule: unleash_object_cases [of lib order p flag d ctx]) (simp_all add: unleash_feature_provider_def)
  qed
  show "default_on_error (p_String ?p)"
  proof
    fix flag d ctx
    assume "has_error (Detail (p_String ?p flag d ctx))"
    then show "Value (p_String ?p flag d ctx) = d"
      by (cases rule: unleash_object_cases [of lib order p flag "VString d" ctx])
        (simp_all add: unleash_feature_provider_def unleash_StringEvaluation_def Let_def)
  qed
  show "default_on_error (p_Float ?p)"
  proof
    fix flag d ctx
    assume "has_error (Detail (p_Float ?p flag d ctx))"
    then show "Value (p_Float ?p flag d ctx) = d"
      by (cases rule: unleash_object_cases [of lib order p flag "VFloat64 d" ctx])
        (simp_all add: unleash_feature_provider_def unleash_FloatEvaluation_def Let_def split: option.splits)
  qed
  show "default_on_error (p_Int ?p)"
  proof
    fix flag d ctx
    assume "has_error (Detail (p_Int ?p flag d ctx))"
    then show "Value (p_Int ?p flag d ctx) = d"
      by (cases rule: unleash_object_cases [of lib order p flag "VInt64 d" ctx])
        (simp_all add: unleash_feature_provider_def unleash_IntEvaluation_def Let_def split: option.splits)
  qed
qed

section \<open>The context and the values\<close>

definition unleash_names :: "string list" where
  "unleash_names = [''UserId'', ''SessionId'', ''RemoteAddress'', ''Environment'', ''AppName'', ''CurrentTime'']"

definition unleash_spec :: "(go_any \<Rightarrow> string) \<Rightarrow> (string \<rightharpoonup> go_any) \<Rightarrow> unleash_context" where
  "unleash_spec f6 m =
     (let field = (\<lambda>k. case m k of None \<Rightarrow> [] | Some v \<Rightarrow> the (toStr f6 v))
      in \<lparr>uc_UserId = field ''UserId'', uc_SessionId = field ''SessionId'', uc_RemoteAddress = field ''RemoteAddress'',
          uc_Environment = field ''Environment'', uc_AppName = field ''AppName'', uc_CurrentTime = field ''CurrentTime'',
          uc_Properties = (if m = Map.empty then None
            else Some (\<lambda>k. if k \<in> set unleash_names then None else map_option (\<lambda>v. the (toStr f6 v)) (m k)))\<rparr>)"

text \<open>A field of the accumulator that exactly the key \<open>n\<close> writes.\<close>

definition written_by :: "string \<Rightarrow> (unleash_context \<Rightarrow> string) \<Rightarrow> bool" where
  "written_by n g \<longleftrightarrow> (\<forall>f6 k v u c u' c'. unleash_field f6 k v (u, c) = Inr (u', c') \<longrightarrow>
     g u' = (if k = n then the (toStr f6 v) else g u))"

lemma unleash_fields_written_by:
  "written_by ''UserId'' uc_UserId" "written_by ''SessionId'' uc_SessionId" "written_by ''RemoteAddress'' uc_RemoteAddress"
  "written_by ''Environment'' uc_Environment" "written_by ''AppName'' uc_AppName" "written_by ''CurrentTime'' uc_CurrentTime"
  by (auto simp: written_by_def unleash_field_def unleash_toStr_def split: option.splits if_splits)

lemma unleash_loop_field:
  assumes "written_by n g" "range_fold (unleash_field f6) m ks (u, c) = Inr (u', c')"
  shows "g u' = (if n \<in> set ks then the (toStr f6 (the (m n))) else g u)"
  using assms(2)
proof (induction ks arbitrary: u c)
  case (Cons k ks)
  obtain u1 c1 where 1: "unleash_field f6 k (the (m k)) (u, c) = Inr (u1, c1)" "range_fold (unleash_field f6) m ks (u1, c1) = Inr (u', c')"
    using Cons.prems by (auto split: sum.splits)
  have "g u1 = (if k = n then the (toStr f6 (the (m k))) else g u)" using assms(1) 1(1) unfolding written_by_def by blast
  with Cons.IH [OF 1(2)] show ?case by auto
qed simp

lemma unleash_loop_properties:
  "range_fold (unleash_field f6) m ks (u, c) = Inr (u', c') \<Longrightarrow> uc_Properties u' = uc_Properties u \<and>
     c' = (\<lambda>k. if k \<in> set ks \<and> k \<notin> set unleash_names then Some (the (toStr f6 (the (m k)))) else c k)"
proof (induction ks arbitrary: u c)
  case (Cons k ks)
  obtain u1 c1 where 1: "unleash_field f6 k (the (m k)) (u, c) = Inr (u1, c1)" "range_fold (unleash_field f6) m ks (u1, c1) = Inr (u', c')"
    using Cons.prems by (auto split: sum.splits)
  have "uc_Properties u1 = uc_Properties u \<and> c1 = (if k \<in> set unleash_names then c else c(k \<mapsto> the (toStr f6 (the (m k)))))"
    using 1(1) by (auto simp: unleash_field_def unleash_toStr_def unleash_names_def split: option.splits if_splits)
  with Cons.IH [OF 1(2)] show ?case by (auto simp: fun_eq_iff)
qed (simp add: fun_eq_iff)

text \<open>
  The Unleash context of a context does not depend on the order in which the runtime visits the context: it
  exists exactly when every value is a string, a number or a truth value, and then holds each value
  under its own name.
\<close>

theorem unleash_context_correct:
  assumes "range_order order" "evalCtx = Some m" "finite (dom m)"
  shows "(case toUnleashContext f6 order evalCtx of
      Inr u \<Rightarrow> (\<forall>k v. m k = Some v \<longrightarrow> toStr f6 v \<noteq> None) \<and> u = unleash_spec f6 m
    | Inl err \<Rightarrow> (\<exists>k v. m k = Some v \<and> toStr f6 v = None))"
proof (cases "m = Map.empty")
  case True
  then show ?thesis by (simp add: toUnleashContext_def assms(2) unleash_spec_def empty_unleash_context_def)
next
  case False
  note ord = range_orderD [OF assms(1,3)]
  let ?loop = "range_fold (unleash_field f6) m (order m) (empty_unleash_context, Map.empty)"
  show ?thesis
  proof (cases "\<exists>k v. m k = Some v \<and> toStr f6 v = None")
    case True
    then obtain k v where k: "m k = Some v" "toStr f6 v = None" by blast
    have "\<exists>e. ?loop = Inl e"
      by (rule range_fold_fails [of k]) (use ord k in \<open>auto simp: unleash_field_def unleash_toStr_def\<close>)
    with k False assms(2) show ?thesis by (fastforce simp: toUnleashContext_def)
  next
    case all: False
    have "\<exists>a. ?loop = Inr a"
      by (rule range_fold_total) (use ord all in \<open>auto simp: unleash_field_def unleash_toStr_def dom_def split: option.splits\<close>)
    then obtain u c where r: "?loop = Inr (u, c)" by auto
    note fields = unleash_fields_written_by [THEN unleash_loop_field, OF r]
    have c: "uc_Properties u = None \<and> c = (\<lambda>k. if k \<in> set unleash_names then None else map_option (\<lambda>v. the (toStr f6 v)) (m k))"
      using unleash_loop_properties [OF r] ord by (auto simp: fun_eq_iff empty_unleash_context_def domIff split: option.splits)
    have "u\<lparr>uc_Properties := Some c\<rparr> = unleash_spec f6 m"
      using fields c ord False
      by (intro unleash_context.equality)
        (simp_all add: unleash_spec_def Let_def empty_unleash_context_def domIff split: option.splits)
    with all r False assms(2) show ?thesis by (auto simp: toUnleashContext_def)
  qed
qed

theorem unleash_context_correct_witness:
  "\<exists>u. toUnleashContext (\<lambda>_. []) some_order (Some [''UserId'' \<mapsto> VString ''u'', ''plan'' \<mapsto> VBool True]) = Inr u \<and> uc_UserId u = ''u''"
proof -
  let ?m = "[''UserId'' \<mapsto> VString ''u'', ''plan'' \<mapsto> VBool True]"
  have "finite (dom ?m)" by simp
  from unleash_context_correct [OF range_order_some_order refl this, of "\<lambda>_. []"] show ?thesis
    by (cases "toUnleashContext (\<lambda>_. []) some_order (Some ?m)")
      (auto simp: toStr_def unleash_spec_def Let_def split: if_splits)
qed

text \<open>A variant whose payload is a printed integer gives that integer; any other payload gives the default and a type error.\<close>

lemma unleash_int_payload:
  assumes "up_status p = ReadyState" "toUnleashContext (ul_f6 lib) order ctx = Inr u"
    "uv_Name (ul_GetVariant lib flag u) \<noteq> ul_disabled_name lib"
  shows "Value (unleash_IntEvaluation lib order p flag d ctx) =
      (case atoi (uv_Payload_Value (ul_GetVariant lib flag u)) of Some v \<Rightarrow> word_of_int v | None \<Rightarrow> d)"
    "has_code (ResolutionError (Detail (unleash_IntEvaluation lib order p flag d ctx))) TypeMismatchCode \<longleftrightarrow>
      atoi (uv_Payload_Value (ul_GetVariant lib flag u)) = None"
  using assms
  by (simp_all add: unleash_IntEvaluation_def unleash_ObjectEvaluation_def verify_state_def Let_def empty_detail_def split: option.splits)

lemma unleash_int_roundtrip:
  assumes "up_status p = ReadyState" "toUnleashContext (ul_f6 lib) order ctx = Inr u"
    "uv_Name (ul_GetVariant lib flag u) \<noteq> ul_disabled_name lib"
    "uv_Payload_Value (ul_GetVariant lib flag u) = int_to_string (sint n)"
  shows "Value (unleash_IntEvaluation lib order p flag d ctx) = n"
  using assms(4) by (simp add: unleash_int_payload(1) [OF assms(1-3)] atoi_int_to_string in_int64_sint)

end
