(* ===== verification/Optimizely.thy ===== *)
theory Optimizely
  imports Provider_Contract Go_Numbers
begin

text \<open>
  The Optimizely provider, \<^verbatim>\<open>providers/optimizely/provider.go\<close>.  The Optimizely client is a parameter.
\<close>

section \<open>State\<close>

text \<open>
  A decision of the client; the map of a decision's variables is given by its entries in the order the
  runtime visits them, with distinct names.
\<close>

record optimizely_decision =
  od_Reasons :: "string list"
  od_Enabled :: bool
  od_Variables :: "(string \<times> go_any) list"
  od_VariationKey :: string

record 'c optimizely_library =
  ol_decide :: "'c \<Rightarrow> string \<Rightarrow> (string \<rightharpoonup> go_any) \<Rightarrow> string \<Rightarrow> optimizely_decision"
  ol_close :: "'c \<Rightarrow> unit outcome"
  ol_SDKNotReady :: string
  ol_FlagKeyInvalid :: "string \<Rightarrow> string"
  ol_type_name :: "go_any \<Rightarrow> string"

record 'c optimizely_provider =
  op_client :: 'c
  op_closeOnShutdown :: bool

type_synonym 'c optimizely_option = "'c optimizely_provider \<Rightarrow> 'c optimizely_provider"

definition optimizely_WithCloseOnShutdown :: "bool \<Rightarrow> 'c optimizely_option" where
  "optimizely_WithCloseOnShutdown close p = p\<lparr>op_closeOnShutdown := close\<rparr>"

definition optimizely_NewProvider :: "'c \<Rightarrow> 'c optimizely_option list \<Rightarrow> 'c optimizely_provider" where
  "optimizely_NewProvider client opts = foldl (\<lambda>p opt. opt p) \<lparr>op_client = client, op_closeOnShutdown = False\<rparr> opts"

definition optimizely_Shutdown :: "'c optimizely_library \<Rightarrow> 'c optimizely_provider \<Rightarrow> unit outcome" where
  "optimizely_Shutdown lib p = (if op_closeOnShutdown p then ol_close lib (op_client p) else Return ())"

section \<open>Decisions\<close>

record optimizely_result =
  or_enabled :: bool
  or_variables :: "(string \<times> go_any) list"
  or_variant :: string

definition ErrTargetingKeyMissing :: string where "ErrTargetingKeyMissing = ''targeting key is required''"
definition errNoVariables :: string where "errNoVariables = ''flag has no variables; use BooleanEvaluation''"
definition errMultipleVariables :: string where "errMultipleVariables = ''flag has multiple variables; use ObjectEvaluation''"

text \<open>The first reason that names an error.\<close>

fun optimizely_error :: "string \<Rightarrow> string \<Rightarrow> string list \<Rightarrow> resolution_error option" where
  "optimizely_error notReady notFound [] = None"
| "optimizely_error notReady notFound (reason # rs) =
     (if reason = notReady then Some (NewProviderNotReadyResolutionError reason)
      else if reason = notFound then Some (NewFlagNotFoundResolutionError reason)
      else optimizely_error notReady notFound rs)"

text \<open>A context read at the targeting key, as a string.\<close>

definition targeting_string :: "go_map \<Rightarrow> string option" where
  "targeting_string evalCtx = (case map_get evalCtx targetingKey of Some (VString s) \<Rightarrow> Some s | _ \<Rightarrow> None)"

definition optimizely_attributes :: "go_map \<Rightarrow> (string \<rightharpoonup> go_any)" where
  "optimizely_attributes evalCtx = (map_view evalCtx)(targetingKey := None)"

definition getDecision ::
  "'c optimizely_library \<Rightarrow> 'c optimizely_provider \<Rightarrow> string \<Rightarrow> go_map \<Rightarrow> provider_detail + optimizely_result" where
  "getDecision lib p flagKey evalCtx =
     (case targeting_string evalCtx of
        None \<Rightarrow> Inl (empty_detail\<lparr>ResolutionError := NewTargetingKeyMissingResolutionError ErrTargetingKeyMissing,
                       Reason := code_string TargetingKeyMissingCode\<rparr>)
      | Some userID \<Rightarrow>
          (let decision = ol_decide lib (op_client p) userID (optimizely_attributes evalCtx) flagKey
           in case optimizely_error (ol_SDKNotReady lib) (ol_FlagKeyInvalid lib flagKey) (od_Reasons decision) of
                Some err \<Rightarrow> Inl (empty_detail\<lparr>ResolutionError := err, Reason := ErrorReason\<rparr>)
              | None \<Rightarrow> Inr \<lparr>or_enabled = od_Enabled decision, or_variables = od_Variables decision, or_variant = od_VariationKey decision\<rparr>))"

definition getSingleVariable :: "(string \<times> go_any) list \<Rightarrow> go_any" where
  "getSingleVariable variables = (case variables of [] \<Rightarrow> VNil | (k, v) # _ \<Rightarrow> v)"

text \<open>\<open>cast\<close> is the type assertion to the wanted type, \<open>zero\<close> that type's zero value.\<close>

definition requireSingleVariable ::
  "'c optimizely_library \<Rightarrow> (go_any \<Rightarrow> 'v option) \<Rightarrow> go_any \<Rightarrow> optimizely_result \<Rightarrow> provider_detail + 'v \<times> string" where
  "requireSingleVariable lib cast zero result =
     (let numVars = length (or_variables result);
          failed = (\<lambda>err. Inl (empty_detail\<lparr>ResolutionError := err, Reason := ErrorReason\<rparr>))
      in if numVars = 0 then failed (NewGeneralResolutionError errNoVariables)
         else if numVars > 1 then failed (NewGeneralResolutionError errMultipleVariables)
         else let val = getSingleVariable (or_variables result)
              in case cast val of
                   None \<Rightarrow> failed (NewTypeMismatchResolutionError
                       (''variable is not '' @ ol_type_name lib zero @ '', got '' @ ol_type_name lib val))
                 | Some typedVal \<Rightarrow> Inr (typedVal, or_variant result))"

definition resolutionSuccess :: "'v \<Rightarrow> string \<Rightarrow> 'v resolution_detail" where
  "resolutionSuccess v variant = \<lparr>Value = v, Detail = empty_detail\<lparr>Reason := TargetingMatchReason, Variant := variant\<rparr>\<rparr>"

definition resolutionFromDetail :: "'v \<Rightarrow> provider_detail \<Rightarrow> 'v resolution_detail" where
  "resolutionFromDetail v detail = \<lparr>Value = v, Detail = detail\<rparr>"

section \<open>Evaluation\<close>

text \<open>
  What the evaluations have in common: the decision, the test whether the flag is enabled, what \<open>early\<close>
  does with particular numbers of variables, the single variable.
\<close>

definition optimizely_evaluate ::
  "(go_any \<Rightarrow> 'v option) \<Rightarrow> go_any \<Rightarrow> (optimizely_result \<Rightarrow> 'v option) \<Rightarrow>
   'c optimizely_library \<Rightarrow> 'c optimizely_provider \<Rightarrow> 'v evaluation" where
  "optimizely_evaluate cast zero early lib p flagKey defaultValue evalCtx =
     (case getDecision lib p flagKey evalCtx of
        Inl detail \<Rightarrow> resolutionFromDetail defaultValue detail
      | Inr result \<Rightarrow>
          if \<not> or_enabled result then resolutionFromDetail defaultValue (empty_detail\<lparr>Reason := DisabledReason\<rparr>)
          else (case early result of
                  Some v \<Rightarrow> resolutionSuccess v (or_variant result)
                | None \<Rightarrow>
                    (case requireSingleVariable lib cast zero result of
                       Inl errDetail \<Rightarrow> resolutionFromDetail defaultValue errDetail
                     | Inr (val, variant) \<Rightarrow> resolutionSuccess val variant)))"

definition cast_bool :: "go_any \<Rightarrow> bool option" where
  "cast_bool v = (case v of VBool b \<Rightarrow> Some b | _ \<Rightarrow> None)"
definition cast_string :: "go_any \<Rightarrow> string option" where
  "cast_string v = (case v of VString s \<Rightarrow> Some s | _ \<Rightarrow> None)"
definition cast_float :: "go_any \<Rightarrow> float64 option" where
  "cast_float v = (case v of VFloat64 x \<Rightarrow> Some x | _ \<Rightarrow> None)"
definition cast_int :: "go_any \<Rightarrow> int64 option" where
  "cast_int v = (case v of VInt i \<Rightarrow> Some i | _ \<Rightarrow> None)"
definition cast_any :: "go_any \<Rightarrow> go_any option" where
  "cast_any v = (if v = VNil then None else Some v)"

definition optimizely_BooleanEvaluation where
  "optimizely_BooleanEvaluation =
     optimizely_evaluate cast_bool (VBool False) (\<lambda>r. if length (or_variables r) = 0 then Some (or_enabled r) else None)"
definition optimizely_StringEvaluation where
  "optimizely_StringEvaluation = optimizely_evaluate cast_string (VString []) (\<lambda>_. None)"
definition optimizely_FloatEvaluation where
  "optimizely_FloatEvaluation = optimizely_evaluate cast_float (VFloat64 (Float64 0)) (\<lambda>_. None)"
definition optimizely_IntEvaluation where
  "optimizely_IntEvaluation = optimizely_evaluate cast_int (VInt 0) (\<lambda>_. None)"
definition optimizely_ObjectEvaluation where
  "optimizely_ObjectEvaluation =
     optimizely_evaluate cast_any VNil (\<lambda>r. if length (or_variables r) > 1 then Some (VMap (map_of (or_variables r))) else None)"

definition optimizely_feature_provider :: "'c optimizely_library \<Rightarrow> 'c optimizely_provider \<Rightarrow> feature_provider" where
  "optimizely_feature_provider lib p =
     \<lparr>p_Name = ''Optimizely'', p_Boolean = optimizely_BooleanEvaluation lib p, p_String = optimizely_StringEvaluation lib p,
      p_Float = optimizely_FloatEvaluation lib p, p_Int = optimizely_IntEvaluation lib p,
      p_Object = optimizely_ObjectEvaluation lib p, p_Init = Some (\<lambda>ctx. None)\<rparr>"

lemmas optimizely_defs = optimizely_BooleanEvaluation_def optimizely_StringEvaluation_def optimizely_FloatEvaluation_def
  optimizely_IntEvaluation_def optimizely_ObjectEvaluation_def

lemmas result_defs = resolutionSuccess_def resolutionFromDetail_def

lemma optimizely_evaluate_honest: "default_on_error (optimizely_evaluate cast zero early lib p)"
  by (rule default_on_errorI) (auto simp: optimizely_evaluate_def result_defs split: sum.splits option.splits if_splits)

interpretation optimizely: honest_provider "optimizely_feature_provider lib p" for lib p
  by unfold_locales (simp_all add: optimizely_feature_provider_def optimizely_defs optimizely_evaluate_honest)

section \<open>What an evaluation returns\<close>

text \<open>The decision an evaluation rests on: \<open>None\<close> when the context, the client or the flag key is at fault.\<close>

definition decided :: "'c optimizely_library \<Rightarrow> 'c optimizely_provider \<Rightarrow> string \<Rightarrow> go_map \<Rightarrow> optimizely_decision option" where
  "decided lib p flag ctx =
     (case targeting_string ctx of None \<Rightarrow> None
      | Some user \<Rightarrow>
          (let d = ol_decide lib (op_client p) user (optimizely_attributes ctx) flag
           in if ol_SDKNotReady lib \<in> set (od_Reasons d) \<or> ol_FlagKeyInvalid lib flag \<in> set (od_Reasons d) then None else Some d))"

lemma optimizely_error_None: "optimizely_error nr nf rs = None \<longleftrightarrow> nr \<notin> set rs \<and> nf \<notin> set rs"
  by (induction rs) auto

lemma optimizely_error_Some: "optimizely_error nr nf rs = Some e \<Longrightarrow> e \<noteq> NoResolutionError \<and> (nr \<in> set rs \<or> nf \<in> set rs)"
  by (induction rs) (auto split: if_splits)

lemma getDecision_decided:
  "(case getDecision lib p flag ctx of
      Inl e \<Rightarrow> decided lib p flag ctx = None \<and> has_error e
    | Inr r \<Rightarrow> \<exists>d. decided lib p flag ctx = Some d \<and> r = \<lparr>or_enabled = od_Enabled d, or_variables = od_Variables d, or_variant = od_VariationKey d\<rparr>)"
  by (auto simp: getDecision_def decided_def Let_def optimizely_error_None has_error_def
      dest: optimizely_error_Some split: option.split)

text \<open>
  C35: An evaluation of an Optimizely flag as an integer returns the flag's variable when the decision is
  enabled and has exactly one variable of that type; in every other case it returns the default, and
  reports an error unless the flag is merely disabled.
\<close>

theorem optimizely_single_variable:
  "(case decided lib p flag ctx of
      None \<Rightarrow> Value (optimizely_IntEvaluation lib p flag d ctx) = d \<and> has_error (Detail (optimizely_IntEvaluation lib p flag d ctx))
    | Some dec \<Rightarrow>
        (if \<not> od_Enabled dec then optimizely_IntEvaluation lib p flag d ctx = \<lparr>Value = d, Detail = empty_detail\<lparr>Reason := DisabledReason\<rparr>\<rparr>
         else (case od_Variables dec of
            [(name, VInt v)] \<Rightarrow> optimizely_IntEvaluation lib p flag d ctx =
               \<lparr>Value = v, Detail = empty_detail\<lparr>Reason := TargetingMatchReason, Variant := od_VariationKey dec\<rparr>\<rparr>
          | _ \<Rightarrow> Value (optimizely_IntEvaluation lib p flag d ctx) = d \<and> has_error (Detail (optimizely_IntEvaluation lib p flag d ctx)))))"
  using getDecision_decided [of lib p flag ctx]
  by (auto simp: optimizely_defs optimizely_evaluate_def result_defs requireSingleVariable_def getSingleVariable_def cast_int_def Let_def
      split: sum.splits list.split go_any.split)

end
