(* ===== verification/Statsig.thy ===== *)
theory Statsig
  imports Provider_Contract Go_Numbers
begin

text \<open>
  The Statsig provider, \<^verbatim>\<open>providers/statsig/pkg/provider.go\<close>.  The Statsig library, which keeps its one
  client in a global variable, is a parameter.
\<close>

section \<open>State\<close>

record statsig_user =
  su_UserID :: string
  su_Email :: string
  su_IpAddress :: string
  su_UserAgent :: string
  su_Country :: string
  su_Locale :: string
  su_AppVersion :: string
  su_Custom :: "(string \<rightharpoonup> go_any) option"
  su_PrivateAttributes :: "(string \<rightharpoonup> go_any) option"
  su_StatsigEnvironment :: "(string \<rightharpoonup> string) option"
  su_CustomIDs :: "(string \<rightharpoonup> string) option"

text \<open>A dynamic configuration or a layer: its typed look-ups, each with the flag's name and a default, and its description.\<close>

record statsig_values =
  sv_GetBool :: "string \<Rightarrow> bool \<Rightarrow> bool"
  sv_GetNumber :: "string \<Rightarrow> float64 \<Rightarrow> float64"
  sv_GetString :: "string \<Rightarrow> string \<Rightarrow> string"
  sv_GetSlice :: "string \<Rightarrow> go_any list \<Rightarrow> go_any list"
  sv_GetMap :: "string \<Rightarrow> (string \<rightharpoonup> go_any) \<Rightarrow> (string \<rightharpoonup> go_any)"
  sv_GroupName :: string
  sv_Name :: string
  sv_RuleID :: string
  sv_LogExposure :: go_any

record 'o statsig_library =
  sl_Initialize :: "string \<Rightarrow> 'o \<Rightarrow> string option"
  sl_GetGate :: "statsig_user \<Rightarrow> string \<Rightarrow> bool"
  sl_GetConfig :: "statsig_user \<Rightarrow> string \<Rightarrow> statsig_values"
  sl_GetLayer :: "statsig_user \<Rightarrow> string \<Rightarrow> statsig_values"
  sl_f6 :: "go_any \<Rightarrow> string"
  sl_print :: "go_any \<Rightarrow> string"
  sl_platform :: "float64 \<Rightarrow> int64"

record 'o statsig_provider =
  sp_Options :: 'o
  sp_SdkKey :: string
  sp_status :: of_state

definition statsig_NewProvider :: "'o \<Rightarrow> string \<Rightarrow> 'o statsig_provider" where
  "statsig_NewProvider options key = \<lparr>sp_Options = options, sp_SdkKey = key, sp_status = NotReadyState\<rparr>"

definition statsig_Init :: "'o statsig_library \<Rightarrow> 'o statsig_provider \<Rightarrow> 'o statsig_provider \<times> string option" where
  "statsig_Init lib p =
     (case sl_Initialize lib (sp_SdkKey p) (sp_Options p) of
        Some err \<Rightarrow> (p\<lparr>sp_status := ErrorState\<rparr>, Some err)
      | None \<Rightarrow> (p\<lparr>sp_status := ReadyState\<rparr>, None))"

definition statsig_Shutdown :: "'o statsig_provider \<Rightarrow> 'o statsig_provider" where
  "statsig_Shutdown p = p\<lparr>sp_status := NotReadyState\<rparr>"

section \<open>Users\<close>

definition statsig_toStr :: "(go_any \<Rightarrow> string) \<Rightarrow> go_any \<Rightarrow> string option" where
  "statsig_toStr f6 = toStr f6"

definition empty_user :: statsig_user where
  "empty_user = \<lparr>su_UserID = [], su_Email = [], su_IpAddress = [], su_UserAgent = [], su_Country = [], su_Locale = [],
     su_AppVersion = [], su_Custom = None, su_PrivateAttributes = None, su_StatsigEnvironment = None, su_CustomIDs = None\<rparr>"

definition featureConfigKey :: string where "featureConfigKey = ''feature_config''"

text \<open>
  The loop's state: the user so far, and whether \<^verbatim>\<open>Custom\<close> is the very map that the caller passed under this
  name, so that writing it writes the caller's map.  An error comes with the state it left.
\<close>

type_synonym user_state = "statsig_user \<times> bool"

definition user_string ::
  "(go_any \<Rightarrow> string) \<Rightarrow> string \<Rightarrow> go_any \<Rightarrow> (string \<Rightarrow> statsig_user \<Rightarrow> statsig_user) \<Rightarrow> user_state \<Rightarrow> (string \<times> user_state) + user_state" where
  "user_string f6 key origVal set_it s =
     (case statsig_toStr f6 origVal of
        None \<Rightarrow> Inl (''key `'' @ key @ ''` can not be converted to string'', s)
      | Some val \<Rightarrow> Inr (set_it val (fst s), snd s))"

definition user_entry :: "(go_any \<Rightarrow> string) \<Rightarrow> string \<Rightarrow> go_any \<Rightarrow> user_state \<Rightarrow> (string \<times> user_state) + user_state" where
  "user_entry f6 key origVal s =
     (let user = fst s;
          no_map = Inl (''key `'' @ key @ ''` can not be converted to map'', s)
      in if key = targetingKey \<or> key = ''UserID'' then user_string f6 key origVal (\<lambda>v u. u\<lparr>su_UserID := v\<rparr>) s
         else if key = ''Email'' then user_string f6 key origVal (\<lambda>v u. u\<lparr>su_Email := v\<rparr>) s
         else if key = ''IpAddress'' then user_string f6 key origVal (\<lambda>v u. u\<lparr>su_IpAddress := v\<rparr>) s
         else if key = ''UserAgent'' then user_string f6 key origVal (\<lambda>v u. u\<lparr>su_UserAgent := v\<rparr>) s
         else if key = ''Country'' then user_string f6 key origVal (\<lambda>v u. u\<lparr>su_Country := v\<rparr>) s
         else if key = ''Locale'' then user_string f6 key origVal (\<lambda>v u. u\<lparr>su_Locale := v\<rparr>) s
         else if key = ''AppVersion'' then user_string f6 key origVal (\<lambda>v u. u\<lparr>su_AppVersion := v\<rparr>) s
         else if key = ''Custom'' then
           (case origVal of
              VMap val \<Rightarrow>
                (case su_Custom user of
                   None \<Rightarrow> Inr (user\<lparr>su_Custom := Some val\<rparr>, True)
                 | Some custom \<Rightarrow> Inr (user\<lparr>su_Custom := Some (custom ++ val)\<rparr>, snd s))
            | _ \<Rightarrow> no_map)
         else if key = ''PrivateAttributes'' then
           (case origVal of VMap val \<Rightarrow> Inr (user\<lparr>su_PrivateAttributes := Some val\<rparr>, snd s) | _ \<Rightarrow> no_map)
         else if key = ''StatsigEnvironment'' then
           (case origVal of VStringMap val \<Rightarrow> Inr (user\<lparr>su_StatsigEnvironment := Some val\<rparr>, snd s) | _ \<Rightarrow> no_map)
         else if key = ''CustomIDs'' then
           (case origVal of VStringMap val \<Rightarrow> Inr (user\<lparr>su_CustomIDs := Some val\<rparr>, snd s) | _ \<Rightarrow> no_map)
         else if key = featureConfigKey then Inr s
         else (let custom = (case su_Custom user of None \<Rightarrow> Map.empty | Some c \<Rightarrow> c)
               in Inr (user\<lparr>su_Custom := Some (custom(key \<mapsto> origVal))\<rparr>, snd s)))"

text \<open>
  The user of a context.  Beside the user, the map that the caller passed as \<^verbatim>\<open>Custom\<close> as the call leaves it, when
  the call took it over.
\<close>

definition callers_custom :: "user_state \<Rightarrow> (string \<rightharpoonup> go_any) option" where
  "callers_custom s = (if snd s then su_Custom (fst s) else None)"

definition ToStatsigUser ::
  "(go_any \<Rightarrow> string) \<Rightarrow> ((string \<rightharpoonup> go_any) \<Rightarrow> string list) \<Rightarrow> go_map \<Rightarrow> (string + statsig_user) \<times> (string \<rightharpoonup> go_any) option" where
  "ToStatsigUser f6 order evalCtx =
     (if map_view evalCtx = Map.empty then (Inr empty_user, None)
      else case range_fold (user_entry f6) (map_view evalCtx) (order (map_view evalCtx)) (empty_user, False) of
             Inl (err, s) \<Rightarrow> (Inl err, callers_custom s)
           | Inr s \<Rightarrow>
               (if su_UserID (fst s) = [] \<and> (case su_CustomIDs (fst s) of None \<Rightarrow> True | Some ids \<Rightarrow> ids = Map.empty)
                then (Inl (resolution_error_text (NewTargetingKeyMissingResolutionError ''UserID/targetingKey is missing'')), callers_custom s)
                else (Inr (fst s), callers_custom s)))"

section \<open>Feature configurations\<close>

definition CONFIG :: string where "CONFIG = ''CONFIG''"
definition LAYER :: string where "LAYER = ''LAYER''"

record FeatureConfig =
  FeatureConfigType :: string
  fc_Name :: string

text \<open>The form of a \<^verbatim>\<open>FeatureConfig\<close> as a dynamic value.\<close>

definition feature_config_value :: "FeatureConfig \<Rightarrow> go_any" where
  "feature_config_value c = VStruct ''statsig.FeatureConfig'' [(''FeatureConfigType'', VString (FeatureConfigType c)), (''Name'', VString (fc_Name c))]"

definition feature_config_of :: "go_any \<Rightarrow> FeatureConfig option" where
  "feature_config_of v = (case v of
       VStruct t [(_, VString ty), (_, VString name)] \<Rightarrow>
         if t = ''statsig.FeatureConfig'' then Some \<lparr>FeatureConfigType = ty, fc_Name = name\<rparr> else None
     | _ \<Rightarrow> None)"

lemma feature_config_of_value [simp]: "feature_config_of (feature_config_value c) = Some c"
  by (simp add: feature_config_of_def feature_config_value_def)

definition toFeatureConfig :: "go_map \<Rightarrow> string + FeatureConfig" where
  "toFeatureConfig evalCtx =
     (case (case map_get evalCtx featureConfigKey of None \<Rightarrow> None | Some v \<Rightarrow> feature_config_of v) of
        None \<Rightarrow> Inl (''`'' @ featureConfigKey @ ''` not found at evaluation context.'')
      | Some c \<Rightarrow> Inr c)"

section \<open>Evaluation\<close>

text \<open>The kind of a default value decides the look-up; \<open>Inl\<close>: the message of the error.\<close>

definition statsig_value :: "statsig_values \<Rightarrow> string \<Rightarrow> go_any \<Rightarrow> string + go_any" where
  "statsig_value c flag defaultValue =
     (case defaultValue of
        VBool b \<Rightarrow> Inr (VBool (sv_GetBool c flag b))
      | VInt i \<Rightarrow> Inr (VFloat64 (sv_GetNumber c flag (float_of_int64 i)))
      | VInt64 i \<Rightarrow> Inr (VFloat64 (sv_GetNumber c flag (float_of_int64 i)))
      | VFloat32 x \<Rightarrow> Inr (VFloat64 (sv_GetNumber c flag (float64_of_float32 x)))
      | VFloat64 x \<Rightarrow> Inr (VFloat64 (sv_GetNumber c flag x))
      | VString s \<Rightarrow> Inr (VString (sv_GetString c flag s))
      | VList vs \<Rightarrow> Inr (VList (sv_GetSlice c flag vs))
      | VStrings ss \<Rightarrow> Inr (VList (sv_GetSlice c flag []))
      | VMap m \<Rightarrow> Inr (VMap (sv_GetMap c flag m))
      | VMetadata m \<Rightarrow> Inl ''default value is from unexpected type: map''
      | VStringMap m \<Rightarrow> Inl ''default value is from unexpected type: map''
      | VStruct t fs \<Rightarrow> Inl ''not implemented default value type: struct''
      | VNil \<Rightarrow> Inl ''not implemented default value type: invalid'')"

definition statsig_ObjectEvaluation ::
  "'o statsig_library \<Rightarrow> ((string \<rightharpoonup> go_any) \<Rightarrow> string list) \<Rightarrow> 'o statsig_provider \<Rightarrow> go_any evaluation" where
  "statsig_ObjectEvaluation lib order p flag defaultValue evalCtx =
     (let failed = (\<lambda>msg. error_result defaultValue (NewGeneralResolutionError msg));
          found = (\<lambda>v meta. \<lparr>Value = v, Detail = empty_detail\<lparr>FlagMetadata := Some meta\<rparr>\<rparr>)
      in case verify_state (sp_status p) defaultValue of
        Some r \<Rightarrow> r
      | None \<Rightarrow>
          (case fst (ToStatsigUser (sl_f6 lib) order evalCtx) of
             Inl err \<Rightarrow> failed err
           | Inr user \<Rightarrow>
               (case toFeatureConfig evalCtx of
                  Inl err \<Rightarrow> failed err
                | Inr fc \<Rightarrow>
                    if FeatureConfigType fc = CONFIG then
                      (let config = sl_GetConfig lib user (fc_Name fc)
                       in case statsig_value config flag defaultValue of
                            Inl msg \<Rightarrow> failed msg
                          | Inr v \<Rightarrow> found v [''GroupName'' \<mapsto> VString (sv_GroupName config), ''Name'' \<mapsto> VString (sv_Name config),
                              ''RuleID'' \<mapsto> VString (sv_RuleID config)])
                    else if FeatureConfigType fc = LAYER then
                      (let layer = sl_GetLayer lib user (fc_Name fc)
                       in case statsig_value layer flag defaultValue of
                            Inl msg \<Rightarrow> failed msg
                          | Inr v \<Rightarrow> found v [''GroupName'' \<mapsto> VString (sv_GroupName layer), ''LogExposure'' \<mapsto> sv_LogExposure layer,
                              ''Name'' \<mapsto> VString (sv_Name layer), ''RuleID'' \<mapsto> VString (sv_RuleID layer)])
                    else failed (''not implemented FeatureConfigType: '' @ FeatureConfigType fc))))"

definition incompatible :: "'v \<Rightarrow> 'v resolution_detail" where
  "incompatible defaultValue = error_result defaultValue (NewGeneralResolutionError ''evaluated value is from incompatible type'')"

definition statsig_BooleanEvaluation ::
  "'o statsig_library \<Rightarrow> ((string \<rightharpoonup> go_any) \<Rightarrow> string list) \<Rightarrow> 'o statsig_provider \<Rightarrow> bool evaluation" where
  "statsig_BooleanEvaluation lib order p flag defaultValue evalCtx =
     (case verify_state (sp_status p) defaultValue of
        Some r \<Rightarrow> r
      | None \<Rightarrow>
          (case fst (ToStatsigUser (sl_f6 lib) order evalCtx) of
             Inl err \<Rightarrow> error_result defaultValue (NewInvalidContextResolutionError err)
           | Inr user \<Rightarrow>
               (case toFeatureConfig evalCtx of
                  Inl err \<Rightarrow> \<lparr>Value = sl_GetGate lib user flag, Detail = empty_detail\<rparr>
                | Inr _ \<Rightarrow>
                    (let res = statsig_ObjectEvaluation lib order p flag (VBool defaultValue) evalCtx
                     in case Value res of VBool v \<Rightarrow> \<lparr>Value = v, Detail = Detail res\<rparr> | _ \<Rightarrow> incompatible defaultValue))))"

definition statsig_FloatEvaluation ::
  "'o statsig_library \<Rightarrow> ((string \<rightharpoonup> go_any) \<Rightarrow> string list) \<Rightarrow> 'o statsig_provider \<Rightarrow> float64 evaluation" where
  "statsig_FloatEvaluation lib order p flag defaultValue evalCtx =
     (let res = statsig_ObjectEvaluation lib order p flag (VFloat64 defaultValue) evalCtx
      in case Value res of VFloat64 v \<Rightarrow> \<lparr>Value = v, Detail = Detail res\<rparr> | _ \<Rightarrow> incompatible defaultValue)"

definition statsig_IntEvaluation ::
  "'o statsig_library \<Rightarrow> ((string \<rightharpoonup> go_any) \<Rightarrow> string list) \<Rightarrow> 'o statsig_provider \<Rightarrow> int64 evaluation" where
  "statsig_IntEvaluation lib order p flag defaultValue evalCtx =
     (let res = statsig_ObjectEvaluation lib order p flag (VInt64 defaultValue) evalCtx
      in case Value res of
           VFloat64 v \<Rightarrow> \<lparr>Value = int64_of_float (sl_platform lib) v, Detail = Detail res\<rparr>
         | VInt64 v \<Rightarrow> \<lparr>Value = v, Detail = Detail res\<rparr>
         | _ \<Rightarrow> incompatible defaultValue)"

definition statsig_StringEvaluation ::
  "'o statsig_library \<Rightarrow> ((string \<rightharpoonup> go_any) \<Rightarrow> string list) \<Rightarrow> 'o statsig_provider \<Rightarrow> string evaluation" where
  "statsig_StringEvaluation lib order p flag defaultValue evalCtx =
     (let res = statsig_ObjectEvaluation lib order p flag (VString defaultValue) evalCtx
      in \<lparr>Value = go_sprint (sl_print lib) (Value res), Detail = Detail res\<rparr>)"

definition statsig_feature_provider ::
  "'o statsig_library \<Rightarrow> ((string \<rightharpoonup> go_any) \<Rightarrow> string list) \<Rightarrow> 'o statsig_provider \<Rightarrow> feature_provider" where
  "statsig_feature_provider lib order p =
     \<lparr>p_Name = ''Statsig'', p_Boolean = statsig_BooleanEvaluation lib order p, p_String = statsig_StringEvaluation lib order p,
      p_Float = statsig_FloatEvaluation lib order p, p_Int = statsig_IntEvaluation lib order p,
      p_Object = statsig_ObjectEvaluation lib order p, p_Init = Some (\<lambda>ctx. snd (statsig_Init lib p))\<rparr>"

text \<open>An object evaluation fails with the default, or looks the flag up in a configuration or layer.\<close>

lemma statsig_object_cases:
  obtains (failed) "Value (statsig_ObjectEvaluation lib order p flag d ctx) = d" "has_error (Detail (statsig_ObjectEvaluation lib order p flag d ctx))"
  | (found) c v where "\<exists>user name. c = sl_GetConfig lib user name \<or> c = sl_GetLayer lib user name" "statsig_value c flag d = Inr v"
      "Value (statsig_ObjectEvaluation lib order p flag d ctx) = v" "\<not> has_error (Detail (statsig_ObjectEvaluation lib order p flag d ctx))"
proof (cases "verify_state (sp_status p) d")
  case (Some r)
  then show thesis by (auto intro!: failed simp: statsig_ObjectEvaluation_def dest: verify_state_honest)
next
  case ready: None
  note defs = statsig_ObjectEvaluation_def ready Let_def
  show thesis
  proof (cases "fst (ToStatsigUser (sl_f6 lib) order ctx)")
    case user: (Inr user)
    show thesis
    proof (cases "toFeatureConfig ctx")
      case fc: (Inr fc)
      define c where "c = (if FeatureConfigType fc = CONFIG then sl_GetConfig lib user (fc_Name fc) else sl_GetLayer lib user (fc_Name fc))"
      show thesis
      proof (cases "FeatureConfigType fc = CONFIG \<or> FeatureConfigType fc = LAYER")
        case kind: True
        have "CONFIG \<noteq> LAYER" by (simp add: CONFIG_def LAYER_def)
        show thesis
        proof (cases "statsig_value c flag d")
          case (Inl msg)
          with user fc kind \<open>CONFIG \<noteq> LAYER\<close> show thesis by (intro failed) (auto simp: defs c_def)
        next
          case (Inr v)
          with user fc kind \<open>CONFIG \<noteq> LAYER\<close> show thesis by (intro found [OF _ Inr]) (auto simp: defs c_def)
        qed
      qed (use user fc in \<open>auto intro!: failed simp: defs\<close>)
    qed (use user in \<open>auto intro!: failed simp: defs\<close>)
  qed (auto intro!: failed simp: defs)
qed

interpretation statsig: honest_provider "statsig_feature_provider lib order p" for lib order p
proof
  let ?p = "statsig_feature_provider lib order p"
  note defs = statsig_feature_provider_def statsig_BooleanEvaluation_def statsig_FloatEvaluation_def statsig_IntEvaluation_def
    statsig_StringEvaluation_def incompatible_def Let_def
  show "default_on_error (p_Boolean ?p)"
  proof
    fix flag d ctx
    assume "has_error (Detail (p_Boolean ?p flag d ctx))"
    then show "Value (p_Boolean ?p flag d ctx) = d"
      by (cases rule: statsig_object_cases [of lib order p flag "VBool d" ctx])
        (auto simp: defs statsig_value_def dest: verify_state_honest split: option.splits sum.splits)
  qed
  show "default_on_error (p_Object ?p)"
  proof
    fix flag d ctx
    assume "has_error (Detail (p_Object ?p flag d ctx))"
    then show "Value (p_Object ?p flag d ctx) = d"
      by (cases rule: statsig_object_cases [of lib order p flag d ctx]) (simp_all add: defs)
  qed
  show "default_on_error (p_String ?p)"
  proof
    fix flag d ctx
    assume "has_error (Detail (p_String ?p flag d ctx))"
    then show "Value (p_String ?p flag d ctx) = d"
      by (cases rule: statsig_object_cases [of lib order p flag "VString d" ctx]) (simp_all add: defs)
  qed
  show "default_on_error (p_Float ?p)"
  proof
    fix flag d ctx
    assume "has_error (Detail (p_Float ?p flag d ctx))"
    then show "Value (p_Float ?p flag d ctx) = d"
      by (cases rule: statsig_object_cases [of lib order p flag "VFloat64 d" ctx]) (auto simp: defs statsig_value_def)
  qed
  show "default_on_error (p_Int ?p)"
  proof
    fix flag d ctx
    assume "has_error (Detail (p_Int ?p flag d ctx))"
    then show "Value (p_Int ?p flag d ctx) = d"
      by (cases rule: statsig_object_cases [of lib order p flag "VInt64 d" ctx]) (auto simp: defs statsig_value_def)
  qed
qed

section \<open>The user\<close>

text \<open>The attributes: the keys that name no field of the user.\<close>

definition is_attribute :: "string \<Rightarrow> bool" where
  "is_attribute k \<longleftrightarrow> k \<notin> set [targetingKey, ''UserID'', ''Email'', ''IpAddress'', ''UserAgent'', ''Country'', ''Locale'', ''AppVersion'',
     ''Custom'', ''PrivateAttributes'', ''StatsigEnvironment'', ''CustomIDs'', featureConfigKey]"

definition custom_view :: "statsig_user \<Rightarrow> (string \<rightharpoonup> go_any)" where
  "custom_view u = (case su_Custom u of None \<Rightarrow> Map.empty | Some c \<Rightarrow> c)"

text \<open>A property of the user that only the keys in \<open>ns\<close> determine.\<close>

definition determined_by :: "string set \<Rightarrow> (statsig_user \<Rightarrow> 'a) \<Rightarrow> (go_any \<Rightarrow> 'a) \<Rightarrow> (go_any \<Rightarrow> string) \<Rightarrow> bool" where
  "determined_by ns g h f6 \<longleftrightarrow> (\<forall>k v s s'. user_entry f6 k v s = Inr s' \<longrightarrow> g (fst s') = (if k \<in> ns then h v else g (fst s)))"

lemmas user_entry_defs = user_entry_def user_string_def statsig_toStr_def Let_def

text \<open>What an entry of the context does to the fields that hold texts.\<close>

lemma user_string_toStr: "user_string f6 k v set_it s = Inr s' \<Longrightarrow> fst s' = set_it (the (toStr f6 v)) (fst s)"
  by (auto simp: user_string_def statsig_toStr_def split: option.splits)

lemma user_entry_cases:
  assumes "user_entry f6 k v s = Inr s'"
  shows "(k \<in> {targetingKey, ''UserID''} \<and> fst s' = (fst s)\<lparr>su_UserID := the (toStr f6 v)\<rparr>) \<or>
    (k = ''Email'' \<and> fst s' = (fst s)\<lparr>su_Email := the (toStr f6 v)\<rparr>) \<or>
    (k = ''IpAddress'' \<and> fst s' = (fst s)\<lparr>su_IpAddress := the (toStr f6 v)\<rparr>) \<or>
    (k = ''UserAgent'' \<and> fst s' = (fst s)\<lparr>su_UserAgent := the (toStr f6 v)\<rparr>) \<or>
    (k = ''Country'' \<and> fst s' = (fst s)\<lparr>su_Country := the (toStr f6 v)\<rparr>) \<or>
    (k = ''Locale'' \<and> fst s' = (fst s)\<lparr>su_Locale := the (toStr f6 v)\<rparr>) \<or>
    (k = ''AppVersion'' \<and> fst s' = (fst s)\<lparr>su_AppVersion := the (toStr f6 v)\<rparr>) \<or>
    (k \<notin> {targetingKey, ''UserID'', ''Email'', ''IpAddress'', ''UserAgent'', ''Country'', ''Locale'', ''AppVersion''} \<and>
     su_UserID (fst s') = su_UserID (fst s) \<and> su_Email (fst s') = su_Email (fst s) \<and> su_IpAddress (fst s') = su_IpAddress (fst s) \<and> su_UserAgent (fst s') = su_UserAgent (fst s) \<and> su_Country (fst s') = su_Country (fst s) \<and> su_Locale (fst s') = su_Locale (fst s) \<and> su_AppVersion (fst s') = su_AppVersion (fst s))"
  using assms unfolding user_entry_def Let_def
  by (simp only: split: if_split_asm) (auto dest!: user_string_toStr split: go_any.splits option.splits)

lemma user_fields_determined:
  "determined_by {targetingKey, ''UserID''} su_UserID (the \<circ> toStr f6) f6"
  "determined_by {''Email''} su_Email (the \<circ> toStr f6) f6"
  "determined_by {''IpAddress''} su_IpAddress (the \<circ> toStr f6) f6"
  "determined_by {''UserAgent''} su_UserAgent (the \<circ> toStr f6) f6"
  "determined_by {''Country''} su_Country (the \<circ> toStr f6) f6"
  "determined_by {''Locale''} su_Locale (the \<circ> toStr f6) f6"
  "determined_by {''AppVersion''} su_AppVersion (the \<circ> toStr f6) f6"
proof -
  show "determined_by {targetingKey, ''UserID''} su_UserID (the \<circ> toStr f6) f6"
    unfolding determined_by_def by (intro allI impI, drule user_entry_cases, elim disjE conjE) (auto simp: targetingKey_def)
  show "determined_by {''Email''} su_Email (the \<circ> toStr f6) f6"
    unfolding determined_by_def by (intro allI impI, drule user_entry_cases, elim disjE conjE) (auto simp: targetingKey_def)
  show "determined_by {''IpAddress''} su_IpAddress (the \<circ> toStr f6) f6"
    unfolding determined_by_def by (intro allI impI, drule user_entry_cases, elim disjE conjE) (auto simp: targetingKey_def)
  show "determined_by {''UserAgent''} su_UserAgent (the \<circ> toStr f6) f6"
    unfolding determined_by_def by (intro allI impI, drule user_entry_cases, elim disjE conjE) (auto simp: targetingKey_def)
  show "determined_by {''Country''} su_Country (the \<circ> toStr f6) f6"
    unfolding determined_by_def by (intro allI impI, drule user_entry_cases, elim disjE conjE) (auto simp: targetingKey_def)
  show "determined_by {''Locale''} su_Locale (the \<circ> toStr f6) f6"
    unfolding determined_by_def by (intro allI impI, drule user_entry_cases, elim disjE conjE) (auto simp: targetingKey_def)
  show "determined_by {''AppVersion''} su_AppVersion (the \<circ> toStr f6) f6"
    unfolding determined_by_def by (intro allI impI, drule user_entry_cases, elim disjE conjE) (auto simp: targetingKey_def)
qed

lemma determined_loop:
  assumes "determined_by ns g h f6" "range_fold (user_entry f6) m ks s = Inr s'" "\<And>k. k \<in> ns \<inter> set ks \<Longrightarrow> h (the (m k)) = x"
  shows "g (fst s') = (if ns \<inter> set ks = {} then g (fst s) else x)"
  using assms(2,3)
proof (induction ks arbitrary: s)
  case (Cons k ks)
  obtain s1 where 1: "user_entry f6 k (the (m k)) s = Inr s1" "range_fold (user_entry f6) m ks s1 = Inr s'"
    using Cons.prems(1) by (auto split: sum.splits)
  have "g (fst s1) = (if k \<in> ns then h (the (m k)) else g (fst s))" using assms(1) 1(1) unfolding determined_by_def by blast
  with Cons.IH [OF 1(2)] Cons.prems(2) show ?case by auto
qed simp

lemma attribute_step:
  "is_attribute k \<Longrightarrow> user_entry f6 k v s = Inr ((fst s)\<lparr>su_Custom := Some ((custom_view (fst s))(k \<mapsto> v))\<rparr>, snd s)"
  by (simp add: is_attribute_def user_entry_def custom_view_def Let_def)

lemma custom_step_Custom:
  "user_entry f6 ''Custom'' v s = Inr s' \<Longrightarrow> \<exists>val. v = VMap val \<and> custom_view (fst s') = custom_view (fst s) ++ val"
  by (auto simp: user_entry_defs targetingKey_def custom_view_def split: go_any.splits option.splits)

lemma user_string_Inr: "user_string f6 k v set_it s = Inr s' \<Longrightarrow> \<exists>val. fst s' = set_it val (fst s)"
  by (auto simp: user_string_def split: option.splits)

lemma field_step:
  assumes "user_entry f6 k v s = Inr s'" "\<not> is_attribute k" "k \<noteq> ''Custom''"
  shows "su_Custom (fst s') = su_Custom (fst s)"
proof -
  have "is_attribute k \<or> su_Custom (fst s') = su_Custom (fst s)"
    using assms(1,3) unfolding user_entry_def Let_def
    by (simp only: split: if_split_asm) (auto dest!: user_string_Inr simp: is_attribute_def split: go_any.splits)
  with assms(2) show ?thesis by simp
qed

text \<open>The maps that the context gives whole.\<close>

definition given_map :: "go_any \<Rightarrow> (string \<rightharpoonup> go_any) option" where
  "given_map v = (case v of VMap m \<Rightarrow> Some m | _ \<Rightarrow> None)"

definition given_texts :: "go_any \<Rightarrow> (string \<rightharpoonup> string) option" where
  "given_texts v = (case v of VStringMap m \<Rightarrow> Some m | _ \<Rightarrow> None)"

text \<open>One equation for each name, and the case distinction by names.\<close>

lemma user_entry_at:
  "user_entry f6 ''Email'' v s = user_string f6 ''Email'' v (\<lambda>v u. u\<lparr>su_Email := v\<rparr>) s"
  "user_entry f6 ''IpAddress'' v s = user_string f6 ''IpAddress'' v (\<lambda>v u. u\<lparr>su_IpAddress := v\<rparr>) s"
  "user_entry f6 ''UserAgent'' v s = user_string f6 ''UserAgent'' v (\<lambda>v u. u\<lparr>su_UserAgent := v\<rparr>) s"
  "user_entry f6 ''Country'' v s = user_string f6 ''Country'' v (\<lambda>v u. u\<lparr>su_Country := v\<rparr>) s"
  "user_entry f6 ''Locale'' v s = user_string f6 ''Locale'' v (\<lambda>v u. u\<lparr>su_Locale := v\<rparr>) s"
  "user_entry f6 ''AppVersion'' v s = user_string f6 ''AppVersion'' v (\<lambda>v u. u\<lparr>su_AppVersion := v\<rparr>) s"
  "user_entry f6 ''UserID'' v s = user_string f6 ''UserID'' v (\<lambda>v u. u\<lparr>su_UserID := v\<rparr>) s"
  "user_entry f6 ''targetingKey'' v s = user_string f6 ''targetingKey'' v (\<lambda>v u. u\<lparr>su_UserID := v\<rparr>) s"
  by (simp_all add: user_entry_def targetingKey_def)

lemma user_entry_map_at:
  "user_entry f6 ''Custom'' v s = (case given_map v of
     None \<Rightarrow> Inl (''key `Custom` can not be converted to map'', s)
   | Some val \<Rightarrow> Inr (case su_Custom (fst s) of
       None \<Rightarrow> ((fst s)\<lparr>su_Custom := Some val\<rparr>, True) | Some c \<Rightarrow> ((fst s)\<lparr>su_Custom := Some (c ++ val)\<rparr>, snd s)))"
  "user_entry f6 ''PrivateAttributes'' v s = (case given_map v of
     None \<Rightarrow> Inl (''key `PrivateAttributes` can not be converted to map'', s)
   | Some val \<Rightarrow> Inr ((fst s)\<lparr>su_PrivateAttributes := Some val\<rparr>, snd s))"
  "user_entry f6 ''StatsigEnvironment'' v s = (case given_texts v of
     None \<Rightarrow> Inl (''key `StatsigEnvironment` can not be converted to map'', s)
   | Some val \<Rightarrow> Inr ((fst s)\<lparr>su_StatsigEnvironment := Some val\<rparr>, snd s))"
  "user_entry f6 ''CustomIDs'' v s = (case given_texts v of
     None \<Rightarrow> Inl (''key `CustomIDs` can not be converted to map'', s)
   | Some val \<Rightarrow> Inr ((fst s)\<lparr>su_CustomIDs := Some val\<rparr>, snd s))"
  "user_entry f6 ''feature_config'' v s = Inr s"
  by (cases v; simp add: user_entry_def given_map_def given_texts_def targetingKey_def featureConfigKey_def Let_def split: option.split)+

lemma key_cases:
  obtains "k = ''Email''" | "k = ''IpAddress''" | "k = ''UserAgent''" | "k = ''Country''" | "k = ''Locale''" | "k = ''AppVersion''"
  | "k = ''UserID''" | "k = ''targetingKey''" | "k = ''Custom''" | "k = ''PrivateAttributes''" | "k = ''StatsigEnvironment''"
  | "k = ''CustomIDs''" | "k = ''feature_config''" | "is_attribute k"
  by (auto simp: is_attribute_def targetingKey_def featureConfigKey_def)

lemma not_attribute:
  "\<not> is_attribute ''Custom''" "\<not> is_attribute ''PrivateAttributes''" "\<not> is_attribute ''StatsigEnvironment''" "\<not> is_attribute ''CustomIDs''"
  by (simp_all add: is_attribute_def)

lemma user_maps_step:
  assumes "user_entry f6 k v s = Inr s'"
  shows "su_PrivateAttributes (fst s') = (if k = ''PrivateAttributes'' then given_map v else su_PrivateAttributes (fst s)) \<and>
    su_StatsigEnvironment (fst s') = (if k = ''StatsigEnvironment'' then given_texts v else su_StatsigEnvironment (fst s)) \<and>
    su_CustomIDs (fst s') = (if k = ''CustomIDs'' then given_texts v else su_CustomIDs (fst s))"
proof (cases k rule: key_cases)
  case 14
  with assms not_attribute show ?thesis by (auto simp: attribute_step)
qed (use assms in \<open>auto simp: user_entry_at user_entry_map_at user_string_def split: option.splits\<close>)

lemma user_maps_determined:
  "determined_by {''PrivateAttributes''} su_PrivateAttributes given_map f6"
  "determined_by {''StatsigEnvironment''} su_StatsigEnvironment given_texts f6"
  "determined_by {''CustomIDs''} su_CustomIDs given_texts f6"
  unfolding determined_by_def using user_maps_step [of f6] by (simp_all add: singleton_iff del: split_paired_All)

text \<open>
  The values that the attribute \<open>j\<close> may end up with: its own in the context, that of the map under \<^verbatim>\<open>Custom\<close>, and before
  either is visited the one it had.
\<close>

definition custom_entry :: "(string \<rightharpoonup> go_any) \<Rightarrow> string \<Rightarrow> go_any option" where
  "custom_entry m j = (case given_map (the (m ''Custom'')) of None \<Rightarrow> None | Some c \<Rightarrow> c j)"

definition custom_choice :: "(string \<rightharpoonup> go_any) \<Rightarrow> string set \<Rightarrow> string \<Rightarrow> go_any option \<Rightarrow> go_any option set" where
  "custom_choice m ks j old =
     (if j \<in> ks \<and> is_attribute j then
        (if ''Custom'' \<in> ks \<and> custom_entry m j \<noteq> None then {Some (the (m j)), custom_entry m j} else {Some (the (m j))})
      else if ''Custom'' \<in> ks \<and> custom_entry m j \<noteq> None then {custom_entry m j} else {old})"

lemma custom_step:
  assumes "user_entry f6 k (the (m k)) s = Inr s1"
  shows "custom_view (fst s1) j = (if k = j \<and> is_attribute j then Some (the (m j))
    else if k = ''Custom'' \<and> custom_entry m j \<noteq> None then custom_entry m j
    else custom_view (fst s) j)"
proof (cases "k = ''Custom''")
  case True
  then obtain c where c: "the (m ''Custom'') = VMap c" "custom_view (fst s1) = custom_view (fst s) ++ c"
    using custom_step_Custom assms by blast
  then have "custom_entry m j = c j" by (simp add: custom_entry_def given_map_def)
  with c True not_attribute(1) show ?thesis by (auto simp: map_add_def split: option.split)
next
  case False
  show ?thesis
  proof (cases "is_attribute k")
    case True
    with assms have "custom_view (fst s1) = (custom_view (fst s))(k \<mapsto> the (m k))"
      by (auto simp: attribute_step custom_view_def)
    with True False show ?thesis by auto
  next
    case not_attribute: False
    with field_step [OF assms not_attribute False] False show ?thesis by (auto simp: custom_view_def)
  qed
qed

lemma custom_loop:
  "range_fold (user_entry f6) m ks s = Inr s' \<Longrightarrow>
    custom_view (fst s') j \<in> custom_choice m (set ks) j (custom_view (fst s) j)"
proof (induction ks arbitrary: s)
  case (Cons k ks)
  obtain s1 where 1: "user_entry f6 k (the (m k)) s = Inr s1" "range_fold (user_entry f6) m ks s1 = Inr s'"
    using Cons.prems by (auto split: sum.splits)
  from Cons.IH [OF 1(2)] custom_step [of f6 k m s s1 j] 1(1) show ?case
    by (cases "k = ''Custom''"; cases "k = j"; cases "is_attribute j"; cases "custom_entry m j = None")
      (auto simp: custom_choice_def not_attribute split: if_splits)
qed (simp add: custom_choice_def)

lemma custom_None_loop:
  "range_fold (user_entry f6) m ks s = Inr s' \<Longrightarrow>
    su_Custom (fst s') = None \<longleftrightarrow> su_Custom (fst s) = None \<and> (\<forall>k\<in>set ks. \<not> is_attribute k \<and> k \<noteq> ''Custom'')"
proof (induction ks arbitrary: s)
  case (Cons k ks)
  obtain s1 where 1: "user_entry f6 k (the (m k)) s = Inr s1" "range_fold (user_entry f6) m ks s1 = Inr s'"
    using Cons.prems by (auto split: sum.splits)
  have "su_Custom (fst s1) = None \<longleftrightarrow> su_Custom (fst s) = None \<and> \<not> is_attribute k \<and> k \<noteq> ''Custom''"
    using 1(1) field_step [OF 1(1)] attribute_step [of k f6 "the (m k)" s]
    by (cases "is_attribute k"; cases "k = ''Custom''")
      (auto simp: user_entry_defs targetingKey_def split: go_any.splits option.splits)
  with Cons.IH [OF 1(2)] show ?case by auto
qed simp

text \<open>The values that the conversion accepts; it stops only at another one.\<close>

definition entry_ok :: "(go_any \<Rightarrow> string) \<Rightarrow> string \<Rightarrow> go_any \<Rightarrow> bool" where
  "entry_ok f6 k v \<longleftrightarrow>
     (k \<in> {targetingKey, ''UserID'', ''Email'', ''IpAddress'', ''UserAgent'', ''Country'', ''Locale'', ''AppVersion''} \<longrightarrow> toStr f6 v \<noteq> None) \<and>
     (k \<in> {''Custom'', ''PrivateAttributes''} \<longrightarrow> given_map v \<noteq> None) \<and>
     (k \<in> {''StatsigEnvironment'', ''CustomIDs''} \<longrightarrow> given_texts v \<noteq> None)"

lemma user_entry_ok: "(\<exists>s'. user_entry f6 k v s = Inr s') \<longleftrightarrow> entry_ok f6 k v"
proof (cases k rule: key_cases)
  case 14
  then have "entry_ok f6 k v" by (auto simp: is_attribute_def entry_ok_def)
  with 14 show ?thesis by (simp add: attribute_step)
qed (auto simp: user_entry_at user_entry_map_at entry_ok_def user_string_def statsig_toStr_def targetingKey_def split: option.splits)

lemma user_loop_ok: "(\<exists>s'. range_fold (user_entry f6) m ks s = Inr s') \<longleftrightarrow> (\<forall>k\<in>set ks. entry_ok f6 k (the (m k)))"
proof (induction ks arbitrary: s)
  case (Cons k ks)
  from user_entry_ok [of f6 k "the (m k)" s] Cons.IH show ?case by (cases "user_entry f6 k (the (m k)) s") auto
qed simp

definition user_field :: "(go_any \<Rightarrow> string) \<Rightarrow> (string \<rightharpoonup> go_any) \<Rightarrow> string \<Rightarrow> string" where
  "user_field f6 m k = (case m k of None \<Rightarrow> [] | Some v \<Rightarrow> the (toStr f6 v))"

lemma user_loop_texts:
  assumes "range_fold (user_entry f6) m ks (empty_user, b) = Inr s" "set ks = dom m"
  shows "su_Email (fst s) = user_field f6 m ''Email'' \<and> su_IpAddress (fst s) = user_field f6 m ''IpAddress'' \<and>
    su_UserAgent (fst s) = user_field f6 m ''UserAgent'' \<and> su_Country (fst s) = user_field f6 m ''Country'' \<and>
    su_Locale (fst s) = user_field f6 m ''Locale'' \<and> su_AppVersion (fst s) = user_field f6 m ''AppVersion''"
proof -
  have "g (fst s) = user_field f6 m n" if "determined_by {n} g (the \<circ> toStr f6) f6" "g empty_user = []" for g n
    using determined_loop [OF that(1) assms(1), of "the (toStr f6 (the (m n)))"] that(2) assms(2)
    by (auto simp: user_field_def domIff split: option.split if_splits)
  from this [OF user_fields_determined(2)] this [OF user_fields_determined(3)] this [OF user_fields_determined(4)]
    this [OF user_fields_determined(5)] this [OF user_fields_determined(6)] this [OF user_fields_determined(7)]
  show ?thesis by (simp add: empty_user_def)
qed

lemma user_loop_maps:
  assumes "range_fold (user_entry f6) m ks (empty_user, b) = Inr s" "set ks = dom m"
  shows "su_PrivateAttributes (fst s) = Option.bind (m ''PrivateAttributes'') given_map \<and>
    su_StatsigEnvironment (fst s) = Option.bind (m ''StatsigEnvironment'') given_texts \<and>
    su_CustomIDs (fst s) = Option.bind (m ''CustomIDs'') given_texts"
proof -
  have "g (fst s) = Option.bind (m n) h" if "determined_by {n} g h f6" "g empty_user = None"
    for n and g :: "statsig_user \<Rightarrow> 'a option" and h
    using determined_loop [OF that(1) assms(1), of "h (the (m n))"] that(2) assms(2)
    by (cases "m n") (auto simp: domIff)
  from this [OF user_maps_determined(1)] show ?thesis
    using determined_loop [OF user_maps_determined(2) assms(1), of "given_texts (the (m ''StatsigEnvironment''))"]
      determined_loop [OF user_maps_determined(3) assms(1), of "given_texts (the (m ''CustomIDs''))"] assms(2)
    by (cases "m ''StatsigEnvironment''"; cases "m ''CustomIDs''") (auto simp: empty_user_def domIff)
qed

lemma determined_choice:
  "determined_by ns g h f6 \<Longrightarrow> range_fold (user_entry f6) m ks s = Inr s' \<Longrightarrow>
    (ns \<inter> set ks = {} \<and> g (fst s') = g (fst s)) \<or> g (fst s') \<in> (\<lambda>k. h (the (m k))) ` (ns \<inter> set ks)"
proof (induction ks arbitrary: s)
  case (Cons k ks)
  obtain s1 where 1: "user_entry f6 k (the (m k)) s = Inr s1" "range_fold (user_entry f6) m ks s1 = Inr s'"
    using Cons.prems(2) by (auto split: sum.splits)
  have "g (fst s1) = (if k \<in> ns then h (the (m k)) else g (fst s))" using Cons.prems(1) 1(1) unfolding determined_by_def by blast
  with Cons.IH [OF Cons.prems(1) 1(2)] show ?case by (auto split: if_splits)
qed simp

text \<open>The identifiers that a context gives.\<close>

definition identifiers :: "(go_any \<Rightarrow> string) \<Rightarrow> (string \<rightharpoonup> go_any) \<Rightarrow> string set" where
  "identifiers f6 m = user_field f6 m ` ({targetingKey, ''UserID''} \<inter> dom m)"

lemma user_loop_id:
  assumes "range_fold (user_entry f6) m ks (empty_user, b) = Inr s" "set ks = dom m"
  shows "su_UserID (fst s) \<in> (if identifiers f6 m = {} then {[]} else identifiers f6 m)"
proof -
  have "(\<lambda>k. (the \<circ> toStr f6) (the (m k))) ` ({targetingKey, ''UserID''} \<inter> set ks) = identifiers f6 m"
    unfolding identifiers_def assms(2) by (intro image_cong) (auto simp: user_field_def)
  with determined_choice [OF user_fields_determined(1) assms(1)] assms(2) show ?thesis
    by (auto simp: identifiers_def empty_user_def)
qed



text \<open>
  When a context gives both the targeting key and a \<^verbatim>\<open>UserID\<close>, the order in which the runtime visits the context decides
  which of the two is the user.
\<close>

theorem statsig_user_by_chance:
  "\<exists>order1 order2. range_order order1 \<and> range_order order2 \<and>
     fst (ToStatsigUser f6 order1 (Some [targetingKey \<mapsto> VString (a # x), ''UserID'' \<mapsto> VString (b # y)])) =
       Inr (empty_user\<lparr>su_UserID := b # y\<rparr>) \<and>
     fst (ToStatsigUser f6 order2 (Some [targetingKey \<mapsto> VString (a # x), ''UserID'' \<mapsto> VString (b # y)])) =
       Inr (empty_user\<lparr>su_UserID := a # x\<rparr>)"
proof (intro exI conjI)
  let ?m = "[targetingKey \<mapsto> VString (a # x), ''UserID'' \<mapsto> VString (b # y)]"
  show "range_order (starting_at targetingKey some_order)" "range_order (starting_at ''UserID'' some_order)"
    by (simp_all add: range_order_starting_at range_order_some_order)
  have "starting_at targetingKey some_order ?m = [targetingKey, ''UserID'']" "starting_at ''UserID'' some_order ?m = [''UserID'', targetingKey]"
    by (rule starting_at_two [OF range_order_some_order]; auto simp: targetingKey_def)+
  then show "fst (ToStatsigUser f6 (starting_at targetingKey some_order) (Some ?m)) = Inr (empty_user\<lparr>su_UserID := b # y\<rparr>)"
    "fst (ToStatsigUser f6 (starting_at ''UserID'' some_order) (Some ?m)) = Inr (empty_user\<lparr>su_UserID := a # x\<rparr>)"
    by (simp_all add: ToStatsigUser_def user_entry_defs toStr_def targetingKey_def)
qed

text \<open>
  The conversion may take over the map that the caller passed as \<^verbatim>\<open>Custom\<close> and write the other attributes of the context
  into it: the caller's map is changed.
\<close>

theorem statsig_writes_callers_map:
  "\<exists>order. range_order order \<and>
     snd (ToStatsigUser f6 order (Some [''Custom'' \<mapsto> VMap c, ''plan'' \<mapsto> v])) = Some (c(''plan'' \<mapsto> v))"
proof (intro exI conjI)
  let ?m = "[''Custom'' \<mapsto> VMap c, ''plan'' \<mapsto> v]"
  show "range_order (starting_at ''Custom'' some_order)" by (simp add: range_order_starting_at range_order_some_order)
  have "starting_at ''Custom'' some_order ?m = [''Custom'', ''plan'']"
    by (rule starting_at_two [OF range_order_some_order]) auto
  then show "snd (ToStatsigUser f6 (starting_at ''Custom'' some_order) (Some ?m)) = Some (c(''plan'' \<mapsto> v))"
    by (simp add: ToStatsigUser_def user_entry_defs targetingKey_def featureConfigKey_def callers_custom_def empty_user_def)
qed

section \<open>Integers\<close>

text \<open>
  An integer flag that its configuration does not define evaluates to the default, provided the default fits in the 53
  bits of a float, through which it is passed.
\<close>

theorem statsig_int_default:
  assumes "\<And>user name x. sv_GetNumber (sl_GetConfig lib user name) flag x = x" "\<And>user name x. sv_GetNumber (sl_GetLayer lib user name) flag x = x"
    and "nat \<bar>sint d\<bar> < 2 ^ 53"
  shows "Value (statsig_IntEvaluation lib order p flag d ctx) = d"
proof (cases rule: statsig_object_cases [of lib order p flag "VInt64 d" ctx])
  case failed
  then show ?thesis by (simp add: statsig_IntEvaluation_def Let_def)
next
  case (found c v)
  have "sv_GetNumber c flag x = x" for x using found(1) assms(1,2) by auto
  then have "v = VFloat64 (float_of_int64 d)" using found(2) by (simp add: statsig_value_def)
  with found(3) show ?thesis
    using int64_of_float_exact [OF assms(3)] by (simp add: statsig_IntEvaluation_def Let_def float_of_int64_def)
qed

definition empty_values :: statsig_values where
  "empty_values = \<lparr>sv_GetBool = \<lambda>_ d. d, sv_GetNumber = \<lambda>_ d. d, sv_GetString = \<lambda>_ d. d, sv_GetSlice = \<lambda>_ d. d, sv_GetMap = \<lambda>_ d. d,
     sv_GroupName = [], sv_Name = [], sv_RuleID = [], sv_LogExposure = VNil\<rparr>"

definition empty_library :: "unit statsig_library" where
  "empty_library = \<lparr>sl_Initialize = \<lambda>_ _. None, sl_GetGate = \<lambda>_ _. False, sl_GetConfig = \<lambda>_ _. empty_values, sl_GetLayer = \<lambda>_ _. empty_values,
     sl_f6 = \<lambda>_. [], sl_print = \<lambda>_. [], sl_platform = \<lambda>_. 0\<rparr>"

theorem statsig_int_default_witness:
  "Value (statsig_IntEvaluation empty_library some_order (statsig_NewProvider () []) ''f'' 42 None) = 42"
  by (rule statsig_int_default) (simp_all add: empty_library_def empty_values_def)

text \<open>
  A larger default is not: a flag that its configuration does not define evaluates to another integer than the default, without an
  error.
\<close>

theorem statsig_int_default_rounded:
  "\<exists>order ctx p. range_order order \<and> statsig_IntEvaluation empty_library order p ''f'' 9007199254740993 ctx =
     \<lparr>Value = 9007199254740992, Detail = empty_detail\<lparr>FlagMetadata := Some [''GroupName'' \<mapsto> VString [], ''Name'' \<mapsto> VString [], ''RuleID'' \<mapsto> VString []]\<rparr>\<rparr>"
proof (intro exI conjI)
  let ?fc = "\<lparr>FeatureConfigType = CONFIG, fc_Name = ''c''\<rparr>"
  let ?m = "[targetingKey \<mapsto> VString ''u'', featureConfigKey \<mapsto> feature_config_value ?fc]"
  let ?order = "starting_at targetingKey some_order"
  let ?p = "fst (statsig_Init empty_library (statsig_NewProvider () []))"
  show "range_order ?order" by (simp add: range_order_starting_at range_order_some_order)
  have "?order ?m = [targetingKey, featureConfigKey]"
    by (rule starting_at_two [OF range_order_some_order]) (auto simp: targetingKey_def featureConfigKey_def)
  then have user: "fst (ToStatsigUser f6 ?order (Some ?m)) = Inr (empty_user\<lparr>su_UserID := ''u''\<rparr>)" for f6
    by (simp add: ToStatsigUser_def user_entry_defs toStr_def targetingKey_def featureConfigKey_def)
  have fc: "toFeatureConfig (Some ?m) = Inr ?fc" by (simp add: toFeatureConfig_def)
  have ready: "sp_status ?p = ReadyState" by (simp add: statsig_Init_def empty_library_def)
  show "statsig_IntEvaluation empty_library ?order ?p ''f'' 9007199254740993 (Some ?m) =
     \<lparr>Value = 9007199254740992, Detail = empty_detail\<lparr>FlagMetadata := Some [''GroupName'' \<mapsto> VString [], ''Name'' \<mapsto> VString [], ''RuleID'' \<mapsto> VString []]\<rparr>\<rparr>"
    unfolding statsig_IntEvaluation_def statsig_ObjectEvaluation_def Let_def user fc ready verify_state_def
    by (simp add: statsig_value_def empty_library_def empty_values_def float_of_int_rounded del: fun_upd_apply)
qed

end
