(* ===== verification/ConfigCat.thy ===== *)
theory ConfigCat
  imports Provider_Contract
begin

text \<open>
  The ConfigCat provider, \<^verbatim>\<open>providers/configcat/pkg/provider.go\<close>.  The client is an interface of this provider: its
  implementation is a parameter.
\<close>

section \<open>Users\<close>

definition IdentifierKey :: string where "IdentifierKey = targetingKey"
definition EmailKey :: string where "EmailKey = ''email''"
definition CountryKey :: string where "CountryKey = ''country''"

text \<open>User data: \<open>None\<close> is the nil user.\<close>

type_synonym user_attributes = "(string \<rightharpoonup> go_any) option"

definition GetAttribute :: "(string \<rightharpoonup> go_any) \<Rightarrow> string \<Rightarrow> go_any" where
  "GetAttribute u key = (case u key of None \<Rightarrow> VNil | Some v \<Rightarrow> v)"

definition attribute_name :: "string \<Rightarrow> string" where
  "attribute_name key =
     (if key = IdentifierKey then ''Identifier''
      else if key = EmailKey then ''Email''
      else if key = CountryKey then ''Country''
      else key)"

definition toUserData :: "((string \<rightharpoonup> go_any) \<Rightarrow> string list) \<Rightarrow> go_map \<Rightarrow> user_attributes" where
  "toUserData order evalCtx =
     (let m = map_view evalCtx
      in if m = Map.empty then None else Some (foldl (\<lambda>a key. a(attribute_name key := m key)) Map.empty (order m)))"

section \<open>The client\<close>

text \<open>An error, with what \<^verbatim>\<open>errors.As\<close> finds in it.\<close>

record configcat_error =
  ce_text :: string
  ce_key_not_found :: "string option"
  ce_type_mismatch :: "string option"
  ce_config_missing :: "string option"

record configcat_data =
  cd_VariationID :: string
  cd_IsDefaultValue :: bool
  cd_Error :: "configcat_error option"
  cd_MatchedTargetingRule :: bool
  cd_MatchedPercentageOption :: bool

type_synonym 'v configcat_get = "string \<Rightarrow> 'v \<Rightarrow> user_attributes \<Rightarrow> 'v \<times> configcat_data"

record configcat_client =
  cc_bool :: "bool configcat_get"
  cc_string :: "string configcat_get"
  cc_float :: "float64 configcat_get"
  cc_int :: "int64 configcat_get"
  cc_unmarshal :: "string \<Rightarrow> string + go_any"

text \<open>The client's documented behaviour: with an error it returns the default it was given.\<close>

definition default_with_error :: "'v configcat_get \<Rightarrow> bool" where
  "default_with_error get \<longleftrightarrow> (\<forall>key d user. cd_Error (snd (get key d user)) \<noteq> None \<longrightarrow> fst (get key d user) = d)"

definition client_defaults :: "configcat_client \<Rightarrow> bool" where
  "client_defaults c \<longleftrightarrow> default_with_error (cc_bool c) \<and> default_with_error (cc_string c) \<and> default_with_error (cc_float c) \<and>
     default_with_error (cc_int c)"

section \<open>Evaluation\<close>

definition configcat_toResolutionError :: "configcat_error \<Rightarrow> resolution_error" where
  "configcat_toResolutionError err =
     (case ce_key_not_found err of Some msg \<Rightarrow> NewFlagNotFoundResolutionError msg
      | None \<Rightarrow> (case ce_type_mismatch err of Some msg \<Rightarrow> NewTypeMismatchResolutionError msg
      | None \<Rightarrow> (case ce_config_missing err of Some msg \<Rightarrow> NewParseErrorResolutionError msg
      | None \<Rightarrow> NewGeneralResolutionError (ce_text err))))"

definition toResolutionDetail :: "configcat_data \<Rightarrow> provider_detail" where
  "toResolutionDetail details =
     (case cd_Error details of
        Some err \<Rightarrow> empty_detail\<lparr>ResolutionError := configcat_toResolutionError err, Reason := ErrorReason\<rparr>
      | None \<Rightarrow> empty_detail\<lparr>Reason := (if cd_MatchedTargetingRule details \<or> cd_MatchedPercentageOption details
                                       then TargetingMatchReason else DefaultReason), Variant := cd_VariationID details\<rparr>)"

definition configcat_evaluate :: "'v configcat_get \<Rightarrow> ((string \<rightharpoonup> go_any) \<Rightarrow> string list) \<Rightarrow> 'v evaluation" where
  "configcat_evaluate get order flag defaultValue evalCtx =
     (let (v, data) = get flag defaultValue (toUserData order evalCtx) in \<lparr>Value = v, Detail = toResolutionDetail data\<rparr>)"

definition configcat_BooleanEvaluation where "configcat_BooleanEvaluation c = configcat_evaluate (cc_bool c)"
definition configcat_StringEvaluation where "configcat_StringEvaluation c = configcat_evaluate (cc_string c)"
definition configcat_FloatEvaluation where "configcat_FloatEvaluation c = configcat_evaluate (cc_float c)"
definition configcat_IntEvaluation where "configcat_IntEvaluation c = configcat_evaluate (cc_int c)"

definition configcat_ObjectEvaluation ::
  "configcat_client \<Rightarrow> ((string \<rightharpoonup> go_any) \<Rightarrow> string list) \<Rightarrow> go_any evaluation" where
  "configcat_ObjectEvaluation c order flag defaultValue evalCtx =
     (let (v, data) = cc_string c flag [] (toUserData order evalCtx)
      in if cd_IsDefaultValue data \<or> cd_Error data \<noteq> None then \<lparr>Value = defaultValue, Detail = toResolutionDetail data\<rparr>
         else (case cc_unmarshal c v of
                 Inl err \<Rightarrow> error_result defaultValue
                     (NewTypeMismatchResolutionError (''failed to unmarshal string flag as json: '' @ err))
               | Inr object \<Rightarrow> \<lparr>Value = object, Detail = toResolutionDetail data\<rparr>))"

definition configcat_feature_provider ::
  "configcat_client \<Rightarrow> ((string \<rightharpoonup> go_any) \<Rightarrow> string list) \<Rightarrow> feature_provider" where
  "configcat_feature_provider c order =
     \<lparr>p_Name = ''ConfigCat'', p_Boolean = configcat_BooleanEvaluation c order, p_String = configcat_StringEvaluation c order,
      p_Float = configcat_FloatEvaluation c order, p_Int = configcat_IntEvaluation c order,
      p_Object = configcat_ObjectEvaluation c order, p_Init = None\<rparr>"

lemma toResolutionDetail_error: "has_error (toResolutionDetail data) \<longleftrightarrow> cd_Error data \<noteq> None"
  by (auto simp: toResolutionDetail_def has_error_def empty_detail_def configcat_toResolutionError_def split: option.split)

lemma default_with_errorD: "default_with_error get \<Longrightarrow> get key d user = (v, data) \<Longrightarrow> cd_Error data \<noteq> None \<Longrightarrow> v = d"
  by (metis default_with_error_def fst_conv snd_conv)

lemma configcat_evaluate_honest: "default_with_error get \<Longrightarrow> default_on_error (configcat_evaluate get order)"
  by (rule default_on_errorI)
    (auto simp del: not_None_eq simp: configcat_evaluate_def toResolutionDetail_error dest: default_with_errorD split: prod.splits)

lemma configcat_object_honest: "default_on_error (configcat_ObjectEvaluation c order)"
  by (rule default_on_errorI)
    (auto simp: configcat_ObjectEvaluation_def toResolutionDetail_error split: prod.splits sum.splits if_splits)

lemma configcat_honest: "client_defaults c \<Longrightarrow> honest_provider (configcat_feature_provider c order)"
  by unfold_locales
    (simp_all add: client_defaults_def configcat_feature_provider_def configcat_BooleanEvaluation_def configcat_StringEvaluation_def
      configcat_FloatEvaluation_def configcat_IntEvaluation_def configcat_evaluate_honest configcat_object_honest)

text \<open>
  An object evaluation never passes the client's placeholder on: it returns the caller's default or the decoded text of a flag, and an
  error only with the default.
\<close>

theorem configcat_object_correct:
  "(case cc_string c flag [] (toUserData order ctx) of (v, data) \<Rightarrow>
      (if cd_IsDefaultValue data \<or> cd_Error data \<noteq> None
       then Value (configcat_ObjectEvaluation c order flag d ctx) = d \<and>
         (has_error (Detail (configcat_ObjectEvaluation c order flag d ctx)) \<longleftrightarrow> cd_Error data \<noteq> None)
       else (case cc_unmarshal c v of
           Inl e \<Rightarrow> Value (configcat_ObjectEvaluation c order flag d ctx) = d \<and>
             has_code (ResolutionError (Detail (configcat_ObjectEvaluation c order flag d ctx))) TypeMismatchCode
         | Inr x \<Rightarrow> Value (configcat_ObjectEvaluation c order flag d ctx) = x \<and>
             \<not> has_error (Detail (configcat_ObjectEvaluation c order flag d ctx)))))"
  by (auto simp: configcat_ObjectEvaluation_def toResolutionDetail_error empty_detail_def split: prod.split sum.split)

section \<open>User data\<close>

lemma user_data_loop:
  "inj_on attribute_name (set ks) \<Longrightarrow> distinct ks \<Longrightarrow> k \<in> set ks \<Longrightarrow>
     foldl (\<lambda>a key. a(attribute_name key := m key)) a ks (attribute_name k) = m k"
proof (induction ks rule: rev_induct)
  case (snoc x xs)
  then show ?case by (auto simp: inj_on_def)
qed simp

lemma user_data_loop_other:
  "n \<notin> attribute_name ` set ks \<Longrightarrow> foldl (\<lambda>a key. a(attribute_name key := m key)) a ks n = a n"
  by (induction ks arbitrary: a) auto

text \<open>
  Unless two keys of the context name one attribute, the user data hold every value of the context under its
  attribute's name and nothing else, whatever the order in which the runtime visits the context.
\<close>

theorem configcat_user_correct:
  assumes "range_order order" "finite (dom m)" "inj_on attribute_name (dom m)" "toUserData order (Some m) = Some u"
  shows "(\<forall>k. m k \<noteq> None \<longrightarrow> GetAttribute u (attribute_name k) = the (m k)) \<and> (\<forall>n. n \<notin> attribute_name ` dom m \<longrightarrow> GetAttribute u n = VNil)"
proof -
  note ord = range_orderD [OF assms(1,2)]
  have u: "u = foldl (\<lambda>a key. a(attribute_name key := m key)) Map.empty (order m)"
    using assms(4) by (auto simp: toUserData_def Let_def split: if_splits)
  show ?thesis
    using user_data_loop [of "order m" _ m Map.empty] user_data_loop_other [of _ "order m" m Map.empty] assms(3) ord
    by (auto simp: u GetAttribute_def domI)
qed

theorem configcat_user_correct_witness:
  "\<exists>u. toUserData some_order (Some [targetingKey \<mapsto> VString ''u'']) = Some u \<and> GetAttribute u ''Identifier'' = VString ''u''"
proof -
  let ?m = "[targetingKey \<mapsto> VString ''u''] :: string \<rightharpoonup> go_any"
  obtain u where u: "toUserData some_order (Some ?m) = Some u" by (simp add: toUserData_def Let_def)
  have "finite (dom ?m)" "inj_on attribute_name (dom ?m)" by simp_all
  from configcat_user_correct [OF range_order_some_order this u]
  have "GetAttribute u (attribute_name targetingKey) = the (?m targetingKey)" by simp
  with u show ?thesis by (intro exI [of _ u]) (simp add: attribute_name_def IdentifierKey_def)
qed

text \<open>A context with an \<^verbatim>\<open>email\<close> and an \<^verbatim>\<open>Email\<close> has two values for one attribute, and the runtime's order decides.\<close>

lemma configcat_user_by_chance:
  "\<exists>order1 order2. range_order order1 \<and> range_order order2 \<and>
     map_option (\<lambda>u. GetAttribute u ''Email'') (toUserData order1 (Some [''email'' \<mapsto> a, ''Email'' \<mapsto> b])) = Some b \<and>
     map_option (\<lambda>u. GetAttribute u ''Email'') (toUserData order2 (Some [''email'' \<mapsto> a, ''Email'' \<mapsto> b])) = Some a"
proof (intro exI conjI)
  let ?m = "[''email'' \<mapsto> a, ''Email'' \<mapsto> b]"
  show "range_order (starting_at ''email'' some_order)" "range_order (starting_at ''Email'' some_order)"
    by (simp_all add: range_order_starting_at range_order_some_order)
  have "starting_at ''email'' some_order ?m = [''email'', ''Email'']" "starting_at ''Email'' some_order ?m = [''Email'', ''email'']"
    by (rule starting_at_two [OF range_order_some_order]; auto)+
  then show "map_option (\<lambda>u. GetAttribute u ''Email'') (toUserData (starting_at ''email'' some_order) (Some ?m)) = Some b"
    "map_option (\<lambda>u. GetAttribute u ''Email'') (toUserData (starting_at ''Email'' some_order) (Some ?m)) = Some a"
    by (simp_all add: toUserData_def GetAttribute_def attribute_name_def IdentifierKey_def EmailKey_def CountryKey_def targetingKey_def)
qed

end
