(* ===== verification/AwsSsm.thy ===== *)
theory AwsSsm
  imports Provider_Contract Go_Numbers
begin

text \<open>
  The AWS Systems Manager provider, \<^verbatim>\<open>providers/aws-ssm/provider.go\<close> and \<^verbatim>\<open>aws.go\<close>.  The client of the parameter store is a
  parameter: from a parameter's name and the decryption switch to an error, or the parameter's value and the result's metadata (the
  service documents that a successful response holds a parameter with a value).
\<close>

section \<open>State\<close>

type_synonym ssm_client = "string \<Rightarrow> bool \<Rightarrow> string + string \<times> go_any"

record aws_service =
  as_client :: ssm_client
  as_decryption :: bool

definition newAWSService :: "ssm_client \<Rightarrow> aws_service" where
  "newAWSService client = \<lparr>as_client = client, as_decryption = False\<rparr>"

definition WithDecryption :: "aws_service \<Rightarrow> aws_service" where
  "WithDecryption p = p\<lparr>as_decryption := True\<rparr>"

definition aws_NewProvider :: "ssm_client \<Rightarrow> (aws_service \<Rightarrow> aws_service) list \<Rightarrow> aws_service" where
  "aws_NewProvider client opts = foldl (\<lambda>p opt. opt p) (newAWSService client) opts"

section \<open>Parsing\<close>

text \<open>\<^verbatim>\<open>strconv.ParseBool\<close>.\<close>

definition ParseBool :: "string \<Rightarrow> bool option" where
  "ParseBool s =
     (if s \<in> set [''1'', ''t'', ''T'', ''TRUE'', ''true'', ''True''] then Some True
      else if s \<in> set [''0'', ''f'', ''F'', ''FALSE'', ''false'', ''False''] then Some False
      else None)"

text \<open>The text of the parsers' errors: \<open>parse_error\<close> is a parameter, from the parser's name and the input.\<close>

type_synonym parse_error = "string \<Rightarrow> string \<Rightarrow> string"

section \<open>Resolution\<close>

definition SSMMetadataKey :: string where "SSMMetadataKey = ''SSMMetadata''"

definition getValueFromSSM :: "aws_service \<Rightarrow> string \<Rightarrow> string + string \<times> go_any" where
  "getValueFromSSM svc flag = as_client svc flag (as_decryption svc)"

definition ssm_detail :: "go_any \<Rightarrow> provider_detail" where
  "ssm_detail meta = empty_detail\<lparr>Reason := StaticReason, FlagMetadata := Some [SSMMetadataKey \<mapsto> meta]\<rparr>"

text \<open>What the typed resolutions have in common: the parameter, and its text parsed by \<open>parse\<close>.\<close>

definition aws_resolve :: "(string \<Rightarrow> string + 'v) \<Rightarrow> aws_service \<Rightarrow> 'v evaluation" where
  "aws_resolve parse svc flag defaultValue evalCtx =
     (case getValueFromSSM svc flag of
        Inl err \<Rightarrow> error_result defaultValue (NewGeneralResolutionError err)
      | Inr (text, meta) \<Rightarrow>
          (case parse text of
             Inl err \<Rightarrow> error_result defaultValue (NewGeneralResolutionError err)
           | Inr v \<Rightarrow> \<lparr>Value = v, Detail = ssm_detail meta\<rparr>))"

definition parsed :: "parse_error \<Rightarrow> string \<Rightarrow> (string \<Rightarrow> 'v option) \<Rightarrow> string \<Rightarrow> string + 'v" where
  "parsed errs name parse s = (case parse s of None \<Rightarrow> Inl (errs name s) | Some v \<Rightarrow> Inr v)"

definition aws_ResolveBoolean :: "parse_error \<Rightarrow> aws_service \<Rightarrow> bool evaluation" where
  "aws_ResolveBoolean errs = aws_resolve (parsed errs ''ParseBool'' ParseBool)"
definition aws_ResolveString :: "aws_service \<Rightarrow> string evaluation" where
  "aws_ResolveString = aws_resolve Inr"
definition aws_ResolveInt :: "parse_error \<Rightarrow> aws_service \<Rightarrow> int64 evaluation" where
  "aws_ResolveInt errs = aws_resolve (parsed errs ''ParseInt'' (map_option word_of_int \<circ> atoi))"
definition aws_ResolveFloat :: "(string \<Rightarrow> float64 option) \<Rightarrow> parse_error \<Rightarrow> aws_service \<Rightarrow> float64 evaluation" where
  "aws_ResolveFloat ParseFloat errs = aws_resolve (parsed errs ''ParseFloat'' ParseFloat)"

definition aws_ResolveObject :: "aws_service \<Rightarrow> go_any evaluation" where
  "aws_ResolveObject svc flag defaultValue evalCtx =
     (case getValueFromSSM svc flag of
        Inl err \<Rightarrow> error_result defaultValue (NewGeneralResolutionError err)
      | Inr (text, meta) \<Rightarrow> \<lparr>Value = defaultValue, Detail = ssm_detail meta\<rparr>)"

definition aws_feature_provider :: "(string \<Rightarrow> float64 option) \<Rightarrow> parse_error \<Rightarrow> aws_service \<Rightarrow> feature_provider" where
  "aws_feature_provider ParseFloat errs p =
     \<lparr>p_Name = ''AWS System Manager Provider'', p_Boolean = aws_ResolveBoolean errs p, p_String = aws_ResolveString p,
      p_Float = aws_ResolveFloat ParseFloat errs p, p_Int = aws_ResolveInt errs p, p_Object = aws_ResolveObject p, p_Init = None\<rparr>"

lemma ssm_detail_ok [simp]: "\<not> has_error (ssm_detail meta)"
  by (simp add: ssm_detail_def)

lemma aws_resolve_honest: "default_on_error (aws_resolve parse svc)"
  by (rule default_on_errorI) (auto simp: aws_resolve_def split: sum.splits prod.splits)

lemma aws_object_honest: "default_on_error (aws_ResolveObject svc)"
  by (rule default_on_errorI) (auto simp: aws_ResolveObject_def split: sum.splits)

interpretation aws: honest_provider "aws_feature_provider ParseFloat errs p" for ParseFloat errs p
  by unfold_locales
    (simp_all add: aws_feature_provider_def aws_ResolveBoolean_def aws_ResolveString_def aws_ResolveInt_def aws_ResolveFloat_def
      aws_resolve_honest aws_object_honest)

text \<open>
  C40: An integer stored as text is read back, and text that is no 64-bit integer gives the default with an error.
\<close>

theorem aws_int_roundtrip:
  assumes "getValueFromSSM svc flag = Inr (text, meta)"
  shows "(\<forall>n. text = int_to_string (sint n) \<longrightarrow> aws_ResolveInt errs svc flag d ctx = \<lparr>Value = n, Detail = ssm_detail meta\<rparr>)
    \<and> (atoi text = None \<longrightarrow> Value (aws_ResolveInt errs svc flag d ctx) = d \<and> has_error (Detail (aws_ResolveInt errs svc flag d ctx)))"
  using assms by (simp add: aws_ResolveInt_def aws_resolve_def parsed_def atoi_int_to_string in_int64_sint)

theorem aws_int_roundtrip_witness:
  "aws_ResolveInt (\<lambda>_ _. []) (newAWSService (\<lambda>_ _. Inr (int_to_string (sint (-7 :: int64)), VNil))) ''f'' 0 None = \<lparr>Value = -7, Detail = ssm_detail VNil\<rparr>"
proof -
  have "getValueFromSSM (newAWSService (\<lambda>_ _. Inr (int_to_string (sint (-7 :: int64)), VNil))) ''f'' = Inr (int_to_string (sint (-7 :: int64)), VNil)"
    by (simp add: getValueFromSSM_def newAWSService_def)
  from aws_int_roundtrip [OF this] show ?thesis by blast
qed

text \<open>
  An object evaluation returns the default whatever the parameter holds, and reports a stored parameter's value as found.
\<close>

theorem aws_object_ignores_parameter:
  "Value (aws_ResolveObject svc flag d ctx) = d \<and>
   (case getValueFromSSM svc flag of
      Inl err \<Rightarrow> has_error (Detail (aws_ResolveObject svc flag d ctx))
    | Inr (text, meta) \<Rightarrow> Detail (aws_ResolveObject svc flag d ctx) = ssm_detail meta)"
  by (auto simp: aws_ResolveObject_def split: sum.split)

end
