(* ===== verification/Flagsmith.thy ===== *)
theory Flagsmith
  imports Provider_Contract Go_Numbers
begin

text \<open>
  The Flagsmith provider, \<^verbatim>\<open>providers/flagsmith/pkg/provider.go\<close>.  The Flagsmith client is a parameter.
\<close>

section \<open>State\<close>

text \<open>
  The client: the flags of an identity with its traits, the flags of the environment, the look-up in a set of flags, which gives the flag's
  switch and value; from the standard library, the parsers of floats and of JSON and the printed form of a value.
\<close>

record ('c, 'f) flagsmith_library =
  fm_GetIdentityFlags :: "'c \<Rightarrow> string \<Rightarrow> (string \<times> go_any) list \<Rightarrow> string + 'f"
  fm_GetEnvironmentFlags :: "'c \<Rightarrow> string + 'f"
  fm_GetFlag :: "'f \<Rightarrow> string \<Rightarrow> string + bool \<times> go_any"
  fm_ParseFloat :: "string \<Rightarrow> float64 option"
  fm_unmarshal :: "string \<Rightarrow> go_any option"
  fm_print :: "go_any \<Rightarrow> string"
  fm_platform :: "float64 \<Rightarrow> int64"

record 'c flagsmith_provider =
  fp_client :: 'c
  fp_usingBooleanConfigValue :: bool

type_synonym 'c flagsmith_option = "'c flagsmith_provider \<Rightarrow> 'c flagsmith_provider"

definition WithUsingBooleanConfigValue :: "'c flagsmith_option" where
  "WithUsingBooleanConfigValue p = p\<lparr>fp_usingBooleanConfigValue := True\<rparr>"

definition flagsmith_NewProvider :: "'c \<Rightarrow> 'c flagsmith_option list \<Rightarrow> 'c flagsmith_provider" where
  "flagsmith_NewProvider client opts = foldl (\<lambda>p opt. opt p) \<lparr>fp_client = client, fp_usingBooleanConfigValue = False\<rparr> opts"

section \<open>Resolution\<close>

definition flagsmith_traits :: "((string \<rightharpoonup> go_any) \<Rightarrow> string list) \<Rightarrow> (string \<rightharpoonup> go_any) \<Rightarrow> (string \<times> go_any) list" where
  "flagsmith_traits order m = map (\<lambda>k. (k, the (m k))) (filter (\<lambda>k. k \<noteq> targetingKey) (order m))"

definition flagsmith_resolveFlag ::
  "('c, 'f) flagsmith_library \<Rightarrow> ((string \<rightharpoonup> go_any) \<Rightarrow> string list) \<Rightarrow> 'c flagsmith_provider \<Rightarrow> go_any evaluation" where
  "flagsmith_resolveFlag lib order p flag defaultValue evalCtx =
     (let found = (\<lambda>reason flags.
            case fm_GetFlag lib flags flag of
              Inl err \<Rightarrow> error_result defaultValue (NewFlagNotFoundResolutionError err)
            | Inr (enabled, v) \<Rightarrow>
                if \<not> enabled then \<lparr>Value = defaultValue, Detail = empty_detail\<lparr>Reason := DisabledReason\<rparr>\<rparr>
                else \<lparr>Value = v, Detail = empty_detail\<lparr>Reason := reason\<rparr>\<rparr>)
      in case map_get evalCtx targetingKey of
           Some key \<Rightarrow>
             (case key of
                VString targetKey \<Rightarrow>
                  (case fm_GetIdentityFlags lib (fp_client p) targetKey (flagsmith_traits order (map_view evalCtx)) of
                     Inl err \<Rightarrow> error_result defaultValue (NewGeneralResolutionError err)
                   | Inr flags \<Rightarrow> found TargetingMatchReason flags)
              | _ \<Rightarrow> error_result defaultValue (NewInvalidContextResolutionError ''flagsmith: targeting key is not a string''))
         | None \<Rightarrow>
             (case fm_GetEnvironmentFlags lib (fp_client p) of
                Inl err \<Rightarrow> error_result defaultValue (NewGeneralResolutionError err)
              | Inr flags \<Rightarrow> found StaticReason flags))"

section \<open>Evaluation\<close>

definition flagsmith_mismatch :: "('c, 'f) flagsmith_library \<Rightarrow> string \<Rightarrow> 'v \<Rightarrow> go_any \<Rightarrow> 'v resolution_detail" where
  "flagsmith_mismatch lib type_name defaultValue v =
     error_result defaultValue (NewTypeMismatchResolutionError (''flagsmith: Value '' @ fm_print lib v @ '' is not a valid '' @ type_name))"

definition flagsmith_BooleanEvaluation ::
  "('c, 'f) flagsmith_library \<Rightarrow> ((string \<rightharpoonup> go_any) \<Rightarrow> string list) \<Rightarrow> 'c flagsmith_provider \<Rightarrow> bool evaluation" where
  "flagsmith_BooleanEvaluation lib order p flag defaultValue evalCtx =
     (let res = flagsmith_resolveFlag lib order p flag (VBool defaultValue) evalCtx
      in if has_error (Detail res) then \<lparr>Value = defaultValue, Detail = Detail res\<rparr>
         else if fp_usingBooleanConfigValue p
           then \<lparr>Value = (Reason (Detail res) \<noteq> DisabledReason), Detail = empty_detail\<lparr>Reason := StaticReason\<rparr>\<rparr>
         else if Reason (Detail res) = DisabledReason then \<lparr>Value = defaultValue, Detail = Detail res\<rparr>
         else (case Value res of
                 VBool v \<Rightarrow> \<lparr>Value = v, Detail = Detail res\<rparr>
               | _ \<Rightarrow> flagsmith_mismatch lib ''boolean'' defaultValue (Value res)))"

text \<open>What the other evaluations have in common: errors and disabled flags give the default; \<open>convert\<close> decides about a value.\<close>

definition flagsmith_evaluate ::
  "('v \<Rightarrow> go_any) \<Rightarrow> (go_any \<Rightarrow> 'v option) \<Rightarrow> string \<Rightarrow>
   ('c, 'f) flagsmith_library \<Rightarrow> ((string \<rightharpoonup> go_any) \<Rightarrow> string list) \<Rightarrow> 'c flagsmith_provider \<Rightarrow> 'v evaluation" where
  "flagsmith_evaluate wrap convert type_name lib order p flag defaultValue evalCtx =
     (let res = flagsmith_resolveFlag lib order p flag (wrap defaultValue) evalCtx
      in if has_error (Detail res) \<or> Reason (Detail res) = DisabledReason then \<lparr>Value = defaultValue, Detail = Detail res\<rparr>
         else (case convert (Value res) of
                 Some v \<Rightarrow> \<lparr>Value = v, Detail = Detail res\<rparr>
               | None \<Rightarrow> flagsmith_mismatch lib type_name defaultValue (Value res)))"

definition flagsmith_StringEvaluation where
  "flagsmith_StringEvaluation = flagsmith_evaluate VString (\<lambda>v. case v of VString s \<Rightarrow> Some s | _ \<Rightarrow> None) ''string''"

definition flagsmith_FloatEvaluation where
  "flagsmith_FloatEvaluation lib = flagsmith_evaluate VFloat64 (\<lambda>v. case v of VString s \<Rightarrow> fm_ParseFloat lib s | _ \<Rightarrow> None) ''float'' lib"

definition flagsmith_IntEvaluation where
  "flagsmith_IntEvaluation lib =
     flagsmith_evaluate VInt64 (\<lambda>v. case v of VFloat64 x \<Rightarrow> Some (int64_of_float (fm_platform lib) x) | _ \<Rightarrow> None) ''int'' lib"

definition flagsmith_ObjectEvaluation where
  "flagsmith_ObjectEvaluation lib = flagsmith_evaluate id (\<lambda>v. case v of VString s \<Rightarrow> fm_unmarshal lib s | _ \<Rightarrow> None) ''object'' lib"

definition flagsmith_feature_provider ::
  "('c, 'f) flagsmith_library \<Rightarrow> ((string \<rightharpoonup> go_any) \<Rightarrow> string list) \<Rightarrow> 'c flagsmith_provider \<Rightarrow> feature_provider" where
  "flagsmith_feature_provider lib order p =
     \<lparr>p_Name = ''Flagsmith'', p_Boolean = flagsmith_BooleanEvaluation lib order p, p_String = flagsmith_StringEvaluation lib order p,
      p_Float = flagsmith_FloatEvaluation lib order p, p_Int = flagsmith_IntEvaluation lib order p,
      p_Object = flagsmith_ObjectEvaluation lib order p, p_Init = None\<rparr>"

lemma flagsmith_evaluate_honest: "default_on_error (flagsmith_evaluate wrap convert type_name lib order p)"
  by (rule default_on_errorI) (auto simp: flagsmith_evaluate_def flagsmith_mismatch_def Let_def split: option.splits if_splits)

lemma flagsmith_bool_honest: "default_on_error (flagsmith_BooleanEvaluation lib order p)"
  by (rule default_on_errorI) (auto simp: flagsmith_BooleanEvaluation_def flagsmith_mismatch_def Let_def split: go_any.splits if_splits)

interpretation flagsmith: honest_provider "flagsmith_feature_provider lib order p" for lib order p
  by unfold_locales
    (simp_all add: flagsmith_feature_provider_def flagsmith_StringEvaluation_def flagsmith_FloatEvaluation_def flagsmith_IntEvaluation_def
      flagsmith_ObjectEvaluation_def flagsmith_evaluate_honest flagsmith_bool_honest)

section \<open>What an evaluation returns\<close>

text \<open>The flag an evaluation finds: its switch and value, and the reason if it is enabled.\<close>

definition flagsmith_found ::
  "('c, 'f) flagsmith_library \<Rightarrow> ((string \<rightharpoonup> go_any) \<Rightarrow> string list) \<Rightarrow> 'c flagsmith_provider \<Rightarrow> string \<Rightarrow> go_map \<Rightarrow> (bool \<times> go_any \<times> string) option" where
  "flagsmith_found lib order p flag evalCtx =
     (let find = (\<lambda>reason r. case r of Inl e \<Rightarrow> None
            | Inr flags \<Rightarrow> (case fm_GetFlag lib flags flag of Inl e \<Rightarrow> None | Inr (enabled, v) \<Rightarrow> Some (enabled, v, reason)))
      in case map_get evalCtx targetingKey of
           None \<Rightarrow> find StaticReason (fm_GetEnvironmentFlags lib (fp_client p))
         | Some (VString key) \<Rightarrow>
             find TargetingMatchReason (fm_GetIdentityFlags lib (fp_client p) key (flagsmith_traits order (map_view evalCtx)))
         | Some _ \<Rightarrow> None)"

lemma flagsmith_resolveFlag_cases:
  "(case flagsmith_found lib order p flag ctx of
      None \<Rightarrow> Value (flagsmith_resolveFlag lib order p flag d ctx) = d \<and> has_error (Detail (flagsmith_resolveFlag lib order p flag d ctx))
    | Some (enabled, v, reason) \<Rightarrow> reason \<noteq> DisabledReason \<and> flagsmith_resolveFlag lib order p flag d ctx =
        (if enabled then \<lparr>Value = v, Detail = empty_detail\<lparr>Reason := reason\<rparr>\<rparr>
         else \<lparr>Value = d, Detail = empty_detail\<lparr>Reason := DisabledReason\<rparr>\<rparr>))"
proof -
  have r: "StaticReason \<noteq> DisabledReason" "TargetingMatchReason \<noteq> DisabledReason" by (simp_all add: reason_defs)
  show ?thesis
  proof (cases "map_get ctx targetingKey")
    case None
    with r show ?thesis by (auto simp: flagsmith_found_def flagsmith_resolveFlag_def Let_def split: sum.split)
  next
    case (Some key)
    with r show ?thesis by (cases key) (auto simp: flagsmith_found_def flagsmith_resolveFlag_def Let_def split: sum.split)
  qed
qed

text \<open>
  With the option to use the switch as value, a boolean evaluation returns whether the flag is enabled, and fails only when the flag
  cannot be found.  Without it, a disabled flag gives the default, an enabled flag its value if that is a truth value, and else
  the default with a type error.
\<close>

theorem flagsmith_boolean_correct:
  "(case flagsmith_found lib order p flag ctx of
      None \<Rightarrow> Value (flagsmith_BooleanEvaluation lib order p flag d ctx) = d \<and> has_error (Detail (flagsmith_BooleanEvaluation lib order p flag d ctx))
    | Some (enabled, v, reason) \<Rightarrow>
        (if fp_usingBooleanConfigValue p
         then flagsmith_BooleanEvaluation lib order p flag d ctx = \<lparr>Value = enabled, Detail = empty_detail\<lparr>Reason := StaticReason\<rparr>\<rparr>
         else if \<not> enabled
         then flagsmith_BooleanEvaluation lib order p flag d ctx = \<lparr>Value = d, Detail = empty_detail\<lparr>Reason := DisabledReason\<rparr>\<rparr>
         else (case v of
             VBool b \<Rightarrow> flagsmith_BooleanEvaluation lib order p flag d ctx = \<lparr>Value = b, Detail = empty_detail\<lparr>Reason := reason\<rparr>\<rparr>
           | _ \<Rightarrow> Value (flagsmith_BooleanEvaluation lib order p flag d ctx) = d \<and>
               has_code (ResolutionError (Detail (flagsmith_BooleanEvaluation lib order p flag d ctx))) TypeMismatchCode)))"
proof (cases "flagsmith_found lib order p flag ctx")
  case None
  then show ?thesis
    using flagsmith_resolveFlag_cases [where lib = lib and order = order and p = p and flag = flag and ctx = ctx and d = "VBool d"]
    by (simp add: flagsmith_BooleanEvaluation_def Let_def)
next
  case (Some found)
  then obtain enabled v reason where f: "flagsmith_found lib order p flag ctx = Some (enabled, v, reason)" by (cases found) auto
  have r: "reason \<noteq> DisabledReason" and res: "flagsmith_resolveFlag lib order p flag (VBool d) ctx =
      (if enabled then \<lparr>Value = v, Detail = empty_detail\<lparr>Reason := reason\<rparr>\<rparr>
       else \<lparr>Value = VBool d, Detail = empty_detail\<lparr>Reason := DisabledReason\<rparr>\<rparr>)"
    using flagsmith_resolveFlag_cases [where lib = lib and order = order and p = p and flag = flag and ctx = ctx and d = "VBool d"] f by simp_all
  show ?thesis
  proof (cases enabled)
    case True
    with r show ?thesis
      by (cases v) (simp_all add: f flagsmith_BooleanEvaluation_def res flagsmith_mismatch_def Let_def)
  next
    case False
    with r show ?thesis by (simp add: f flagsmith_BooleanEvaluation_def res Let_def)
  qed
qed

text \<open>
  An integer flag, which the service sends as a JSON number, is the integer it was when it has at most 53 bits.
\<close>

theorem flagsmith_int_correct:
  assumes "flagsmith_found lib order p flag ctx = Some (True, VFloat64 (float_of_int64 n), reason)" "nat \<bar>sint n\<bar> < 2 ^ 53"
  shows "flagsmith_IntEvaluation lib order p flag d ctx = \<lparr>Value = n, Detail = empty_detail\<lparr>Reason := reason\<rparr>\<rparr>"
  using flagsmith_resolveFlag_cases [where lib = lib and order = order and p = p and flag = flag and ctx = ctx and d = "VInt64 d"] assms
  by (simp add: flagsmith_IntEvaluation_def flagsmith_evaluate_def Let_def float_of_int64_def int64_of_float_exact)

definition flagsmith_constant :: "go_any \<Rightarrow> (unit, unit) flagsmith_library" where
  "flagsmith_constant v = \<lparr>fm_GetIdentityFlags = \<lambda>_ _ _. Inr (), fm_GetEnvironmentFlags = \<lambda>_. Inr (), fm_GetFlag = \<lambda>_ _. Inr (True, v),
     fm_ParseFloat = \<lambda>_. None, fm_unmarshal = \<lambda>_. None, fm_print = \<lambda>_. [], fm_platform = \<lambda>_. 0\<rparr>"

theorem flagsmith_int_correct_witness:
  "flagsmith_IntEvaluation (flagsmith_constant (VFloat64 (float_of_int64 (-5)))) some_order (flagsmith_NewProvider () []) ''f'' 0 None =
     \<lparr>Value = -5, Detail = empty_detail\<lparr>Reason := StaticReason\<rparr>\<rparr>"
  by (rule flagsmith_int_correct) (simp_all add: flagsmith_found_def flagsmith_constant_def)

text \<open>A number with a fraction is not refused but cut: 1.5 is evaluated to 1 without an error.\<close>

lemma flagsmith_int_cuts:
  "flagsmith_IntEvaluation (flagsmith_constant (VFloat64 (make_float False 1023 (2 ^ 51)))) some_order (flagsmith_NewProvider () []) ''f'' 0 None =
     \<lparr>Value = 1, Detail = empty_detail\<lparr>Reason := StaticReason\<rparr>\<rparr>"
proof -
  have "int64_of_float platform (make_float False 1023 (2 ^ 51)) = 1" for platform
    using make_float_fields [of 1023 "2 ^ 51" False]
    by (simp add: int64_of_float_def float_finite_def float_trunc_def float_magnitude_def float_mantissa_def in_int64_def Let_def)
  with flagsmith_resolveFlag_cases [where lib = "flagsmith_constant (VFloat64 (make_float False 1023 (2 ^ 51)))" and order = some_order
        and p = "flagsmith_NewProvider () []" and flag = "''f''" and ctx = None and d = "VInt64 0"]
  show ?thesis
    by (simp add: flagsmith_IntEvaluation_def flagsmith_evaluate_def Let_def flagsmith_found_def flagsmith_constant_def)
qed

end
