(* ===== verification/GOFF_Module.thy ===== *)
theory GOFF_Module
  imports Provider_Contract
begin

text \<open>
  The provider that runs the GO Feature Flag module in its own process, \<^verbatim>\<open>providers/go-feature-flag-in-process/pkg\<close>
  (\<^verbatim>\<open>provider.go\<close>, \<^verbatim>\<open>eval_request.go\<close>, \<^verbatim>\<open>provider_options.go\<close>).  The module is a parameter.
\<close>

section \<open>State\<close>

text \<open>The raw result of an evaluation by the module.\<close>

record module_result =
  rr_Value :: go_any
  rr_ErrorCode :: string
  rr_Reason :: string
  rr_VariationType :: string

text \<open>
  The module: its constructor, its evaluation from the flag, the context's key, the attributes in the order they are added and the default,
  with whether it failed, and its end.
\<close>

record ('g, 'm) goff_module =
  gm_New :: "'g \<Rightarrow> string + 'm"
  gm_RawVariation :: "'m \<Rightarrow> string \<Rightarrow> string \<Rightarrow> (string \<times> go_any) list \<Rightarrow> go_any \<Rightarrow> module_result \<times> bool"
  gm_Close :: "'m \<Rightarrow> unit outcome"

definition module_NewProviderWithContext :: "('g, 'm) goff_module \<Rightarrow> 'g option \<Rightarrow> string + 'm" where
  "module_NewProviderWithContext lib config =
     (case config of
        None \<Rightarrow> Inl ''invalid provider options, empty GOFeatureFlagConfig value''
      | Some config \<Rightarrow> gm_New lib config)"

definition module_NewProvider :: "('g, 'm) goff_module \<Rightarrow> 'g option \<Rightarrow> string + 'm" where
  "module_NewProvider lib config = module_NewProviderWithContext lib config"

definition module_Shutdown :: "('g, 'm) goff_module \<Rightarrow> 'm \<Rightarrow> unit outcome" where
  "module_Shutdown lib p = gm_Close lib p"

section \<open>Requests\<close>

record user_request =
  ur_Key :: string
  ur_Anonymous :: bool
  ur_Custom :: go_map

record context_request =
  er_Key :: string
  er_Custom :: go_map

record flag_request =
  fr_User :: user_request
  fr_EvaluationContext :: context_request
  fr_DefaultValue :: go_any

definition NewEvalFlagRequest :: "go_map \<Rightarrow> go_any \<Rightarrow> resolution_error + flag_request" where
  "NewEvalFlagRequest flatCtx defaultValue =
     (case map_get flatCtx targetingKey of
        None \<Rightarrow> Inl (NewTargetingKeyMissingResolutionError ''no targetingKey provided in the evaluation context'')
      | Some (VString key) \<Rightarrow>
          (let anonymous = (case map_get flatCtx ''anonymous'' of Some (VBool val) \<Rightarrow> val | _ \<Rightarrow> True)
           in Inr \<lparr>fr_User = \<lparr>ur_Key = key, ur_Anonymous = anonymous, ur_Custom = flatCtx\<rparr>,
                   fr_EvaluationContext = \<lparr>er_Key = key, er_Custom = flatCtx\<rparr>, fr_DefaultValue = defaultValue\<rparr>)
      | Some _ \<Rightarrow> Inl (NewTargetingKeyMissingResolutionError ''targetingKey field MUST be a string''))"

section \<open>Evaluation\<close>

text \<open>The error of a failed evaluation, by its code; \<open>None\<close>: no case of the switch.\<close>

definition module_error :: "string \<Rightarrow> string \<Rightarrow> resolution_error option" where
  "module_error code flag =
     (if code = code_string FlagNotFoundCode
      then Some (NewFlagNotFoundResolutionError (''flag '' @ flag @ '' was not found in GO Feature Flag''))
      else if code = code_string ProviderNotReadyCode
      then Some (NewProviderNotReadyResolutionError (''provider not ready for evaluation of flag '' @ flag))
      else if code = code_string ParseErrorCode
      then Some (NewParseErrorResolutionError (''parse error during evaluation of flag '' @ flag))
      else if code = code_string TypeMismatchCode
      then Some (NewTypeMismatchResolutionError (''unexpected type for flag '' @ flag))
      else if code = code_string GeneralCode
      then Some (NewGeneralResolutionError (''unexpected error during evaluation of the flag '' @ flag))
      else None)"

definition widen_int :: "go_any \<Rightarrow> go_any" where
  "widen_int v = (case v of VInt i \<Rightarrow> VInt64 i | _ \<Rightarrow> v)"

text \<open>The switch on the value: \<open>zero\<close> is the wanted type's zero value, \<open>cast\<close> its type assertion.\<close>

definition module_value :: "(go_any \<Rightarrow> 'v option) \<Rightarrow> 'v \<Rightarrow> string \<Rightarrow> 'v \<Rightarrow> module_result \<Rightarrow> 'v resolution_detail" where
  "module_value cast zero flag defaultValue raw =
     (let v = widen_int (rr_Value raw);
          found = empty_detail\<lparr>Reason := rr_Reason raw, Variant := rr_VariationType raw\<rparr>
      in if v = VNil then \<lparr>Value = zero, Detail = found\<rparr>
         else (case cast v of
                 Some value \<Rightarrow> \<lparr>Value = value, Detail = found\<rparr>
               | None \<Rightarrow> error_result defaultValue (NewTypeMismatchResolutionError (''unexpected type for flag '' @ flag))))"

definition evaluateLocally ::
  "('v \<Rightarrow> go_any) \<Rightarrow> (go_any \<Rightarrow> 'v option) \<Rightarrow> 'v \<Rightarrow>
   ('g, 'm) goff_module \<Rightarrow> ((string \<rightharpoonup> go_any) \<Rightarrow> string list) \<Rightarrow> 'm \<Rightarrow> 'v evaluation" where
  "evaluateLocally wrap cast zero lib order p flag defaultValue evalCtx =
     (case NewEvalFlagRequest evalCtx (wrap defaultValue) of
        Inl err \<Rightarrow> error_result defaultValue err
      | Inr request \<Rightarrow>
          (let ctx = fr_EvaluationContext request;
               custom = map_view (er_Custom ctx);
               (raw, failed) = gm_RawVariation lib p flag (er_Key ctx) (map (\<lambda>k. (k, the (custom k))) (order custom)) (wrap defaultValue)
           in case (if failed then module_error (rr_ErrorCode raw) flag else None) of
                Some err \<Rightarrow> error_result defaultValue err
              | None \<Rightarrow> module_value cast zero flag defaultValue raw))"

definition module_BooleanEvaluation where
  "module_BooleanEvaluation = evaluateLocally VBool (\<lambda>v. case v of VBool b \<Rightarrow> Some b | _ \<Rightarrow> None) False"
definition module_StringEvaluation where
  "module_StringEvaluation = evaluateLocally VString (\<lambda>v. case v of VString s \<Rightarrow> Some s | _ \<Rightarrow> None) []"
definition module_FloatEvaluation where
  "module_FloatEvaluation = evaluateLocally VFloat64 (\<lambda>v. case v of VFloat64 x \<Rightarrow> Some x | _ \<Rightarrow> None) (Float64 0)"
definition module_IntEvaluation where
  "module_IntEvaluation = evaluateLocally VInt64 (\<lambda>v. case v of VInt64 i \<Rightarrow> Some i | _ \<Rightarrow> None) 0"
definition module_ObjectEvaluation where
  "module_ObjectEvaluation = evaluateLocally id Some VNil"

definition module_feature_provider ::
  "('g, 'm) goff_module \<Rightarrow> ((string \<rightharpoonup> go_any) \<Rightarrow> string list) \<Rightarrow> 'm \<Rightarrow> feature_provider" where
  "module_feature_provider lib order p =
     \<lparr>p_Name = ''GO Feature Flag In Process Provider'', p_Boolean = module_BooleanEvaluation lib order p,
      p_String = module_StringEvaluation lib order p, p_Float = module_FloatEvaluation lib order p,
      p_Int = module_IntEvaluation lib order p, p_Object = module_ObjectEvaluation lib order p, p_Init = Some (\<lambda>ctx. None)\<rparr>"

lemma module_error_Some: "module_error code flag = Some err \<Longrightarrow> err \<noteq> NoResolutionError"
  by (auto simp: module_error_def split: if_splits)

lemma request_error: "NewEvalFlagRequest ctx d = Inl err \<Longrightarrow> err \<noteq> NoResolutionError"
  by (auto simp: NewEvalFlagRequest_def Let_def split: option.splits go_any.splits)

lemma evaluateLocally_honest: "default_on_error (evaluateLocally wrap cast zero lib order p)"
  by (rule default_on_errorI)
    (auto simp: evaluateLocally_def module_value_def Let_def split: sum.splits prod.splits option.splits if_splits)

interpretation goff_module: honest_provider "module_feature_provider lib order p" for lib order p
  by unfold_locales
    (simp_all add: module_feature_provider_def module_BooleanEvaluation_def module_StringEvaluation_def module_FloatEvaluation_def
      module_IntEvaluation_def module_ObjectEvaluation_def evaluateLocally_honest)

text \<open>
  An integer evaluation of a flag that the module evaluates to an \<^verbatim>\<open>int\<close> or an \<^verbatim>\<open>int64\<close> is that integer; a failure whose code is one
  of the five that the switch knows gives the default and this very code.
\<close>

theorem module_int_correct:
  assumes "map_get ctx targetingKey = Some (VString key)"
    and raw: "gm_RawVariation lib p flag key (map (\<lambda>k. (k, the (map_view ctx k))) (order (map_view ctx))) (VInt64 d) = (raw, failed)"
  shows "(\<not> failed \<longrightarrow> rr_Value raw \<in> {VInt n, VInt64 n} \<longrightarrow> module_IntEvaluation lib order p flag d ctx =
        \<lparr>Value = n, Detail = empty_detail\<lparr>Reason := rr_Reason raw, Variant := rr_VariationType raw\<rparr>\<rparr>)
    \<and> (failed \<longrightarrow> c \<in> {FlagNotFoundCode, ProviderNotReadyCode, ParseErrorCode, TypeMismatchCode, GeneralCode} \<longrightarrow> rr_ErrorCode raw = code_string c \<longrightarrow>
        Value (module_IntEvaluation lib order p flag d ctx) = d \<and>
        has_code (ResolutionError (Detail (module_IntEvaluation lib order p flag d ctx))) c)"
proof -
  have e: "module_IntEvaluation lib order p flag d ctx =
      (case (if failed then module_error (rr_ErrorCode raw) flag else None) of
         Some err \<Rightarrow> error_result d err
       | None \<Rightarrow> module_value (\<lambda>v. case v of VInt64 i \<Rightarrow> Some i | _ \<Rightarrow> None) 0 flag d raw)"
    using assms by (simp add: module_IntEvaluation_def evaluateLocally_def NewEvalFlagRequest_def Let_def)
  show ?thesis
    unfolding e by (auto simp: module_value_def widen_int_def module_error_def Let_def)
qed

definition module_constant :: "module_result \<Rightarrow> bool \<Rightarrow> (unit, unit) goff_module" where
  "module_constant raw failed = \<lparr>gm_New = \<lambda>_. Inr (), gm_RawVariation = \<lambda>_ _ _ _ _. (raw, failed), gm_Close = \<lambda>_. Return ()\<rparr>"

theorem module_int_correct_witness:
  "Value (module_IntEvaluation (module_constant \<lparr>rr_Value = VInt 7, rr_ErrorCode = [], rr_Reason = [], rr_VariationType = ''a''\<rparr> False)
     some_order () ''f'' 0 (Some [targetingKey \<mapsto> VString ''u''])) = 7"
proof -
  let ?raw = "\<lparr>rr_Value = VInt 7, rr_ErrorCode = [], rr_Reason = [], rr_VariationType = ''a''\<rparr>"
  have k: "map_get (Some [targetingKey \<mapsto> VString ''u'']) targetingKey = Some (VString ''u'')" by simp
  have r: "gm_RawVariation (module_constant ?raw False) () ''f'' ''u'' xs (VInt64 0) = (?raw, False)" for xs by (simp add: module_constant_def)
  from module_int_correct [OF k r, where n = 7] show ?thesis by simp
qed

text \<open>
  A failure with any other code is not reported: the evaluation returns the module's value, or, when there is none, the zero value of the type in
  place of the default.
\<close>

theorem module_unknown_error_dropped:
  "module_IntEvaluation (module_constant \<lparr>rr_Value = VNil, rr_ErrorCode = code_string InvalidContextCode, rr_Reason = r, rr_VariationType = v\<rparr> True)
     order () flag 42 (Some [targetingKey \<mapsto> VString key]) = \<lparr>Value = 0, Detail = empty_detail\<lparr>Reason := r, Variant := v\<rparr>\<rparr>"
  by (simp add: module_IntEvaluation_def evaluateLocally_def NewEvalFlagRequest_def module_constant_def module_error_def module_value_def
      widen_int_def Let_def)

end
