(* ===== verification/Flipt_Service.thy ===== *)
theory Flipt_Service
  imports Provider_Contract
begin

text \<open>
  The transport of the Flipt provider, \<^verbatim>\<open>providers/flipt/pkg/service/transport/service.go\<close>: the lazily made client and the two
  remote calls.  The URL parser, the file system, gRPC, and the client itself are parameters.
\<close>

section \<open>State\<close>

text \<open>An authentication provider, and a token provider: from the call's context, a text or an error.\<close>

type_synonym 'x auth_provider = "'x \<Rightarrow> string + string"

text \<open>\<^verbatim>\<open>WithClientTokenProvider\<close> wraps a token provider in an authentication provider.\<close>

definition bearer :: "'x auth_provider \<Rightarrow> 'x auth_provider" where
  "bearer tokens ctx = (case tokens ctx of Inl err \<Rightarrow> Inl err | Inr clientToken \<Rightarrow> Inr (''Bearer '' @ clientToken))"

text \<open>A client over HTTP, or over a gRPC connection, which is nil when dialing failed.\<close>

datatype ('x, 'h, 'k) flipt_client =
    HttpClient string 'h "'x auth_provider option"
  | GrpcClient "'k option" "'x auth_provider option"

record ('x, 'h, 'k, 'i, 'g) transport =
  ts_client :: "('x, 'h, 'k) flipt_client option"
  ts_address :: string
  ts_certificatePath :: string
  ts_unaryInterceptors :: "'i list"
  ts_once :: bool
  ts_clientAuthProvider :: "'x auth_provider option"
  ts_grpcDialOptions :: "'g list"
  ts_httpClient :: 'h

text \<open>The service's options.\<close>

definition service_WithHTTPClient :: "'h \<Rightarrow> ('x, 'h, 'k, 'i, 'g) transport \<Rightarrow> ('x, 'h, 'k, 'i, 'g) transport" where
  "service_WithHTTPClient client s = s\<lparr>ts_httpClient := client\<rparr>"
definition service_WithAddress :: "string \<Rightarrow> ('x, 'h, 'k, 'i, 'g) transport \<Rightarrow> ('x, 'h, 'k, 'i, 'g) transport" where
  "service_WithAddress address s = s\<lparr>ts_address := address\<rparr>"
definition service_WithCertificatePath :: "string \<Rightarrow> ('x, 'h, 'k, 'i, 'g) transport \<Rightarrow> ('x, 'h, 'k, 'i, 'g) transport" where
  "service_WithCertificatePath path s = s\<lparr>ts_certificatePath := path\<rparr>"
definition service_WithUnaryClientInterceptor :: "'i list \<Rightarrow> ('x, 'h, 'k, 'i, 'g) transport \<Rightarrow> ('x, 'h, 'k, 'i, 'g) transport" where
  "service_WithUnaryClientInterceptor is s = s\<lparr>ts_unaryInterceptors := is\<rparr>"
definition service_WithClientTokenProvider :: "'x auth_provider \<Rightarrow> ('x, 'h, 'k, 'i, 'g) transport \<Rightarrow> ('x, 'h, 'k, 'i, 'g) transport" where
  "service_WithClientTokenProvider tokens s = s\<lparr>ts_clientAuthProvider := Some (bearer tokens)\<rparr>"
definition service_WithClientAuthenticationProvider :: "'x auth_provider \<Rightarrow> ('x, 'h, 'k, 'i, 'g) transport \<Rightarrow> ('x, 'h, 'k, 'i, 'g) transport" where
  "service_WithClientAuthenticationProvider auth s = s\<lparr>ts_clientAuthProvider := Some auth\<rparr>"
definition service_WithGRPCDialOptions :: "'g list \<Rightarrow> ('x, 'h, 'k, 'i, 'g) transport \<Rightarrow> ('x, 'h, 'k, 'i, 'g) transport" where
  "service_WithGRPCDialOptions opts s = s\<lparr>ts_grpcDialOptions := ts_grpcDialOptions s @ opts\<rparr>"

definition defaultAddr :: string where "defaultAddr = ''http://localhost:8080''"

definition transport_New ::
  "'g \<Rightarrow> 'h \<Rightarrow> (('x, 'h, 'k, 'i, 'g) transport \<Rightarrow> ('x, 'h, 'k, 'i, 'g) transport) list \<Rightarrow> ('x, 'h, 'k, 'i, 'g) transport" where
  "transport_New stats defaultClient opts =
     foldl (\<lambda>s opt. opt s)
       \<lparr>ts_client = None, ts_address = defaultAddr, ts_certificatePath = [], ts_unaryInterceptors = [], ts_once = False,
        ts_clientAuthProvider = None, ts_grpcDialOptions = [stats], ts_httpClient = defaultClient\<rparr> opts"

section \<open>Requests and errors\<close>

record flipt_request =
  fq_EnvironmentKey :: string
  fq_NamespaceKey :: string
  fq_FlagKey :: string
  fq_EntityId :: string
  fq_RequestId :: string
  fq_Context :: "string \<rightharpoonup> string"

datatype flipt_reason = FLAG_DISABLED_EVALUATION_REASON | DEFAULT_EVALUATION_REASON | OTHER_EVALUATION_REASON int

record variant_response =
  vr_Match :: bool
  vr_Reason :: flipt_reason
  vr_VariantKey :: string
  vr_VariantAttachment :: string

text \<open>An error of a call: its text and its gRPC status, if it has one.\<close>

record grpc_error =
  ge_text :: string
  ge_status :: "(nat \<times> string) option"

definition codes_InvalidArgument :: nat where "codes_InvalidArgument = 3"
definition codes_NotFound :: nat where "codes_NotFound = 5"
definition codes_Unavailable :: nat where "codes_Unavailable = 14"

definition gRPCToOpenFeatureError :: "grpc_error \<Rightarrow> resolution_error" where
  "gRPCToOpenFeatureError err =
     (case ge_status err of
        None \<Rightarrow> NewGeneralResolutionError (''internal error: '' @ ge_text err)
      | Some (code, msg) \<Rightarrow>
          if code = codes_NotFound then NewFlagNotFoundResolutionError msg
          else if code = codes_InvalidArgument then NewInvalidContextResolutionError msg
          else if code = codes_Unavailable then NewProviderNotReadyResolutionError msg
          else NewGeneralResolutionError msg)"

text \<open>An error of the service: a resolution error, or any other error by its text.\<close>

datatype flipt_error = ResolutionFailure resolution_error | OtherFailure string

section \<open>Connecting\<close>

text \<open>
  The libraries: the scheme of a URL; the contents of a file; the TLS credentials of a certificate, if its text is valid; a gRPC client
  from the address, the credentials (\<open>None\<close>: insecure), the interceptors and the options; the client's calls; \<^verbatim>\<open>%v\<close> of the values
  that \<open>go_sprint\<close> leaves to it.
\<close>

record ('x, 'h, 'k, 'i, 'g, 'b) flipt_library =
  fl_url_scheme :: "string \<Rightarrow> string + string"
  fl_ReadFile :: "string \<Rightarrow> string + string"
  fl_tls :: "string \<Rightarrow> 'b option"
  fl_NewClient :: "string \<Rightarrow> 'b option \<Rightarrow> 'i list \<Rightarrow> 'g list \<Rightarrow> string + 'k"
  fl_Boolean :: "('x, 'h, 'k) flipt_client \<Rightarrow> flipt_request \<Rightarrow> (grpc_error + bool) outcome"
  fl_Variant :: "('x, 'h, 'k) flipt_client \<Rightarrow> flipt_request \<Rightarrow> (grpc_error + variant_response) outcome"
  fl_print :: "go_any \<Rightarrow> string"

definition loadTLSCredentials :: "('x, 'h, 'k, 'i, 'g, 'b) flipt_library \<Rightarrow> string \<Rightarrow> string + 'b" where
  "loadTLSCredentials lib serverCertPath =
     (case fl_ReadFile lib serverCertPath of
        Inl err \<Rightarrow> Inl (''failed to load certificate: '' @ err)
      | Inr pem \<Rightarrow>
          (case fl_tls lib pem of None \<Rightarrow> Inl ''failed to add server CA's certificate'' | Some creds \<Rightarrow> Inr creds))"

definition flipt_connect :: "('x, 'h, 'k, 'i, 'g, 'b) flipt_library \<Rightarrow> ('x, 'h, 'k, 'i, 'g) transport \<Rightarrow> string + 'k" where
  "flipt_connect lib s =
     (let creds = (if ts_certificatePath s \<noteq> []
            then (case loadTLSCredentials lib (ts_certificatePath s) of Inl err \<Rightarrow> None | Inr creds \<Rightarrow> Some creds)
            else None);
          address = (if prefix ''unix://'' (ts_address s) then ''passthrough:///'' @ ts_address s else ts_address s)
      in case fl_NewClient lib address creds (ts_unaryInterceptors s) (ts_grpcDialOptions s) of
           Inl err \<Rightarrow> Inl (''dialing '' @ err)
         | Inr conn \<Rightarrow> Inr conn)"

text \<open>
  \<^verbatim>\<open>instance\<close>: the client and an error, both possibly nil.  The function under \<^verbatim>\<open>sync.Once\<close> runs at most once, even if it panics.
\<close>

definition flipt_instance ::
  "('x, 'h, 'k, 'i, 'g, 'b) flipt_library \<Rightarrow> ('x, 'h, 'k, 'i, 'g) transport \<Rightarrow>
   ('x, 'h, 'k, 'i, 'g) transport \<times> (('x, 'h, 'k) flipt_client option \<times> string option) outcome" where
  "flipt_instance lib s =
     (if ts_client s \<noteq> None \<or> ts_once s then (s, Return (ts_client s, None))
      else
        let s = s\<lparr>ts_once := True\<rparr>
        in case fl_url_scheme lib (ts_address s) of
             Inl uerr \<Rightarrow> (s, Panic ''invalid memory address or nil pointer dereference'')
           | Inr scheme \<Rightarrow>
               if scheme = ''https'' \<or> scheme = ''http''
               then (let client = HttpClient (ts_address s) (ts_httpClient s) (ts_clientAuthProvider s)
                     in (s\<lparr>ts_client := Some client\<rparr>, Return (Some client, None)))
               else (let r = flipt_connect lib s;
                         client = GrpcClient (case r of Inl _ \<Rightarrow> None | Inr conn \<Rightarrow> Some conn) (ts_clientAuthProvider s);
                         err = (case r of Inl cerr \<Rightarrow> Some (''connecting '' @ cerr) | Inr _ \<Rightarrow> None)
                     in (s\<lparr>ts_client := Some client\<rparr>, Return (Some client, err))))"

section \<open>The two calls\<close>

definition convertMapInterface :: "(go_any \<Rightarrow> string) \<Rightarrow> (string \<rightharpoonup> go_any) \<Rightarrow> (string \<rightharpoonup> string)" where
  "convertMapInterface print m = (\<lambda>k. map_option (go_sprint print) (m k))"

definition string_at :: "(string \<rightharpoonup> string) \<Rightarrow> string \<Rightarrow> string" where
  "string_at m k = (case m k of None \<Rightarrow> [] | Some v \<Rightarrow> v)"

definition requestID :: string where "requestID = ''requestID''"

text \<open>What the two calls have in common; \<open>call\<close> is the client's.\<close>

definition flipt_call ::
  "(('x, 'h, 'k) flipt_client \<Rightarrow> flipt_request \<Rightarrow> (grpc_error + 'r) outcome) \<Rightarrow> ('x, 'h, 'k, 'i, 'g, 'b) flipt_library \<Rightarrow>
   ('x, 'h, 'k, 'i, 'g) transport \<Rightarrow> string \<Rightarrow> string \<Rightarrow> string \<Rightarrow> go_map \<Rightarrow> ('x, 'h, 'k, 'i, 'g) transport \<times> (flipt_error + 'r) outcome" where
  "flipt_call call lib s environmentKey namespaceKey flagKey evalCtx =
     (case evalCtx of
        None \<Rightarrow> (s, Return (Inl (ResolutionFailure (NewInvalidContextResolutionError ''evalCtx is nil''))))
      | Some m \<Rightarrow>
          (let ec = convertMapInterface (fl_print lib) m;
               key = string_at ec targetingKey
           in if key = [] then (s, Return (Inl (ResolutionFailure (NewTargetingKeyMissingResolutionError ''targetingKey is missing''))))
              else
                (case flipt_instance lib s of
                   (s, Panic msg) \<Rightarrow> (s, Panic msg)
                 | (s, Return (conn, Some err)) \<Rightarrow> (s, Return (Inl (OtherFailure err)))
                 | (s, Return (None, None)) \<Rightarrow> (s, Panic ''invalid memory address or nil pointer dereference'')
                 | (s, Return (Some conn, None)) \<Rightarrow>
                     (s, (case call conn
                            \<lparr>fq_EnvironmentKey = environmentKey, fq_NamespaceKey = namespaceKey, fq_FlagKey = flagKey, fq_EntityId = key,
                             fq_RequestId = string_at ec requestID, fq_Context = ec\<rparr> of
                            Panic msg \<Rightarrow> Panic msg
                          | Return (Inl err) \<Rightarrow> Return (Inl (ResolutionFailure (gRPCToOpenFeatureError err)))
                          | Return (Inr resp) \<Rightarrow> Return (Inr resp))))))"

definition service_Boolean where
  "service_Boolean lib = flipt_call (fl_Boolean lib) lib"
definition service_Variant where
  "service_Variant lib = flipt_call (fl_Variant lib) lib"

section \<open>The contract of a service\<close>

text \<open>A service as the provider uses it: a resolution error it returns is one.\<close>

type_synonym ('s, 'r) flipt_operation = "'s \<Rightarrow> string \<Rightarrow> string \<Rightarrow> string \<Rightarrow> go_map \<Rightarrow> 's \<times> (flipt_error + 'r) outcome"

locale flipt_service =
  fixes variant :: "('s, variant_response) flipt_operation"
    and boolean :: "('s, bool) flipt_operation"
  assumes variant_error: "snd (variant s e n f ctx) = Return (Inl (ResolutionFailure err)) \<Longrightarrow> err \<noteq> NoResolutionError"
    and boolean_error: "snd (boolean s e n f ctx) = Return (Inl (ResolutionFailure err)) \<Longrightarrow> err \<noteq> NoResolutionError"

lemma gRPC_error_real: "gRPCToOpenFeatureError err \<noteq> NoResolutionError"
  by (simp add: gRPCToOpenFeatureError_def split: option.split prod.split)

lemma flipt_call_error: "snd (flipt_call call lib s e n f ctx) = Return (Inl (ResolutionFailure err)) \<Longrightarrow> err \<noteq> NoResolutionError"
  by (auto simp: flipt_call_def Let_def gRPC_error_real split: option.splits prod.splits outcome.splits if_splits sum.splits)

interpretation transport: flipt_service "service_Variant lib" "service_Boolean lib" for lib
  by unfold_locales (auto simp: service_Variant_def service_Boolean_def dest: flipt_call_error)

section \<open>One client\<close>

lemma instance_client: "flipt_instance lib s = (s', r) \<Longrightarrow> ts_client s \<noteq> None \<Longrightarrow> s' = s \<and> r = Return (ts_client s, None)"
  by (auto simp: flipt_instance_def)

lemma instance_once: "flipt_instance lib s = (s', r) \<Longrightarrow> ts_once s' \<or> ts_client s' \<noteq> None"
  by (auto simp: flipt_instance_def Let_def split: if_splits sum.splits)

text \<open>
  C32: The service makes at most one client: after any call that reached the connection, every later call finds the same client, whatever
  the server does, and changes nothing in the service.
\<close>

theorem flipt_single_client:
  assumes "flipt_instance lib s = (s1, r1)"
  shows "flipt_instance lib s1 = (s1, Return (ts_client s1, None)) \<and> (ts_client s \<noteq> None \<longrightarrow> ts_client s1 = ts_client s)
    \<and> fst (flipt_call call lib s1 e n f ctx) = s1"
proof -
  have once: "ts_client s1 \<noteq> None \<or> ts_once s1" using instance_once [OF assms] by blast
  then have i: "flipt_instance lib s1 = (s1, Return (ts_client s1, None))" by (simp add: flipt_instance_def)
  have "fst (flipt_call call lib s1 e n f ctx) = s1"
    by (auto simp: flipt_call_def i Let_def split: option.split)
  with i assms show ?thesis by (auto dest: instance_client)
qed

text \<open>A library for examples: every address parses to the scheme \<open>scheme\<close>, dialing fails, and a client fails on every call.\<close>

definition flipt_stub :: "string + string \<Rightarrow> (unit, unit, unit, unit, unit, unit) flipt_library" where
  "flipt_stub scheme = \<lparr>fl_url_scheme = \<lambda>_. scheme, fl_ReadFile = \<lambda>_. Inl [], fl_tls = \<lambda>_. None, fl_NewClient = \<lambda>_ _ _ _. Inl ''refused'',
     fl_Boolean = \<lambda>_ _. Return (Inl \<lparr>ge_text = [], ge_status = Some (codes_NotFound, ''f'')\<rparr>),
     fl_Variant = \<lambda>_ _. Return (Inl \<lparr>ge_text = [], ge_status = None\<rparr>), fl_print = \<lambda>_. []\<rparr>"

theorem flipt_single_client_witness:
  "\<exists>s1 r1. flipt_instance (flipt_stub (Inr ''http'')) (transport_New () () []) = (s1, r1) \<and>
     flipt_instance (flipt_stub (Inr ''http'')) s1 = (s1, Return (ts_client s1, None))"
proof -
  obtain s1 r1 where i: "flipt_instance (flipt_stub (Inr ''http'')) (transport_New () () []) = (s1, r1)" by fastforce
  from flipt_single_client [OF i] i show ?thesis by blast
qed

text \<open>
  An address that is no URL, or a connection that cannot be made, is reported to at most one caller: with the first, every call panics;
  with the second, the first call returns the error and every later one uses a client without a connection.
\<close>

theorem flipt_failed_connection:
  assumes fresh: "ts_client s = None" "\<not> ts_once s"
    and ctx: "ctx = Some m" "string_at (convertMapInterface (fl_print lib) m) targetingKey \<noteq> []"
  shows "(fl_url_scheme lib (ts_address s) = Inl uerr \<longrightarrow>
       (\<exists>s1 msg. flipt_call call lib s e n f ctx = (s1, Panic msg) \<and> (\<exists>msg. flipt_call call lib s1 e n f ctx = (s1, Panic msg))))
    \<and> (fl_url_scheme lib (ts_address s) = Inr scheme \<longrightarrow> scheme \<noteq> ''http'' \<longrightarrow> scheme \<noteq> ''https'' \<longrightarrow> flipt_connect lib (s\<lparr>ts_once := True\<rparr>) = Inl cerr \<longrightarrow>
       (\<exists>s1. flipt_call call lib s e n f ctx = (s1, Return (Inl (OtherFailure (''connecting '' @ cerr)))) \<and>
         ts_client s1 = Some (GrpcClient None (ts_clientAuthProvider s)) \<and>
         flipt_instance lib s1 = (s1, Return (ts_client s1, None))))"
proof (intro conjI impI)
  assume "fl_url_scheme lib (ts_address s) = Inl uerr"
  with fresh ctx show "\<exists>s1 msg. flipt_call call lib s e n f ctx = (s1, Panic msg) \<and> (\<exists>msg. flipt_call call lib s1 e n f ctx = (s1, Panic msg))"
    by (simp add: flipt_call_def flipt_instance_def Let_def)
next
  assume "fl_url_scheme lib (ts_address s) = Inr scheme" "scheme \<noteq> ''http''" "scheme \<noteq> ''https''"
    "flipt_connect lib (s\<lparr>ts_once := True\<rparr>) = Inl cerr"
  with fresh ctx show "\<exists>s1. flipt_call call lib s e n f ctx = (s1, Return (Inl (OtherFailure (''connecting '' @ cerr)))) \<and>
         ts_client s1 = Some (GrpcClient None (ts_clientAuthProvider s)) \<and> flipt_instance lib s1 = (s1, Return (ts_client s1, None))"
    by (simp add: flipt_call_def flipt_instance_def Let_def)
qed

theorem flipt_failed_connection_witness:
  "\<exists>s1. service_Boolean (flipt_stub (Inr ''grpc'')) (transport_New () () []) [] [] ''f'' (Some [targetingKey \<mapsto> VString ''u'']) =
      (s1, Return (Inl (OtherFailure ''connecting dialing refused''))) \<and>
     ts_client s1 = Some (GrpcClient None None)"
proof -
  let ?lib = "flipt_stub (Inr ''grpc'')" and ?s = "transport_New () () [] :: (unit, unit, unit, unit, unit) transport"
  have 1: "ts_client ?s = None" "\<not> ts_once ?s" by (simp_all add: transport_New_def)
  have 2: "string_at (convertMapInterface (fl_print ?lib) [targetingKey \<mapsto> VString ''u'']) targetingKey \<noteq> []"
    by (simp add: string_at_def convertMapInterface_def)
  have 3: "fl_url_scheme ?lib (ts_address ?s) = Inr ''grpc''" "flipt_connect ?lib (?s\<lparr>ts_once := True\<rparr>) = Inl ''dialing refused''"
    by (simp_all add: flipt_stub_def flipt_connect_def Let_def)
  have "ts_clientAuthProvider ?s = None" by (simp add: transport_New_def)
  with flipt_failed_connection [OF 1 refl 2] 3 show ?thesis by (simp add: service_Boolean_def) blast
qed

end
