(* ===== verification/Flipt.thy ===== *)
theory Flipt
  imports Flipt_Service Go_Numbers
begin

text \<open>
  The Flipt provider, \<^verbatim>\<open>providers/flipt/pkg/provider/provider.go\<close>, over a service (theory \<open>Flipt_Service\<close> or one the application
  passes).
\<close>

section \<open>State\<close>

record ('x, 'h, 'g) flipt_config =
  fc_Address :: string
  fc_CertificatePath :: string
  fc_TokenProvider :: "'x auth_provider option"
  fc_clientAuthProvider :: "'x auth_provider option"
  fc_Environment :: string
  fc_Namespace :: string
  fc_GRPCDialOptions :: "'g list"
  fc_httpClient :: 'h

record ('s, 'x, 'h, 'g) flipt_provider =
  fp_svc :: "'s option"
  fp_config :: "('x, 'h, 'g) flipt_config"

type_synonym ('s, 'x, 'h, 'g) flipt_option = "('s, 'x, 'h, 'g) flipt_provider \<Rightarrow> ('s, 'x, 'h, 'g) flipt_provider"

definition flipt_update :: "(('x, 'h, 'g) flipt_config \<Rightarrow> ('x, 'h, 'g) flipt_config) \<Rightarrow> ('s, 'x, 'h, 'g) flipt_option" where
  "flipt_update f p = p\<lparr>fp_config := f (fp_config p)\<rparr>"

definition flipt_WithHTTPClient :: "'h \<Rightarrow> ('s, 'x, 'h, 'g) flipt_option" where
  "flipt_WithHTTPClient client = flipt_update (\<lambda>c. c\<lparr>fc_httpClient := client\<rparr>)"
definition flipt_WithAddress :: "string \<Rightarrow> ('s, 'x, 'h, 'g) flipt_option" where
  "flipt_WithAddress address = flipt_update (\<lambda>c. c\<lparr>fc_Address := address\<rparr>)"
definition flipt_WithCertificatePath :: "string \<Rightarrow> ('s, 'x, 'h, 'g) flipt_option" where
  "flipt_WithCertificatePath path = flipt_update (\<lambda>c. c\<lparr>fc_CertificatePath := path\<rparr>)"
definition flipt_WithConfig :: "('x, 'h, 'g) flipt_config \<Rightarrow> ('s, 'x, 'h, 'g) flipt_option" where
  "flipt_WithConfig config p = p\<lparr>fp_config := config\<rparr>"
definition flipt_WithService :: "'s \<Rightarrow> ('s, 'x, 'h, 'g) flipt_option" where
  "flipt_WithService svc p = p\<lparr>fp_svc := Some svc\<rparr>"
definition flipt_WithClientTokenProvider :: "'x auth_provider \<Rightarrow> ('s, 'x, 'h, 'g) flipt_option" where
  "flipt_WithClientTokenProvider tokens = flipt_update (\<lambda>c. c\<lparr>fc_TokenProvider := Some tokens\<rparr>)"
definition flipt_WithClientAuthenticationProvider :: "'x auth_provider \<Rightarrow> ('s, 'x, 'h, 'g) flipt_option" where
  "flipt_WithClientAuthenticationProvider auth = flipt_update (\<lambda>c. c\<lparr>fc_clientAuthProvider := Some auth\<rparr>)"
definition flipt_WithGRPCDialOptions :: "'g list \<Rightarrow> ('s, 'x, 'h, 'g) flipt_option" where
  "flipt_WithGRPCDialOptions opts = flipt_update (\<lambda>c. c\<lparr>fc_GRPCDialOptions := fc_GRPCDialOptions c @ opts\<rparr>)"
definition ForNamespace :: "string \<Rightarrow> ('s, 'x, 'h, 'g) flipt_option" where
  "ForNamespace namespace = flipt_update (\<lambda>c. c\<lparr>fc_Namespace := namespace\<rparr>)"
definition ForEnvironment :: "string \<Rightarrow> ('s, 'x, 'h, 'g) flipt_option" where
  "ForEnvironment environment = flipt_update (\<lambda>c. c\<lparr>fc_Environment := environment\<rparr>)"

lemmas flipt_option_defs = flipt_update_def flipt_WithHTTPClient_def flipt_WithAddress_def flipt_WithCertificatePath_def
  flipt_WithConfig_def flipt_WithService_def flipt_WithClientTokenProvider_def flipt_WithClientAuthenticationProvider_def
  flipt_WithGRPCDialOptions_def ForNamespace_def ForEnvironment_def

text \<open>The options for the transport that stand for a configuration.\<close>

definition transport_options :: "('x, 'h, 'g) flipt_config \<Rightarrow> (('x, 'h, 'k, 'i, 'g) transport \<Rightarrow> ('x, 'h, 'k, 'i, 'g) transport) list" where
  "transport_options c =
     [service_WithAddress (fc_Address c), service_WithHTTPClient (fc_httpClient c), service_WithCertificatePath (fc_CertificatePath c)]
     @ (case fc_TokenProvider c of None \<Rightarrow> [] | Some tokens \<Rightarrow> [service_WithClientTokenProvider tokens])
     @ (case fc_clientAuthProvider c of None \<Rightarrow> [] | Some auth \<Rightarrow> [service_WithClientAuthenticationProvider auth])
     @ (if length (fc_GRPCDialOptions c) \<noteq> 0 then [service_WithGRPCDialOptions (fc_GRPCDialOptions c)] else [])"

text \<open>\<open>of_transport\<close> makes a service of a transport.\<close>

definition flipt_NewProvider ::
  "'g \<Rightarrow> 'h \<Rightarrow> (('x, 'h, 'k, 'i, 'g) transport \<Rightarrow> 's) \<Rightarrow> ('s, 'x, 'h, 'g) flipt_option list \<Rightarrow> ('s, 'x, 'h, 'g) flipt_provider" where
  "flipt_NewProvider stats defaultClient of_transport opts =
     (let p = foldl (\<lambda>p opt. opt p)
        \<lparr>fp_svc = None,
         fp_config = \<lparr>fc_Address = ''http://localhost:8080'', fc_CertificatePath = [], fc_TokenProvider = None, fc_clientAuthProvider = None,
           fc_Environment = ''default'', fc_Namespace = ''default'', fc_GRPCDialOptions = [], fc_httpClient = defaultClient\<rparr>\<rparr> opts
      in case fp_svc p of
           None \<Rightarrow> p\<lparr>fp_svc := Some (of_transport (transport_New stats defaultClient (transport_options (fp_config p))))\<rparr>
         | Some _ \<Rightarrow> p)"

section \<open>Evaluation\<close>

text \<open>The resolution error of an error of the service.\<close>

definition failure_error :: "flipt_error \<Rightarrow> resolution_error" where
  "failure_error err = (case err of ResolutionFailure rerr \<Rightarrow> rerr | OtherFailure msg \<Rightarrow> NewGeneralResolutionError msg)"

text \<open>An evaluation threads the service's state and may panic with it.\<close>

type_synonym ('s, 'v) flipt_evaluation = "'s \<Rightarrow> string \<Rightarrow> string \<Rightarrow> string \<Rightarrow> 'v \<Rightarrow> go_map \<Rightarrow> 's \<times> 'v resolution_detail outcome"

definition flipt_BooleanEvaluation :: "('s, bool) flipt_operation \<Rightarrow> ('s, bool) flipt_evaluation" where
  "flipt_BooleanEvaluation boolean svc environment namespace flag defaultValue evalCtx =
     (let (svc, r) = boolean svc environment namespace flag evalCtx
      in (svc, map_result (\<lambda>r. case r of
            Inl err \<Rightarrow> \<lparr>Value = defaultValue, Detail = empty_detail\<lparr>ResolutionError := failure_error err, Reason := DefaultReason\<rparr>\<rparr>
          | Inr enabled \<Rightarrow> \<lparr>Value = enabled, Detail = empty_detail\<lparr>Reason := TargetingMatchReason\<rparr>\<rparr>) r))"

text \<open>A transformation of a response gives a value and possibly an error.\<close>

type_synonym 'v transform = "variant_response \<Rightarrow> 'v \<Rightarrow> 'v \<times> string option"

definition variant_result :: "'v transform \<Rightarrow> 'v \<Rightarrow> variant_response \<Rightarrow> 'v resolution_detail" where
  "variant_result transform defaultValue resp =
     (if vr_Reason resp = FLAG_DISABLED_EVALUATION_REASON then \<lparr>Value = defaultValue, Detail = empty_detail\<lparr>Reason := DisabledReason\<rparr>\<rparr>
      else
        let (v, err) = (if vr_Match resp \<or> vr_Reason resp = DEFAULT_EVALUATION_REASON then transform resp defaultValue else (defaultValue, None))
        in case err of
             Some msg \<Rightarrow> \<lparr>Value = v, Detail = empty_detail\<lparr>ResolutionError := NewTypeMismatchResolutionError msg, Reason := ErrorReason\<rparr>\<rparr>
           | None \<Rightarrow> \<lparr>Value = v, Detail = empty_detail\<lparr>Reason := (if vr_Match resp then TargetingMatchReason else DefaultReason)\<rparr>\<rparr>)"

definition evaluateVariantFlag :: "('s, variant_response) flipt_operation \<Rightarrow> 'v transform \<Rightarrow> ('s, 'v) flipt_evaluation" where
  "evaluateVariantFlag variant transform svc environment namespace flag defaultValue evalCtx =
     (let (svc, r) = variant svc environment namespace flag evalCtx
      in (svc, map_result (\<lambda>r. case r of
            Inl err \<Rightarrow> \<lparr>Value = defaultValue, Detail = empty_detail\<lparr>ResolutionError := failure_error err, Reason := DefaultReason\<rparr>\<rparr>
          | Inr resp \<Rightarrow> variant_result transform defaultValue resp) r))"

definition transformToString :: "string transform" where
  "transformToString resp defaultValue = (vr_VariantKey resp, None)"

definition transformToFloat64 :: "(string \<Rightarrow> float64 option) \<Rightarrow> float64 transform" where
  "transformToFloat64 ParseFloat resp defaultValue =
     (case ParseFloat (vr_VariantKey resp) of None \<Rightarrow> (defaultValue, Some ''value is not a float'') | Some fv \<Rightarrow> (fv, None))"

definition transformToInt64 :: "int64 transform" where
  "transformToInt64 resp defaultValue =
     (case atoi (vr_VariantKey resp) of None \<Rightarrow> (defaultValue, Some ''value is not an integer'') | Some iv \<Rightarrow> (word_of_int iv, None))"

text \<open>\<open>unmarshal\<close> decodes a JSON object; \<open>quote\<close> is \<^verbatim>\<open>%q\<close>.\<close>

definition transformToObject :: "(string \<Rightarrow> (string \<rightharpoonup> go_any) option) \<Rightarrow> (string \<Rightarrow> string) \<Rightarrow> go_any transform" where
  "transformToObject unmarshal quote resp defaultValue =
     (if vr_VariantAttachment resp = [] then (defaultValue, None)
      else case unmarshal (vr_VariantAttachment resp) of
             None \<Rightarrow> (defaultValue, Some (''value is not an object: '' @ quote (vr_VariantAttachment resp)))
           | Some out \<Rightarrow> (VMap out, None))"

definition flipt_StringEvaluation where
  "flipt_StringEvaluation variant = evaluateVariantFlag variant transformToString"
definition flipt_FloatEvaluation where
  "flipt_FloatEvaluation ParseFloat variant = evaluateVariantFlag variant (transformToFloat64 ParseFloat)"
definition flipt_IntEvaluation where
  "flipt_IntEvaluation variant = evaluateVariantFlag variant transformToInt64"
definition flipt_ObjectEvaluation where
  "flipt_ObjectEvaluation unmarshal quote variant = evaluateVariantFlag variant (transformToObject unmarshal quote)"

section \<open>Results\<close>

text \<open>A transformation that fails gives the default back.\<close>

definition keeps_default :: "'v transform \<Rightarrow> bool" where
  "keeps_default transform \<longleftrightarrow> (\<forall>resp d v msg. transform resp d = (v, Some msg) \<longrightarrow> v = d)"

lemma transforms_keep_default [simp]:
  "keeps_default transformToString" "keeps_default (transformToFloat64 ParseFloat)" "keeps_default transformToInt64"
  "keeps_default (transformToObject unmarshal quote)"
  by (auto simp: keeps_default_def transformToString_def transformToFloat64_def transformToInt64_def transformToObject_def split: option.splits if_splits)

lemma variant_result_honest: "keeps_default transform \<Longrightarrow> has_error (Detail (variant_result transform d resp)) \<Longrightarrow> Value (variant_result transform d resp) = d"
  by (auto simp: variant_result_def keeps_default_def Let_def split: if_splits prod.splits option.splits)

lemma flipt_variant_honest:
  assumes "keeps_default transform" "snd (evaluateVariantFlag variant transform svc e n flag d ctx) = Return r" "has_error (Detail r)"
  shows "Value r = d"
proof (cases "variant svc e n flag ctx")
  case (Pair svc' out)
  with assms show ?thesis by (cases out) (auto simp: evaluateVariantFlag_def variant_result_honest split: sum.splits)
qed

lemma flipt_boolean_honest:
  "snd (flipt_BooleanEvaluation boolean svc e n flag d ctx) = Return r \<Longrightarrow> has_error (Detail r) \<Longrightarrow> Value r = d"
  by (cases "boolean svc e n flag ctx"; cases "snd (boolean svc e n flag ctx)") (auto simp: flipt_BooleanEvaluation_def split: sum.splits)

context flipt_service begin

text \<open>Whatever the service, its errors are reported, with the default.\<close>

lemma variant_failure_reported:
  "snd (variant svc e n flag ctx) = Return (Inl err) \<Longrightarrow> snd (evaluateVariantFlag variant transform svc e n flag d ctx) = Return r \<Longrightarrow>
     Value r = d \<and> has_error (Detail r)"
  using variant_error [of svc e n flag ctx]
  by (auto simp: evaluateVariantFlag_def failure_error_def split: prod.splits flipt_error.split)

lemma boolean_failure_reported:
  "snd (boolean svc e n flag ctx) = Return (Inl err) \<Longrightarrow> snd (flipt_BooleanEvaluation boolean svc e n flag d ctx) = Return r \<Longrightarrow>
     Value r = d \<and> has_error (Detail r)"
  using boolean_error [of svc e n flag ctx]
  by (auto simp: flipt_BooleanEvaluation_def failure_error_def split: prod.splits flipt_error.split)

end

text \<open>
  C33: An integer evaluation through the transport: a failed call gives the default and an error; a disabled flag the default without one;
  a match or a default variant whose key is a printed integer gives that integer; any other key gives the default with a type error, and no
  match gives the default.
\<close>

theorem flipt_int_correct:
  "(case snd (service_Variant lib svc e n flag ctx) of
      Panic msg \<Rightarrow> snd (flipt_IntEvaluation (service_Variant lib) svc e n flag d ctx) = Panic msg
    | Return (Inl err) \<Rightarrow> \<exists>r. snd (flipt_IntEvaluation (service_Variant lib) svc e n flag d ctx) = Return r \<and> Value r = d \<and> has_error (Detail r)
    | Return (Inr resp) \<Rightarrow> \<exists>r. snd (flipt_IntEvaluation (service_Variant lib) svc e n flag d ctx) = Return r \<and>
        (if vr_Reason resp = FLAG_DISABLED_EVALUATION_REASON then Value r = d \<and> Reason (Detail r) = DisabledReason \<and> \<not> has_error (Detail r)
         else if vr_Match resp \<or> vr_Reason resp = DEFAULT_EVALUATION_REASON then
           (case atoi (vr_VariantKey resp) of
              Some i \<Rightarrow> sint (Value r) = i \<and> \<not> has_error (Detail r)
            | None \<Rightarrow> Value r = d \<and> has_code (ResolutionError (Detail r)) TypeMismatchCode)
         else Value r = d \<and> \<not> has_error (Detail r)))"
proof (cases "snd (service_Variant lib svc e n flag ctx)")
  case (Panic msg)
  then show ?thesis by (auto simp: flipt_IntEvaluation_def evaluateVariantFlag_def split: prod.splits)
next
  case (Return x)
  then have out: "snd (flipt_IntEvaluation (service_Variant lib) svc e n flag d ctx) = Return (case x of
        Inl err \<Rightarrow> \<lparr>Value = d, Detail = empty_detail\<lparr>ResolutionError := failure_error err, Reason := DefaultReason\<rparr>\<rparr>
      | Inr resp \<Rightarrow> variant_result transformToInt64 d resp)"
    by (auto simp: flipt_IntEvaluation_def evaluateVariantFlag_def split: prod.splits)
  show ?thesis
  proof (cases x)
    case (Inl err)
    with Return transport.variant_failure_reported [of lib svc e n flag ctx err transformToInt64 d] out show ?thesis
      by (simp add: flipt_IntEvaluation_def)
  next
    case (Inr resp)
    with Return out show ?thesis
      by (auto simp: variant_result_def transformToInt64_def Let_def sint_int64_of_int atoi_range split: option.split)
  qed
qed

text \<open>The transport of a provider holds what the configuration says.\<close>

lemma transport_of_config:
  "ts_address (transport_New stats client (transport_options c)) = fc_Address c"
  "ts_certificatePath (transport_New stats client (transport_options c)) = fc_CertificatePath c"
  "ts_httpClient (transport_New stats client (transport_options c)) = fc_httpClient c"
  "ts_grpcDialOptions (transport_New stats client (transport_options c)) = stats # fc_GRPCDialOptions c"
  "ts_clientAuthProvider (transport_New stats client (transport_options c)) =
     (case fc_clientAuthProvider c of Some auth \<Rightarrow> Some auth | None \<Rightarrow> map_option bearer (fc_TokenProvider c))"
  by (auto simp: transport_New_def transport_options_def service_WithAddress_def service_WithHTTPClient_def service_WithCertificatePath_def
      service_WithClientTokenProvider_def service_WithClientAuthenticationProvider_def service_WithGRPCDialOptions_def split: option.split)

end
