(* ===== verification/LaunchDarkly.thy ===== *)
theory LaunchDarkly
  imports Provider_Contract
begin

text \<open>
  The LaunchDarkly provider, \<^verbatim>\<open>providers/launchdarkly/pkg/provider.go\<close>.  The LaunchDarkly client and its value type \<open>'v\<close> are
  parameters.  A LaunchDarkly context is given by the calls on the library's builders that make it.
\<close>

section \<open>Library\<close>

datatype 'v builder_call = SetKind string | SetAnonymous bool | SetPrivate "string list" | SetValue string 'v

datatype 'v ld_context = EmptyContext | SingleContext string "'v builder_call list" | MultiContext "'v ld_context list"

datatype ld_reason = EvalReasonOff | EvalReasonTargetMatch | EvalReasonError | EvalReasonRuleMatch | EvalReasonPrerequisiteFailed
  | EvalReasonFallthrough | OtherEvalReason string

datatype ld_error = EvalErrorClientNotReady | EvalErrorFlagNotFound | EvalErrorMalformedFlag | EvalErrorUserNotSpecified
  | EvalErrorWrongType | OtherEvalError string

text \<open>The detail of an evaluation: the reason's kind, its error's kind if it has one, its printed form, and the variation's printed index.\<close>

record ld_detail =
  ld_kind :: ld_reason
  ld_errorKind :: "ld_error option"
  ld_text :: string
  ld_VariationIndex :: "string option"

type_synonym ('v, 'r) ld_variation = "string \<Rightarrow> 'v ld_context \<Rightarrow> 'r \<Rightarrow> 'r \<times> ld_detail"

text \<open>
  The client's calls (their error is only logged), the conversion of dynamic values to the library's and back, the kinds with a special
  meaning, and the text of a reason's kind.
\<close>

record 'v ld_library =
  ll_bool :: "('v, bool) ld_variation"
  ll_int :: "('v, int64) ld_variation"
  ll_float :: "('v, float64) ld_variation"
  ll_string :: "('v, string) ld_variation"
  ll_json :: "('v, 'v) ld_variation"
  ll_Close :: "string option"
  ll_copy :: "go_any \<Rightarrow> 'v"
  ll_as_any :: "'v \<Rightarrow> go_any"
  ll_DefaultKind :: string
  ll_MultiKind :: string
  ll_reason_text :: "ld_reason \<Rightarrow> string"

section \<open>Options\<close>

record ld_options =
  lo_kindAttr :: string
  lo_closeOnShutdown :: bool

definition WithKindAttr :: "string \<Rightarrow> ld_options \<Rightarrow> ld_options" where
  "WithKindAttr name o' = o'\<lparr>lo_kindAttr := name\<rparr>"

definition ld_WithCloseOnShutdown :: "bool \<Rightarrow> ld_options \<Rightarrow> ld_options" where
  "ld_WithCloseOnShutdown close o' = o'\<lparr>lo_closeOnShutdown := close\<rparr>"

definition ld_NewProvider :: "(ld_options \<Rightarrow> ld_options) list \<Rightarrow> ld_options" where
  "ld_NewProvider opts = foldl (\<lambda>o' opt. opt o') \<lparr>lo_kindAttr = ''kind'', lo_closeOnShutdown = False\<rparr> opts"

text \<open>Whether a shutdown closes the client, whose error is only logged.\<close>

definition ld_Shutdown :: "ld_options \<Rightarrow> bool" where
  "ld_Shutdown p = lo_closeOnShutdown p"

section \<open>Contexts\<close>

definition errKeyMissing :: string where
  "errKeyMissing = ''key and targetingKey attributes are missing, at least 1 required''"

text \<open>\<^verbatim>\<open>strings.Trim(s, " ") == ""\<close>.\<close>

definition blank :: "string \<Rightarrow> bool" where
  "blank s \<longleftrightarrow> dropWhile (\<lambda>c. c = CHR '' '') s = []"

definition context_key :: "(string \<rightharpoonup> go_any) \<Rightarrow> string option" where
  "context_key m =
     (case m targetingKey of
        Some (VString key) \<Rightarrow> Some key
      | _ \<Rightarrow> (case m ''key'' of Some (VString ldKey) \<Rightarrow> (if blank ldKey then None else Some ldKey) | _ \<Rightarrow> None))"

definition skipList :: "ld_options \<Rightarrow> string list" where
  "skipList p = [targetingKey, lo_kindAttr p, ''key'', ''privateAttributes'', ''anonymous'']"

definition anonymous_calls :: "(string \<rightharpoonup> go_any) \<Rightarrow> 'v builder_call list" where
  "anonymous_calls m = (case m ''anonymous'' of Some (VBool anon) \<Rightarrow> [SetAnonymous anon] | _ \<Rightarrow> [])"

definition private_calls :: "(string \<rightharpoonup> go_any) \<Rightarrow> 'v builder_call list" where
  "private_calls m = (case m ''privateAttributes'' of Some (VStrings attrs) \<Rightarrow> [SetPrivate attrs] | _ \<Rightarrow> [])"

definition value_calls ::
  "'v ld_library \<Rightarrow> ((string \<rightharpoonup> go_any) \<Rightarrow> string list) \<Rightarrow> ld_options \<Rightarrow> (string \<rightharpoonup> go_any) \<Rightarrow> 'v builder_call list" where
  "value_calls lib order p m = map (\<lambda>k. SetValue k (ll_copy lib (the (m k)))) (filter (\<lambda>k. k \<notin> set (skipList p)) (order m))"

definition mapContext ::
  "'v ld_library \<Rightarrow> ((string \<rightharpoonup> go_any) \<Rightarrow> string list) \<Rightarrow> ld_options \<Rightarrow> string \<Rightarrow> (string \<rightharpoonup> go_any) \<Rightarrow> string + 'v ld_context" where
  "mapContext lib order p kind m =
     (case context_key m of
        None \<Rightarrow> Inl errKeyMissing
      | Some key \<Rightarrow> Inr (SingleContext key
          (SetKind kind # anonymous_calls m @ private_calls m @ value_calls lib order p m)))"

definition multi_entry ::
  "'v ld_library \<Rightarrow> ((string \<rightharpoonup> go_any) \<Rightarrow> string list) \<Rightarrow> ld_options \<Rightarrow> string \<Rightarrow> go_any \<Rightarrow> 'v ld_context list \<Rightarrow> string + 'v ld_context list" where
  "multi_entry lib order p key attrs ctxs =
     (if key = lo_kindAttr p then Inr ctxs
      else case attrs of
             VMap innerCtx \<Rightarrow> (case mapContext lib order p key innerCtx of Inl err \<Rightarrow> Inl err | Inr ctx \<Rightarrow> Inr (ctxs @ [ctx]))
           | _ \<Rightarrow> Inr ctxs)"

definition toMultiLDContext ::
  "'v ld_library \<Rightarrow> ((string \<rightharpoonup> go_any) \<Rightarrow> string list) \<Rightarrow> ld_options \<Rightarrow> (string \<rightharpoonup> go_any) \<Rightarrow> string + 'v ld_context" where
  "toMultiLDContext lib order p m =
     (case range_fold (multi_entry lib order p) m (order m) [] of Inl err \<Rightarrow> Inl err | Inr ctxs \<Rightarrow> Inr (MultiContext ctxs))"

definition ld_context_kind :: "'v ld_library \<Rightarrow> ld_options \<Rightarrow> (string \<rightharpoonup> go_any) \<Rightarrow> string" where
  "ld_context_kind lib p m = (case m (lo_kindAttr p) of Some (VString k) \<Rightarrow> (if blank k then ll_DefaultKind lib else k) | _ \<Rightarrow> ll_DefaultKind lib)"

definition toLDContext ::
  "'v ld_library \<Rightarrow> ((string \<rightharpoonup> go_any) \<Rightarrow> string list) \<Rightarrow> ld_options \<Rightarrow> (string \<rightharpoonup> go_any) \<Rightarrow> string + 'v ld_context" where
  "toLDContext lib order p m =
     (if ld_context_kind lib p m = ll_MultiKind lib then toMultiLDContext lib order p m else mapContext lib order p (ld_context_kind lib p m) m)"

section \<open>Reasons and errors\<close>

definition toReason :: "'v ld_library \<Rightarrow> ld_reason \<Rightarrow> string" where
  "toReason lib reasonKind =
     (case reasonKind of
        EvalReasonOff \<Rightarrow> DisabledReason
      | EvalReasonTargetMatch \<Rightarrow> TargetingMatchReason
      | EvalReasonError \<Rightarrow> ErrorReason
      | _ \<Rightarrow> ll_reason_text lib reasonKind)"

definition ld_toResolutionError :: "ld_error \<Rightarrow> string \<Rightarrow> resolution_error" where
  "ld_toResolutionError errorKind reason =
     (case errorKind of
        EvalErrorClientNotReady \<Rightarrow> NewProviderNotReadyResolutionError reason
      | EvalErrorFlagNotFound \<Rightarrow> NewFlagNotFoundResolutionError reason
      | EvalErrorMalformedFlag \<Rightarrow> NewParseErrorResolutionError reason
      | EvalErrorUserNotSpecified \<Rightarrow> NewTargetingKeyMissingResolutionError reason
      | EvalErrorWrongType \<Rightarrow> NewTypeMismatchResolutionError reason
      | OtherEvalError e \<Rightarrow> NewGeneralResolutionError reason)"

definition toProviderResolutionDetail :: "'v ld_library \<Rightarrow> ld_detail \<Rightarrow> provider_detail" where
  "toProviderResolutionDetail lib detail =
     empty_detail\<lparr>Reason := toReason lib (ld_kind detail),
       ResolutionError := (case ld_errorKind detail of None \<Rightarrow> NoResolutionError
         | Some errorKind \<Rightarrow> ld_toResolutionError errorKind (''LaunchDarkly returned '' @ ld_text detail)),
       Variant := (case ld_VariationIndex detail of None \<Rightarrow> [] | Some i \<Rightarrow> i)\<rparr>"

text \<open>The context, or the detail of the failure; \<open>cancelled\<close> is the error of the call's context.\<close>

definition transformContext ::
  "'v ld_library \<Rightarrow> ((string \<rightharpoonup> go_any) \<Rightarrow> string list) \<Rightarrow> ld_options \<Rightarrow> string option \<Rightarrow> go_map \<Rightarrow> provider_detail + 'v ld_context" where
  "transformContext lib order p cancelled evalCtx =
     (case toLDContext lib order p (map_view evalCtx) of
        Inl err \<Rightarrow> Inl (empty_detail\<lparr>ResolutionError :=
            (if err = errKeyMissing then NewTargetingKeyMissingResolutionError err else NewInvalidContextResolutionError err), Reason := ErrorReason\<rparr>)
      | Inr ldCtx \<Rightarrow>
          (case cancelled of
             Some err \<Rightarrow> Inl (empty_detail\<lparr>ResolutionError := NewGeneralResolutionError err, Reason := ErrorReason\<rparr>)
           | None \<Rightarrow> Inr ldCtx))"

section \<open>Evaluation\<close>

definition ld_evaluate ::
  "('v, 'r) ld_variation \<Rightarrow> ('d \<Rightarrow> 'r) \<Rightarrow> ('r \<Rightarrow> 'd) \<Rightarrow>
   'v ld_library \<Rightarrow> ((string \<rightharpoonup> go_any) \<Rightarrow> string list) \<Rightarrow> ld_options \<Rightarrow> string option \<Rightarrow> 'd evaluation" where
  "ld_evaluate variation to_lib from_lib lib order p cancelled flagKey defaultValue evalCtx =
     (case transformContext lib order p cancelled evalCtx of
        Inl errDetail \<Rightarrow> \<lparr>Value = defaultValue, Detail = errDetail\<rparr>
      | Inr ldCtx \<Rightarrow>
          (let (v, detail) = variation flagKey ldCtx (to_lib defaultValue)
           in \<lparr>Value = from_lib v, Detail = toProviderResolutionDetail lib detail\<rparr>))"

definition ld_BooleanEvaluation where "ld_BooleanEvaluation lib = ld_evaluate (ll_bool lib) id id lib"
definition ld_StringEvaluation where "ld_StringEvaluation lib = ld_evaluate (ll_string lib) id id lib"
definition ld_FloatEvaluation where "ld_FloatEvaluation lib = ld_evaluate (ll_float lib) id id lib"
definition ld_IntEvaluation where "ld_IntEvaluation lib = ld_evaluate (ll_int lib) id id lib"
definition ld_ObjectEvaluation where "ld_ObjectEvaluation lib = ld_evaluate (ll_json lib) (ll_copy lib) (ll_as_any lib) lib"

definition ld_feature_provider ::
  "'v ld_library \<Rightarrow> ((string \<rightharpoonup> go_any) \<Rightarrow> string list) \<Rightarrow> ld_options \<Rightarrow> string option \<Rightarrow> feature_provider" where
  "ld_feature_provider lib order p cancelled =
     \<lparr>p_Name = ''LaunchDarkly'', p_Boolean = ld_BooleanEvaluation lib order p cancelled, p_String = ld_StringEvaluation lib order p cancelled,
      p_Float = ld_FloatEvaluation lib order p cancelled, p_Int = ld_IntEvaluation lib order p cancelled,
      p_Object = ld_ObjectEvaluation lib order p cancelled, p_Init = Some (\<lambda>ctx. None)\<rparr>"

text \<open>The client's documented behaviour: with an error it returns the default it was given.\<close>

definition variation_defaults :: "('v, 'r) ld_variation \<Rightarrow> bool" where
  "variation_defaults variation \<longleftrightarrow> (\<forall>k c d. ld_errorKind (snd (variation k c d)) \<noteq> None \<longrightarrow> fst (variation k c d) = d)"

lemma variation_defaultsD: "variation_defaults variation \<Longrightarrow> variation k c d = (v, detail) \<Longrightarrow> ld_errorKind detail \<noteq> None \<Longrightarrow> v = d"
  by (metis variation_defaults_def fst_conv snd_conv)

lemma detail_error: "has_error (toProviderResolutionDetail lib detail) \<longleftrightarrow> ld_errorKind detail \<noteq> None"
  by (auto simp: toProviderResolutionDetail_def has_error_def ld_toResolutionError_def split: option.split ld_error.split)

lemma ld_evaluate_honest:
  "variation_defaults variation \<Longrightarrow> (\<And>d. from_lib (to_lib d) = d) \<Longrightarrow>
     default_on_error (ld_evaluate variation to_lib from_lib lib order p cancelled)"
  by (rule default_on_errorI)
    (auto simp del: not_None_eq simp: ld_evaluate_def detail_error dest: variation_defaultsD split: sum.splits prod.splits)

lemma launchdarkly_honest:
  assumes "variation_defaults (ll_bool lib)" "variation_defaults (ll_string lib)" "variation_defaults (ll_float lib)"
    "variation_defaults (ll_int lib)" "variation_defaults (ll_json lib)" "\<And>d. ll_as_any lib (ll_copy lib d) = d"
  shows "honest_provider (ld_feature_provider lib order p cancelled)"
  by unfold_locales
    (simp_all add: ld_feature_provider_def ld_BooleanEvaluation_def ld_StringEvaluation_def ld_FloatEvaluation_def ld_IntEvaluation_def
      ld_ObjectEvaluation_def ld_evaluate_honest assms)

section \<open>The context\<close>

definition attribute_calls :: "'v ld_library \<Rightarrow> ld_options \<Rightarrow> (string \<rightharpoonup> go_any) \<Rightarrow> 'v builder_call set" where
  "attribute_calls lib p m = {SetValue k (ll_copy lib v) | k v. m k = Some v \<and>
     k \<notin> {targetingKey, lo_kindAttr p, ''key'', ''privateAttributes'', ''anonymous''}}"

text \<open>Three lists of calls, one of each sort.\<close>

lemma three_sorts_of_calls:
  assumes A: "distinct A" "\<And>c. c \<in> set A \<longleftrightarrow> (\<exists>b. c = SetAnonymous b \<and> P b)"
    and B: "distinct B" "\<And>c. c \<in> set B \<longleftrightarrow> (\<exists>a. c = SetPrivate a \<and> Q a)"
    and V: "distinct V" "set V = W" "\<And>c. c \<in> W \<Longrightarrow> \<exists>k v. c = SetValue k v"
  shows "distinct (A @ B @ V)" "{c \<in> set (A @ B @ V). case c of SetValue _ _ \<Rightarrow> True | _ \<Rightarrow> False} = W"
    "\<And>b. SetAnonymous b \<in> set (A @ B @ V) \<longleftrightarrow> P b" "\<And>a. SetPrivate a \<in> set (A @ B @ V) \<longleftrightarrow> Q a" "\<And>k. SetKind k \<notin> set (A @ B @ V)"
proof -
  have set_eq: "set (A @ B @ V) = {SetAnonymous b | b. P b} \<union> {SetPrivate a | a. Q a} \<union> W"
    using A(2) B(2) V(2) by auto
  have "set A \<inter> set B = {}" "set A \<inter> set V = {}" "set B \<inter> set V = {}"
    using A(2) B(2) V(3) by (auto simp: V(2)) (blast dest: V(3))+
  then show "distinct (A @ B @ V)" using A(1) B(1) V(1) by auto
  have "case c of SetValue _ _ \<Rightarrow> True | _ \<Rightarrow> False" if "c \<in> W" for c using V(3) [OF that] by auto
  then show "{c \<in> set (A @ B @ V). case c of SetValue _ _ \<Rightarrow> True | _ \<Rightarrow> False} = W" unfolding set_eq by auto
  show "SetAnonymous b \<in> set (A @ B @ V) \<longleftrightarrow> P b" for b unfolding set_eq using V(3) by blast
  show "SetPrivate a \<in> set (A @ B @ V) \<longleftrightarrow> Q a" for a unfolding set_eq using V(3) by blast
  show "SetKind k \<notin> set (A @ B @ V)" for k unfolding set_eq using V(3) by blast
qed

lemma anonymous_calls_set: "distinct (anonymous_calls m)" "c \<in> set (anonymous_calls m) \<longleftrightarrow> (\<exists>b. c = SetAnonymous b \<and> m ''anonymous'' = Some (VBool b))"
  by (cases "m ''anonymous''"; cases "the (m ''anonymous'')"; auto simp: anonymous_calls_def)+

lemma private_calls_set: "distinct (private_calls m)" "c \<in> set (private_calls m) \<longleftrightarrow> (\<exists>a. c = SetPrivate a \<and> m ''privateAttributes'' = Some (VStrings a))"
  by (cases "m ''privateAttributes''"; cases "the (m ''privateAttributes'')"; auto simp: private_calls_def)+

lemma value_calls_set:
  assumes "range_order order" "finite (dom m)"
  shows "distinct (value_calls lib order p m)" "set (value_calls lib order p m) = attribute_calls lib p m"
proof -
  note ord = range_orderD [OF assms]
  show "distinct (value_calls lib order p m)" using ord by (auto simp: value_calls_def distinct_map inj_on_def)
  show "set (value_calls lib order p m) = attribute_calls lib p m"
    using ord by (force simp: value_calls_def attribute_calls_def skipList_def dom_def image_iff)
qed

lemma attribute_calls_values: "c \<in> attribute_calls lib p m \<Longrightarrow> \<exists>k v. c = SetValue k v"
  by (auto simp: attribute_calls_def)

lemma single_context_calls:
  assumes "range_order order" "finite (dom m)" "calls = anonymous_calls m @ private_calls m @ value_calls lib order p m"
  shows "distinct calls \<and> {c \<in> set calls. case c of SetValue _ _ \<Rightarrow> True | _ \<Rightarrow> False} = attribute_calls lib p m \<and>
    (\<forall>b. SetAnonymous b \<in> set calls \<longleftrightarrow> m ''anonymous'' = Some (VBool b)) \<and>
    (\<forall>a. SetPrivate a \<in> set calls \<longleftrightarrow> m ''privateAttributes'' = Some (VStrings a)) \<and> (\<forall>k. SetKind k \<notin> set calls)"
proof -
  note vals = value_calls_set [OF assms(1,2), of lib p]
  show ?thesis unfolding assms(3)
    by (intro conjI allI; rule three_sorts_of_calls [OF anonymous_calls_set private_calls_set vals]; erule attribute_calls_values)
qed

text \<open>
  The key that a context is to have: the targeting key if it is a string, also an empty one; otherwise the value of \<^verbatim>\<open>key\<close> if
  that is a string with a character other than a space.
\<close>

definition wanted_key :: "(string \<rightharpoonup> go_any) \<Rightarrow> string \<Rightarrow> bool" where
  "wanted_key m key \<longleftrightarrow>
     m targetingKey = Some (VString key) \<or>
     (\<nexists>s. m targetingKey = Some (VString s)) \<and> m ''key'' = Some (VString key) \<and> (\<exists>c\<in>set key. c \<noteq> CHR '' '')"

lemma context_key_iff: "context_key m = Some key \<longleftrightarrow> wanted_key m key"
proof (cases "\<exists>s. m targetingKey = Some (VString s)")
  case True
  then show ?thesis by (auto simp: context_key_def wanted_key_def)
next
  case False
  then have "context_key m = (case m ''key'' of Some (VString ldKey) \<Rightarrow> (if blank ldKey then None else Some ldKey) | _ \<Rightarrow> None)"
    by (auto simp: context_key_def split: option.split go_any.split)
  with False show ?thesis
    by (auto simp: wanted_key_def blank_def dropWhile_eq_Nil_conv split: option.splits go_any.splits if_splits)
qed

lemma context_key_None: "context_key m = None \<longleftrightarrow> (\<nexists>key. wanted_key m key)"
  using context_key_iff [of m] by (metis not_None_eq)

text \<open>
  C30: A single context is made exactly when the targeting key is a string, be it empty, or else \<^verbatim>\<open>key\<close> is a string with a character
  other than a space; otherwise the conversion fails for a missing key.  The context has that key, the targeting
  key before the other, the wanted kind, and each other attribute once, whatever the order in which the runtime visits the context.  (The
  provider's documentation asks for a key that is not empty; the code makes a context with an empty targeting key, and so
  does this statement.)
\<close>

theorem launchdarkly_single_context:
  assumes "range_order order" "finite (dom m)"
  shows "(case mapContext lib order p kind m of
      Inl err \<Rightarrow> (\<nexists>key. wanted_key m key) \<and> err = errKeyMissing
    | Inr ctx \<Rightarrow> \<exists>key calls. ctx = SingleContext key (SetKind kind # calls) \<and> wanted_key m key \<and> distinct calls \<and>
        {c \<in> set calls. case c of SetValue _ _ \<Rightarrow> True | _ \<Rightarrow> False} = attribute_calls lib p m \<and>
        (\<forall>b. SetAnonymous b \<in> set calls \<longleftrightarrow> m ''anonymous'' = Some (VBool b)) \<and>
        (\<forall>a. SetPrivate a \<in> set calls \<longleftrightarrow> m ''privateAttributes'' = Some (VStrings a)) \<and> (\<forall>k. SetKind k \<notin> set calls))"
proof (cases "context_key m")
  case None
  then show ?thesis using context_key_None [of m] by (simp add: mapContext_def)
next
  case (Some key)
  with single_context_calls [OF assms refl, of lib p] context_key_iff [of m key] show ?thesis unfolding mapContext_def by auto
qed

theorem launchdarkly_single_context_witness:
  "\<exists>lib :: go_any ld_library. \<exists>calls. mapContext lib some_order (ld_NewProvider []) ''user''
       [targetingKey \<mapsto> VString ''u'', ''key'' \<mapsto> VString ''k'', ''anonymous'' \<mapsto> VBool True] =
     Inr (SingleContext ''u'' (SetKind ''user'' # calls)) \<and> SetAnonymous True \<in> set calls"
proof -
  let ?m = "[targetingKey \<mapsto> VString ''u'', ''key'' \<mapsto> VString ''k'', ''anonymous'' \<mapsto> VBool True]"
  have "finite (dom ?m)" by simp
  note T = launchdarkly_single_context [OF range_order_some_order this, where p = "ld_NewProvider []" and kind = "''user''"]
  have key: "wanted_key ?m key \<longleftrightarrow> key = ''u''" for key by (auto simp: wanted_key_def targetingKey_def)
  have anon: "?m ''anonymous'' = Some (VBool True)" by simp
  fix lib :: "go_any ld_library"
  show ?thesis
  proof (cases "mapContext lib some_order (ld_NewProvider []) ''user'' ?m")
    case (Inl err)
    from T [of lib, unfolded Inl sum.case key] show ?thesis by blast
  next
    case (Inr ctx)
    from T [of lib, unfolded Inr sum.case key] anon obtain calls where "ctx = SingleContext ''u'' (SetKind ''user'' # calls)" "SetAnonymous True \<in> set calls"
      by blast
    with Inr show ?thesis by blast
  qed
qed

text \<open>An empty targeting key is taken, although the context has another key.\<close>

lemma empty_targeting_key_is_used:
  "mapContext lib order p kind [targetingKey \<mapsto> VString [], ''key'' \<mapsto> VString key] =
     Inr (SingleContext [] (SetKind kind # value_calls lib order p [targetingKey \<mapsto> VString [], ''key'' \<mapsto> VString key]))"
  by (simp add: mapContext_def context_key_def anonymous_calls_def private_calls_def targetingKey_def)

text \<open>The parts of a context of several kinds: its entries that are maps, the one that names the kind excepted.\<close>

definition multi_part :: "ld_options \<Rightarrow> (string \<rightharpoonup> go_any) \<Rightarrow> string \<Rightarrow> (string \<rightharpoonup> go_any) \<Rightarrow> bool" where
  "multi_part p m k inner \<longleftrightarrow> m k = Some (VMap inner) \<and> k \<noteq> lo_kindAttr p"

lemma multi_part_unique: "multi_part p m k i \<Longrightarrow> multi_part p m k j \<Longrightarrow> j = i"
  by (simp add: multi_part_def)

lemma multi_entry_part:
  "multi_part p m k inner \<Longrightarrow> multi_entry lib order p k (the (m k)) ctxs =
     (case mapContext lib order p k inner of Inl err \<Rightarrow> Inl err | Inr ctx \<Rightarrow> Inr (ctxs @ [ctx]))"
  by (simp add: multi_part_def multi_entry_def)

lemma multi_entry_other:
  "m k \<noteq> None \<Longrightarrow> \<nexists>inner. multi_part p m k inner \<Longrightarrow> multi_entry lib order p k (the (m k)) ctxs = Inr ctxs"
  by (auto simp: multi_part_def multi_entry_def split: go_any.split)

lemma mapContext_error: "mapContext lib order p k inner = Inl err \<Longrightarrow> err = errKeyMissing \<and> (\<nexists>key. wanted_key inner key)"
  using context_key_None [of inner] by (auto simp: mapContext_def split: option.splits)

lemma mapContext_ok:
  "mapContext lib order p k inner = Inr ctx \<Longrightarrow> \<exists>key calls. ctx = SingleContext key (SetKind k # calls) \<and> wanted_key inner key"
  using context_key_iff [of inner] by (auto simp: mapContext_def split: option.splits)

text \<open>One part for each such entry, in the order of the loop.\<close>

lemma multi_loop:
  assumes "set ks \<subseteq> dom m"
  shows "(case range_fold (multi_entry lib order p) m ks ctxs of
      Inl err \<Rightarrow> err = errKeyMissing \<and> (\<exists>k inner. multi_part p m k inner \<and> (\<nexists>key. wanted_key inner key))
    | Inr ctxs' \<Rightarrow> \<exists>parts. ctxs' = ctxs @ parts \<and>
        list_all2 (\<lambda>k ctx. \<exists>inner. multi_part p m k inner \<and> mapContext lib order p k inner = Inr ctx)
          (filter (\<lambda>k. \<exists>inner. multi_part p m k inner) ks) parts)"
  using assms
proof (induction ks arbitrary: ctxs)
  case (Cons k ks)
  show ?case
  proof (cases "\<exists>inner. multi_part p m k inner")
    case False
    then have "filter (\<lambda>k. \<exists>inner. multi_part p m k inner) (k # ks) = filter (\<lambda>k. \<exists>inner. multi_part p m k inner) ks" by simp
    moreover from False Cons.prems have "multi_entry lib order p k (the (m k)) ctxs = Inr ctxs" by (intro multi_entry_other) auto
    ultimately show ?thesis using Cons.IH [of ctxs] Cons.prems by (simp only: range_fold.simps sum.case set_subset_Cons insert_subset list.set)
  next
    case True
    then obtain inner where part: "multi_part p m k inner" by blast
    show ?thesis
    proof (cases "mapContext lib order p k inner")
      case (Inl err)
      then have "range_fold (multi_entry lib order p) m (k # ks) ctxs = Inl err" by (simp add: multi_entry_part [OF part])
      with mapContext_error [OF Inl] part show ?thesis by auto
    next
      case (Inr ctx)
      then have "range_fold (multi_entry lib order p) m (k # ks) ctxs = range_fold (multi_entry lib order p) m ks (ctxs @ [ctx])"
        by (simp add: multi_entry_part [OF part])
      with True part Inr Cons.IH [of "ctxs @ [ctx]"] Cons.prems show ?thesis by (fastforce split: sum.splits)
    qed
  qed
qed simp

text \<open>
  C31: A context of several kinds is refused exactly when the attributes of one of them have no key, and then as lacking one; otherwise
  it has exactly one part for each entry that is a map, the one that names the kind excepted, under that kind,
  with its key (the targeting key, or else a \<^verbatim>\<open>key\<close> that is not blank) and converted like a single context; and it has no other part.
\<close>

theorem launchdarkly_multi_context:
  assumes "range_order order" "finite (dom m)"
  shows "(case toMultiLDContext lib order p m of
      Inl err \<Rightarrow> err = errKeyMissing \<and> (\<exists>k inner. multi_part p m k inner \<and> (\<nexists>key. wanted_key inner key))
    | Inr ctx \<Rightarrow> \<exists>kinds parts. ctx = MultiContext parts \<and> distinct kinds \<and> set kinds = {k. \<exists>inner. multi_part p m k inner} \<and>
        list_all2 (\<lambda>k part. \<exists>inner key calls. multi_part p m k inner \<and> wanted_key inner key \<and>
          part = SingleContext key (SetKind k # calls) \<and> mapContext lib order p k inner = Inr part) kinds parts)"
proof -
  let ?kinds = "filter (\<lambda>k. \<exists>inner. multi_part p m k inner) (order m)"
  note ord = range_orderD [OF assms]
  have kinds: "distinct ?kinds" "set ?kinds = {k. \<exists>inner. multi_part p m k inner}"
    using ord by (auto simp: multi_part_def)
  have "set (order m) \<subseteq> dom m" using ord by simp
  note loop = multi_loop [OF this, where lib = lib and order = order and p = p and ctxs = "[]"]
  show ?thesis
  proof (cases "range_fold (multi_entry lib order p) m (order m) []")
    case (Inl err)
    with loop show ?thesis by (simp add: toMultiLDContext_def)
  next
    case (Inr parts)
    with loop have "list_all2 (\<lambda>k ctx. \<exists>inner. multi_part p m k inner \<and> mapContext lib order p k inner = Inr ctx) ?kinds parts" by simp
    then have "list_all2 (\<lambda>k part. \<exists>inner key calls. multi_part p m k inner \<and> wanted_key inner key \<and>
          part = SingleContext key (SetKind k # calls) \<and> mapContext lib order p k inner = Inr part) ?kinds parts"
      by (rule list_all2_mono) (blast dest: mapContext_ok)
    moreover have "toMultiLDContext lib order p m = Inr (MultiContext parts)" using Inr by (simp add: toMultiLDContext_def)
    ultimately show ?thesis using kinds by (simp only: sum.case) blast
  qed
qed

theorem launchdarkly_multi_context_witness:
  "\<exists>lib :: go_any ld_library. \<exists>calls. toMultiLDContext lib some_order (ld_NewProvider [])
       [''org'' \<mapsto> VMap [targetingKey \<mapsto> VString ''o''], ''n'' \<mapsto> VNil] = Inr (MultiContext [SingleContext ''o'' (SetKind ''org'' # calls)])"
proof -
  fix lib :: "go_any ld_library"
  let ?p = "ld_NewProvider []" and ?org = "[targetingKey \<mapsto> VString ''o'']"
  let ?m = "[''org'' \<mapsto> VMap ?org, ''n'' \<mapsto> VNil]"
  have "finite (dom ?m)" by simp
  note T = launchdarkly_multi_context [OF range_order_some_order this, where p = ?p and lib = lib]
  have part: "multi_part ?p ?m k inner \<longleftrightarrow> k = ''org'' \<and> inner = ?org" for k inner
    by (auto simp: multi_part_def ld_NewProvider_def split: if_splits)
  have key: "wanted_key ?org key \<longleftrightarrow> key = ''o''" for key by (auto simp: wanted_key_def)
  have kinds: "{k. \<exists>inner. multi_part ?p ?m k inner} = {''org''}" by (simp add: part)
  show ?thesis
  proof (cases "toMultiLDContext lib some_order ?p ?m")
    case (Inl err)
    with T show ?thesis by (simp add: part key)
  next
    case (Inr ctx)
    with T obtain kinds parts where ctx: "ctx = MultiContext parts" "distinct kinds" "set kinds = {''org''}"
      and parts: "list_all2 (\<lambda>k part. k = ''org'' \<and> (\<exists>calls. part = SingleContext ''o'' (SetKind k # calls)) \<and>
        mapContext lib some_order ?p k ?org = Inr part) kinds parts"
      unfolding kinds by (auto simp: part key)
    have "kinds = [''org'']" by (rule distinct_singleton_list [OF ctx(2,3)])
    with parts obtain calls where "parts = [SingleContext ''o'' (SetKind ''org'' # calls)]" by (auto simp: list_all2_Cons1)
    with ctx(1) Inr show ?thesis by blast
  qed
qed

section \<open>Errors\<close>

text \<open>
  An evaluation that does not reach the client reports an error with the default: the missing targeting key when the context has none, and a
  general error when the call was cancelled.  With an error of the client an object evaluation returns the default as the client's
  value type keeps it, which may be another value.
\<close>

theorem launchdarkly_errors:
  assumes "variation_defaults (ll_json lib)"
  shows "(case toLDContext lib order p (map_view ctx) of
      Inl err \<Rightarrow> Value (ld_ObjectEvaluation lib order p cancelled flag d ctx) = d \<and>
        has_code (ResolutionError (Detail (ld_ObjectEvaluation lib order p cancelled flag d ctx))) TargetingKeyMissingCode
    | Inr ldCtx \<Rightarrow>
        (if cancelled \<noteq> None
         then Value (ld_ObjectEvaluation lib order p cancelled flag d ctx) = d \<and>
           has_code (ResolutionError (Detail (ld_ObjectEvaluation lib order p cancelled flag d ctx))) GeneralCode
         else has_error (Detail (ld_ObjectEvaluation lib order p cancelled flag d ctx)) \<longrightarrow>
           Value (ld_ObjectEvaluation lib order p cancelled flag d ctx) = ll_as_any lib (ll_copy lib d)))"
proof -
  have "mapContext lib order p kind m = Inl err \<Longrightarrow> err = errKeyMissing" for kind m err
    by (auto simp: mapContext_def split: option.splits)
  then have "multi_entry lib order p k v ctxs = Inl err \<Longrightarrow> err = errKeyMissing" for k v ctxs err
    by (auto simp: multi_entry_def split: if_splits go_any.splits sum.splits)
  then have key: "toLDContext lib order p m = Inl err \<Longrightarrow> err = errKeyMissing" for m err
    using \<open>\<And>err m kind. mapContext lib order p kind m = Inl err \<Longrightarrow> err = errKeyMissing\<close>
    by (auto simp: toLDContext_def toMultiLDContext_def dest!: range_fold_Inl split: if_splits sum.splits)
  show ?thesis
  proof (cases "toLDContext lib order p (map_view ctx)")
    case (Inl err)
    with key [OF Inl] show ?thesis by (simp add: ld_ObjectEvaluation_def ld_evaluate_def transformContext_def)
  next
    case (Inr ldCtx)
    obtain v detail where v: "ll_json lib flag ldCtx (ll_copy lib d) = (v, detail)" by fastforce
    show ?thesis
      using Inr variation_defaultsD [OF assms v]
      by (cases cancelled) (auto simp: ld_ObjectEvaluation_def ld_evaluate_def transformContext_def v detail_error)
  qed
qed

theorem launchdarkly_errors_witness:
  "\<exists>lib :: go_any ld_library. Value (ld_ObjectEvaluation lib some_order (ld_NewProvider []) None ''f'' (VInt 1) None) = VInt 1"
proof -
  let ?lib = "\<lparr>ll_bool = \<lambda>k c d. (d, \<lparr>ld_kind = EvalReasonOff, ld_errorKind = None, ld_text = [], ld_VariationIndex = None\<rparr>),
    ll_int = \<lambda>k c d. (d, \<lparr>ld_kind = EvalReasonOff, ld_errorKind = None, ld_text = [], ld_VariationIndex = None\<rparr>),
    ll_float = \<lambda>k c d. (d, \<lparr>ld_kind = EvalReasonOff, ld_errorKind = None, ld_text = [], ld_VariationIndex = None\<rparr>),
    ll_string = \<lambda>k c d. (d, \<lparr>ld_kind = EvalReasonOff, ld_errorKind = None, ld_text = [], ld_VariationIndex = None\<rparr>),
    ll_json = \<lambda>k c d. (d, \<lparr>ld_kind = EvalReasonOff, ld_errorKind = None, ld_text = [], ld_VariationIndex = None\<rparr>),
    ll_Close = None, ll_copy = id, ll_as_any = id, ll_DefaultKind = ''user'', ll_MultiKind = ''multi'', ll_reason_text = \<lambda>_. []\<rparr> :: go_any ld_library"
  have "variation_defaults (ll_json ?lib)" by (simp add: variation_defaults_def)
  note T = launchdarkly_errors [OF this, where order = some_order and p = "ld_NewProvider []" and ctx = None and cancelled = None and flag = "''f''"
      and d = "VInt 1"]
  have "toLDContext ?lib some_order (ld_NewProvider []) (map_view None) = Inl errKeyMissing"
    by (simp add: toLDContext_def ld_context_kind_def mapContext_def context_key_def)
  with T show ?thesis by (intro exI [of _ ?lib]) simp
qed

end
