(* ===== verification/Hooks_Validation.thy ===== *)
theory Hooks_Validation
  imports OpenFeature
begin

text \<open>
  The hooks that may refuse an evaluation: the code readiness hook, \<^verbatim>\<open>hooks/codereadiness/codereadiness.go\<close>, and the validator hook with
  its regular expressions, \<^verbatim>\<open>hooks/validator/pkg\<close>.  The comparison of semantic versions, \<^verbatim>\<open>%q\<close> and the regular expressions are parameters;
  logging is left out.
\<close>

section \<open>Versions\<close>

text \<open>The library of semantic versions: which texts are versions, and their comparison.\<close>

record semver_library =
  sv_IsValid :: "string \<Rightarrow> bool"
  sv_Compare :: "string \<Rightarrow> string \<Rightarrow> int"
  sv_quote :: "string \<Rightarrow> string"

text \<open>The library documents that its comparison orders the valid versions.\<close>

definition semver_law :: "semver_library \<Rightarrow> bool" where
  "semver_law lib \<longleftrightarrow> (\<forall>a b c. sv_IsValid lib a \<longrightarrow> sv_IsValid lib b \<longrightarrow> sv_IsValid lib c \<longrightarrow>
     sv_Compare lib a b \<ge> 0 \<longrightarrow> sv_Compare lib b c \<ge> 0 \<longrightarrow> sv_Compare lib a c \<ge> 0)"

record semver_comparator =
  sc_current :: string
  sc_currentVersionValid :: bool

definition versionPrefix :: string where "versionPrefix = ''v''"

definition addRequiredSemVerPrefix :: "string \<Rightarrow> string" where
  "addRequiredSemVerPrefix version = (if \<not> prefix versionPrefix version then versionPrefix @ version else version)"

definition semver_Initialize :: "semver_library \<Rightarrow> semver_comparator \<Rightarrow> string \<Rightarrow> semver_comparator \<times> string option" where
  "semver_Initialize lib s current =
     (let s = s\<lparr>sc_current := addRequiredSemVerPrefix current\<rparr>
      in if \<not> sv_IsValid lib (sc_current s) then (s\<lparr>sc_currentVersionValid := False\<rparr>, Some (''invalid current semver: '' @ sv_quote lib current))
         else (s\<lparr>sc_currentVersionValid := True\<rparr>, None))"

definition semver_Compare :: "semver_library \<Rightarrow> semver_comparator \<Rightarrow> string \<Rightarrow> string + bool" where
  "semver_Compare lib s required =
     (if \<not> sc_currentVersionValid s then Inl (''invalid current semver: '' @ sv_quote lib (sc_current s))
      else
        let required = addRequiredSemVerPrefix required
        in if \<not> sv_IsValid lib required then Inl (''invalid required semver: '' @ sv_quote lib required)
           else Inr (sv_Compare lib (sc_current s) required \<ge> 0))"

section \<open>The interface of a comparator\<close>

text \<open>
  A comparator, an interface of the hook, is given by its two operations on a state \<open>'s\<close>.  Its contract: the versions an initialised comparator
  accepts are those below the current one in an order \<open>le\<close> on the texts it takes for versions, and it fails on all other texts.
\<close>

locale version_comparator =
  fixes init :: "'s"
    and initialize :: "'s \<Rightarrow> string \<Rightarrow> 's \<times> string option"
    and compare :: "'s \<Rightarrow> string \<Rightarrow> string + bool"
    and valid :: "string \<Rightarrow> bool"
    and le :: "string \<Rightarrow> string \<Rightarrow> bool"
  assumes initialize_valid: "snd (initialize init current) = None \<longleftrightarrow> valid current"
    and compare_valid: "valid current \<Longrightarrow> valid required \<Longrightarrow> compare (fst (initialize init current)) required = Inr (le required current)"
    and compare_invalid: "\<not> valid current \<or> \<not> valid required \<Longrightarrow> \<exists>err. compare (fst (initialize init current)) required = Inl err"
begin

lemma accepts_iff: "compare (fst (initialize init current)) required = Inr True \<longleftrightarrow> valid current \<and> valid required \<and> le required current"
  using compare_valid [of current required] compare_invalid [of current required]
  by (cases "valid current \<and> valid required") auto

lemma refuses_iff: "compare (fst (initialize init current)) required = Inr False \<longleftrightarrow> valid current \<and> valid required \<and> \<not> le required current"
  using compare_valid [of current required] compare_invalid [of current required]
  by (cases "valid current \<and> valid required") auto

end

definition no_comparison :: semver_comparator where
  "no_comparison = \<lparr>sc_current = [], sc_currentVersionValid = False\<rparr>"

definition semver_valid :: "semver_library \<Rightarrow> string \<Rightarrow> bool" where
  "semver_valid lib v \<longleftrightarrow> sv_IsValid lib (addRequiredSemVerPrefix v)"

definition semver_le :: "semver_library \<Rightarrow> string \<Rightarrow> string \<Rightarrow> bool" where
  "semver_le lib a b \<longleftrightarrow> sv_Compare lib (addRequiredSemVerPrefix b) (addRequiredSemVerPrefix a) \<ge> 0"

interpretation semver: version_comparator no_comparison "semver_Initialize lib" "semver_Compare lib" "semver_valid lib" "semver_le lib" for lib
  by unfold_locales
    (auto simp: semver_Initialize_def semver_Compare_def semver_valid_def semver_le_def Let_def)

section \<open>The code readiness hook\<close>

text \<open>The hook over a comparator with state \<open>'s\<close>; \<open>ch_logger\<close> says whether there is a logger.\<close>

record 's readiness_hook =
  ch_currentVersion :: string
  ch_comparator :: "'s option"
  ch_strictValidation :: bool
  ch_metadataMinVerKey :: string
  ch_logger :: bool

type_synonym 's readiness_option = "'s readiness_hook \<Rightarrow> 's readiness_hook"

definition WithComparator :: "'s option \<Rightarrow> 's readiness_option" where
  "WithComparator comparator h = h\<lparr>ch_comparator := comparator\<rparr>"
definition WithStrictValidation :: "bool \<Rightarrow> 's readiness_option" where
  "WithStrictValidation strict h = h\<lparr>ch_strictValidation := strict\<rparr>"
definition WithMetadataMinVerKey :: "string \<Rightarrow> 's readiness_option" where
  "WithMetadataMinVerKey key h = h\<lparr>ch_metadataMinVerKey := key\<rparr>"
definition readiness_WithLogger :: "bool \<Rightarrow> 's readiness_option" where
  "readiness_WithLogger logger h = h\<lparr>ch_logger := logger\<rparr>"

definition defaultMinCodeVersionKey :: string where "defaultMinCodeVersionKey = ''minCodeVersion''"

definition readiness_New ::
  "'s \<Rightarrow> ('s \<Rightarrow> string \<Rightarrow> 's \<times> string option) \<Rightarrow> string \<Rightarrow> 's readiness_option list \<Rightarrow> string + 's readiness_hook" where
  "readiness_New default_comparator initialize currentVersion opts =
     (let h = foldl (\<lambda>h opt. opt h)
        \<lparr>ch_currentVersion = currentVersion, ch_comparator = Some default_comparator, ch_strictValidation = False,
         ch_metadataMinVerKey = defaultMinCodeVersionKey, ch_logger = True\<rparr> opts
      in case ch_comparator h of
           None \<Rightarrow> Inl ''codereadiness: comparator cannot be nil''
         | Some comparator \<Rightarrow>
             if \<not> ch_logger h then Inl ''codereadiness: logger cannot be nil''
             else if ch_currentVersion h = [] then Inl ''codereadiness: currentVersion cannot be empty''
             else (let (comparator, r) = initialize comparator (ch_currentVersion h)
                   in case r of
                        Some err \<Rightarrow>
                          if ch_strictValidation h then Inl (''codereadiness: comparator initialization failed: '' @ err)
                          else Inr (h\<lparr>ch_comparator := Some comparator\<rparr>)
                      | None \<Rightarrow> Inr (h\<lparr>ch_comparator := Some comparator\<rparr>)))"

text \<open>What the hook finds in the metadata.\<close>

datatype min_version = MetadataNil | KeyMissing | NotAString | EmptyVersion | MinVersion string

definition find_min_version :: "'s readiness_hook \<Rightarrow> go_map \<Rightarrow> min_version" where
  "find_min_version h metadata =
     (case metadata of
        None \<Rightarrow> MetadataNil
      | Some m \<Rightarrow>
          (case m (ch_metadataMinVerKey h) of
             None \<Rightarrow> KeyMissing
           | Some (VString v) \<Rightarrow> (if v = [] then EmptyVersion else MinVersion v)
           | Some _ \<Rightarrow> NotAString))"

lemma find_min_version_key:
  "ch_metadataMinVerKey h = ch_metadataMinVerKey h' \<Longrightarrow> find_min_version h metadata = find_min_version h' metadata"
  unfolding find_min_version_def by (erule arg_cong)

definition readiness_After ::
  "('s \<Rightarrow> string \<Rightarrow> string + bool) \<Rightarrow> (string \<Rightarrow> string) \<Rightarrow> 's readiness_hook \<Rightarrow> string \<Rightarrow> go_map \<Rightarrow> string option" where
  "readiness_After compare quote h flag metadata =
     (let unless_lenient = (\<lambda>msg. if ch_strictValidation h then Some msg else None);
          key = quote (ch_metadataMinVerKey h)
      in case find_min_version h metadata of
           MetadataNil \<Rightarrow> unless_lenient (''flag metadata is nil for flag '' @ quote flag)
         | KeyMissing \<Rightarrow> unless_lenient (''key '' @ key @ '' missing in flag's '' @ quote flag @ '' metadata'')
         | NotAString \<Rightarrow> unless_lenient (''metadata '' @ key @ '' is not a string for flag '' @ quote flag)
         | EmptyVersion \<Rightarrow> unless_lenient (''metadata '' @ key @ '' value is empty for flag '' @ quote flag)
         | MinVersion v \<Rightarrow>
             (case compare (the (ch_comparator h)) v of
                Inl err \<Rightarrow> unless_lenient (''invalid version values current: '' @ quote (ch_currentVersion h) @ '' - minimum: '' @ quote v
                    @ '' for flag '' @ quote flag @ '': '' @ err)
              | Inr valid \<Rightarrow>
                  if \<not> valid then Some (''current version: '' @ quote (ch_currentVersion h) @ '' required minimum version: '' @ quote v
                    @ '' flag '' @ quote flag @ '', check failed'')
                  else None))"

text \<open>The hook that the options leave, with the library's comparator.\<close>

definition semver_hook :: "string \<Rightarrow> bool \<Rightarrow> string \<Rightarrow> semver_library \<Rightarrow> string + semver_comparator readiness_hook" where
  "semver_hook current strict key lib =
     readiness_New no_comparison (semver_Initialize lib) current [WithStrictValidation strict, WithMetadataMinVerKey key]"

lemma semver_hook_Inr:
  "semver_hook current strict key lib = Inr h \<longleftrightarrow> current \<noteq> [] \<and> (strict \<longrightarrow> semver_valid lib current) \<and>
     h = \<lparr>ch_currentVersion = current, ch_comparator = Some (fst (semver_Initialize lib no_comparison current)), ch_strictValidation = strict,
          ch_metadataMinVerKey = key, ch_logger = True\<rparr>"
  using semver.initialize_valid [of lib current]
  by (auto simp: semver_hook_def readiness_New_def WithStrictValidation_def WithMetadataMinVerKey_def Let_def split: prod.splits option.splits if_splits)

lemma readiness_refuses:
  assumes "semver_hook current strict key lib = Inr h"
  shows "readiness_After (semver_Compare lib) quote h flag metadata \<noteq> None \<longleftrightarrow>
    (case find_min_version h metadata of
       MinVersion v \<Rightarrow> (if semver_valid lib current \<and> semver_valid lib v then \<not> semver_le lib v current else strict)
     | _ \<Rightarrow> strict)"
proof (cases "find_min_version h metadata")
  case (MinVersion v)
  have h: "ch_comparator h = Some (fst (semver_Initialize lib no_comparison current))" "ch_strictValidation h = strict"
    using assms by (simp_all add: semver_hook_Inr)
  show ?thesis
  proof (cases "semver_valid lib current \<and> semver_valid lib v")
    case True
    then show ?thesis using semver.compare_valid [of lib current v] by (simp add: readiness_After_def MinVersion h Let_def)
  next
    case False
    then obtain err where "semver_Compare lib (fst (semver_Initialize lib no_comparison current)) v = Inl err"
      using semver.compare_invalid [of lib current v] by auto
    with False show ?thesis by (auto simp: readiness_After_def MinVersion h Let_def)
  qed
qed (use assms in \<open>simp_all add: readiness_After_def semver_hook_Inr Let_def\<close>)

text \<open>
  C36: With versions of the library, a flag is refused exactly when its metadata name a minimum, both versions are valid and the
  application is older than the minimum, or, under strict validation, when there is no valid minimum version.
\<close>

theorem readiness_decision:
  assumes "semver_hook current strict key lib = Inr h"
  shows "readiness_After (semver_Compare lib) quote h flag metadata \<noteq> None \<longleftrightarrow>
    (case map_get metadata key of
       Some (VString v) \<Rightarrow>
         (if v \<noteq> [] \<and> semver_valid lib current \<and> semver_valid lib v then \<not> semver_le lib v current else strict)
     | _ \<Rightarrow> strict)"
proof -
  have key: "ch_metadataMinVerKey h = key" using assms by (simp add: semver_hook_Inr)
  show ?thesis
    unfolding readiness_refuses [OF assms] find_min_version_def key map_get_def
    by (cases metadata) (auto simp: map_view_def split: option.split go_any.split)
qed

definition length_versions :: semver_library where
  "length_versions = \<lparr>sv_IsValid = \<lambda>_. True, sv_Compare = \<lambda>a b. int (length a) - int (length b), sv_quote = id\<rparr>"

theorem readiness_decision_witness:
  "\<exists>h. semver_hook ''v2'' False ''k'' length_versions = Inr h \<and>
     readiness_After (semver_Compare length_versions) id h ''f'' (Some [''k'' \<mapsto> VString ''v30'']) \<noteq> None"
proof -
  obtain h where h: "semver_hook ''v2'' False ''k'' length_versions = Inr h"
    using semver_hook_Inr [of "''v2''" False "''k''" length_versions] by auto
  moreover have "map_get (Some [''k'' \<mapsto> VString ''v30'']) ''k'' = Some (VString ''v30'')"
    by (simp add: map_get_def map_view_def)
  moreover have "semver_valid length_versions v" "\<not> semver_le length_versions ''v30'' ''v2''" for v
    by (simp_all add: length_versions_def semver_valid_def semver_le_def addRequiredSemVerPrefix_def versionPrefix_def)
  ultimately show ?thesis using readiness_decision [OF h, of id "''f''" "Some [''k'' \<mapsto> VString ''v30'']"] by (intro exI [of _ h]) simp
qed

text \<open>
  A newer application passes wherever an older one does, and a flag that asks for less is passed wherever one that asks for more is.
\<close>

theorem readiness_monotone:
  assumes law: "semver_law lib"
    and hooks: "semver_hook old strict key lib = Inr h" "semver_hook new strict key lib = Inr h'" "semver_valid lib old" "semver_valid lib new"
    and newer: "semver_le lib old new"
    and passes: "readiness_After (semver_Compare lib) quote h flag metadata = None"
  shows "readiness_After (semver_Compare lib) quote h' flag metadata = None"
proof -
  have same: "find_min_version h' metadata = find_min_version h metadata"
    using hooks(1,2) by (intro find_min_version_key) (auto simp: semver_hook_Inr)
  note dec = readiness_refuses [OF hooks(1), of quote flag metadata] readiness_refuses [OF hooks(2), of quote flag metadata]
  have "semver_le lib v old \<Longrightarrow> semver_valid lib v \<Longrightarrow> semver_le lib v new" for v
    using law newer hooks(3,4) unfolding semver_law_def semver_le_def semver_valid_def by blast
  with passes dec hooks(3,4) same show ?thesis by (auto split: min_version.splits if_splits)
qed

theorem readiness_monotone_witness:
  "\<exists>h'. semver_hook ''v300'' True ''k'' length_versions = Inr h' \<and>
     readiness_After (semver_Compare length_versions) id h' ''f'' (Some [''k'' \<mapsto> VString ''v1'']) = None"
proof -
  have le: "semver_valid length_versions v" "semver_le length_versions a b \<longleftrightarrow> length (addRequiredSemVerPrefix a) \<le> length (addRequiredSemVerPrefix b)"
    for v a b by (simp_all add: length_versions_def semver_valid_def semver_le_def)
  obtain h h' where h: "semver_hook ''v20'' True ''k'' length_versions = Inr h" "semver_hook ''v300'' True ''k'' length_versions = Inr h'"
    using semver_hook_Inr [of "''v20''" True "''k''" length_versions] semver_hook_Inr [of "''v300''" True "''k''" length_versions] le(1) by auto
  have law: "semver_law length_versions" by (simp add: semver_law_def length_versions_def)
  have newer: "semver_le length_versions ''v20'' ''v300''" by (simp add: le addRequiredSemVerPrefix_def versionPrefix_def)
  have "find_min_version h (Some [''k'' \<mapsto> VString ''v1'']) = MinVersion ''v1''" using h(1) by (simp add: find_min_version_def semver_hook_Inr)
  moreover have "semver_le length_versions ''v1'' ''v20''" by (simp add: le addRequiredSemVerPrefix_def versionPrefix_def)
  ultimately have "readiness_After (semver_Compare length_versions) id h ''f'' (Some [''k'' \<mapsto> VString ''v1'']) = None"
    using readiness_refuses [OF h(1), of id "''f''" "Some [''k'' \<mapsto> VString ''v1'']"] le(1) by simp
  from readiness_monotone [OF law h le(1) le(1) newer this] h(2) show ?thesis by blast
qed

section \<open>The validator hook\<close>

text \<open>A validator of regular expressions: \<open>compile\<close> gives a compiled expression, \<open>matches\<close> says whether it matches.\<close>

definition NewValidator :: "(string \<Rightarrow> string + 'r) \<Rightarrow> string \<Rightarrow> 'r option \<times> string option" where
  "NewValidator compile regularExpression =
     (case compile regularExpression of Inl err \<Rightarrow> (None, Some err) | Inr r \<Rightarrow> (Some r, None))"

definition regex_IsValid :: "('r \<Rightarrow> string \<Rightarrow> bool) \<Rightarrow> 'r \<Rightarrow> go_any \<Rightarrow> string option" where
  "regex_IsValid matches r val =
     (case val of
        VString s \<Rightarrow> (if \<not> matches r s then Some ''regex doesn't match on flag value'' else None)
      | _ \<Rightarrow> Some ''flag value isn't of type string'')"

text \<open>The hook passes on what its validator says.\<close>

definition validator_After :: "(go_any \<Rightarrow> string option) \<Rightarrow> go_any \<Rightarrow> string option" where
  "validator_After IsValid val = (case IsValid val of Some err \<Rightarrow> Some err | None \<Rightarrow> None)"

lemma validator_passes_iff: "validator_After (regex_IsValid matches r) val = None \<longleftrightarrow> (\<exists>s. val = VString s \<and> matches r s)"
  by (auto simp: validator_After_def regex_IsValid_def split: go_any.split)

end
