(* ===== verification/Hooks_Telemetry.thy ===== *)
theory Hooks_Telemetry
  imports Go_Numbers
begin

text \<open>
  The OpenTelemetry hooks, \<^verbatim>\<open>hooks/open-telemetry/pkg/metrics.go\<close> and \<^verbatim>\<open>traces.go\<close>: what they record, counter by counter and attribute by
  attribute.  The libraries that carry the records away are left out; the typed look-ups of flag metadata, operations of the SDK, are parameters.
\<close>

section \<open>Attributes\<close>

text \<open>
  The semantic attributes by the constructor of the convention that makes them, and attributes with a key of the hook's or the application's
  own.
\<close>

datatype otel_value = OBool bool | OString string | OInt64 int64 | OFloat64 float64 | OInt int64 | OStrings "string list"

datatype otel_reason = ReasonCached | ReasonDefault | ReasonDisabled | ReasonError | ReasonSplit | ReasonStatic | ReasonTargetingMatch | ReasonUnknown

datatype attribute =
    FeatureFlagKey string
  | FeatureFlagProviderName string
  | FeatureFlagResultValue otel_value
  | FeatureFlagResultVariant string
  | FeatureFlagResultReason otel_reason
  | ErrorType string
  | ErrorMessageAttribute string
  | FeatureFlagContextID string
  | FeatureFlagSetID string
  | FeatureFlagVersion string
  | KeyValue string otel_value

text \<open>What the hooks read of a hook context and of the details of an evaluation.\<close>

record hook_context =
  hc_FlagKey :: string
  hc_ProviderName :: string
  hc_TargetingKey :: string

record evaluation_details =
  ed_Value :: go_any
  ed_Variant :: string
  ed_Reason :: string
  ed_ErrorCode :: string
  ed_ErrorMessage :: string
  ed_FlagMetadata :: go_map

section \<open>Traces\<close>

definition otel_CachedReason :: string where "otel_CachedReason = ''CACHED''"
definition SplitReason :: string where "SplitReason = ''SPLIT''"

definition flagMetaContextIDKey :: string where "flagMetaContextIDKey = ''contextId''"
definition flagMetaFlagSetIDKey :: string where "flagMetaFlagSetIDKey = ''flagSetId''"
definition flagMetaVersionKey :: string where "flagMetaVersionKey = ''version''"

text \<open>The switch on the value; \<open>stringer\<close> is the text of a value that implements \<^verbatim>\<open>fmt.Stringer\<close>.\<close>

definition value_attribute :: "(go_any \<Rightarrow> string option) \<Rightarrow> go_any \<Rightarrow> attribute list" where
  "value_attribute stringer val =
     map FeatureFlagResultValue
       (case val of
          VBool v \<Rightarrow> [OBool v]
        | VString v \<Rightarrow> [OString v]
        | VInt64 v \<Rightarrow> [OInt64 v]
        | VFloat64 v \<Rightarrow> [OFloat64 v]
        | VStrings v \<Rightarrow> [OStrings v]
        | VInt v \<Rightarrow> [OInt v]
        | VFloat32 v \<Rightarrow> [OFloat64 (float64_of_float32 v)]
        | _ \<Rightarrow> (case stringer val of Some s \<Rightarrow> [OString s] | None \<Rightarrow> []))"

definition reason_attributes :: "evaluation_details \<Rightarrow> attribute list" where
  "reason_attributes details =
     (if ed_Reason details = otel_CachedReason then [FeatureFlagResultReason ReasonCached]
      else if ed_Reason details = DefaultReason then [FeatureFlagResultReason ReasonDefault]
      else if ed_Reason details = DisabledReason then [FeatureFlagResultReason ReasonDisabled]
      else if ed_Reason details = ErrorReason then
        [FeatureFlagResultReason ReasonError,
         ErrorType (to_lower (if ed_ErrorCode details \<noteq> [] then ed_ErrorCode details else code_string GeneralCode))]
        @ (if ed_ErrorMessage details \<noteq> [] then [ErrorMessageAttribute (ed_ErrorMessage details)] else [])
      else if ed_Reason details = SplitReason then [FeatureFlagResultReason ReasonSplit]
      else if ed_Reason details = StaticReason then [FeatureFlagResultReason ReasonStatic]
      else if ed_Reason details = TargetingMatchReason then [FeatureFlagResultReason ReasonTargetingMatch]
      else [FeatureFlagResultReason ReasonUnknown])"

definition metadata_string :: "go_map \<Rightarrow> string \<Rightarrow> string option" where
  "metadata_string m k = (case map_get m k of Some (VString s) \<Rightarrow> Some s | _ \<Rightarrow> None)"

definition eventAttributes :: "(go_any \<Rightarrow> string option) \<Rightarrow> hook_context \<Rightarrow> evaluation_details \<Rightarrow> attribute list" where
  "eventAttributes stringer hCtx details =
     [FeatureFlagKey (hc_FlagKey hCtx), FeatureFlagProviderName (hc_ProviderName hCtx)]
     @ value_attribute stringer (ed_Value details)
     @ (if ed_Variant details \<noteq> [] then [FeatureFlagResultVariant (ed_Variant details)] else [])
     @ reason_attributes details
     @ [FeatureFlagContextID (case metadata_string (ed_FlagMetadata details) flagMetaContextIDKey of Some contextID \<Rightarrow> contextID | None \<Rightarrow> hc_TargetingKey hCtx)]
     @ (case metadata_string (ed_FlagMetadata details) flagMetaFlagSetIDKey of Some setID \<Rightarrow> [FeatureFlagSetID setID] | None \<Rightarrow> [])
     @ (case metadata_string (ed_FlagMetadata details) flagMetaVersionKey of Some version \<Rightarrow> [FeatureFlagVersion version] | None \<Rightarrow> [])"

type_synonym attribute_callback = "(go_map \<Rightarrow> attribute list) option"

definition WithTracesAttributeSetter :: "(go_map \<Rightarrow> attribute list) \<Rightarrow> attribute_callback \<Rightarrow> attribute_callback" where
  "WithTracesAttributeSetter callback h = Some callback"

definition WithErrorStatusEnabled :: "attribute_callback \<Rightarrow> attribute_callback" where
  "WithErrorStatusEnabled h = h"

definition NewTracesHook :: "(attribute_callback \<Rightarrow> attribute_callback) list \<Rightarrow> attribute_callback" where
  "NewTracesHook opts = foldl (\<lambda>h opt. opt h) None opts"

text \<open>The attributes of the event that the hook adds to the span.\<close>

definition traces_Finally :: "(go_any \<Rightarrow> string option) \<Rightarrow> attribute_callback \<Rightarrow> hook_context \<Rightarrow> evaluation_details \<Rightarrow> attribute list" where
  "traces_Finally stringer h hCtx details =
     eventAttributes stringer hCtx details @ (case h of None \<Rightarrow> [] | Some callback \<Rightarrow> callback (ed_FlagMetadata details))"

lemma value_attribute_only: "a \<in> set (value_attribute stringer v) \<Longrightarrow> \<exists>x. a = FeatureFlagResultValue x"
  by (auto simp: value_attribute_def)

lemma reason_codes_distinct:
  "distinct [otel_CachedReason, DefaultReason, DisabledReason, ErrorReason, SplitReason, StaticReason, TargetingMatchReason]"
  by (simp add: otel_CachedReason_def SplitReason_def reason_defs)

text \<open>
  The event of an evaluation names the flag and the provider, has exactly one reason, and carries an error type exactly when the reason is an
  error: the error's code in small letters, or the general one when there is none.
\<close>

theorem trace_event_correct:
  "take 2 (eventAttributes stringer hCtx details) = [FeatureFlagKey (hc_FlagKey hCtx), FeatureFlagProviderName (hc_ProviderName hCtx)]
   \<and> length (filter (\<lambda>a. \<exists>r. a = FeatureFlagResultReason r) (eventAttributes stringer hCtx details)) = 1
   \<and> {t. ErrorType t \<in> set (eventAttributes stringer hCtx details)} =
       (if ed_Reason details = ErrorReason
        then {to_lower (if ed_ErrorCode details = [] then code_string GeneralCode else ed_ErrorCode details)} else {})"
proof -
  have v: "filter (\<lambda>a. \<exists>r. a = FeatureFlagResultReason r) (value_attribute stringer (ed_Value details)) = []"
    "ErrorType t \<notin> set (value_attribute stringer (ed_Value details))" for t
    by (auto simp: filter_empty_conv dest: value_attribute_only)
  have r: "length (filter (\<lambda>a. \<exists>r. a = FeatureFlagResultReason r) (reason_attributes details)) = 1"
    by (simp add: reason_attributes_def)
  have e: "{t. ErrorType t \<in> set (reason_attributes details)} =
       (if ed_Reason details = ErrorReason
        then {to_lower (if ed_ErrorCode details = [] then code_string GeneralCode else ed_ErrorCode details)} else {})"
    using reason_codes_distinct by (auto simp: reason_attributes_def)
  show ?thesis
    unfolding eventAttributes_def using v r e by (simp split: option.split)
qed

section \<open>Metrics\<close>

datatype metric_type = MetricBool | MetricString | MetricInt | MetricFloat | OtherMetric int

record dimension =
  dd_Key :: string
  dd_Type :: metric_type

text \<open>The typed look-ups of flag metadata.\<close>

record metadata_library =
  ml_GetBool :: "go_map \<Rightarrow> string \<Rightarrow> bool option"
  ml_GetString :: "go_map \<Rightarrow> string \<Rightarrow> string option"
  ml_GetInt :: "go_map \<Rightarrow> string \<Rightarrow> int64 option"
  ml_GetFloat :: "go_map \<Rightarrow> string \<Rightarrow> float64 option"

definition dimension_attribute :: "metadata_library \<Rightarrow> go_map \<Rightarrow> dimension \<Rightarrow> attribute list" where
  "dimension_attribute lib metadata d =
     (case dd_Type d of
        MetricBool \<Rightarrow> (case ml_GetBool lib metadata (dd_Key d) of None \<Rightarrow> [] | Some b \<Rightarrow> [KeyValue (dd_Key d) (OBool b)])
      | MetricString \<Rightarrow> (case ml_GetString lib metadata (dd_Key d) of None \<Rightarrow> [] | Some s \<Rightarrow> [KeyValue (dd_Key d) (OString s)])
      | MetricInt \<Rightarrow> (case ml_GetInt lib metadata (dd_Key d) of None \<Rightarrow> [] | Some i \<Rightarrow> [KeyValue (dd_Key d) (OInt64 i)])
      | MetricFloat \<Rightarrow> (case ml_GetFloat lib metadata (dd_Key d) of None \<Rightarrow> [] | Some f \<Rightarrow> [KeyValue (dd_Key d) (OFloat64 f)])
      | OtherMetric t \<Rightarrow> [])"

definition descriptionsToAttributes :: "metadata_library \<Rightarrow> go_map \<Rightarrow> dimension list \<Rightarrow> attribute list" where
  "descriptionsToAttributes lib metadata descriptions = concat (map (dimension_attribute lib metadata) descriptions)"

record metrics_hook =
  mh_dimensions :: "dimension list"
  mh_callback :: attribute_callback

definition WithFlagMetadataDimensions :: "dimension list \<Rightarrow> metrics_hook \<Rightarrow> metrics_hook" where
  "WithFlagMetadataDimensions descriptions h = h\<lparr>mh_dimensions := descriptions\<rparr>"
definition WithMetricsAttributeSetter :: "(go_map \<Rightarrow> attribute list) \<Rightarrow> metrics_hook \<Rightarrow> metrics_hook" where
  "WithMetricsAttributeSetter callback h = h\<lparr>mh_callback := Some callback\<rparr>"

text \<open>
  The constructor makes the four counters, in this order, and fails with the first that cannot be made; \<open>counter_error\<close> is the error of making the
  counter of a name.
\<close>

definition evaluationActive :: string where "evaluationActive = ''feature_flag.evaluation_active_count''"
definition evaluationRequests :: string where "evaluationRequests = ''feature_flag.evaluation_requests_total''"
definition evaluationSuccessTotal :: string where "evaluationSuccessTotal = ''feature_flag.evaluation_success_total''"
definition evaluationErrors :: string where "evaluationErrors = ''feature_flag.evaluation_error_total''"

definition NewMetricsHookForProvider :: "(string \<Rightarrow> string option) \<Rightarrow> (metrics_hook \<Rightarrow> metrics_hook) list \<Rightarrow> string + metrics_hook" where
  "NewMetricsHookForProvider counter_error opts =
     (case counter_error evaluationActive of Some err \<Rightarrow> Inl err
      | None \<Rightarrow> (case counter_error evaluationRequests of Some err \<Rightarrow> Inl err
      | None \<Rightarrow> (case counter_error evaluationSuccessTotal of Some err \<Rightarrow> Inl err
      | None \<Rightarrow> (case counter_error evaluationErrors of Some err \<Rightarrow> Inl err
      | None \<Rightarrow> Inr (foldl (\<lambda>h opt. opt h) \<lparr>mh_dimensions = [], mh_callback = None\<rparr> opts)))))"

text \<open>The counters: what was added to each, latest last.\<close>

record counters =
  ctr_active :: "(int \<times> attribute list) list"
  ctr_request :: "attribute list list"
  ctr_success :: "attribute list list"
  ctr_error :: "attribute list list"

definition metrics_Before :: "hook_context \<Rightarrow> counters \<Rightarrow> counters" where
  "metrics_Before hCtx c =
     c\<lparr>ctr_active := ctr_active c @ [(1, [FeatureFlagKey (hc_FlagKey hCtx)])],
       ctr_request := ctr_request c @ [[FeatureFlagKey (hc_FlagKey hCtx), FeatureFlagProviderName (hc_ProviderName hCtx)]]\<rparr>"

definition metrics_After :: "metadata_library \<Rightarrow> metrics_hook \<Rightarrow> hook_context \<Rightarrow> evaluation_details \<Rightarrow> counters \<Rightarrow> counters" where
  "metrics_After lib h hCtx details c =
     c\<lparr>ctr_success := ctr_success c @
        [[FeatureFlagKey (hc_FlagKey hCtx), FeatureFlagProviderName (hc_ProviderName hCtx)]
         @ (if ed_Variant details \<noteq> [] then [FeatureFlagResultVariant (ed_Variant details)] else [])
         @ (if ed_Reason details \<noteq> [] then [KeyValue ''reason'' (OString (ed_Reason details))] else [])
         @ descriptionsToAttributes lib (ed_FlagMetadata details) (mh_dimensions h)
         @ (case mh_callback h of None \<Rightarrow> [] | Some callback \<Rightarrow> callback (ed_FlagMetadata details))]\<rparr>"

definition metrics_Error :: "hook_context \<Rightarrow> string \<Rightarrow> counters \<Rightarrow> counters" where
  "metrics_Error hCtx err c =
     c\<lparr>ctr_error := ctr_error c @
        [[FeatureFlagKey (hc_FlagKey hCtx), FeatureFlagProviderName (hc_ProviderName hCtx), ErrorMessageAttribute err]]\<rparr>"

definition metrics_Finally :: "hook_context \<Rightarrow> counters \<Rightarrow> counters" where
  "metrics_Finally hCtx c = c\<lparr>ctr_active := ctr_active c @ [(-1, [FeatureFlagKey (hc_FlagKey hCtx)])]\<rparr>"

text \<open>The calls of the hook, in the order they reach the counters, from any number of evaluations at once.\<close>

datatype metrics_call =
    Before hook_context
  | After hook_context evaluation_details
  | Error hook_context string
  | Finally hook_context

fun metrics_apply :: "metadata_library \<Rightarrow> metrics_hook \<Rightarrow> metrics_call \<Rightarrow> counters \<Rightarrow> counters" where
  "metrics_apply lib h (Before hCtx) c = metrics_Before hCtx c"
| "metrics_apply lib h (After hCtx details) c = metrics_After lib h hCtx details c"
| "metrics_apply lib h (Error hCtx err) c = metrics_Error hCtx err c"
| "metrics_apply lib h (Finally hCtx) c = metrics_Finally hCtx c"

definition metrics_run :: "metadata_library \<Rightarrow> metrics_hook \<Rightarrow> metrics_call list \<Rightarrow> counters" where
  "metrics_run lib h calls =
     foldl (\<lambda>c call. metrics_apply lib h call c) \<lparr>ctr_active = [], ctr_request = [], ctr_success = [], ctr_error = []\<rparr> calls"

text \<open>The value of the active counter for a flag.\<close>

definition active_count :: "string \<Rightarrow> counters \<Rightarrow> int" where
  "active_count flag c = sum_list (map fst (filter (\<lambda>(_, attrs). attrs = [FeatureFlagKey flag]) (ctr_active c)))"

fun call_flag :: "metrics_call \<Rightarrow> string" where
  "call_flag (Before hCtx) = hc_FlagKey hCtx"
| "call_flag (After hCtx details) = hc_FlagKey hCtx"
| "call_flag (Error hCtx err) = hc_FlagKey hCtx"
| "call_flag (Finally hCtx) = hc_FlagKey hCtx"

definition before_count :: "string \<Rightarrow> metrics_call list \<Rightarrow> nat" where
  "before_count flag calls = length (filter (\<lambda>call. call_flag call = flag \<and> (\<exists>h. call = Before h)) calls)"
definition finally_count :: "string \<Rightarrow> metrics_call list \<Rightarrow> nat" where
  "finally_count flag calls = length (filter (\<lambda>call. call_flag call = flag \<and> (\<exists>h. call = Finally h)) calls)"

lemma metrics_run_snoc: "metrics_run lib h (calls @ [call]) = metrics_apply lib h call (metrics_run lib h calls)"
  by (simp add: metrics_run_def)

text \<open>
  However the evaluations of an application interleave, the active counter of a flag is the number of its evaluations that have begun and not
  ended, and every beginning, success and error is counted once.
\<close>

theorem metrics_counters_correct:
  "active_count flag (metrics_run lib h calls) = int (before_count flag calls) - int (finally_count flag calls)
   \<and> length (ctr_request (metrics_run lib h calls)) = length (filter (\<lambda>call. \<exists>hCtx. call = Before hCtx) calls)
   \<and> length (ctr_success (metrics_run lib h calls)) = length (filter (\<lambda>call. \<exists>hCtx d. call = After hCtx d) calls)
   \<and> length (ctr_error (metrics_run lib h calls)) = length (filter (\<lambda>call. \<exists>hCtx e. call = Error hCtx e) calls)"
proof (induction calls rule: rev_induct)
  case Nil
  then show ?case by (simp add: metrics_run_def active_count_def before_count_def finally_count_def)
next
  case (snoc call calls)
  then show ?case
    by (cases call)
      (simp_all add: metrics_run_snoc metrics_Before_def metrics_After_def metrics_Error_def metrics_Finally_def active_count_def
        before_count_def finally_count_def)
qed

end
