(* ===== verification/Spec2Isabelle.thy ===== *)
theory Spec2Isabelle
  imports Flagd_Config Flagd_Retry Flagd_Rpc_Shutdown Flagd_Interceptor Flagd_InProcess_Conc Flagd_GrpcSync
    MP_Honest OFREP_Correct FromEnv_Correct GOFF_Provider Flagd_HttpConnector_Correct
    Harness Prefab Unleash Optimizely Statsig ConfigCat RocketFlag AwsSsm Flagsmith GOFF_Module Flipt LaunchDarkly Hooks_Validation Hooks_Telemetry
begin

text \<open>
  A verification development for the repository of OpenFeature providers and hooks in Go.

  \<^bold>\<open>The program.\<close>  OpenFeature is an interface between an application and the services that hold its
  feature flags.  Its SDK, a Go module of its own, calls a \<^emph>\<open>provider\<close>: five evaluations (boolean, string,
  float, int, object), each of which takes a flag's name, a default value and an evaluation context and
  returns a value with a detail (error, reason, variant, metadata); and optionally an initialisation, a
  shutdown and a channel of events.  It calls \<^emph>\<open>hooks\<close> before and after an evaluation.  The repository
  holds providers for many services under \<^verbatim>\<open>providers/\<close>, hooks under \<^verbatim>\<open>hooks/\<close>, and a flag source for flagd under
  \<^verbatim>\<open>tools/\<close>.  The providers do not call each other, with two exceptions: the multi-provider is built over any
  others, and the GO Feature Flag provider evaluates remotely through the OFREP provider.

  \<^bold>\<open>Theories and sources.\<close>

  \<^item> \<open>Prelude\<close>, \<open>OpenFeature\<close>, \<open>Go_Numbers\<close>: what all parts share.  A call that may panic gives an \<open>outcome\<close>; Go's
    fixed-width integers are words; floats are their IEEE bits, with Go's conversions written out; a value of
    the type \<^verbatim>\<open>any\<close> is a \<open>go_any\<close>, a metadata map or context is a \<open>go_map\<close> (\<open>None\<close> is the nil map).  Errors are
    values: \<open>resolution_error\<close> is the SDK's type, a sum carries the errors of other calls.
  \<^item> \<open>Provider_Contract\<close>: the interface \<open>honest_provider\<close> (an error comes with the caller's default), of which each
    provider with a vendor's client is an interpretation, and loops over a map as folds in an order that is a parameter.

  flagd, \<^verbatim>\<open>providers/flagd\<close>:
  \<^item> \<open>Flagd_Cache\<close>: \<^verbatim>\<open>internal/cache\<close>, the interface of a cache (locales \<open>lossy_cache\<close>, \<open>lossless_cache\<close>, \<open>flag_cache\<close>) and the
    in-memory cache that is interpreted as one.
  \<^item> \<open>Flagd_Config\<close>: \<^verbatim>\<open>pkg/configuration.go\<close>, a record, one function per option, the reading of the environment.
  \<^item> \<open>Flagd_Retry\<close>, \<open>Flagd_Rpc\<close>, \<open>Flagd_Rpc_Correct\<close>, \<open>Flagd_Stream_Correct\<close>, \<open>Flagd_Rpc_Shutdown\<close>, \<open>Flagd_Interceptor\<close>:
    \<^verbatim>\<open>pkg/service/rpc\<close>.  The goroutine of the event stream is a function of what its connection attempts
    yield, and again a step relation beside the server, the application and \<^verbatim>\<open>Shutdown\<close>.
  \<^item> \<open>Flagd_InProcess\<close>, \<open>Flagd_InProcess_Events\<close>, \<open>Flagd_InProcess_Conc\<close>, \<open>Flagd_GrpcSync\<close>: \<^verbatim>\<open>pkg/service/in_process\<close>.  The
    handlers of the goroutines as functions, the same handlers cut into atomic steps of one machine, and
    the theorem that a handler run to its end is a run of the machine.
  \<^item> \<open>Flagd_Provider\<close>: \<^verbatim>\<open>pkg/provider.go\<close>, construction, initialisation and the status that follows the events.
  \<^item> \<open>Flagd_HttpConnector\<close>, \<open>Flagd_HttpConnector_Correct\<close>: \<^verbatim>\<open>tools/flagd-http-connector\<close>, a flag source that polls a URL.

  The multi-provider, \<^verbatim>\<open>providers/multi-provider\<close>:
  \<^item> \<open>MP_Strategies\<close> and one theory per strategy of \<^verbatim>\<open>pkg/strategies\<close>: \<open>MP_FirstMatch\<close> (a recursion over the
    providers), \<open>MP_FirstSuccess\<close> (goroutines and channels as a step relation), \<open>MP_Comparison\<close> and
    \<open>MP_Comparison_Correct\<close> (a function of the messages received, and which messages can be).
  \<^item> \<open>MP_Provider\<close>, \<open>MP_Provider_Correct\<close>, \<open>MP_Honest\<close>: \<^verbatim>\<open>pkg/providers.go\<close>, and what the strategies have in common: the
    interfaces \<open>value_source\<close> and \<open>error_source\<close>, interpreted by each strategy.

  The other providers:
  \<^item> \<open>OFREP\<close>, \<open>OFREP_Correct\<close>: \<^verbatim>\<open>providers/ofrep\<close>; \<open>FromEnv\<close>, \<open>FromEnv_Correct\<close>: \<^verbatim>\<open>providers/from-env\<close>.
  \<^item> \<open>GOFF_Collector\<close>, \<open>GOFF_Remote\<close>, \<open>GOFF_Remote_Correct\<close>, \<open>GOFF_InProcess\<close>, \<open>GOFF_InProcess_Correct\<close>, \<open>GOFF_Provider\<close>:
    \<^verbatim>\<open>providers/go-feature-flag\<close>; \<open>GOFF_Module\<close>: \<^verbatim>\<open>providers/go-feature-flag-in-process\<close>.
  \<^item> \<open>Harness\<close>, \<open>Prefab\<close>, \<open>Unleash\<close>, \<open>Optimizely\<close>, \<open>Statsig\<close>, \<open>ConfigCat\<close>, \<open>RocketFlag\<close>, \<open>AwsSsm\<close>, \<open>Flagsmith\<close>, \<open>Flipt_Service\<close>,
    \<open>Flipt\<close>, \<open>LaunchDarkly\<close>: the provider of that name under \<^verbatim>\<open>providers/\<close>.
  \<^item> \<open>Hooks_Validation\<close>: \<^verbatim>\<open>hooks/codereadiness\<close>, \<^verbatim>\<open>hooks/validator\<close>; \<open>Hooks_Telemetry\<close>: \<^verbatim>\<open>hooks/open-telemetry\<close>.

  Definitions have the names of the source where no other name is in the way; otherwise a prefix tells the
  component.  A Go struct is a record, a method takes the record and returns it updated.

  \<^bold>\<open>What the theorems show.\<close>

  \<^item> Caches: with every cache that keeps its contract the rpc service answers as without one; a cached remote
    answer of GO Feature Flag was given by the server to an earlier call with the same printed key; a
    configuration change removes exactly the flags it names.
  \<^item> Strategies: first match computes the answer of the first provider that knows the flag; whatever the
    schedule, first success and comparison return only what their documentation allows, independently of
    the order of arrival for the comparison; no strategy invents a value; a multi-provider over honest
    providers is honest; when the first success strategy has to wait for its timeout.
  \<^item> Events and status: the ready and stale flags of the in-process services say what the last event said;
    the machine of the flagd in-process service keeps its channel's bound and sends nothing before the ready
    event; every shutdown ends; \<^verbatim>\<open>Init\<close> is never left waiting.
  \<^item> Data: no accepted usage event is lost or repeated; the connector hands over only bodies of successful
    responses or what its cache held at the start; flag changes are reported exactly.
  \<^item> Adapters: the user, target or context made for a vendor's library holds each value of the evaluation
    context under its own name, independently of the order in which Go visits a map, and exists exactly
    when it should; errors come with the default.
  \<^item> Hooks: when a flag is refused by the readiness hook, what an event and the counters record.

  Some lemmas show where the code does not do what it means to, at concrete inputs.

  \<^bold>\<open>Bounds.\<close>  Loops over data are structural recursions and total.  A loop that waits for its surroundings takes
  the list of what they yield as an argument, and theorems hold for every such list.  Concurrent runs are
  reachability in a step relation; that they end is shown by a weight that each step lowers, which gives the
  bounds in the statements: \<open>2 n + 2\<close> steps of a first-success call with \<open>n\<close> providers, \<open>4 n + 4\<close> of one flag stream with \<open>n\<close> messages, \<open>5 + 2 k\<close> of
  the rpc service's goroutine after a cancellation with \<open>k\<close> messages waiting, and for the in-process service's
  shutdown \<open>16 + 2 c\<close> with \<open>c\<close> callbacks of its timer under way.  No function has fuel.

  \<^bold>\<open>Parameters.\<close>  Code outside the repository is an argument of the definitions that use it: the clients of the
  services, gRPC, HTTP, JSON, TLS, URL and date libraries, the LRU cache, the flag evaluator of flagd core, the
  library of semantic versions, the metadata readers of the SDK, the form in which Go prints values, the
  conversion of a float outside the range of integers (which Go leaves to the platform) and the order in which a
  range loop visits a map (\<open>range_order\<close>).  Where a theorem needs their documented behaviour it is a named
  hypothesis (\<open>GetBool_law\<close>, \<open>semver_law\<close>, \<open>named_context_law\<close>, \<open>variation_defaults\<close>, a cache locale), and its witness has an
  instance.  An LRU cache may forget an entry, which \<open>lossy_cache\<close> allows.

  \<^bold>\<open>Not modelled.\<close>  Logging; the mocks and the test framework; the span and metric exporters behind the OpenTelemetry
  interface.  Durations are values and not waited for: a timeout is a step that may happen at any time.  Sharing
  of maps between caller and callee is modelled only where the code writes to a map it was given
  (Statsig's custom attributes); a metadata map is otherwise a value.  Of Go's types only those of \<open>go_any\<close> occur as
  dynamic values, so that slices of booleans or numbers, for which the tracing hook has cases, and structs of
  the application do not; maps inside a value are not nil.  A goroutine of a vendor's library does not appear.  The
  order of two sends to different channels in one \<^verbatim>\<open>select\<close> is a free choice, as in Go.
\<close>

end
